(* ===== verification/Prelude.thy ===== *)
theory Prelude
  imports Main "HOL-Library.Word"
begin

text \<open>
  What the components share: the widths of the Java and C integers, the errors the code
  can raise, the state-and-exception computations every stateful operation is written in,
  byte encodings of machine words, and the collections of simplification rules that the
  component theories fill and their proofs use.
\<close>

unbundle bit_operations_syntax

section \<open>Machine integers\<close>

type_synonym byte = "8 word"
type_synonym word16 = "16 word"
type_synonym word32 = "32 word"
type_synonym word64 = "64 word"

text \<open>
  A Java \<open>int\<close> that is used as a size or an index is an \<open>int\<close> in the model; every operation
  on it that can leave the 32-bit range is written with \<open>wrap32\<close>, which is the two's
  complement wrap-around of the language. \<open>jrem\<close> is the truncating remainder of Java and C.
\<close>

definition wrap32 :: "int \<Rightarrow> int" where
  "wrap32 x = (x + 2 ^ 31) mod 2 ^ 32 - 2 ^ 31"

definition jrem :: "int \<Rightarrow> int \<Rightarrow> int" where
  "jrem a b = sgn a * (\<bar>a\<bar> mod \<bar>b\<bar>)"

lemma wrap32_id [simp]: "- (2 ^ 31) \<le> x \<Longrightarrow> x < 2 ^ 31 \<Longrightarrow> wrap32 x = x"
  by (simp add: wrap32_def)

lemma wrap32_overflow: "2 ^ 31 \<le> x \<Longrightarrow> x < 3 * 2 ^ 31 \<Longrightarrow> wrap32 x = x - 2 ^ 32"
proof -
  assume "2 ^ 31 \<le> x" "x < 3 * 2 ^ 31"
  then have "(x + 2 ^ 31 - 2 ^ 32) mod 2 ^ 32 = x + 2 ^ 31 - 2 ^ 32" by (intro mod_pos_pos_trivial) auto
  moreover have "(x + 2 ^ 31 - 2 ^ 32) mod 2 ^ 32 = (x + 2 ^ 31) mod 2 ^ 32" by (rule minus_mod_self2)
  ultimately show ?thesis by (simp add: wrap32_def)
qed

lemma wrap32_range: "- (2 ^ 31) \<le> wrap32 x \<and> wrap32 x < 2 ^ 31"
  by (simp add: wrap32_def)

lemma nat_wrap32: "nat (wrap32 x) < 2 ^ 31"
  using wrap32_range [of x] by (cases "0 \<le> wrap32 x") (auto simp: nat_less_iff)

lemma wrap32_sint: "wrap32 x = sint (word_of_int x :: word32)"
  by (simp add: wrap32_def sint_word_ariths signed_take_bit_eq_take_bit_shift take_bit_eq_mod
      sint_sbintrunc' )

lemma jrem_nonneg [simp]: "0 \<le> a \<Longrightarrow> 0 < b \<Longrightarrow> jrem a b = a mod b"
  by (cases "a = 0") (auto simp: jrem_def)

section \<open>Errors as values\<close>

text \<open>The exceptions the Java code and the library calls it makes can raise.\<close>

datatype java_exn =
    BufferOverflowException
  | IllegalArgumentException
  | NegativeArraySizeException
  | ArithmeticException
  | ArrayIndexOutOfBoundsException
  | NullPointerException
  | AssertionError
  | IOException
  | UnsatisfiedLinkError
  | RuntimeException string
  | UnsupportedOperationException string

section \<open>Stateful computations with exceptions\<close>

text \<open>
  A computation takes a state and returns its result or the exception, and the state at
  that point: an exception does not undo the mutations made before it.
\<close>

type_synonym ('s, 'e, 'a) comp = "'s \<Rightarrow> ('e + 'a) \<times> 's"

named_theorems comp_simps "one-step evaluation of computations"

definition ret :: "'a \<Rightarrow> ('s, 'e, 'a) comp" where
  "ret x s = (Inr x, s)"

definition raise :: "'e \<Rightarrow> ('s, 'e, 'a) comp" where
  "raise e s = (Inl e, s)"

definition bindc :: "('s, 'e, 'a) comp \<Rightarrow> ('a \<Rightarrow> ('s, 'e, 'b) comp) \<Rightarrow> ('s, 'e, 'b) comp" where
  "bindc m f s = (case m s of (Inl e, s') \<Rightarrow> (Inl e, s') | (Inr x, s') \<Rightarrow> f x s')"

definition gets :: "('s \<Rightarrow> 'a) \<Rightarrow> ('s, 'e, 'a) comp" where
  "gets f s = (Inr (f s), s)"

definition modify :: "('s \<Rightarrow> 's) \<Rightarrow> ('s, 'e, unit) comp" where
  "modify f s = (Inr (), f s)"

fun seqc :: "('s, 'e, unit) comp list \<Rightarrow> ('s, 'e, unit) comp" where
  "seqc [] = ret ()"
| "seqc (m # ms) = bindc m (\<lambda>_. seqc ms)"

definition whenc :: "bool \<Rightarrow> ('s, 'e, unit) comp \<Rightarrow> ('s, 'e, unit) comp" where
  "whenc b m = (if b then m else ret ())"

lemma ret_apply [comp_simps]: "ret x s = (Inr x, s)"
  by (simp add: ret_def)

lemma raise_apply [comp_simps]: "raise e s = (Inl e, s)"
  by (simp add: raise_def)

lemma gets_apply [comp_simps]: "gets f s = (Inr (f s), s)"
  by (simp add: gets_def)

lemma modify_apply [comp_simps]: "modify f s = (Inr (), f s)"
  by (simp add: modify_def)

lemma bindc_Inr [comp_simps]: "m s = (Inr x, s') \<Longrightarrow> bindc m f s = f x s'"
  by (simp add: bindc_def)

lemma bindc_Inl [comp_simps]: "m s = (Inl e, s') \<Longrightarrow> bindc m f s = (Inl e, s')"
  by (simp add: bindc_def)

lemma bindc_ret_left [simp]: "bindc (ret x) f = f x"
  by (simp add: bindc_def ret_def fun_eq_iff)

lemma bindc_ret_right [simp]: "bindc m ret = m"
  by (auto simp: bindc_def ret_def fun_eq_iff split: prod.splits sum.splits)

lemma bindc_assoc: "bindc (bindc m f) g = bindc m (\<lambda>x. bindc (f x) g)"
  by (auto simp: bindc_def fun_eq_iff split: prod.splits sum.splits)

lemma whenc_simps [simp]: "whenc True m = m" "whenc False m = ret ()"
  by (simp_all add: whenc_def)

lemma bindc_eq_Inr_iff:
  "bindc m f s = (Inr y, s'') \<longleftrightarrow> (\<exists>x s'. m s = (Inr x, s') \<and> f x s' = (Inr y, s''))"
  by (auto simp: bindc_def split: prod.splits sum.splits)

lemma seqc_append: "seqc (ms @ ns) = bindc (seqc ms) (\<lambda>_. seqc ns)"
  by (induction ms) (simp_all add: bindc_assoc)

section \<open>Words as bytes\<close>

datatype byte_order = LittleEndian | BigEndian

definition le_bytes :: "nat \<Rightarrow> 'a::len word \<Rightarrow> byte list" where
  "le_bytes n w = map (\<lambda>i. ucast (drop_bit (8 * i) w)) [0..<n]"

definition word_bytes :: "byte_order \<Rightarrow> nat \<Rightarrow> 'a::len word \<Rightarrow> byte list" where
  "word_bytes bo n w = (case bo of LittleEndian \<Rightarrow> le_bytes n w | BigEndian \<Rightarrow> rev (le_bytes n w))"

fun le_word :: "byte list \<Rightarrow> 'a::len word" where
  "le_word [] = 0"
| "le_word (b # bs) = ucast b OR push_bit 8 (le_word bs)"

lemma length_le_bytes [simp]: "length (le_bytes n w) = n"
  by (simp add: le_bytes_def)

lemma length_word_bytes [simp]: "length (word_bytes bo n w) = n"
  by (cases bo) (simp_all add: word_bytes_def)

lemma bit_le_word:
  "bit (le_word bs :: 'a::len word) k \<longleftrightarrow>
    k < LENGTH('a) \<and> k div 8 < length bs \<and> bit (bs ! (k div 8)) (k mod 8)"
proof (induction bs arbitrary: k)
  case Nil
  then show ?case by simp
next
  case (Cons b bs)
  show ?case
  proof (cases "k < 8")
    case True
    then show ?thesis by (auto simp: bit_simps)
  next
    case False
    then have d: "k div 8 = Suc ((k - 8) div 8)" and m: "k mod 8 = (k - 8) mod 8"
      by (simp_all add: le_div_geq le_mod_geq)
    have "\<not> bit b k" using False by (auto dest: bit_imp_le_length)
    then show ?thesis using False
      by (auto simp: bit_simps Cons.IH d m)
  qed
qed

lemma le_bytes_numeral [simp]:
  "le_bytes 2 w = [ucast w, ucast (drop_bit 8 w)]"
  "le_bytes 4 w = [ucast w, ucast (drop_bit 8 w), ucast (drop_bit 16 w), ucast (drop_bit 24 w)]"
  "le_bytes 8 w = [ucast w, ucast (drop_bit 8 w), ucast (drop_bit 16 w), ucast (drop_bit 24 w),
     ucast (drop_bit 32 w), ucast (drop_bit 40 w), ucast (drop_bit 48 w), ucast (drop_bit 56 w)]"
  by (simp_all add: le_bytes_def eval_nat_numeral)

lemma word_bytes_order [simp]:
  "word_bytes LittleEndian n w = le_bytes n w" "word_bytes BigEndian n w = rev (le_bytes n w)"
  by (simp_all add: word_bytes_def)

lemma nth_le_bytes: "i < n \<Longrightarrow> le_bytes n w ! i = ucast (drop_bit (8 * i) w)"
  by (simp add: le_bytes_def)

lemma le_word_le_bytes:
  fixes w :: "'a::len word"
  assumes "LENGTH('a) \<le> 8 * n"
  shows "le_word (le_bytes n w) = w"
proof (rule bit_word_eqI)
  fix k assume k: "k < LENGTH('a)"
  then have d: "k div 8 < n" using assms by linarith
  have "8 * (k div 8) + k mod 8 = k" by simp
  then show "bit (le_word (le_bytes n w) :: 'a word) k = bit w k"
    using k d by (simp add: bit_le_word nth_le_bytes bit_simps)
qed

lemma ucast_minus_one_byte [simp]: "(ucast (- 1 :: word32) :: byte) = 255"
  by transfer (simp add: mask_eq_exp_minus_1)

lemma unat_of_nat_id: "n < 2 ^ LENGTH('a::len) \<Longrightarrow> unat (of_nat n :: 'a word) = n"
  by (simp add: unat_of_nat take_bit_nat_eq_self)

section \<open>The contract of a byte sink\<close>

text \<open>
  What the assembler needs of the buffer it writes to, and what its own clients need of the
  assembler: as long as the content stays below a bound, putting an item succeeds, keeps
  the invariant and appends the bytes the item stands for.
\<close>

locale byte_sink =
  fixes inv :: "'s \<Rightarrow> bool"
    and content :: "'s \<Rightarrow> byte list"
    and bytes_of :: "'i \<Rightarrow> byte list"
    and put :: "'i \<Rightarrow> ('s, 'e, unit) comp"
    and bound :: nat
  assumes put_ok: "inv s \<Longrightarrow> length (content s) + length (bytes_of x) < bound \<Longrightarrow>
    \<exists>s'. put x s = (Inr (), s') \<and> inv s' \<and> content s' = content s @ bytes_of x"
begin

lemma put_all_ok:
  assumes "inv s" "length (content s) + length (concat (map bytes_of xs)) < bound"
  shows "\<exists>s'. seqc (map put xs) s = (Inr (), s') \<and> inv s' \<and>
              content s' = content s @ concat (map bytes_of xs)"
  using assms
proof (induction xs arbitrary: s)
  case Nil
  then show ?case by (simp add: ret_apply)
next
  case (Cons x xs)
  then obtain s1 where 1: "put x s = (Inr (), s1)" "inv s1" "content s1 = content s @ bytes_of x"
    using put_ok [of s x] by auto
  moreover have "length (content s1) + length (concat (map bytes_of xs)) < bound"
    using 1 Cons.prems by simp
  ultimately show ?case using Cons.IH [of s1] by (auto simp: bindc_Inr)
qed

lemma put_all_content:
  assumes "inv s" "length (content s) + length (concat (map bytes_of xs)) < bound"
    and "seqc (map put xs) s = (r, s')"
  shows "r = Inr ()" "inv s'" "content s' = content s @ concat (map bytes_of xs)"
  using put_all_ok [OF assms(1,2)] assms(3) by auto

end

section \<open>The contract of an instruction code\<close>

text \<open>
  An encoder and a decoder that undo each other one item at a time also do so on
  sequences, and the encoding of a sequence is unambiguous.
\<close>

fun decode_all :: "(byte list \<Rightarrow> ('i \<times> byte list) option) \<Rightarrow> nat \<Rightarrow> byte list \<Rightarrow> 'i list option" where
  "decode_all dec 0 bs = (if bs = [] then Some [] else None)"
| "decode_all dec (Suc n) bs =
     (if bs = [] then Some []
      else case dec bs of None \<Rightarrow> None
           | Some (i, rest) \<Rightarrow> map_option (Cons i) (decode_all dec n rest))"

locale item_code =
  fixes valid :: "'i \<Rightarrow> bool"
    and encode :: "'i \<Rightarrow> byte list"
    and decode :: "byte list \<Rightarrow> ('i \<times> byte list) option"
  assumes decode_encode: "valid i \<Longrightarrow> decode (encode i @ rest) = Some (i, rest)"
    and encode_nonempty: "encode i \<noteq> []"
begin

lemma decode_all_encode:
  "length is \<le> n \<Longrightarrow> list_all valid is \<Longrightarrow> decode_all decode n (concat (map encode is)) = Some is"
proof (induction "is" arbitrary: n)
  case Nil
  then show ?case by (cases n) simp_all
next
  case (Cons i "is")
  then obtain m where "n = Suc m" "length is \<le> m" by (cases n) auto
  then show ?case using Cons.IH [of m] Cons.prems by (simp add: decode_encode encode_nonempty)
qed

lemma encode_unambiguous:
  assumes "concat (map encode is) = concat (map encode js)" "list_all valid is" "list_all valid js"
  shows "is = js"
proof -
  let ?n = "max (length is) (length js)"
  have "Some is = decode_all decode ?n (concat (map encode is))"
    using assms(2) by (simp add: decode_all_encode)
  also have "\<dots> = decode_all decode ?n (concat (map encode js))" by (simp only: assms)
  also have "\<dots> = Some js" using assms(3) by (simp add: decode_all_encode)
  finally show ?thesis by simp
qed

lemma decode_within:
  "valid i \<Longrightarrow> code = pre @ encode i @ post \<Longrightarrow> decode (drop (length pre) code) = Some (i, post)"
  by (simp add: decode_encode)

end

end
