(* ===== verification/Code_Buffer.thy ===== *)
theory Code_Buffer
  imports Prelude
begin

text \<open>
  The growing byte buffer of \<open>jvmci/CodeBuffer.java\<close>, over the part of
  \<open>java.nio.ByteBuffer\<close> and \<open>java.util.Arrays\<close> it uses. The abstract value of a buffer is the
  list of the bytes written so far; the lemmas show that every emission appends the bytes
  of its argument to it, when that fails and how, and what \<open>align\<close> does.
\<close>

section \<open>java.nio.ByteBuffer\<close>

text \<open>
  The heap buffer behind \<open>CodeBuffer.data\<close>: its backing array, its position and limit
  (Java \<open>int\<close>s) and its byte order. \<open>put\<close>, \<open>putShort\<close>, \<open>putInt\<close> and \<open>putLong\<close> write at the
  position in the buffer's order, or throw when fewer bytes remain than they need;
  \<open>putFloat\<close> and \<open>putDouble\<close> write the bit pattern of their argument, which is how a float
  or double is given here.
\<close>

record byte_buffer =
  bb_array :: "byte list"
  bb_position :: int
  bb_limit :: int
  bb_order :: byte_order

definition bb_wrap :: "byte list \<Rightarrow> byte_buffer" where
  "bb_wrap bs = \<lparr>bb_array = bs, bb_position = 0, bb_limit = int (length bs), bb_order = BigEndian\<rparr>"

definition bb_allocate :: "nat \<Rightarrow> byte_buffer" where
  "bb_allocate n = bb_wrap (replicate n 0)"

definition write_at :: "'a list \<Rightarrow> nat \<Rightarrow> 'a list \<Rightarrow> 'a list" where
  "write_at xs i ys = take i xs @ ys @ drop (i + length ys) xs"

definition bb_put_word :: "nat \<Rightarrow> 'a::len word \<Rightarrow> (byte_buffer, java_exn, unit) comp" where
  "bb_put_word n w bb =
     (if bb_limit bb - bb_position bb < int n then (Inl BufferOverflowException, bb)
      else (Inr (), bb\<lparr>bb_array := write_at (bb_array bb) (nat (bb_position bb))
                                     (word_bytes (bb_order bb) n w),
                       bb_position := bb_position bb + int n\<rparr>))"

definition bb_set_position :: "int \<Rightarrow> (byte_buffer, java_exn, unit) comp" where
  "bb_set_position p bb =
     (if p < 0 \<or> bb_limit bb < p then (Inl IllegalArgumentException, bb)
      else (Inr (), bb\<lparr>bb_position := p\<rparr>))"

definition copyOf :: "byte list \<Rightarrow> int \<Rightarrow> java_exn + byte list" where
  "copyOf bs n =
     (if n < 0 then Inl NegativeArraySizeException
      else Inr (take (nat n) bs @ replicate (nat n - length bs) 0))"

section \<open>CodeBuffer\<close>

record code_buffer =
  cb_data :: byte_buffer

text \<open>The field initializer: \<open>ByteBuffer.allocate(32).order(ByteOrder.nativeOrder())\<close>.\<close>

definition new_CodeBuffer :: "byte_order \<Rightarrow> code_buffer" where
  "new_CodeBuffer nativeOrder = \<lparr>cb_data = (bb_allocate 32)\<lparr>bb_order := nativeOrder\<rparr>\<rparr>"

definition on_data ::
  "(byte_buffer, java_exn, 'a) comp \<Rightarrow> (code_buffer, java_exn, 'a) comp" where
  "on_data m cb = (case m (cb_data cb) of (r, bb) \<Rightarrow> (r, cb\<lparr>cb_data := bb\<rparr>))"

definition ensureSize :: "int \<Rightarrow> (code_buffer, java_exn, unit) comp" where
  "ensureSize len cb =
     (let data = cb_data cb in
      if bb_limit data \<le> len then
        (case copyOf (bb_array data) (wrap32 (len * 4)) of
           Inl e \<Rightarrow> (Inl e, cb)
         | Inr newBuf \<Rightarrow>
             (let newData = (bb_wrap newBuf)\<lparr>bb_order := bb_order data\<rparr> in
              case bb_set_position (bb_position data) newData of
                (Inl e, _) \<Rightarrow> (Inl e, cb)
              | (Inr _, newData) \<Rightarrow> (Inr (), cb\<lparr>cb_data := newData\<rparr>)))
      else (Inr (), cb))"

definition cb_position :: "code_buffer \<Rightarrow> int" where
  "cb_position cb = bb_position (cb_data cb)"

text \<open>\<open>data.put((byte) (b & 0xFF))\<close>: the low eight bits of the argument.\<close>

definition emitByte :: "word32 \<Rightarrow> (code_buffer, java_exn, unit) comp" where
  "emitByte b cb =
     bindc (ensureSize (wrap32 (cb_position cb + 1)))
       (\<lambda>_. on_data (bb_put_word 1 (ucast (b AND 0xFF) :: byte))) cb"

definition emitShort :: "word32 \<Rightarrow> (code_buffer, java_exn, unit) comp" where
  "emitShort b cb =
     bindc (ensureSize (wrap32 (cb_position cb + 2)))
       (\<lambda>_. on_data (bb_put_word 2 (ucast b :: word16))) cb"

definition emitInt :: "word32 \<Rightarrow> (code_buffer, java_exn, unit) comp" where
  "emitInt b cb =
     bindc (ensureSize (wrap32 (cb_position cb + 4))) (\<lambda>_. on_data (bb_put_word 4 b)) cb"

definition emitLong :: "word64 \<Rightarrow> (code_buffer, java_exn, unit) comp" where
  "emitLong b cb =
     bindc (ensureSize (wrap32 (cb_position cb + 8))) (\<lambda>_. on_data (bb_put_word 8 b)) cb"

definition emitFloat :: "word32 \<Rightarrow> (code_buffer, java_exn, unit) comp" where
  "emitFloat f cb =
     bindc (ensureSize (wrap32 (cb_position cb + 4))) (\<lambda>_. on_data (bb_put_word 4 f)) cb"

definition emitDouble :: "word64 \<Rightarrow> (code_buffer, java_exn, unit) comp" where
  "emitDouble f cb =
     bindc (ensureSize (wrap32 (cb_position cb + 8))) (\<lambda>_. on_data (bb_put_word 8 f)) cb"

definition align :: "int \<Rightarrow> (code_buffer, java_exn, unit) comp" where
  "align alignment cb =
     (if alignment = 0 then (Inl ArithmeticException, cb)
      else
        let pos = cb_position cb; misaligned = jrem pos alignment in
        if misaligned \<noteq> 0 then
          on_data (bb_set_position (wrap32 (pos + wrap32 (alignment - misaligned)))) cb
        else (Inr (), cb))"

definition cb_finish :: "code_buffer \<Rightarrow> java_exn + byte list" where
  "cb_finish cb = copyOf (bb_array (cb_data cb)) (cb_position cb)"

section \<open>The invariant and the abstract value\<close>

text \<open>
  \<open>cb_ok\<close>: the limit is the length of the array, the position is within it, the array fits
  a Java array, and every byte at or past the position is still zero. \<open>cb_bytes\<close> is the
  list of the bytes written.
\<close>

definition cb_ok :: "byte_order \<Rightarrow> code_buffer \<Rightarrow> bool" where
  "cb_ok bo cb \<longleftrightarrow>
     (let bb = cb_data cb in
      0 \<le> bb_position bb \<and> bb_position bb \<le> bb_limit bb \<and>
      bb_limit bb = int (length (bb_array bb)) \<and> bb_limit bb < 2 ^ 31 \<and>
      drop (nat (bb_position bb)) (bb_array bb) =
        replicate (length (bb_array bb) - nat (bb_position bb)) 0 \<and>
      bb_order bb = bo)"

definition cb_bytes :: "code_buffer \<Rightarrow> byte list" where
  "cb_bytes cb = take (nat (cb_position cb)) (bb_array (cb_data cb))"

text \<open>
  \<open>cb_of bo bs k\<close> is the buffer with the bytes \<open>bs\<close> written and \<open>k\<close> bytes free. The buffers
  that satisfy the invariant are exactly these, so that each operation needs only an
  equation on \<open>cb_of\<close>.
\<close>

definition cb_of :: "byte_order \<Rightarrow> byte list \<Rightarrow> nat \<Rightarrow> code_buffer" where
  "cb_of bo bs k = \<lparr>cb_data = \<lparr>bb_array = bs @ replicate k 0, bb_position = int (length bs),
     bb_limit = int (length bs + k), bb_order = bo\<rparr>\<rparr>"

named_theorems cb_of_simps "operations on a buffer given by its bytes and its free space"

lemma cb_ok_cb_of: "length bs + k < 2 ^ 31 \<Longrightarrow> cb_ok bo (cb_of bo bs k)"
  by (simp add: cb_ok_def cb_of_def Let_def)

lemma cb_bytes_cb_of [cb_of_simps, simp]: "cb_bytes (cb_of bo bs k) = bs"
  by (simp add: cb_bytes_def cb_position_def cb_of_def)

lemma cb_position_cb_of [cb_of_simps, simp]: "cb_position (cb_of bo bs k) = int (length bs)"
  by (simp add: cb_position_def cb_of_def)

lemma bb_limit_cb_of [cb_of_simps, simp]: "bb_limit (cb_data (cb_of bo bs k)) = int (length bs + k)"
  by (simp add: cb_of_def)

lemma cb_okE:
  assumes "cb_ok bo cb"
  obtains k where "cb = cb_of bo (cb_bytes cb) k" "length (cb_bytes cb) + k < 2 ^ 31"
proof -
  obtain p where p: "bb_position (cb_data cb) = int p"
    using assms nonneg_int_cases by (auto simp: cb_ok_def Let_def)
  let ?k = "length (bb_array (cb_data cb)) - p"
  have "bb_array (cb_data cb) = take p (bb_array (cb_data cb)) @ replicate ?k 0"
    using assms p append_take_drop_id [of p "bb_array (cb_data cb)"]
    by (simp add: cb_ok_def Let_def)
  moreover have "p \<le> length (bb_array (cb_data cb))" using assms p by (simp add: cb_ok_def Let_def)
  ultimately have "cb = cb_of bo (cb_bytes cb) ?k" "length (cb_bytes cb) + ?k < 2 ^ 31"
    using assms p
    by (simp_all add: cb_ok_def Let_def cb_of_def cb_bytes_def cb_position_def)
  then show thesis by (rule that)
qed

lemma cb_ok_iff: "cb_ok bo cb \<longleftrightarrow> (\<exists>k. cb = cb_of bo (cb_bytes cb) k \<and> length (cb_bytes cb) + k < 2 ^ 31)"
  by (metis cb_okE cb_ok_cb_of)

lemma length_cb_bytes: "cb_ok bo cb \<Longrightarrow> int (length (cb_bytes cb)) = cb_position cb"
  by (metis cb_okE cb_position_cb_of)

lemma new_CodeBuffer_cb_of: "new_CodeBuffer bo = cb_of bo [] 32"
  by (simp add: new_CodeBuffer_def bb_allocate_def bb_wrap_def cb_of_def)

lemma cb_ok_new [simp]: "cb_ok bo (new_CodeBuffer bo)"
  by (simp add: new_CodeBuffer_cb_of cb_ok_cb_of)

lemma cb_bytes_new [simp]: "cb_bytes (new_CodeBuffer bo) = []"
  by (simp add: new_CodeBuffer_cb_of)

section \<open>The operations on such a buffer\<close>

lemma ensureSize_cb_of [cb_of_simps]:
  "ensureSize len (cb_of bo bs k) =
     (if int (length bs + k) \<le> len then
        (if wrap32 (len * 4) < 0 then (Inl NegativeArraySizeException, cb_of bo bs k)
         else if wrap32 (len * 4) < int (length bs) then (Inl IllegalArgumentException, cb_of bo bs k)
         else (Inr (), cb_of bo bs (nat (wrap32 (len * 4)) - length bs)))
      else (Inr (), cb_of bo bs k))"
proof -
  have "take (nat n) (bs @ replicate k 0) @ replicate (nat n - (length bs + k)) 0 =
      bs @ replicate (nat n - length bs) 0" if "int (length bs) \<le> n" for n
    using that by (auto simp: min_def replicate_add [symmetric] le_nat_iff)
  then show ?thesis
    by (auto simp: ensureSize_def copyOf_def bb_wrap_def bb_set_position_def cb_of_def Let_def)
qed

lemma put_cb_of [cb_of_simps]:
  "on_data (bb_put_word n w) (cb_of bo bs k) =
     (if k < n then (Inl BufferOverflowException, cb_of bo bs k)
      else (Inr (), cb_of bo (bs @ word_bytes bo n w) (k - n)))"
  by (auto simp: on_data_def bb_put_word_def cb_of_def write_at_def)

lemma set_position_cb_of [cb_of_simps]:
  "on_data (bb_set_position (int (length bs + m))) (cb_of bo bs k) =
     (if k < m then (Inl IllegalArgumentException, cb_of bo bs k)
      else (Inr (), cb_of bo (bs @ replicate m 0) (k - m)))"
  by (auto simp: on_data_def bb_set_position_def cb_of_def replicate_add [symmetric])

lemma set_position_neg [cb_of_simps]:
  "p < 0 \<Longrightarrow> on_data (bb_set_position p) cb = (Inl IllegalArgumentException, cb)"
  by (simp add: on_data_def bb_set_position_def)

lemma finish_cb_of [cb_of_simps]: "cb_finish (cb_of bo bs k) = Inr bs"
  by (simp add: cb_finish_def copyOf_def cb_of_def cb_position_def)

text \<open>
  The shape every emission has: make room for \<open>n\<close> bytes, then put them. In a buffer below
  half a gigabyte it cannot fail.
\<close>

definition emit_bytes :: "nat \<Rightarrow> 'a::len word \<Rightarrow> (code_buffer, java_exn, unit) comp" where
  "emit_bytes n w cb =
     bindc (ensureSize (wrap32 (cb_position cb + int n))) (\<lambda>_. on_data (bb_put_word n w)) cb"

lemma emit_bytes_cb_of [cb_of_simps]:
  assumes "length bs + n < 2 ^ 29"
  shows "emit_bytes n w (cb_of bo bs k) =
    (Inr (), cb_of bo (bs @ word_bytes bo n w)
               (if k \<le> n then 3 * (length bs + n) else k - n))"
  using assms
  by (auto simp: emit_bytes_def ensureSize_cb_of bindc_def put_cb_of
      intro!: arg_cong2 [where f = "cb_of bo"])

lemmas emit_defs = emitByte_def emitShort_def emitInt_def emitLong_def emitFloat_def emitDouble_def

lemma emit_emit_bytes:
  "emitByte b = emit_bytes 1 (ucast (b AND 0xFF) :: byte)" "emitShort b = emit_bytes 2 (ucast b :: word16)"
  "emitInt b = emit_bytes 4 b" "emitLong l = emit_bytes 8 l"
  "emitFloat b = emit_bytes 4 b" "emitDouble l = emit_bytes 8 l"
  by (simp_all add: fun_eq_iff emit_defs emit_bytes_def)

section \<open>Emissions as items\<close>

text \<open>One constructor per public emission method, the method it calls and the bytes it promises.\<close>

datatype emission =
    EByte word32 | EShort word32 | EInt word32 | ELong word64 | EFloat word32 | EDouble word64

fun emit :: "emission \<Rightarrow> (code_buffer, java_exn, unit) comp" where
  "emit (EByte b) = emitByte b"
| "emit (EShort b) = emitShort b"
| "emit (EInt b) = emitInt b"
| "emit (ELong b) = emitLong b"
| "emit (EFloat f) = emitFloat f"
| "emit (EDouble f) = emitDouble f"

fun emission_bytes :: "byte_order \<Rightarrow> emission \<Rightarrow> byte list" where
  "emission_bytes bo (EByte b) = [ucast b]"
| "emission_bytes bo (EShort b) = word_bytes bo 2 (ucast b :: word16)"
| "emission_bytes bo (EInt b) = word_bytes bo 4 b"
| "emission_bytes bo (ELong b) = word_bytes bo 8 b"
| "emission_bytes bo (EFloat f) = word_bytes bo 4 f"
| "emission_bytes bo (EDouble f) = word_bytes bo 8 f"

lemma word_bytes_1 [simp]: "word_bytes bo (Suc 0) (w :: byte) = [w]"
  by (cases bo) (simp_all add: word_bytes_def le_bytes_def)

lemma ucast_low_byte [simp]: "(ucast (w AND 0xFF) :: byte) = ucast (w :: word32)"
proof (rule bit_word_eqI)
  fix n assume n: "n < LENGTH(8)"
  have "(0xFF :: word32) = mask 8" by (simp add: mask_eq_exp_minus_1)
  then have "bit (0xFF :: word32) n" using n by (simp only: bit_mask_iff) simp
  then show "bit (ucast (w AND 0xFF) :: byte) n = bit (ucast w :: byte) n"
    using n by (simp add: bit_simps)
qed

lemma emit_cb_of:
  assumes "length bs + length (emission_bytes bo e) < 2 ^ 29"
  shows "emit e (cb_of bo bs k) = (Inr (), cb_of bo (bs @ emission_bytes bo e)
     (let n = length (emission_bytes bo e) in if k \<le> n then 3 * (length bs + n) else k - n))"
  using assms by (cases e) (simp_all add: emit_emit_bytes emit_bytes_cb_of Let_def)

lemma emit_step:
  assumes "cb_ok bo cb" "length (cb_bytes cb) + length (emission_bytes bo e) < 2 ^ 29"
  shows "\<exists>cb'. emit e cb = (Inr (), cb') \<and> cb_ok bo cb' \<and>
               cb_bytes cb' = cb_bytes cb @ emission_bytes bo e"
proof -
  obtain k where k: "cb = cb_of bo (cb_bytes cb) k" "length (cb_bytes cb) + k < 2 ^ 31"
    using assms(1) by (rule cb_okE)
  show ?thesis
    by (subst k(1), subst emit_cb_of [OF assms(2)])
      (use k(2) assms(2) in \<open>auto simp: Let_def intro!: cb_ok_cb_of\<close>)
qed

interpretation cb_sink: byte_sink "cb_ok bo" cb_bytes "emission_bytes bo" emit "2 ^ 29" for bo
  by unfold_locales (rule emit_step)

text \<open>
  The buffer after a sequence of emissions, and the condition under which the sequence
  cannot fail. The assembler lemmas speak of code only through these two.
\<close>

definition emits :: "emission list \<Rightarrow> code_buffer \<Rightarrow> code_buffer" where
  "emits es cb = snd (seqc (map emit es) cb)"

definition fits :: "byte_order \<Rightarrow> emission list \<Rightarrow> code_buffer \<Rightarrow> bool" where
  "fits bo es cb \<longleftrightarrow> cb_ok bo cb \<and>
     length (cb_bytes cb) + length (concat (map (emission_bytes bo) es)) < 2 ^ 29"

lemma emits_Nil [simp]: "emits [] cb = cb"
  by (simp add: emits_def ret_apply)

lemma fits_emits:
  assumes "fits bo es cb"
  shows "seqc (map emit es) cb = (Inr (), emits es cb)" "cb_ok bo (emits es cb)"
    "cb_bytes (emits es cb) = cb_bytes cb @ concat (map (emission_bytes bo) es)"
  using cb_sink.put_all_ok [of bo cb es] assms by (auto simp: fits_def emits_def)

lemma fits_append:
  assumes "fits bo (es @ fs) cb"
  shows "fits bo es cb" "fits bo fs (emits es cb)" "emits (es @ fs) cb = emits fs (emits es cb)"
proof -
  show es: "fits bo es cb" using assms by (simp add: fits_def)
  show "fits bo fs (emits es cb)" using assms fits_emits [OF es] by (simp add: fits_def)
  show "emits (es @ fs) cb = emits fs (emits es cb)"
    using fits_emits(1) [OF es] by (simp add: emits_def seqc_append bindc_Inr)
qed

section \<open>Properties\<close>

text \<open>C6: emitting any sequence of values into a fresh buffer succeeds and \<open>finish\<close> returns
  exactly the concatenation of their encodings, as long as fewer than 2^29 bytes are
  written: no growth loses, reorders or repeats a byte.\<close>

theorem emit_all_finish:
  assumes "length (concat (map (emission_bytes bo) es)) < 2 ^ 29"
  shows "\<exists>cb. seqc (map emit es) (new_CodeBuffer bo) = (Inr (), cb) \<and>
              cb_finish cb = Inr (concat (map (emission_bytes bo) es))"
proof -
  obtain cb where cb: "seqc (map emit es) (new_CodeBuffer bo) = (Inr (), cb)" "cb_ok bo cb"
      "cb_bytes cb = concat (map (emission_bytes bo) es)"
    using cb_sink.put_all_ok [of bo "new_CodeBuffer bo" es] assms by auto
  from cb(2) have "cb_finish cb = Inr (cb_bytes cb)" by (metis cb_okE finish_cb_of)
  with cb show ?thesis by auto
qed

lemma emit_all_finish_witness:
  "\<exists>cb. seqc (map emit [EByte 0x150, EInt 0xDEADDEAD, ELong 0x0102030405060708, EShort 0xABCD])
          (new_CodeBuffer LittleEndian) = (Inr (), cb) \<and>
        cb_finish cb = Inr [0x50, 0xAD, 0xDE, 0xAD, 0xDE, 8, 7, 6, 5, 4, 3, 2, 1, 0xCD, 0xAB]"
proof -
  have eq: "concat (map (emission_bytes LittleEndian)
          [EByte 0x150, EInt 0xDEADDEAD, ELong 0x0102030405060708, EShort 0xABCD]) =
        [0x50, 0xAD, 0xDE, 0xAD, 0xDE, 8, 7, 6, 5, 4, 3, 2, 1, 0xCD, 0xAB]"
    by code_simp
  show ?thesis
    by (rule emit_all_finish [of LittleEndian
        "[EByte 0x150, EInt 0xDEADDEAD, ELong 0x0102030405060708, EShort 0xABCD]", unfolded eq]) simp
qed

text \<open>What \<open>emitLong\<close> writes is read back: after the emission into a little-endian buffer,
  the eight bytes from the old position on are the encoding of the argument.\<close>

theorem emitLong_read_back:
  assumes "cb_ok LittleEndian cb" "length (cb_bytes cb) + 8 < 2 ^ 29"
  shows "\<exists>cb' bs. emitLong l cb = (Inr (), cb') \<and> cb_finish cb' = Inr bs \<and>
           length bs = length (cb_bytes cb) + 8 \<and> take (length (cb_bytes cb)) bs = cb_bytes cb \<and>
           le_word (drop (length (cb_bytes cb)) bs) = l"
proof -
  obtain k where k: "cb = cb_of LittleEndian (cb_bytes cb) k" using assms(1) by (rule cb_okE)
  have "le_word (le_bytes 8 l) = l" by (rule le_word_le_bytes) simp
  then show ?thesis
    by (subst k) (use assms(2) in \<open>simp add: emit_emit_bytes emit_bytes_cb_of finish_cb_of del: le_bytes_numeral\<close>)
qed

lemma emitLong_read_back_witness:
  "\<exists>cb' bs. emitLong 0xCAFEBABE12345678 (cb_of LittleEndian [1, 2, 3] 29) = (Inr (), cb') \<and>
     cb_finish cb' = Inr bs \<and> length bs = 11 \<and> take 3 bs = [1, 2, 3] \<and>
     le_word (drop 3 bs) = (0xCAFEBABE12345678 :: word64)"
  using emitLong_read_back [where cb = "cb_of LittleEndian [1, 2, 3] 29" and l = "0xCAFEBABE12345678"]
  by (simp add: cb_ok_cb_of numeral_3_eq_3)

lemma cb_ok_ensureSize: "cb_ok bo cb \<Longrightarrow> cb_ok bo (snd (ensureSize len cb))"
proof (erule cb_okE)
  fix k assume k: "cb = cb_of bo (cb_bytes cb) k" "length (cb_bytes cb) + k < 2 ^ 31"
  show "cb_ok bo (snd (ensureSize len cb))"
    using k(2) nat_wrap32 [of "len * 4"]
    by (subst k(1)) (auto simp: ensureSize_cb_of intro!: cb_ok_cb_of)
qed

lemma cb_ok_put: "cb_ok bo cb \<Longrightarrow> cb_ok bo (snd (on_data (bb_put_word n w) cb))"
proof (erule cb_okE)
  fix k assume k: "cb = cb_of bo (cb_bytes cb) k" "length (cb_bytes cb) + k < 2 ^ 31"
  show "cb_ok bo (snd (on_data (bb_put_word n w) cb))"
    using k(2) by (subst k(1)) (auto simp: put_cb_of intro!: cb_ok_cb_of)
qed

lemma cb_ok_emit_bytes: "cb_ok bo cb \<Longrightarrow> cb_ok bo (snd (emit_bytes n w cb))"
  using cb_ok_ensureSize [of bo cb "wrap32 (cb_position cb + int n)"]
    cb_ok_put [of bo "snd (ensureSize (wrap32 (cb_position cb + int n)) cb)" n w]
  by (auto simp: emit_bytes_def bindc_def split: prod.splits sum.splits)

text \<open>
  \<open>align\<close> computes the padding and moves the position; it does not grow the buffer.
\<close>

lemma align_cb_of [cb_of_simps]:
  assumes "0 < a" "length bs + k < 2 ^ 31" "a < 2 ^ 31"
  shows "align a (cb_of bo bs k) =
    (let pad = nat ((- int (length bs)) mod a) in
     if k < pad then (Inl IllegalArgumentException, cb_of bo bs k)
     else (Inr (), cb_of bo (bs @ replicate pad 0) (k - pad)))"
proof (cases "int (length bs) mod a = 0")
  case True
  then have "(- int (length bs)) mod a = 0" by (simp add: zmod_zminus1_eq_if)
  with True assms show ?thesis by (simp add: align_def Let_def)
next
  case False
  define r where "r = int (length bs) mod a"
  have r: "0 < r" "r < a"
    using False assms(1) by (simp_all add: r_def order.strict_iff_order [of 0] del: zmod_eq_0_iff)
  have pad: "(- int (length bs)) mod a = a - r" using False by (simp add: zmod_zminus1_eq_if r_def)
  show ?thesis
  proof (cases "int (length bs) + (a - r) < 2 ^ 31")
    case True
    then have "wrap32 (int (length bs) + wrap32 (a - r)) = int (length bs + nat (a - r))"
      using r assms by simp
    with False pad assms r set_position_cb_of [of bs "nat (a - r)" bo k] show ?thesis
      by (simp add: align_def Let_def r_def [symmetric])
  next
    case big: False
    then have "wrap32 (int (length bs) + wrap32 (a - r)) < 0" and "k < nat (a - r)"
      using r assms by (auto simp: wrap32_overflow)
    with False pad assms r show ?thesis
      by (simp add: align_def Let_def r_def [symmetric] set_position_neg)
  qed
qed

lemma cb_ok_align: "cb_ok bo cb \<Longrightarrow> 0 < a \<Longrightarrow> a < 2 ^ 31 \<Longrightarrow> cb_ok bo (snd (align a cb))"
proof (erule cb_okE)
  fix k assume a: "0 < a" "a < 2 ^ 31"
    and k: "cb = cb_of bo (cb_bytes cb) k" "length (cb_bytes cb) + k < 2 ^ 31"
  show "cb_ok bo (snd (align a cb))"
    using k(2) by (subst k(1)) (auto simp: align_cb_of [OF a(1) k(2) a(2)] Let_def intro!: cb_ok_cb_of)
qed

lemma cb_ok_emit: "cb_ok bo cb \<Longrightarrow> cb_ok bo (snd (emit e cb))"
  by (cases e) (simp_all add: emit_emit_bytes cb_ok_emit_bytes)

lemma cb_ok_align_0: "align 0 cb = (Inl ArithmeticException, cb)"
  by (simp add: align_def)

text \<open>
  A negative alignment is a Java value too, and with one \<open>align\<close> can move the position back: what
  still holds then is only that the position is within the buffer and that the limit is the
  length of the array.
\<close>

definition cb_range :: "byte_order \<Rightarrow> code_buffer \<Rightarrow> bool" where
  "cb_range bo cb \<longleftrightarrow>
     (let bb = cb_data cb in
      0 \<le> bb_position bb \<and> bb_position bb \<le> bb_limit bb \<and>
      bb_limit bb = int (length (bb_array bb)) \<and> bb_limit bb < 2 ^ 31 \<and> bb_order bb = bo)"

lemma cb_ok_range: "cb_ok bo cb \<Longrightarrow> cb_range bo cb"
  by (simp add: cb_ok_def cb_range_def Let_def)

lemma cb_range_ensureSize: "cb_range bo cb \<Longrightarrow> cb_range bo (snd (ensureSize len cb))"
  using nat_wrap32 [of "len * 4"]
  by (auto simp: cb_range_def ensureSize_def copyOf_def bb_wrap_def bb_set_position_def Let_def)

lemma length_write_at: "i + length ys \<le> length xs \<Longrightarrow> length (write_at xs i ys) = length xs"
  by (simp add: write_at_def)

lemma cb_range_put: "cb_range bo cb \<Longrightarrow> cb_range bo (snd (on_data (bb_put_word n w) cb))"
  by (auto simp: cb_range_def on_data_def bb_put_word_def Let_def length_write_at)

lemma cb_range_emit_bytes: "cb_range bo cb \<Longrightarrow> cb_range bo (snd (emit_bytes n w cb))"
  using cb_range_ensureSize [of bo cb "wrap32 (cb_position cb + int n)"]
    cb_range_put [of bo "snd (ensureSize (wrap32 (cb_position cb + int n)) cb)" n w]
  by (auto simp: emit_bytes_def bindc_def split: prod.splits sum.splits)

lemma cb_range_emit: "cb_range bo cb \<Longrightarrow> cb_range bo (snd (emit e cb))"
  by (cases e) (simp_all add: emit_emit_bytes cb_range_emit_bytes)

lemma cb_range_align: "cb_range bo cb \<Longrightarrow> cb_range bo (snd (align a cb))"
  by (auto simp: cb_range_def align_def on_data_def bb_set_position_def Let_def)

text \<open>The public methods that change a buffer, and the buffer after calls that may have thrown.\<close>

datatype buffer_call = Emit emission | Align int

fun call_buffer :: "buffer_call \<Rightarrow> code_buffer \<Rightarrow> code_buffer" where
  "call_buffer (Emit e) cb = snd (emit e cb)"
| "call_buffer (Align a) cb = snd (align a cb)"

definition after_calls :: "buffer_call list \<Rightarrow> code_buffer \<Rightarrow> code_buffer" where
  "after_calls cs cb = fold call_buffer cs cb"

lemma after_calls_invariant:
  assumes "\<And>c cb. c \<in> set cs \<Longrightarrow> P cb \<Longrightarrow> P (call_buffer c cb)" "P cb"
  shows "P (after_calls cs cb)"
  using assms unfolding after_calls_def by (induction cs arbitrary: cb) auto

text \<open>C8: In a new buffer, and after any calls of its public methods, whether they returned or
  threw, the position lies within the buffer, the limit is the array's length and the byte
  order is the native one; and as long as no \<open>align\<close> was given a negative alignment, all bytes
  from the position on are zero.\<close>

theorem code_buffer_invariant:
  "cb_range bo (after_calls cs (new_CodeBuffer bo)) \<and>
   ((\<forall>a. Align a \<in> set cs \<longrightarrow> 0 \<le> a \<and> a < 2 ^ 31) \<longrightarrow> cb_ok bo (after_calls cs (new_CodeBuffer bo)))"
proof
  show "cb_range bo (after_calls cs (new_CodeBuffer bo))"
  proof (rule after_calls_invariant)
    fix c cb assume "cb_range bo cb"
    then show "cb_range bo (call_buffer c cb)" by (cases c) (simp_all add: cb_range_emit cb_range_align)
  qed (simp add: cb_ok_range)
  show "(\<forall>a. Align a \<in> set cs \<longrightarrow> 0 \<le> a \<and> a < 2 ^ 31) \<longrightarrow> cb_ok bo (after_calls cs (new_CodeBuffer bo))"
  proof (intro impI, rule after_calls_invariant)
    fix c cb assume "\<forall>a. Align a \<in> set cs \<longrightarrow> 0 \<le> a \<and> a < 2 ^ 31" "c \<in> set cs" "cb_ok bo cb"
    then show "cb_ok bo (call_buffer c cb)"
      using cb_ok_align [of bo cb] cb_ok_align_0 [of cb]
      by (cases c) (auto simp: cb_ok_emit order.order_iff_strict)
  qed simp
qed

lemma code_buffer_invariant_witness:
  "cb_ok BigEndian (after_calls [Emit (EInt 7), Align 64, Align 16, Align 0] (new_CodeBuffer BigEndian))"
  using code_buffer_invariant [of BigEndian "[Emit (EInt 7), Align 64, Align 16, Align 0]"] by simp

text \<open>The condition on the alignments is needed: \<open>align(-8)\<close> moves from position 20 back to 8.\<close>

lemma align_negative_moves_back:
  "align (-8) (cb_of bo (replicate 20 1) 12) =
     (Inr (), \<lparr>cb_data = \<lparr>bb_array = replicate 20 1 @ replicate 12 0, bb_position = 8, bb_limit = 32, bb_order = bo\<rparr>\<rparr>)"
  by (simp add: align_def cb_of_def cb_position_def jrem_def on_data_def bb_set_position_def Let_def)

text \<open>C30: \<open>align\<close> pads with zero bytes up to the next multiple of a positive alignment exactly
  when the padding fits the free space of the buffer as it is; otherwise it throws
  IllegalArgumentException and changes nothing, since it does not grow the buffer.\<close>

theorem align_exact:
  assumes "cb_ok bo cb" "0 < a" "a < 2 ^ 31"
  defines "pad \<equiv> nat ((- cb_position cb) mod a)"
  shows "(if bb_limit (cb_data cb) - cb_position cb < int pad
          then align a cb = (Inl IllegalArgumentException, cb)
          else \<exists>cb'. align a cb = (Inr (), cb') \<and> cb_ok bo cb' \<and>
                 cb_bytes cb' = cb_bytes cb @ replicate pad 0 \<and> cb_position cb' mod a = 0)"
proof -
  obtain k where k: "cb = cb_of bo (cb_bytes cb) k" "length (cb_bytes cb) + k < 2 ^ 31"
    using assms(1) by (rule cb_okE)
  define bs where "bs = cb_bytes cb"
  have cb: "cb = cb_of bo bs k" "length bs + k < 2 ^ 31" using k by (simp_all add: bs_def)
  have lim: "bb_limit (cb_data cb) - cb_position cb = int k" by (simp add: cb(1))
  have "(int (length bs) + (- int (length bs)) mod a) mod a = 0" by (simp add: mod_simps)
  moreover have "0 \<le> (- int (length bs)) mod a" using assms(2) by simp
  ultimately show ?thesis
    using align_cb_of [OF assms(2) cb(2) assms(3), of bo] cb(2)
    by (auto simp: lim pad_def Let_def cb(1) intro!: cb_ok_cb_of)
qed

lemma align_exact_witness:
  "align 64 (cb_of LittleEndian [1] 31) = (Inl IllegalArgumentException, cb_of LittleEndian [1] 31) \<and>
   (\<exists>cb'. align 8 (cb_of LittleEndian [1] 31) = (Inr (), cb') \<and> cb_ok LittleEndian cb' \<and>
      cb_bytes cb' = 1 # replicate 7 0 \<and> cb_position cb' mod 8 = 0)"
  using align_exact [of LittleEndian "cb_of LittleEndian [1] 31" 64]
    align_exact [of LittleEndian "cb_of LittleEndian [1] 31" 8]
  by (simp add: cb_ok_cb_of)

text \<open>C31: where emission stops working: if the buffer must grow to hold \<open>len\<close> bytes, from \<open>2 ^ 29\<close> up
  to \<open>2 ^ 30 + 2 ^ 28\<close>, the emission throws and leaves the buffer as it was. Below \<open>2 ^ 30\<close> the new
  capacity is negative as a Java \<open>int\<close> (NegativeArraySizeException); from there on it wraps around to
  less than what is written, and the position does not fit (IllegalArgumentException).\<close>

theorem emit_growth_overflow:
  assumes "cb_ok bo cb" "bb_limit (cb_data cb) \<le> len" "2 ^ 29 \<le> len" "len \<le> 2 ^ 30 + 2 ^ 28"
    and "len = cb_position cb + int (length (emission_bytes bo e))"
  shows "emit e cb = (Inl (if len < 2 ^ 30 then NegativeArraySizeException else IllegalArgumentException), cb)"
proof -
  let ?exn = "if len < 2 ^ 30 then NegativeArraySizeException else IllegalArgumentException"
  obtain k where k: "cb = cb_of bo (cb_bytes cb) k" "length (cb_bytes cb) + k < 2 ^ 31"
    using assms(1) by (rule cb_okE)
  define bs where "bs = cb_bytes cb"
  have cb: "cb = cb_of bo bs k" using k by (simp add: bs_def)
  have len: "len = int (length bs) + int (length (emission_bytes bo e))" using assms(5) by (simp add: cb)
  have lim: "int (length bs + k) \<le> len" using assms(2) by (simp add: cb)
  have "length (emission_bytes bo e) \<le> 8" by (cases e) simp_all
  then have "int (length bs) \<ge> len - 8" using len by simp
  then have "wrap32 (len * 4) < (if len < 2 ^ 30 then 0 else int (length bs))" "len < 2 ^ 30 \<or> 0 \<le> wrap32 (len * 4)"
    using assms(3,4) wrap32_overflow [of "len * 4"] by auto
  then have "ensureSize len (cb_of bo bs k) = (Inl ?exn, cb_of bo bs k)"
    using lim by (auto simp: ensureSize_cb_of)
  moreover have "wrap32 len = len" using assms(3,4) by simp
  ultimately have "bindc (ensureSize (wrap32 len)) f (cb_of bo bs k) =
      (Inl ?exn, cb_of bo bs k)" for f :: "unit \<Rightarrow> (code_buffer, java_exn, unit) comp"
    by (simp add: bindc_Inl)
  with len show ?thesis
    by (cases e) (simp_all add: emit_emit_bytes emit_bytes_def cb add.commute)
qed

lemma emit_growth_overflow_witness:
  "emit (ELong 1) (cb_of LittleEndian (replicate (2 ^ 29 - 4) 7) 4) =
     (Inl NegativeArraySizeException, cb_of LittleEndian (replicate (2 ^ 29 - 4) 7) 4) \<and>
   emit (ELong 1) (cb_of LittleEndian (replicate (2 ^ 30 - 8) 7) 0) =
     (Inl IllegalArgumentException, cb_of LittleEndian (replicate (2 ^ 30 - 8) 7) 0)"
proof -
  have "emit (ELong 1) (cb_of LittleEndian (replicate (2 ^ 29 - 4) 7) 4) =
     (Inl (if (2 ^ 29 + 4 :: int) < 2 ^ 30 then NegativeArraySizeException else IllegalArgumentException),
      cb_of LittleEndian (replicate (2 ^ 29 - 4) 7) 4)"
    by (rule emit_growth_overflow [of LittleEndian _ "2 ^ 29 + 4"]) (simp_all add: cb_ok_cb_of)
  moreover have "emit (ELong 1) (cb_of LittleEndian (replicate (2 ^ 30 - 8) 7) 0) =
     (Inl (if (2 ^ 30 :: int) < 2 ^ 30 then NegativeArraySizeException else IllegalArgumentException),
      cb_of LittleEndian (replicate (2 ^ 30 - 8) 7) 0)"
    by (rule emit_growth_overflow [of LittleEndian _ "2 ^ 30"]) (simp_all add: cb_ok_cb_of)
  ultimately show ?thesis by simp
qed

text \<open>
  The allocation: a tight buffer has a byte free and an array of at most 32 bytes or four
  times its content. Emissions keep it tight, so the contract of a sink holds of tight
  buffers too.
\<close>

definition cb_tight :: "byte_order \<Rightarrow> code_buffer \<Rightarrow> bool" where
  "cb_tight bo cb \<longleftrightarrow> cb_ok bo cb \<and> cb_position cb < bb_limit (cb_data cb) \<and>
     bb_limit (cb_data cb) \<le> max 32 (4 * cb_position cb)"

lemma emit_capacity:
  assumes "cb_ok bo cb" "length (cb_bytes cb) + length (emission_bytes bo e) < 2 ^ 29"
    and "bb_limit (cb_data cb) \<le> max 32 (4 * cb_position cb)"
    and "emit e cb = (Inr (), cb')"
  shows "cb_position cb' < bb_limit (cb_data cb')"
    "bb_limit (cb_data cb') \<le> max 32 (4 * cb_position cb')"
proof -
  obtain k where k: "cb = cb_of bo (cb_bytes cb) k" using assms(1) by (rule cb_okE)
  define bs n where "bs = cb_bytes cb" and "n = length (emission_bytes bo e)"
  have "0 < n" by (cases e) (simp_all add: n_def)
  have "cb' = cb_of bo (bs @ emission_bytes bo e) (if k \<le> n then 3 * (length bs + n) else k - n)"
    using emit_cb_of [of bs bo e k] assms(2,4) k by (simp add: bs_def [symmetric] n_def [symmetric] Let_def)
  moreover have "int (length bs) + int k \<le> max 32 (4 * int (length bs))"
    using assms(3) by (subst (asm) (1 2) k) (simp add: bs_def [symmetric])
  ultimately show "cb_position cb' < bb_limit (cb_data cb')"
    "bb_limit (cb_data cb') \<le> max 32 (4 * cb_position cb')"
    using \<open>0 < n\<close> by (simp_all add: n_def [symmetric] max_def split: if_splits)
qed

interpretation cb_tight_sink: byte_sink "cb_tight bo" cb_bytes "emission_bytes bo" emit "2 ^ 29" for bo
proof
  fix cb e assume t: "cb_tight bo cb" and len: "length (cb_bytes cb) + length (emission_bytes bo e) < 2 ^ 29"
  then have ok: "cb_ok bo cb" by (simp add: cb_tight_def)
  obtain cb' where cb': "emit e cb = (Inr (), cb')" "cb_ok bo cb'" "cb_bytes cb' = cb_bytes cb @ emission_bytes bo e"
    using emit_step [OF ok len] by blast
  moreover have "cb_tight bo cb'"
    using emit_capacity [OF ok len _ cb'(1)] t cb'(2) by (simp add: cb_tight_def)
  ultimately show "\<exists>cb'. emit e cb = (Inr (), cb') \<and> cb_tight bo cb' \<and>
      cb_bytes cb' = cb_bytes cb @ emission_bytes bo e" by blast
qed

text \<open>C32: space: after any sequence of emissions, and no \<open>align\<close>, of fewer than \<open>2 ^ 29\<close> bytes in all
  into a new buffer, its position is the number of bytes emitted, there is room for at least
  one more, and the array has at most the larger of 32 bytes and four times that number.\<close>

theorem emit_all_space:
  assumes "length (concat (map (emission_bytes bo) es)) < 2 ^ 29"
    and "seqc (map emit es) (new_CodeBuffer bo) = (r, cb)"
  shows "cb_position cb = int (length (concat (map (emission_bytes bo) es))) \<and>
    cb_position cb < bb_limit (cb_data cb) \<and> bb_limit (cb_data cb) \<le> max 32 (4 * cb_position cb)"
proof -
  have "cb_tight bo (new_CodeBuffer bo)" by (simp add: cb_tight_def) (simp add: new_CodeBuffer_cb_of)
  from cb_tight_sink.put_all_content [OF this _ assms(2)] assms(1)
  have "cb_tight bo cb" "cb_bytes cb = concat (map (emission_bytes bo) es)" by auto
  then show ?thesis using length_cb_bytes [of bo cb] by (simp add: cb_tight_def)
qed

lemma emit_all_space_witness:
  "\<exists>cb. seqc (map emit (replicate 5 (ELong 1))) (new_CodeBuffer LittleEndian) = (Inr (), cb) \<and>
     cb_position cb = 40 \<and> 40 < bb_limit (cb_data cb) \<and> bb_limit (cb_data cb) \<le> 160"
proof -
  have len: "length (concat (map (emission_bytes LittleEndian) (replicate 5 (ELong 1)))) = 40"
    by (simp add: length_concat sum_list_replicate)
  obtain cb where cb: "seqc (map emit (replicate 5 (ELong 1))) (new_CodeBuffer LittleEndian) = (Inr (), cb)"
    using cb_sink.put_all_ok [of LittleEndian "new_CodeBuffer LittleEndian" "replicate 5 (ELong 1)"] len by auto
  then show ?thesis using emit_all_space [of LittleEndian "replicate 5 (ELong 1)" "Inr ()" cb] len
    by (simp add: max_def split: if_splits)
qed

end
