(* ===== verification/Assembler_Base.thy ===== *)
theory Assembler_Base
  imports Code_Buffer
begin

text \<open>
  The machine-independent assembler of \<open>jvmci/AssemblerBase.java\<close>: its two code buffers,
  the recorded sites, the frame bookkeeping and the register supply, and the compiled
  method that \<open>finish\<close> assembles. The abstract methods of the class are arguments of the
  definitions that call them.
\<close>

section \<open>Registers, stack slots and sites\<close>

text \<open>
  The sixteen general registers of \<open>jdk.vm.ci.amd64.AMD64\<close> and their hardware encodings; a
  platform kind is known by its size; a value kind wraps it. A stack slot is what
  \<open>StackSlot.get\<close> builds, a site what \<open>new Mark\<close> and \<open>new Call\<close> build: the call target is a
  foreign address, the debug info is an object of JVMCI that this code never makes.
\<close>

datatype register =
    rax | rcx | rdx | rbx | rsp | rbp | rsi | rdi
  | r8 | r9 | r10 | r11 | r12 | r13 | r14 | r15

definition all_registers :: "register list" where
  "all_registers =
     [rax, rcx, rdx, rbx, rsp, rbp, rsi, rdi, r8, r9, r10, r11, r12, r13, r14, r15]"

fun encoding :: "register \<Rightarrow> nat" where
  "encoding rax = 0" | "encoding rcx = 1" | "encoding rdx = 2" | "encoding rbx = 3"
| "encoding rsp = 4" | "encoding rbp = 5" | "encoding rsi = 6" | "encoding rdi = 7"
| "encoding r8 = 8" | "encoding r9 = 9" | "encoding r10 = 10" | "encoding r11 = 11"
| "encoding r12 = 12" | "encoding r13 = 13" | "encoding r14 = 14" | "encoding r15 = 15"

lemma encoding_less [simp]: "encoding r < 16"
  by (cases r) simp_all

lemma nth_all_registers [simp]: "all_registers ! encoding r = r"
  by (cases r) (simp_all add: all_registers_def)

lemma encoding_inject [simp]: "encoding r = encoding q \<longleftrightarrow> r = q"
  by (metis nth_all_registers)

record platform_kind =
  size_in_bytes :: int

datatype value_kind = TestValueKind platform_kind

text \<open>\<open>TestValueKind.changeType\<close>.\<close>

fun changeType :: "value_kind \<Rightarrow> platform_kind \<Rightarrow> value_kind" where
  "changeType (TestValueKind _) kind = TestValueKind kind"

record stack_slot =
  slot_kind :: value_kind
  slot_offset :: int
  slot_add_frame_size :: bool

datatype debug_info = DebugInfo

datatype site =
    Mark int int
  | Call word64 int int bool "debug_info option"

datatype data_patch = DataPatch int

section \<open>The state\<close>

record asm_state =
  code :: code_buffer
  data :: code_buffer
  sites :: "site list"
  dataPatches :: "data_patch list"
  frameSize :: int
  stackAlignment :: int
  curStackSlot :: int
  deoptRescue :: "stack_slot option"
  registers :: "register list"
  nextRegister :: int

type_synonym 'a asm = "(asm_state, java_exn, 'a) comp"

definition new_AssemblerBase :: "byte_order \<Rightarrow> int \<Rightarrow> int \<Rightarrow> register list \<Rightarrow> asm_state" where
  "new_AssemblerBase nativeOrder initialFrameSize alignment regs =
     \<lparr>code = new_CodeBuffer nativeOrder, data = new_CodeBuffer nativeOrder, sites = [],
      dataPatches = [], frameSize = initialFrameSize, stackAlignment = alignment,
      curStackSlot = initialFrameSize, deoptRescue = None, registers = regs, nextRegister = 0\<rparr>"

definition on_code :: "(code_buffer, java_exn, 'a) comp \<Rightarrow> 'a asm" where
  "on_code m s = (case m (code s) of (r, cb) \<Rightarrow> (r, s\<lparr>code := cb\<rparr>))"

definition setDeoptRescueSlot :: "stack_slot option \<Rightarrow> unit asm" where
  "setDeoptRescueSlot slot = modify (\<lambda>s. s\<lparr>deoptRescue := slot\<rparr>)"

text \<open>\<open>registers[nextRegister++]\<close>: the counter is increased before the index is checked.\<close>

definition newRegister :: "register asm" where
  "newRegister s =
     (let i = nextRegister s; s' = s\<lparr>nextRegister := wrap32 (i + 1)\<rparr> in
      if 0 \<le> i \<and> i < int (length (registers s))
      then (Inr (registers s ! nat i), s')
      else (Inl ArrayIndexOutOfBoundsException, s'))"

definition growFrame :: "(int \<Rightarrow> unit asm) \<Rightarrow> int \<Rightarrow> unit asm" where
  "growFrame emitGrowStack sizeInBytes s =
     (let s = s\<lparr>curStackSlot := wrap32 (curStackSlot s + sizeInBytes)\<rparr> in
      if frameSize s < curStackSlot s then
        (if stackAlignment s = 0 then (Inl ArithmeticException, s)
         else
           let newFrameSize = curStackSlot s;
               misaligned = jrem newFrameSize (stackAlignment s);
               newFrameSize = (if misaligned \<noteq> 0
                 then wrap32 (newFrameSize + wrap32 (stackAlignment s - misaligned))
                 else newFrameSize)
           in bindc (emitGrowStack (wrap32 (newFrameSize - frameSize s)))
                (\<lambda>_. modify (\<lambda>s. s\<lparr>frameSize := newFrameSize\<rparr>)) s)
      else (Inr (), s))"

definition newStackSlot :: "(int \<Rightarrow> unit asm) \<Rightarrow> platform_kind \<Rightarrow> stack_slot asm" where
  "newStackSlot emitGrowStack kind =
     bindc (growFrame emitGrowStack (size_in_bytes kind))
       (\<lambda>_. gets (\<lambda>s. \<lparr>slot_kind = TestValueKind kind, slot_offset = wrap32 (- curStackSlot s),
                       slot_add_frame_size = True\<rparr>))"

definition recordMark :: "int \<Rightarrow> unit asm" where
  "recordMark i = modify (\<lambda>s. s\<lparr>sites := sites s @ [Mark (cb_position (code s)) i]\<rparr>)"

definition recordCall :: "word64 \<Rightarrow> int \<Rightarrow> bool \<Rightarrow> debug_info option \<Rightarrow> unit asm" where
  "recordCall target sz direct info =
     modify (\<lambda>s. s\<lparr>sites := sites s @ [Call target (cb_position (code s)) sz direct info]\<rparr>)"

section \<open>The compiled method\<close>

text \<open>
  The arguments \<open>finish\<close> passes to the constructor of \<open>HotSpotCompiledNmethod\<close>, in its order.
  A resolved method is a value of type \<open>'m\<close>; its name and the allocation of a compile id,
  which changes the state of the virtual machine, are arguments. Arrays that the code
  creates empty are lists of units.
\<close>

record 'm compiled_nmethod =
  nm_name :: string
  nm_targetCode :: "byte list"
  nm_targetCodeSize :: int
  nm_sites :: "site list"
  nm_assumptions :: "unit list"
  nm_methods :: "'m list"
  nm_comments :: "unit list"
  nm_dataSection :: "byte list"
  nm_dataSectionAlignment :: int
  nm_dataSectionPatches :: "data_patch list"
  nm_isImmutablePIC :: bool
  nm_totalFrameSize :: int
  nm_deoptRescueSlot :: "stack_slot option"
  nm_method :: 'm
  nm_entryBCI :: int
  nm_id :: int
  nm_jvmciEnv :: word64
  nm_hasUnsafeAccess :: bool

definition asm_finish ::
  "('m \<Rightarrow> int \<Rightarrow> 'v \<Rightarrow> int \<times> 'v) \<Rightarrow> ('m \<Rightarrow> string) \<Rightarrow> 'm \<Rightarrow> asm_state \<Rightarrow>
     ('v, java_exn, 'm compiled_nmethod) comp" where
  "asm_finish allocateCompileId getName m s v =
     (let (i, v) = allocateCompileId m 0 v in
      case cb_finish (code s) of
        Inl e \<Rightarrow> (Inl e, v)
      | Inr finishedCode \<Rightarrow>
          (case cb_finish (data s) of
             Inl e \<Rightarrow> (Inl e, v)
           | Inr finishedData \<Rightarrow>
               (Inr \<lparr>nm_name = getName m, nm_targetCode = finishedCode,
                     nm_targetCodeSize = int (length finishedCode), nm_sites = sites s,
                     nm_assumptions = [], nm_methods = [m], nm_comments = [],
                     nm_dataSection = finishedData, nm_dataSectionAlignment = 16,
                     nm_dataSectionPatches = dataPatches s, nm_isImmutablePIC = False,
                     nm_totalFrameSize = frameSize s, nm_deoptRescueSlot = deoptRescue s,
                     nm_method = m, nm_entryBCI = -1, nm_id = i, nm_jvmciEnv = 0,
                     nm_hasUnsafeAccess = False\<rparr>, v)))"

section \<open>Frames\<close>

text \<open>
  The frame invariant: the slots handed out so far fit the frame, and the frame is a whole
  number of alignment units. \<open>round_up\<close> is the least such size that is large enough.
\<close>

definition round_up :: "int \<Rightarrow> int \<Rightarrow> int" where
  "round_up a x = x + (- x) mod a"

definition frame_ok :: "asm_state \<Rightarrow> bool" where
  "frame_ok s \<longleftrightarrow> 0 < stackAlignment s \<and> stackAlignment s < 2 ^ 29 \<and> 0 \<le> curStackSlot s \<and>
     curStackSlot s \<le> frameSize s \<and> frameSize s < 2 ^ 30 \<and> frameSize s mod stackAlignment s = 0"

lemma round_up_ge: "0 < a \<Longrightarrow> x \<le> round_up a x"
  by (simp add: round_up_def)

lemma round_up_less: "0 < a \<Longrightarrow> round_up a x < x + a"
  by (simp add: round_up_def)

lemma round_up_mod: "round_up a x mod a = 0"
  by (simp add: round_up_def mod_simps)

lemma round_up_least: "0 < a \<Longrightarrow> x \<le> y \<Longrightarrow> y mod a = 0 \<Longrightarrow> round_up a x \<le> y"
proof -
  assume a: "0 < a" and xy: "x \<le> y" and y: "y mod a = 0"
  have "(y - x) mod a = (- x) mod a" using y by (metis add_0 diff_conv_add_uminus mod_add_left_eq)
  moreover have "(y - x) mod a \<le> y - x" using a xy by (simp add: zmod_le_nonneg_dividend)
  ultimately show ?thesis by (simp add: round_up_def)
qed

lemma jrem_round_up:
  assumes "0 \<le> x" "0 < a" "a < 2 ^ 29" "x < 2 ^ 30"
  shows "(let m = jrem x a in if m \<noteq> 0 then wrap32 (x + wrap32 (a - m)) else x) = round_up a x"
proof (cases "x mod a = 0")
  case True
  then show ?thesis using assms by (simp add: round_up_def zmod_zminus1_eq_if)
next
  case False
  have "x mod a < a" "0 \<le> x mod a" using assms by simp_all
  with False assms show ?thesis by (simp add: round_up_def zmod_zminus1_eq_if Let_def)
qed

text \<open>
  What \<open>growFrame\<close> relies on: in a state that is ready for it, the abstract method
  \<open>emitGrowStack\<close> returns and changes the code only; readiness is about the code.
\<close>

locale stack_grower =
  fixes emitGrowStack :: "int \<Rightarrow> unit asm"
    and grow_code :: "int \<Rightarrow> code_buffer \<Rightarrow> code_buffer"
    and ready :: "code_buffer \<Rightarrow> bool"
  assumes grow_ok: "ready (code s) \<Longrightarrow>
    emitGrowStack n s = (Inr (), s\<lparr>code := grow_code n (code s)\<rparr>)"
begin

lemma growFrame_ok:
  assumes ok: "frame_ok s" and rdy: "ready (code s)" and sz: "0 \<le> sz" "curStackSlot s + sz < 2 ^ 29"
  shows "growFrame emitGrowStack sz s = (Inr (),
     (if curStackSlot s + sz \<le> frameSize s then s\<lparr>curStackSlot := curStackSlot s + sz\<rparr>
      else s\<lparr>curStackSlot := curStackSlot s + sz,
             frameSize := round_up (stackAlignment s) (curStackSlot s + sz),
             code := grow_code (round_up (stackAlignment s) (curStackSlot s + sz) - frameSize s) (code s)\<rparr>))"
proof (cases "curStackSlot s + sz \<le> frameSize s")
  case True
  then show ?thesis using ok sz by (simp add: growFrame_def frame_ok_def Let_def)
next
  case False
  define c a where "c = curStackSlot s + sz" and "a = stackAlignment s"
  define t where "t = s\<lparr>curStackSlot := c\<rparr>"
  have c: "0 \<le> c" "c < 2 ^ 29" "0 < a" "a < 2 ^ 29" "wrap32 c = c"
    using ok sz by (simp_all add: frame_ok_def c_def a_def)
  have r: "c \<le> round_up a c" "round_up a c < c + a" using c by (simp_all add: round_up_ge round_up_less)
  have "growFrame emitGrowStack sz s =
      bindc (emitGrowStack (wrap32 (round_up a c - frameSize s)))
        (\<lambda>_. modify (\<lambda>s. s\<lparr>frameSize := round_up a c\<rparr>)) t"
    using False c jrem_round_up [of c a]
    by (simp add: growFrame_def Let_def c_def [symmetric] a_def [symmetric] t_def split: if_splits)
  moreover have "wrap32 (round_up a c - frameSize s) = round_up a c - frameSize s"
    using False r c ok by (simp add: frame_ok_def c_def)
  ultimately show ?thesis
    using False grow_ok [of t] rdy by (simp add: bindc_Inr modify_apply t_def c_def a_def)
qed

lemma growFrame_frame:
  assumes "frame_ok s" "ready (code s)" "0 \<le> sz" "curStackSlot s + sz < 2 ^ 29"
    and "growFrame emitGrowStack sz s = (r, s')"
  shows "r = Inr ()" "frame_ok s'" "curStackSlot s' = curStackSlot s + sz"
    "frameSize s' = max (frameSize s) (round_up (stackAlignment s) (curStackSlot s'))"
proof -
  define a c where "a = stackAlignment s" and "c = curStackSlot s + sz"
  have a: "0 < a" "a < 2 ^ 29" "frameSize s mod a = 0" "0 \<le> c"
    using assms(1,3) by (simp_all add: frame_ok_def a_def c_def)
  note g = growFrame_ok [OF assms(1-4), folded a_def c_def]
  show "r = Inr ()" "curStackSlot s' = curStackSlot s + sz" using g assms(5) by (auto simp: c_def)
  show "frame_ok s'" using g assms a round_up_ge [of a c] round_up_less [of a c] round_up_mod [of a c]
    by (auto simp: frame_ok_def c_def [symmetric] a_def [symmetric] split: if_splits)
  show "frameSize s' = max (frameSize s) (round_up (stackAlignment s) (curStackSlot s'))"
  proof (cases "c \<le> frameSize s")
    case True
    then show ?thesis using g assms(5) a round_up_least [of a c "frameSize s"]
      by (auto simp: c_def [symmetric] a_def [symmetric])
  next
    case False
    then show ?thesis using g assms(5) round_up_ge [OF a(1), of c]
      by (auto simp: c_def [symmetric] a_def [symmetric])
  qed
qed

end

end
