(* ===== verification/Amd64_Assembler.thy ===== *)
theory Amd64_Assembler
  imports Assembler_Base
begin

text \<open>
  The AMD64 assembler of \<open>jvmci/amd64/AMD64Assembler.java\<close>. Every method that only emits code
  is shown equal to one sequence of emissions; these equations, collected in
  \<open>asm_code\<close>, are what the proofs about machine code use.
\<close>

section \<open>The methods\<close>

text \<open>The two values that \<open>HotSpotVMConfigAccessor\<close> reads from the virtual machine.\<close>

record vm_config =
  MARKID_DEOPT_HANDLER_ENTRY :: int
  handleDeoptStub :: word64

definition new_AMD64Assembler :: "byte_order \<Rightarrow> asm_state" where
  "new_AMD64Assembler nativeOrder =
     new_AssemblerBase nativeOrder 16 16 [rax, rcx, rdi, r8, r9, r10]"

text \<open>\<open>Register.encoding\<close> as a Java \<open>int\<close>.\<close>

definition enc :: "register \<Rightarrow> word32" where
  "enc r = of_nat (encoding r)"

definition QWORD :: platform_kind where
  "QWORD = \<lparr>size_in_bytes = 8\<rparr>"

definition emitFatNop :: "unit asm" where
  "emitFatNop = seqc
     [on_code (emitByte 0x0F),
      on_code (emitByte 0x1F),
      on_code (emitByte 0x44),
      on_code (emitByte 0x00),
      on_code (emitByte 0x00)]"

definition rex_bits :: "bool \<Rightarrow> word32 \<Rightarrow> word32 \<Rightarrow> word32 \<Rightarrow> word32" where
  "rex_bits w r x b =
     (if w then 0x08 else 0) OR push_bit 2 (signed_drop_bit 3 r) OR
     push_bit 1 (signed_drop_bit 3 x) OR signed_drop_bit 3 b"

definition emitREX :: "bool \<Rightarrow> word32 \<Rightarrow> word32 \<Rightarrow> word32 \<Rightarrow> unit asm" where
  "emitREX w r x b =
     (let wrxb = rex_bits w r x b in
      whenc (wrxb \<noteq> 0) (on_code (emitByte (0x40 OR wrxb))))"

definition emitModRMReg :: "bool \<Rightarrow> word32 \<Rightarrow> word32 \<Rightarrow> word32 \<Rightarrow> unit asm" where
  "emitModRMReg w opcode r m = seqc
     [emitREX w r 0 m,
      on_code (emitByte (scast (ucast opcode :: byte))),
      on_code (emitByte (scast (0xC0 :: byte) OR push_bit 3 (r AND 0x7) OR (m AND 0x7)))]"

definition emitMove :: "bool \<Rightarrow> register \<Rightarrow> register \<Rightarrow> unit asm" where
  "emitMove w to from = whenc (to \<noteq> from) (emitModRMReg w 0x8B (enc to) (enc from))"

definition emitGrowStack :: "int \<Rightarrow> unit asm" where
  "emitGrowStack sz = seqc
     [on_code (emitByte 0x48),
      on_code (emitByte 0x81),
      on_code (emitByte 0xEC),
      on_code (emitInt (word_of_int sz))]"

definition emitPrologue :: "unit asm" where
  "emitPrologue = seqc
     [emitFatNop,
      on_code (emitByte (0x50 OR enc rbp)),
      emitMove True rbp rsp,
      bindc (newStackSlot emitGrowStack QWORD) (\<lambda>slot. setDeoptRescueSlot (Some slot))]"

definition emitEpilogue :: "vm_config \<Rightarrow> unit asm" where
  "emitEpilogue config = seqc
     [recordMark (MARKID_DEOPT_HANDLER_ENTRY config),
      recordCall (handleDeoptStub config) 5 True None,
      on_code (emitByte 0xE8),
      on_code (emitInt 0xDEADDEAD)]"

definition emitLoadLong_to :: "register \<Rightarrow> word64 \<Rightarrow> register asm" where
  "emitLoadLong_to reg c =
     bindc (seqc
       [emitREX True 0 0 (enc reg),
        on_code (emitByte (0xB8 OR (enc reg AND 0x7))),
        on_code (emitLong c)])
     (\<lambda>_. ret reg)"

definition emitLoadLong :: "word64 \<Rightarrow> register asm" where
  "emitLoadLong c = bindc newRegister (\<lambda>reg. emitLoadLong_to reg c)"

definition emitCall :: "word64 \<Rightarrow> unit asm" where
  "emitCall addr =
     bindc (emitLoadLong addr) (\<lambda>target.
       let e = enc target in seqc
         [on_code (emitByte 0xFF),
          whenc (8 \<le> encoding target) (on_code (emitByte 0x41)),
          on_code (emitByte (0xD0 OR (if 8 \<le> encoding target then e - 8 else e)))])"

definition emitIntRet :: "register \<Rightarrow> unit asm" where
  "emitIntRet a = seqc
     [emitMove False rax a,
      emitMove True rsp rbp,
      on_code (emitByte (0x58 OR enc rbp)),
      on_code (emitByte 0xC3)]"

section \<open>Methods as sequences of emissions\<close>

named_theorems asm_code "assembler methods as emissions"

definition asm_emit :: "emission list \<Rightarrow> unit asm" where
  "asm_emit es = on_code (seqc (map emit es))"

lemma on_code_bindc: "on_code (bindc m f) = bindc (on_code m) (\<lambda>x. on_code (f x))"
  by (auto simp: on_code_def bindc_def fun_eq_iff split: prod.splits sum.splits)

lemma on_code_ret: "on_code (ret x) = ret x"
  by (simp add: on_code_def ret_def fun_eq_iff)

lemma asm_emit_Nil: "asm_emit [] = ret ()"
  by (simp add: asm_emit_def on_code_ret)

lemma asm_emit_append: "bindc (asm_emit es) (\<lambda>_. asm_emit fs) = asm_emit (es @ fs)"
  by (simp add: asm_emit_def seqc_append on_code_bindc)

lemma on_code_emit [asm_code]:
  "on_code (emitByte b) = asm_emit [EByte b]" "on_code (emitInt b) = asm_emit [EInt b]"
  "on_code (emitLong l) = asm_emit [ELong l]"
  by (simp_all add: asm_emit_def)

lemma seqc_asm_emit [asm_code]:
  "seqc (asm_emit es # ms) = bindc (asm_emit es) (\<lambda>_. seqc ms)"
  "seqc [] = asm_emit []"
  by (simp_all add: asm_emit_Nil)

lemma whenc_asm_emit [asm_code]: "whenc b (asm_emit es) = asm_emit (if b then es else [])"
  by (simp add: whenc_def asm_emit_Nil)

definition rex_emission :: "bool \<Rightarrow> word32 \<Rightarrow> word32 \<Rightarrow> word32 \<Rightarrow> emission list" where
  "rex_emission w r x b = (if rex_bits w r x b \<noteq> 0 then [EByte (0x40 OR rex_bits w r x b)] else [])"

definition move_emission :: "bool \<Rightarrow> register \<Rightarrow> register \<Rightarrow> emission list" where
  "move_emission w to from =
     (if to = from then []
      else rex_emission w (enc to) 0 (enc from) @
        [EByte (scast (ucast (0x8B :: word32) :: byte)),
         EByte (scast (0xC0 :: byte) OR push_bit 3 (enc to AND 0x7) OR (enc from AND 0x7))])"

definition load_emission :: "register \<Rightarrow> word64 \<Rightarrow> emission list" where
  "load_emission reg c =
     rex_emission True 0 0 (enc reg) @ [EByte (0xB8 OR (enc reg AND 0x7)), ELong c]"

definition call_emission :: "register \<Rightarrow> emission list" where
  "call_emission target =
     EByte 0xFF # (if 8 \<le> encoding target then [EByte 0x41, EByte (0xD0 OR (enc target - 8))]
                   else [EByte (0xD0 OR enc target)])"

lemma emitREX_code [asm_code]: "emitREX w r x b = asm_emit (rex_emission w r x b)"
  by (simp add: emitREX_def rex_emission_def Let_def on_code_emit whenc_asm_emit)

lemma emitFatNop_code [asm_code]: "emitFatNop = asm_emit [EByte 0x0F, EByte 0x1F, EByte 0x44, EByte 0, EByte 0]"
  by (simp add: emitFatNop_def asm_code asm_emit_append)

lemma emitMove_code [asm_code]: "emitMove w to from = asm_emit (move_emission w to from)"
  by (simp add: emitMove_def emitModRMReg_def move_emission_def whenc_def asm_emit_Nil
      asm_code asm_emit_append)

lemma emitGrowStack_code [asm_code]:
  "emitGrowStack n = asm_emit [EByte 0x48, EByte 0x81, EByte 0xEC, EInt (word_of_int n)]"
  by (simp add: emitGrowStack_def asm_code asm_emit_append)

lemma emitLoadLong_to_code [asm_code]:
  "emitLoadLong_to reg c = bindc (asm_emit (load_emission reg c)) (\<lambda>_. ret reg)"
  by (simp add: emitLoadLong_to_def load_emission_def asm_code asm_emit_append)

lemma emitIntRet_code [asm_code]:
  "emitIntRet a = asm_emit (move_emission False rax a @ move_emission True rsp rbp @
     [EByte (0x58 OR enc rbp), EByte 0xC3])"
  by (simp add: emitIntRet_def asm_code asm_emit_append)

lemma emitCall_code [asm_code]:
  "emitCall addr = bindc newRegister (\<lambda>reg. asm_emit (load_emission reg addr @ call_emission reg))"
proof -
  have "seqc [on_code (emitByte 0xFF), whenc (8 \<le> encoding t) (on_code (emitByte 0x41)),
          on_code (emitByte (0xD0 OR (if 8 \<le> encoding t then enc t - 8 else enc t)))] =
        asm_emit (call_emission t)" for t
    by (auto simp: call_emission_def asm_code asm_emit_append)
  then show ?thesis
    by (simp add: emitCall_def emitLoadLong_def Let_def emitLoadLong_to_code bindc_assoc asm_emit_append)
qed

section \<open>The emissions succeed\<close>

lemma asm_emit_ok:
  "fits bo es (code s) \<Longrightarrow> asm_emit es s = (Inr (), s\<lparr>code := emits es (code s)\<rparr>)"
  by (simp add: asm_emit_def on_code_def fits_emits(1))

definition grow_emission :: "int \<Rightarrow> emission list" where
  "grow_emission n = [EByte 0x48, EByte 0x81, EByte 0xEC, EInt (word_of_int n)]"

lemma length_emission_bytes [simp]:
  "length (emission_bytes bo (EByte b)) = 1" "length (emission_bytes bo (EInt b)) = 4"
  "length (emission_bytes bo (ELong l)) = 8"
  by simp_all

interpretation amd64_grow: stack_grower emitGrowStack "\<lambda>n. emits (grow_emission n)"
    "fits bo (grow_emission 0)" for bo
proof
  fix s :: asm_state and n assume "fits bo (grow_emission 0) (code s)"
  then have "fits bo (grow_emission n) (code s)" by (simp add: fits_def grow_emission_def)
  then show "emitGrowStack n s = (Inr (), s\<lparr>code := emits (grow_emission n) (code s)\<rparr>)"
    by (simp add: emitGrowStack_code asm_emit_ok grow_emission_def)
qed

text \<open>The assembler is itself a sink of emissions: it passes them on to its code buffer.\<close>

interpretation asm_sink: byte_sink "\<lambda>s. cb_ok bo (code s)" "\<lambda>s. cb_bytes (code s)" "emission_bytes bo"
    "\<lambda>e. asm_emit [e]" "2 ^ 29" for bo
proof
  fix s :: asm_state and e assume "cb_ok bo (code s)"
    "length (cb_bytes (code s)) + length (emission_bytes bo e) < 2 ^ 29"
  then have "fits bo [e] (code s)" by (simp add: fits_def)
  then show "\<exists>s'. asm_emit [e] s = (Inr (), s') \<and> cb_ok bo (code s') \<and>
      cb_bytes (code s') = cb_bytes (code s) @ emission_bytes bo e"
    by (simp add: asm_emit_ok fits_emits)
qed

text \<open>
  What a prologue does to the frame, and the emissions of each part of a trampoline. The
  stack grows only if the deoptimisation slot does not fit the frame.
\<close>

definition slot_frame :: "asm_state \<Rightarrow> int" where
  "slot_frame s = max (frameSize s) (round_up (stackAlignment s) (curStackSlot s + 8))"

definition prologue_emission :: "asm_state \<Rightarrow> emission list" where
  "prologue_emission s =
     [EByte 0x0F, EByte 0x1F, EByte 0x44, EByte 0, EByte 0, EByte (0x50 OR enc rbp)] @
     move_emission True rbp rsp @
     (if curStackSlot s + 8 \<le> frameSize s then [] else grow_emission (slot_frame s - frameSize s))"

definition deopt_slot :: "asm_state \<Rightarrow> stack_slot" where
  "deopt_slot s = \<lparr>slot_kind = TestValueKind QWORD, slot_offset = - (curStackSlot s + 8),
     slot_add_frame_size = True\<rparr>"

lemma emitPrologue_ok:
  assumes frame: "frame_ok s" "curStackSlot s + 8 < 2 ^ 29" and fits: "fits bo (prologue_emission s) (code s)"
  shows "emitPrologue s = (Inr (), s\<lparr>code := emits (prologue_emission s) (code s),
     frameSize := slot_frame s, curStackSlot := curStackSlot s + 8, deoptRescue := Some (deopt_slot s)\<rparr>)"
proof -
  define es where "es = [EByte 0x0F, EByte 0x1F, EByte 0x44, EByte 0, EByte 0, EByte (0x50 OR enc rbp)] @
     move_emission True rbp rsp"
  define gs where "gs = (if curStackSlot s + 8 \<le> frameSize s then [] else grow_emission (slot_frame s - frameSize s))"
  have pe: "prologue_emission s = es @ gs" by (simp add: prologue_emission_def es_def gs_def)
  note F = fits_append [OF fits [unfolded pe]]
  define t where "t = s\<lparr>code := emits es (code s)\<rparr>"
  have prologue: "emitPrologue = bindc (asm_emit es) (\<lambda>_. bindc (newStackSlot emitGrowStack QWORD)
      (\<lambda>slot. setDeoptRescueSlot (Some slot)))"
    by (simp add: emitPrologue_def es_def asm_code bindc_assoc [symmetric] asm_emit_append)
  have frame_t: "frame_ok t" using frame by (simp add: frame_ok_def t_def)
  have "growFrame emitGrowStack 8 t = (Inr (), t\<lparr>curStackSlot := curStackSlot s + 8,
      frameSize := slot_frame s, code := emits gs (code t)\<rparr>)"
  proof (cases "curStackSlot s + 8 \<le> frameSize s")
    case True
    then have "slot_frame s = frameSize s"
      using frame(1) by (auto simp: slot_frame_def frame_ok_def max_def dest: round_up_least intro: antisym)
    with True frame show ?thesis
      by (simp add: growFrame_def gs_def t_def Let_def frame_ok_def)
  next
    case False
    then have sf: "slot_frame s = round_up (stackAlignment s) (curStackSlot s + 8)"
      using frame(1) round_up_ge [of "stackAlignment s" "curStackSlot s + 8"]
      by (simp add: slot_frame_def frame_ok_def)
    have "fits bo (grow_emission 0) (code t)"
      using F(2) False by (simp add: t_def gs_def fits_def grow_emission_def)
    from amd64_grow.growFrame_ok [OF frame_t this, of 8] False frame sf show ?thesis
      by (simp add: t_def gs_def)
  qed
  moreover have "wrap32 (- (curStackSlot s + 8)) = - (curStackSlot s + 8)"
    using frame by (simp add: frame_ok_def)
  ultimately have "newStackSlot emitGrowStack QWORD t = (Inr (deopt_slot s), t\<lparr>curStackSlot := curStackSlot s + 8,
      frameSize := slot_frame s, code := emits gs (code t)\<rparr>)"
    by (simp add: newStackSlot_def QWORD_def bindc_Inr gets_apply deopt_slot_def)
  then show ?thesis
    using asm_emit_ok [OF F(1)] F(3)
    by (simp add: prologue bindc_Inr setDeoptRescueSlot_def modify_apply t_def pe)
qed

section \<open>Stack slots\<close>

text \<open>C13: a stack slot handed out by the AMD64 assembler lies directly below all slots handed
  out before it and inside the frame: the frame invariant (aligned, at least as large as the
  slots) is kept, the frame grows to the least aligned size that is enough and not at all if
  it already is, and the only code emitted is one \<open>SUB rsp, imm32\<close> by the growth.\<close>

theorem newStackSlot_frame:
  assumes "frame_ok s" "fits bo (grow_emission 0) (code s)" "0 \<le> size_in_bytes kind"
    and "curStackSlot s + size_in_bytes kind < 2 ^ 29"
  shows "\<exists>slot s'. newStackSlot emitGrowStack kind s = (Inr slot, s') \<and> frame_ok s' \<and>
    slot_offset slot = - (curStackSlot s + size_in_bytes kind) \<and> curStackSlot s' = - slot_offset slot \<and>
    frameSize s' = max (frameSize s) (round_up (stackAlignment s) (- slot_offset slot)) \<and>
    cb_bytes (code s') = cb_bytes (code s) @ (if frameSize s' = frameSize s then []
      else [0x48, 0x81, 0xEC] @ word_bytes bo 4 (word_of_int (frameSize s' - frameSize s) :: word32))"
proof -
  let ?c = "curStackSlot s + size_in_bytes kind" and ?a = "stackAlignment s"
  have a: "0 < ?a" "frameSize s mod ?a = 0" "0 \<le> ?c" using assms(1,3) by (simp_all add: frame_ok_def)
  obtain s' where s': "growFrame emitGrowStack (size_in_bytes kind) s = (Inr (), s')"
    using amd64_grow.growFrame_ok [OF assms] by simp
  note g = amd64_grow.growFrame_frame [OF assms s']
  have "wrap32 (- ?c) = - ?c" using a assms(4) by simp
  then have slot: "newStackSlot emitGrowStack kind s =
      (Inr \<lparr>slot_kind = TestValueKind kind, slot_offset = - ?c, slot_add_frame_size = True\<rparr>, s')"
    using s' g(3) by (simp add: newStackSlot_def bindc_Inr gets_apply)
  have "cb_bytes (code s') = cb_bytes (code s) @ (if frameSize s' = frameSize s then []
      else [0x48, 0x81, 0xEC] @ word_bytes bo 4 (word_of_int (frameSize s' - frameSize s) :: word32))"
  proof (cases "?c \<le> frameSize s")
    case True
    then have "s' = s\<lparr>curStackSlot := ?c\<rparr>" using amd64_grow.growFrame_ok [OF assms] s' by simp
    then show ?thesis by simp
  next
    case False
    let ?n = "round_up ?a ?c - frameSize s"
    have "s' = s\<lparr>curStackSlot := ?c, frameSize := round_up ?a ?c, code := emits (grow_emission ?n) (code s)\<rparr>"
      using amd64_grow.growFrame_ok [OF assms] s' False by simp
    moreover have "fits bo (grow_emission ?n) (code s)" using assms(2) by (simp add: fits_def grow_emission_def)
    moreover have "frameSize s < round_up ?a ?c" using False round_up_ge [OF a(1), of ?c] by simp
    ultimately show ?thesis by (simp add: fits_emits grow_emission_def)
  qed
  with slot g show ?thesis by (simp add: add.commute)
qed

lemma newStackSlot_frame_witness:
  "\<exists>slot s'. newStackSlot emitGrowStack QWORD (new_AMD64Assembler LittleEndian) = (Inr slot, s') \<and>
     slot_offset slot = -24 \<and> frameSize s' = 32 \<and> cb_bytes (code s') = [0x48, 0x81, 0xEC, 16, 0, 0, 0]"
  using newStackSlot_frame [of "new_AMD64Assembler LittleEndian" LittleEndian QWORD]
  by (auto simp: new_AMD64Assembler_def new_AssemblerBase_def frame_ok_def fits_def grow_emission_def
      QWORD_def round_up_def word_bytes_def)

end
