(* ===== verification/X86_Spec.thy ===== *)
theory X86_Spec
  imports Assembler_Base
begin

text \<open>
  What the assembler's output is measured against: the x86-64 instructions it means to
  emit, as documented by the comments in \<open>AMD64Assembler.java\<close> and the architecture manual.
  This theory models no code of the repository. It holds the instructions, their
  encoding, a decoder for them (and for the one other instruction that a misplaced prefix
  of the assembler produces), and a machine that executes them.
\<close>

section \<open>Instructions and their encoding\<close>

datatype x86 =
    Nop5                        \<comment> \<open>NOP DWORD ptr [EAX + EAX*1 + 00H]\<close>
  | Push register
  | Pop register
  | Mov bool register register  \<comment> \<open>MOV r64, r64 or MOV r32, r32\<close>
  | SubImm register word32      \<comment> \<open>SUB r64, imm32\<close>
  | MovImm64 register word64    \<comment> \<open>MOV r64, imm64\<close>
  | CallReg register            \<comment> \<open>CALL r64\<close>
  | CallRel word32              \<comment> \<open>CALL rel32\<close>
  | Ret
  | IncMem register byte        \<comment> \<open>INC DWORD ptr [r64 + disp8]\<close>

definition rex_prefix :: "bool \<Rightarrow> nat \<Rightarrow> nat \<Rightarrow> byte list" where
  "rex_prefix w r b =
     (let v = (if w then 8 else 0) + 4 * (r div 8) + b div 8 in
      if v = 0 then [] else [of_nat (0x40 + v)])"

definition modrm :: "nat \<Rightarrow> nat \<Rightarrow> nat \<Rightarrow> byte" where
  "modrm md r m = of_nat (64 * md + 8 * (r mod 8) + m mod 8)"

fun x86_bytes :: "x86 \<Rightarrow> byte list" where
  "x86_bytes Nop5 = [0x0F, 0x1F, 0x44, 0x00, 0x00]"
| "x86_bytes (Push r) = rex_prefix False 0 (encoding r) @ [of_nat (0x50 + encoding r mod 8)]"
| "x86_bytes (Pop r) = rex_prefix False 0 (encoding r) @ [of_nat (0x58 + encoding r mod 8)]"
| "x86_bytes (Mov w d s) =
     rex_prefix w (encoding d) (encoding s) @ [0x8B, modrm 3 (encoding d) (encoding s)]"
| "x86_bytes (SubImm r i) =
     rex_prefix True 0 (encoding r) @ [0x81, modrm 3 5 (encoding r)] @ le_bytes 4 i"
| "x86_bytes (MovImm64 r i) =
     rex_prefix True 0 (encoding r) @ [of_nat (0xB8 + encoding r mod 8)] @ le_bytes 8 i"
| "x86_bytes (CallReg r) = rex_prefix False 0 (encoding r) @ [0xFF, modrm 3 2 (encoding r)]"
| "x86_bytes (CallRel i) = 0xE8 # le_bytes 4 i"
| "x86_bytes Ret = [0xC3]"
| "x86_bytes (IncMem r d) = rex_prefix False 0 (encoding r) @ [0xFF, modrm 1 0 (encoding r), d]"

text \<open>The decoder: an optional REX prefix, then the opcode and its operands.\<close>

definition reg_of :: "bool \<Rightarrow> nat \<Rightarrow> register" where
  "reg_of ext n = all_registers ! ((if ext then 8 else 0) + n mod 8)"

definition imm :: "nat \<Rightarrow> ('a::len word \<Rightarrow> x86) \<Rightarrow> byte list \<Rightarrow> (x86 \<times> byte list) option" where
  "imm n f bs = (if length bs < n then None else Some (f (le_word (take n bs)), drop n bs))"

definition decode_op :: "bool \<Rightarrow> bool \<Rightarrow> bool \<Rightarrow> byte list \<Rightarrow> (x86 \<times> byte list) option" where
  "decode_op w r b bs =
     (case bs of [] \<Rightarrow> None
      | op # rest \<Rightarrow>
        (let n = unat op in
         if n div 8 = 0x50 div 8 then Some (Push (reg_of b n), rest)
         else if n div 8 = 0x58 div 8 then Some (Pop (reg_of b n), rest)
         else if n div 8 = 0xB8 div 8 \<and> w then imm 8 (MovImm64 (reg_of b n)) rest
         else if n = 0xC3 then Some (Ret, rest)
         else if n = 0xE8 then imm 4 CallRel rest
         else if n = 0x0F then
           (if take 4 rest = [0x1F, 0x44, 0, 0] then Some (Nop5, drop 4 rest) else None)
         else (case rest of [] \<Rightarrow> None
           | mm # rest \<Rightarrow>
             (let md = unat mm div 64; mreg = unat mm div 8 mod 8; rm = reg_of b (unat mm) in
              if n = 0x8B \<and> md = 3 then Some (Mov w (reg_of r mreg) rm, rest)
              else if n = 0x81 \<and> md = 3 \<and> mreg = 5 \<and> w then imm 4 (SubImm rm) rest
              else if n = 0xFF \<and> md = 3 \<and> mreg = 2 then Some (CallReg rm, rest)
              else if n = 0xFF \<and> md = 1 \<and> mreg = 0 \<and> unat mm mod 8 \<noteq> 4 then
                (case rest of [] \<Rightarrow> None | d # rest \<Rightarrow> Some (IncMem rm d, rest))
              else None))))"

definition x86_decode :: "byte list \<Rightarrow> (x86 \<times> byte list) option" where
  "x86_decode bs =
     (case bs of [] \<Rightarrow> None
      | p # rest \<Rightarrow>
        if unat p div 16 = 4
        then decode_op (odd (unat p div 8)) (odd (unat p div 4)) (odd (unat p)) rest
        else decode_op False False False bs)"

text \<open>\<open>INC [r + disp8]\<close> needs a base other than \<open>rsp\<close> and \<open>r12\<close>, whose encoding is an escape.\<close>

fun encodable :: "x86 \<Rightarrow> bool" where
  "encodable (IncMem r d) = (encoding r mod 8 \<noteq> 4)"
| "encodable _ = True"

lemma x86_decode_bytes: "encodable i \<Longrightarrow> x86_decode (x86_bytes i @ rest) = Some (i, rest)"
proof -
  note [simp] = x86_decode_def decode_op_def rex_prefix_def modrm_def reg_of_def imm_def Let_def all_registers_def
  have imm4: "le_word (le_bytes 4 i) = i" for i :: word32 by (rule le_word_le_bytes) simp
  have imm8: "le_word (le_bytes 8 i) = i" for i :: word64 by (rule le_word_le_bytes) simp
  assume enc: "encodable i"
  show ?thesis
  proof (cases i)
    case (Push r) then show ?thesis by (cases r) simp_all
  next
    case (Pop r) then show ?thesis by (cases r) simp_all
  next
    case (Mov w d s) then show ?thesis by (cases w; cases d; cases s) simp_all
  next
    case (SubImm r i) then show ?thesis by (cases r) (simp_all add: imm4 del: le_bytes_numeral)
  next
    case (MovImm64 r i) then show ?thesis by (cases r) (simp_all add: imm8 del: le_bytes_numeral)
  next
    case (CallReg r) then show ?thesis by (cases r) simp_all
  next
    case (CallRel i) then show ?thesis by (simp add: imm4 del: le_bytes_numeral)
  next
    case (IncMem r d) then show ?thesis using enc by (cases r) simp_all
  qed simp_all
qed

interpretation x86_code: item_code encodable x86_bytes x86_decode
proof
  show "x86_bytes i \<noteq> []" for i by (cases i) simp_all
qed (rule x86_decode_bytes)

section \<open>A machine\<close>

text \<open>
  The state the instructions act on: the general registers, the memory as eight-byte cells
  (every access below is eight bytes wide, at the stack pointer), and the address of the
  next instruction. Flags are left out: no instruction here reads them. A call enters code
  the repository does not hold, so what a called function does between its entry and the
  return to its caller is an argument of the machine.
\<close>

record machine =
  rg :: "register \<Rightarrow> word64"
  st :: "word64 \<Rightarrow> word64"
  pc :: word64

definition set_rg :: "register \<Rightarrow> word64 \<Rightarrow> machine \<Rightarrow> machine" where
  "set_rg r v m = m\<lparr>rg := (rg m)(r := v)\<rparr>"

definition push :: "word64 \<Rightarrow> machine \<Rightarrow> machine" where
  "push v m = m\<lparr>rg := (rg m)(rsp := rg m rsp - 8), st := (st m)(rg m rsp - 8 := v)\<rparr>"

type_synonym callees = "word64 \<Rightarrow> machine \<Rightarrow> machine"

fun exec :: "callees \<Rightarrow> x86 \<Rightarrow> word64 \<Rightarrow> machine \<Rightarrow> machine option" where
  "exec env Nop5 nxt m = Some (m\<lparr>pc := nxt\<rparr>)"
| "exec env (Push r) nxt m = Some (push (rg m r) (m\<lparr>pc := nxt\<rparr>))"
| "exec env (Pop r) nxt m =
     Some (set_rg r (st m (rg m rsp)) (set_rg rsp (rg m rsp + 8) (m\<lparr>pc := nxt\<rparr>)))"
| "exec env (Mov w d s) nxt m =
     Some (set_rg d (if w then rg m s else ucast (ucast (rg m s) :: word32)) (m\<lparr>pc := nxt\<rparr>))"
| "exec env (SubImm r i) nxt m = Some (set_rg r (rg m r - scast i) (m\<lparr>pc := nxt\<rparr>))"
| "exec env (MovImm64 r i) nxt m = Some (set_rg r i (m\<lparr>pc := nxt\<rparr>))"
| "exec env (CallReg r) nxt m =
     (let target = rg m r in Some (env target ((push nxt m)\<lparr>pc := target\<rparr>)))"
| "exec env (CallRel i) nxt m =
     (let target = nxt + scast i in Some (env target ((push nxt m)\<lparr>pc := target\<rparr>)))"
| "exec env Ret nxt m = Some (set_rg rsp (rg m rsp + 8) (m\<lparr>pc := st m (rg m rsp)\<rparr>))"
| "exec env (IncMem r d) nxt m = None"

text \<open>
  One step fetches at the instruction address, decodes and executes; a run makes at most
  the given number of steps and ends as soon as control is outside the code.
\<close>

definition step :: "callees \<Rightarrow> word64 \<Rightarrow> byte list \<Rightarrow> machine \<Rightarrow> machine option" where
  "step env base prog m =
     (case x86_decode (drop (unat (pc m - base)) prog) of
        None \<Rightarrow> None
      | Some (i, rest) \<Rightarrow> exec env i (base + of_nat (length prog - length rest)) m)"

fun run :: "callees \<Rightarrow> word64 \<Rightarrow> byte list \<Rightarrow> nat \<Rightarrow> machine \<Rightarrow> machine option" where
  "run env base prog n m =
     (if length prog \<le> unat (pc m - base) then Some m
      else case n of 0 \<Rightarrow> None
           | Suc n \<Rightarrow> (case step env base prog m of None \<Rightarrow> None | Some m' \<Rightarrow> run env base prog n m'))"

declare run.simps [simp del]

lemma run_outside: "length prog \<le> unat (pc m - base) \<Longrightarrow> run env base prog n m = Some m"
  by (simp add: run.simps)

lemma run_step:
  assumes "prog = pre @ x86_bytes i @ post" "encodable i" "length prog < 2 ^ 32"
    and "pc m = base + of_nat (length pre)"
  shows "run env base prog (Suc n) m =
    (case exec env i (base + of_nat (length pre + length (x86_bytes i))) m of
       None \<Rightarrow> None | Some m' \<Rightarrow> run env base prog n m')"
proof -
  have "x86_bytes i \<noteq> []" by (rule x86_code.encode_nonempty)
  then have "length pre < length prog" using assms(1) by simp
  moreover have off: "unat (pc m - base) = length pre"
    using assms(3,4) \<open>length pre < length prog\<close> by (simp add: unat_of_nat_id)
  moreover have "x86_decode (drop (length pre) prog) = Some (i, post)"
    using assms(1,2) by (simp add: x86_code.decode_encode)
  moreover have "length prog - length post = length pre + length (x86_bytes i)" using assms(1) by simp
  ultimately show ?thesis by (simp add: run.simps [of _ _ _ "Suc n"] step_def)
qed

text \<open>
  The C calling convention, as far as a caller of a function with up to four integer
  arguments sees it: entered at \<open>addr\<close> with an aligned stack, the function returns to the
  address on the stack, restores \<open>rsp\<close> and \<open>rbp\<close>, leaves the caller's frame (the \<open>n\<close> cells
  above the return address) alone, and leaves its 32-bit result in \<open>eax\<close>.
\<close>

type_synonym c_function = "word64 \<Rightarrow> word64 \<Rightarrow> word64 \<Rightarrow> word64 \<Rightarrow> word32"

definition c_call_ok :: "nat \<Rightarrow> callees \<Rightarrow> word64 \<Rightarrow> c_function \<Rightarrow> bool" where
  "c_call_ok n env addr f \<longleftrightarrow>
     (\<forall>m. pc m = addr \<and> rg m rsp mod 16 = 8 \<longrightarrow>
       (let m' = env addr m in
        pc m' = st m (rg m rsp) \<and> rg m' rsp = rg m rsp + 8 \<and> rg m' rbp = rg m rbp \<and>
        (\<forall>k. 1 \<le> k \<and> k \<le> n \<longrightarrow> st m' (rg m rsp + of_nat (8 * k)) = st m (rg m rsp + of_nat (8 * k))) \<and>
        ucast (rg m' rax) = f (rg m rdi) (rg m rsi) (rg m rdx) (rg m rcx)))"

end
