(* ===== verification/Asm_Injector.thy ===== *)
theory Asm_Injector
  imports Amd64_Assembler X86_Spec
begin

text \<open>
  \<open>jvmci/AsmInjector.java\<close>: the native-call trampoline it assembles and the installation of
  that code as a method's default code. The bytes are measured against \<open>X86_Spec\<close>: they are
  the encoding of one instruction sequence, and running it calls the function and returns
  its result to the Java caller.
\<close>

section \<open>The virtual machine interface\<close>

text \<open>
  The JVMCI operations the injector calls, as arguments: \<open>'m\<close> are reflected methods, \<open>'r\<close>
  resolved ones, \<open>'v\<close> is the state of the virtual machine and \<open>'i\<close> an installed code.
\<close>

datatype java_kind = JInt

record ('m, 'r, 'v, 'i) jvmci =
  lookupJavaMethod :: "'m \<Rightarrow> 'r"
  setNotInlinableOrCompilable :: "'r \<Rightarrow> 'v \<Rightarrow> 'v"
  allocateCompileId :: "'r \<Rightarrow> int \<Rightarrow> 'v \<Rightarrow> int \<times> 'v"
  getName :: "'r \<Rightarrow> string"
  getReturnRegister :: "java_kind \<Rightarrow> register"
  setDefaultCode :: "'r \<Rightarrow> 'r compiled_nmethod \<Rightarrow> ('v, java_exn, 'i) comp"
  vm_config :: vm_config

definition new_AsmInjector :: "byte_order \<Rightarrow> asm_state" where
  "new_AsmInjector nativeOrder = new_AMD64Assembler nativeOrder"

definition getReturnReg :: "('m, 'r, 'v, 'i) jvmci \<Rightarrow> java_kind \<Rightarrow> register" where
  "getReturnReg J k = getReturnRegister J k"

definition injectFuncAddr ::
  "('m, 'r, 'v, 'i) jvmci \<Rightarrow> word64 \<Rightarrow> 'm \<Rightarrow> (asm_state \<times> 'v, java_exn, 'i) comp" where
  "injectFuncAddr J addr m = (\<lambda>(s, v).
     let resolvedMethod = lookupJavaMethod J m;
         v = setNotInlinableOrCompilable J resolvedMethod v
     in case seqc [emitPrologue, emitCall addr, emitIntRet (getReturnReg J JInt),
                   emitEpilogue (vm_config J)] s of
          (Inl e, s) \<Rightarrow> (Inl e, (s, v))
        | (Inr _, s) \<Rightarrow>
            (case asm_finish (allocateCompileId J) (getName J) resolvedMethod s v of
               (Inl e, v) \<Rightarrow> (Inl e, (s, v))
             | (Inr c, v) \<Rightarrow>
                 (case setDefaultCode J resolvedMethod c v of (r, v) \<Rightarrow> (r, (s, v)))))"

section \<open>The assembled trampoline\<close>

definition epilogue_emission :: "emission list" where
  "epilogue_emission = [EByte 0xE8, EInt 0xDEADDEAD]"

definition ret_emission :: "register \<Rightarrow> emission list" where
  "ret_emission a = move_emission False rax a @ move_emission True rsp rbp @
     [EByte (0x58 OR enc rbp), EByte 0xC3]"

definition body_emission :: "asm_state \<Rightarrow> register \<Rightarrow> word64 \<Rightarrow> register \<Rightarrow> emission list" where
  "body_emission s target addr a = prologue_emission s @
     (load_emission target addr @ call_emission target) @ ret_emission a"

lemma emitEpilogue_ok:
  "fits bo epilogue_emission (code s) \<Longrightarrow> emitEpilogue config s = (Inr (),
     s\<lparr>sites := sites s @ [Mark (cb_position (code s)) (MARKID_DEOPT_HANDLER_ENTRY config),
         Call (handleDeoptStub config) (cb_position (code s)) 5 True None],
       code := emits epilogue_emission (code s)\<rparr>)"
  using asm_emit_ok [of bo epilogue_emission "s\<lparr>sites := sites s @ [
      Mark (cb_position (code s)) (MARKID_DEOPT_HANDLER_ENTRY config),
      Call (handleDeoptStub config) (cb_position (code s)) 5 True None]\<rparr>"]
  by (simp add: emitEpilogue_def on_code_emit recordMark_def recordCall_def epilogue_emission_def
      bindc_Inr modify_apply asm_emit_Nil asm_emit_append seqc_asm_emit)

text \<open>
  The four emission calls of \<open>injectFuncAddr\<close> in one step, from any state with a register
  left and a frame and buffer within bounds.
\<close>

lemma assemble_ok:
  assumes frame: "frame_ok s" "curStackSlot s + 8 < 2 ^ 29"
    and reg: "0 \<le> nextRegister s" "nextRegister s < int (length (registers s))" "nextRegister s < 2 ^ 30"
    and target: "target = registers s ! nat (nextRegister s)"
    and fits: "fits bo (body_emission s target addr a @ epilogue_emission) (code s)"
  defines "body \<equiv> emits (body_emission s target addr a) (code s)"
  shows "seqc [emitPrologue, emitCall addr, emitIntRet a, emitEpilogue config] s = (Inr (),
    s\<lparr>code := emits epilogue_emission body,
      sites := sites s @ [Mark (cb_position body) (MARKID_DEOPT_HANDLER_ENTRY config),
                          Call (handleDeoptStub config) (cb_position body) 5 True None],
      frameSize := slot_frame s, curStackSlot := curStackSlot s + 8,
      deoptRescue := Some (deopt_slot s), nextRegister := nextRegister s + 1\<rparr>)"
proof -
  define p c r where "p = prologue_emission s" and "c = load_emission target addr @ call_emission target"
    and "r = ret_emission a"
  have be: "body_emission s target addr a = p @ c @ r" by (simp add: body_emission_def p_def c_def r_def)
  note FB = fits_append [OF fits]
  note F1 = fits_append [OF FB(1) [unfolded be]]
  note F2 = fits_append [OF F1(2)]
  define s1 where "s1 = s\<lparr>code := emits p (code s), frameSize := slot_frame s,
    curStackSlot := curStackSlot s + 8, deoptRescue := Some (deopt_slot s)\<rparr>"
  define s2 where "s2 = s1\<lparr>nextRegister := nextRegister s + 1\<rparr>"
  have 1: "emitPrologue s = (Inr (), s1)"
    using emitPrologue_ok [OF frame F1(1) [unfolded p_def]] by (simp add: s1_def p_def)
  have "newRegister s1 = (Inr target, s2)"
    using reg by (simp add: newRegister_def Let_def s1_def s2_def target)
  then have 2: "emitCall addr s1 = (Inr (), s2\<lparr>code := emits c (code s2)\<rparr>)"
    using asm_emit_ok [of bo c s2] F2(1)
    by (simp add: emitCall_code bindc_Inr c_def s2_def s1_def)
  have 3: "emitIntRet a (s2\<lparr>code := emits c (code s2)\<rparr>) =
      (Inr (), s2\<lparr>code := emits r (emits c (code s2))\<rparr>)"
    using asm_emit_ok [of bo r "s2\<lparr>code := emits c (code s2)\<rparr>"] F2(2)
    by (simp add: emitIntRet_code r_def ret_emission_def s2_def s1_def)
  have b: "emits r (emits c (code s2)) = body"
    by (simp add: body_def be F1(3) F2(3) s2_def s1_def)
  have 4: "emitEpilogue config (s2\<lparr>code := body\<rparr>) = (Inr (), (s2\<lparr>code := body\<rparr>)
    \<lparr>sites := sites s @ [Mark (cb_position body) (MARKID_DEOPT_HANDLER_ENTRY config),
        Call (handleDeoptStub config) (cb_position body) 5 True None],
     code := emits epilogue_emission body\<rparr>)"
    using emitEpilogue_ok [of bo "s2\<lparr>code := body\<rparr>" config] FB(2) by (simp add: body_def s2_def s1_def)
  show ?thesis using 1 2 3 4 by (simp add: bindc_Inr b ret_apply) (simp add: s2_def s1_def)
qed

section \<open>The emitted bytes as instructions\<close>

definition code_of :: "emission list \<Rightarrow> byte list" where
  "code_of es = concat (map (emission_bytes LittleEndian) es)"

lemma code_of_simps [simp]:
  "code_of [] = []" "code_of (es @ fs) = code_of es @ code_of fs"
  "code_of (e # es) = emission_bytes LittleEndian e @ code_of es"
  by (simp_all add: code_of_def)

lemma move_code: "code_of (move_emission w d q) = (if d = q then [] else x86_bytes (Mov w d q))"
  by (cases w; cases d; cases q)
    (simp_all add: move_emission_def rex_emission_def rex_bits_def enc_def rex_prefix_def modrm_def)

lemma load_code: "code_of (load_emission r c) = x86_bytes (MovImm64 r c)"
  by (cases r)
    (simp_all add: load_emission_def rex_emission_def rex_bits_def enc_def rex_prefix_def del: le_bytes_numeral)

lemma call_code_low: "encoding r < 8 \<Longrightarrow> code_of (call_emission r) = x86_bytes (CallReg r)"
  by (cases r) (simp_all add: call_emission_def enc_def rex_prefix_def modrm_def)

lemma call_code_high:
  "8 \<le> encoding r \<Longrightarrow> code_of (call_emission r) = x86_bytes (IncMem rcx (of_nat (0xC8 + encoding r)))"
  by (cases r) (simp_all add: call_emission_def enc_def rex_prefix_def modrm_def)

lemma grow_code: "code_of (grow_emission n) = x86_bytes (SubImm rsp (word_of_int n))"
  by (simp add: grow_emission_def rex_prefix_def modrm_def)

lemma ret_code:
  "code_of (ret_emission a) = (if a = rax then [] else x86_bytes (Mov False rax a)) @
     x86_bytes (Mov True rsp rbp) @ x86_bytes (Pop rbp) @ x86_bytes Ret"
  by (simp add: ret_emission_def move_code) (simp add: enc_def rex_prefix_def)

lemma epilogue_code: "code_of epilogue_emission = x86_bytes (CallRel 0xDEADDEAD)"
  by (simp add: epilogue_emission_def)

lemma prologue_code:
  "code_of (prologue_emission s) = x86_bytes Nop5 @ x86_bytes (Push rbp) @ x86_bytes (Mov True rbp rsp) @
     (if curStackSlot s + 8 \<le> frameSize s then []
      else x86_bytes (SubImm rsp (word_of_int (slot_frame s - frameSize s))))"
  by (simp add: prologue_emission_def move_code grow_code) (simp add: enc_def rex_prefix_def)

section \<open>Running the trampoline\<close>

text \<open>The instructions of the trampoline that a fresh injector assembles.\<close>

definition trampoline_body :: "word64 \<Rightarrow> x86 list" where
  "trampoline_body addr =
     [Nop5, Push rbp, Mov True rbp rsp, SubImm rsp 16, MovImm64 rax addr, CallReg rax,
      Mov True rsp rbp, Pop rbp, Ret]"

text \<open>Then the deoptimisation handler, a call whose offset the virtual machine patches.\<close>

definition trampoline :: "word64 \<Rightarrow> x86 list" where
  "trampoline addr = trampoline_body addr @ [CallRel 0xDEADDEAD]"

definition assemble :: "x86 list \<Rightarrow> byte list" where
  "assemble is = concat (map x86_bytes is)"

lemma assemble_simps [simp]:
  "assemble [] = []" "assemble (i # is) = x86_bytes i @ assemble is"
  "assemble (is @ js) = assemble is @ assemble js"
  by (simp_all add: assemble_def)

text \<open>One step at the \<open>k\<close>-th instruction of an assembled sequence, the rest of the code unseen.\<close>

lemma run_nth:
  assumes prog: "prog = assemble is @ post" "length prog < 2 ^ 32"
    and k: "k < length is" "encodable (is ! k)" "pc m = base + of_nat (length (assemble (take k is)))"
  shows "run env base prog (Suc n) m =
    (case exec env (is ! k) (base + of_nat (length (assemble (take (Suc k) is)))) m of
       None \<Rightarrow> None | Some m' \<Rightarrow> run env base prog n m')"
proof -
  have "is = take k is @ is ! k # drop (Suc k) is" using k(1) by (rule id_take_nth_drop)
  then have "prog = assemble (take k is) @ x86_bytes (is ! k) @ assemble (drop (Suc k) is) @ post"
    using prog(1) by (metis append.assoc assemble_simps(2,3))
  from run_step [OF this k(2) prog(2) k(3), of env n] show ?thesis
    using k(1) by (simp add: take_Suc_conv_app_nth)
qed

lemma trampoline_sizes:
  assumes "k \<le> 9"
  shows "length (assemble (take k (trampoline_body addr))) = [0, 5, 6, 9, 16, 26, 28, 31, 32, 33] ! k"
proof -
  have "\<forall>k\<in>set [0..<10]. length (assemble (take k (trampoline_body addr))) =
      [0, 5, 6, 9, 16, 26, 28, 31, 32, 33] ! k"
    by (simp add: upt_rec trampoline_body_def rex_prefix_def)
  moreover have "k \<in> set [0..<10]" using assms by simp
  ultimately show ?thesis by (rule bspec)
qed

lemma run_trampoline:
  assumes prog: "prog = assemble (trampoline_body addr) @ post" "length prog < 2 ^ 32"
    and k: "k < 9" "pc m = base + of_nat ([0, 5, 6, 9, 16, 26, 28, 31, 32, 33] ! k)"
  shows "run env base prog (Suc n) m =
    (case exec env (trampoline_body addr ! k) (base + of_nat ([0, 5, 6, 9, 16, 26, 28, 31, 32, 33] ! Suc k)) m of
       None \<Rightarrow> None | Some m' \<Rightarrow> run env base prog n m')"
proof -
  have "encodable i" if "i \<in> set (trampoline_body addr)" for i using that by (auto simp: trampoline_body_def)
  moreover have "length (trampoline_body addr) = 9" by (simp add: trampoline_body_def)
  ultimately show ?thesis
    using run_nth [OF prog, of k m base env n] k trampoline_sizes [of k addr] trampoline_sizes [of "Suc k" addr]
    by simp
qed

text \<open>
  The machine states around the call: at the callee's entry, in terms of the trampoline's
  entry state, and after the return, in terms of the state the callee leaves.
\<close>

definition at_call :: "word64 \<Rightarrow> word64 \<Rightarrow> machine \<Rightarrow> machine" where
  "at_call base addr m = (let sp = rg m rsp in
     m\<lparr>rg := (rg m)(rbp := sp - 8, rax := addr, rsp := sp - 32),
       st := (st m)(sp - 8 := rg m rbp, sp - 32 := base + 28), pc := addr\<rparr>)"

lemma run_to_call:
  assumes prog: "prog = assemble (trampoline_body addr) @ post" "length prog < 2 ^ 32" and m: "pc m = base"
  shows "run env base prog (Suc (Suc (Suc (Suc (Suc (Suc n)))))) m =
    run env base prog n (env addr (at_call base addr m))"
  using m
  by (simp add: run_trampoline [OF prog, of 0] run_trampoline [OF prog, of 1] run_trampoline [OF prog, of 2]
      run_trampoline [OF prog, of 3] run_trampoline [OF prog, of 4] run_trampoline [OF prog, of 5]
      trampoline_body_def push_def set_rg_def at_call_def Let_def)

lemma run_after_call:
  assumes prog: "prog = assemble (trampoline_body addr) @ post" "length prog < 2 ^ 32"
    and m: "pc m = base + 28"
    and out: "length prog \<le> unat (st m (rg m rbp + 8) - base)"
  shows "run env base prog (Suc (Suc (Suc n))) m =
    Some (m\<lparr>rg := (rg m)(rbp := st m (rg m rbp), rsp := rg m rbp + 16), pc := st m (rg m rbp + 8)\<rparr>)"
  using m out
  by (simp add: run_trampoline [OF prog, of 6] run_trampoline [OF prog, of 7] run_trampoline [OF prog, of 8]
      trampoline_body_def set_rg_def run_outside add.commute)

lemma aligned_minus_32:
  assumes "(x :: word64) mod 16 = 8"
  shows "(x - 32) mod 16 = 8"
proof -
  have "uint (x - 32) mod 16 = (uint x - 32) mod 2 ^ 64 mod 16" by (simp add: uint_word_ariths)
  also have "\<dots> = (uint x - 32) mod 16" by (rule mod_mod_cancel) simp
  also have "\<dots> = uint x mod 16" by presburger
  also have "\<dots> = uint (8 :: word64)" using arg_cong [OF assms, of uint] by (simp add: uint_mod)
  finally show ?thesis by (simp add: word_uint_eq_iff uint_mod)
qed

lemma trampoline_runs:
  assumes prog: "prog = assemble (trampoline_body addr) @ post" "length prog < 2 ^ 32"
    and m: "pc m = base" "rg m rsp mod 16 = 8"
    and callee: "c_call_ok 4 env addr f"
    and out: "length prog \<le> unat (st m (rg m rsp) - base)"
  shows "\<exists>m'. run env base prog (9 + n) m = Some m' \<and> pc m' = st m (rg m rsp) \<and>
    rg m' rsp = rg m rsp + 8 \<and> rg m' rbp = rg m rbp \<and>
    ucast (rg m' rax) = f (rg m rdi) (rg m rsi) (rg m rdx) (rg m rcx)"
proof -
  define c where "c = at_call base addr m"
  define d where "d = env addr c"
  have c: "pc c = addr" "rg c rsp = rg m rsp - 32" "rg c rbp = rg m rsp - 8" "st c (rg c rsp) = base + 28"
    "st c (rg m rsp - 8) = rg m rbp" "st c (rg m rsp) = st m (rg m rsp)"
    "rg c rdi = rg m rdi" "rg c rsi = rg m rsi" "rg c rdx = rg m rdx" "rg c rcx = rg m rcx"
    by (simp_all add: c_def at_call_def Let_def)
  have "pc c = addr \<and> rg c rsp mod 16 = 8" using c aligned_minus_32 [OF m(2)] by simp
  note call = callee [unfolded c_call_ok_def Let_def, rule_format, OF this, folded d_def]
  have ok: "pc d = base + 28" "rg d rbp = rg m rsp - 8"
    "ucast (rg d rax) = f (rg m rdi) (rg m rsi) (rg m rdx) (rg m rcx)"
    using call c by simp_all
  have cells: "st d (rg c rsp + of_nat (8 * k)) = st c (rg c rsp + of_nat (8 * k))" if "1 \<le> k" "k \<le> 4" for k
    using call that by blast
  have saved: "st d (rg m rsp - 8) = rg m rbp" "st d (rg m rsp) = st m (rg m rsp)"
    using cells [of 3] cells [of 4] c by simp_all
  have "9 + n = Suc (Suc (Suc (Suc (Suc (Suc (Suc (Suc (Suc n))))))))" by simp
  then have "run env base prog (9 + n) m = run env base prog (Suc (Suc (Suc n))) d"
    using run_to_call [OF prog m(1), of env "Suc (Suc (Suc n))"]
    by (simp only: d_def c_def)
  also have "\<dots> = Some (d\<lparr>rg := (rg d)(rbp := rg m rbp, rsp := rg m rsp + 8), pc := st m (rg m rsp)\<rparr>)"
    using run_after_call [OF prog, of d base env n] ok saved out by (simp add: add.commute)
  finally show ?thesis using ok(3) by auto
qed

end
