(* ===== verification/Native_Call.thy ===== *)
theory Native_Call
  imports Asm_Injector
begin

text \<open>
  What the assembler and the injector promise, in terms of instructions: every emitter
  appends the encoding of the instruction its name and comments give (with one exception,
  a call through an extended register), \<open>injectFuncAddr\<close> installs one fixed sequence, and
  running that sequence calls the native function and returns its result.
\<close>

section \<open>The emitters\<close>

text \<open>An emitter that is one sequence of emissions appends the bytes of that sequence.\<close>

definition ready :: "asm_state \<Rightarrow> nat \<Rightarrow> bool" where
  "ready s n \<longleftrightarrow> cb_ok LittleEndian (code s) \<and> length (cb_bytes (code s)) + n < 2 ^ 29"

lemma asm_emit_bytes:
  assumes "ready s n" "length (code_of es) \<le> n"
  obtains cb where "asm_emit es s = (Inr (), s\<lparr>code := cb\<rparr>)" "cb_ok LittleEndian cb"
    "cb_bytes cb = cb_bytes (code s) @ code_of es"
proof -
  have f: "fits LittleEndian es (code s)" using assms by (simp add: ready_def fits_def code_of_def)
  show thesis using asm_emit_ok [OF f] fits_emits [OF f] that [of "emits es (code s)"]
    by (simp add: code_of_def)
qed

lemma length_x86_bytes: "length (x86_bytes i) \<le> 10"
  by (cases i) (simp_all add: rex_prefix_def Let_def)

declare x86_bytes.simps [simp del]

text \<open>C27: \<open>emitMove\<close> appends the encoding of \<open>MOV to, from\<close> at the requested width, for every
  pair of registers, and nothing when the two are the same; it changes nothing but the code.\<close>

theorem emitMove_encodes:
  assumes "ready s 10"
  shows "\<exists>cb. emitMove w to from s = (Inr (), s\<lparr>code := cb\<rparr>) \<and> cb_ok LittleEndian cb \<and>
    cb_bytes cb = cb_bytes (code s) @ (if to = from then [] else x86_bytes (Mov w to from))"
proof -
  have "length (code_of (move_emission w to from)) \<le> 10"
    using length_x86_bytes by (simp add: move_code)
  from assms this obtain cb where "asm_emit (move_emission w to from) s = (Inr (), s\<lparr>code := cb\<rparr>)"
      "cb_ok LittleEndian cb" "cb_bytes cb = cb_bytes (code s) @ code_of (move_emission w to from)"
    by (rule asm_emit_bytes)
  then show ?thesis by (auto simp: emitMove_code move_code)
qed

lemma emitMove_encodes_witness:
  "\<exists>cb. emitMove True r9 rax (new_AMD64Assembler LittleEndian) =
     (Inr (), (new_AMD64Assembler LittleEndian)\<lparr>code := cb\<rparr>) \<and> cb_bytes cb = [0x4C, 0x8B, 0xC8]"
  using emitMove_encodes [of "new_AMD64Assembler LittleEndian" True r9 rax]
  by (auto simp: ready_def new_AMD64Assembler_def new_AssemblerBase_def x86_bytes.simps rex_prefix_def modrm_def)

text \<open>C28: \<open>emitLoadLong\<close> takes the next free register of the assembler, appends
  \<open>MOV r64, imm64\<close> for it, and returns it; once the registers are used up it throws
  ArrayIndexOutOfBoundsException and emits nothing.\<close>

theorem emitLoadLong_encodes:
  assumes "ready s 10" "0 \<le> nextRegister s" "nextRegister s < 2 ^ 30"
  shows "if nextRegister s < int (length (registers s))
    then (let r = registers s ! nat (nextRegister s) in
      \<exists>cb. emitLoadLong c s = (Inr r, s\<lparr>nextRegister := nextRegister s + 1, code := cb\<rparr>) \<and>
        cb_bytes cb = cb_bytes (code s) @ x86_bytes (MovImm64 r c))
    else emitLoadLong c s =
      (Inl ArrayIndexOutOfBoundsException, s\<lparr>nextRegister := nextRegister s + 1\<rparr>)"
proof (cases "nextRegister s < int (length (registers s))")
  case True
  define r t where "r = registers s ! nat (nextRegister s)" and "t = s\<lparr>nextRegister := nextRegister s + 1\<rparr>"
  have "newRegister s = (Inr r, t)" using assms True by (simp add: newRegister_def r_def t_def Let_def)
  moreover have "ready t 10" using assms by (simp add: ready_def t_def)
  then obtain cb where "asm_emit (load_emission r c) t = (Inr (), t\<lparr>code := cb\<rparr>)"
      "cb_bytes cb = cb_bytes (code t) @ x86_bytes (MovImm64 r c)"
    using asm_emit_bytes [of t 10 "load_emission r c"] length_x86_bytes by (auto simp: load_code)
  ultimately show ?thesis using True
    by (auto simp: emitLoadLong_def emitLoadLong_to_code bindc_Inr ret_apply r_def t_def)
next
  case False
  then show ?thesis using assms by (simp add: emitLoadLong_def newRegister_def Let_def bindc_Inl)
qed

lemma emitLoadLong_encodes_witness:
  "\<exists>cb. emitLoadLong 0x1122 (new_AMD64Assembler LittleEndian) =
     (Inr rax, (new_AMD64Assembler LittleEndian)\<lparr>nextRegister := 1, code := cb\<rparr>) \<and>
     cb_bytes cb = [0x48, 0xB8, 0x22, 0x11, 0, 0, 0, 0, 0, 0]"
proof -
  let ?s = "new_AMD64Assembler LittleEndian"
  have "x86_bytes (MovImm64 rax 0x1122) = [0x48, 0xB8, 0x22, 0x11, 0, 0, 0, 0, 0, 0]" by code_simp
  moreover have "ready ?s 10" "nextRegister ?s = 0" "registers ?s = [rax, rcx, rdi, r8, r9, r10]"
      "cb_bytes (code ?s) = []"
    by (simp_all add: ready_def new_AMD64Assembler_def new_AssemblerBase_def)
  ultimately show ?thesis using emitLoadLong_encodes [of ?s "0x1122"] by (simp add: Let_def)
qed

text \<open>C14: \<open>emitCall\<close> appends the load of the address into the next free register and then, if
  that register is one of the first eight, the call through it. For an extended register
  the REX prefix is emitted after the opcode, and what the processor decodes instead of a
  call is an increment of the memory cell at \<open>rcx + 0xC8 + encoding\<close>: the assembler's own
  register list reaches this case at the fourth call.\<close>

theorem emitCall_decodes:
  assumes "ready s 13" "0 \<le> nextRegister s" "nextRegister s < int (length (registers s))" "nextRegister s < 2 ^ 30"
    and "r = registers s ! nat (nextRegister s)"
  shows "\<exists>cb bs. emitCall addr s = (Inr (), s\<lparr>nextRegister := nextRegister s + 1, code := cb\<rparr>) \<and>
    cb_bytes cb = cb_bytes (code s) @ bs \<and>
    decode_all x86_decode 2 bs =
      Some [MovImm64 r addr, if encoding r < 8 then CallReg r else IncMem rcx (of_nat (0xC8 + encoding r))]"
proof -
  define t where "t = s\<lparr>nextRegister := nextRegister s + 1\<rparr>"
  define i where "i = (if encoding r < 8 then CallReg r else IncMem rcx (of_nat (0xC8 + encoding r)))"
  have bs: "code_of (load_emission r addr @ call_emission r) = concat (map x86_bytes [MovImm64 r addr, i])"
    by (simp add: i_def load_code call_code_low call_code_high)
  have "length (x86_bytes i) \<le> 3" by (simp add: i_def x86_bytes.simps rex_prefix_def Let_def)
  then have len: "length (code_of (load_emission r addr @ call_emission r)) \<le> 13"
    using length_x86_bytes [of "MovImm64 r addr"] by (simp only: bs) simp
  have "newRegister s = (Inr r, t)" using assms by (simp add: newRegister_def t_def Let_def)
  moreover have "ready t 13" using assms by (simp add: ready_def t_def)
  then obtain cb where "asm_emit (load_emission r addr @ call_emission r) t = (Inr (), t\<lparr>code := cb\<rparr>)"
      "cb_bytes cb = cb_bytes (code t) @ code_of (load_emission r addr @ call_emission r)"
    using asm_emit_bytes [of t 13, OF _ len] by blast
  ultimately have "emitCall addr s = (Inr (), t\<lparr>code := cb\<rparr>)"
    "cb_bytes cb = cb_bytes (code s) @ concat (map x86_bytes [MovImm64 r addr, i])"
    by (simp_all only: bs [symmetric]) (simp_all add: emitCall_code bindc_Inr t_def)
  moreover have "decode_all x86_decode 2 (concat (map x86_bytes [MovImm64 r addr, i])) = Some [MovImm64 r addr, i]"
    by (rule x86_code.decode_all_encode) (simp_all add: i_def)
  ultimately show ?thesis unfolding i_def t_def by auto
qed

lemma emitCall_decodes_witness:
  "\<exists>cb bs. emitCall 0x1000 ((new_AMD64Assembler LittleEndian)\<lparr>nextRegister := 3\<rparr>) =
       (Inr (), (new_AMD64Assembler LittleEndian)\<lparr>nextRegister := 4, code := cb\<rparr>) \<and>
     cb_bytes cb = bs \<and> decode_all x86_decode 2 bs = Some [MovImm64 r8 0x1000, IncMem rcx 0xD0]"
  using emitCall_decodes [of "(new_AMD64Assembler LittleEndian)\<lparr>nextRegister := 3\<rparr>" r8 "0x1000"]
  by (simp add: ready_def new_AMD64Assembler_def new_AssemblerBase_def)


section \<open>The injection\<close>

text \<open>
  The compiled method that the injector hands to the code cache, and the state it leaves
  the assembler in, for any state of the assembler within bounds.
\<close>

definition injection :: "asm_state \<Rightarrow> word64 \<Rightarrow> register \<Rightarrow> emission list" where
  "injection s addr a = body_emission s (registers s ! nat (nextRegister s)) addr a"

definition injected :: "vm_config \<Rightarrow> asm_state \<Rightarrow> word64 \<Rightarrow> register \<Rightarrow> asm_state" where
  "injected config s addr a = (let body = emits (injection s addr a) (code s) in
     s\<lparr>code := emits epilogue_emission body,
       sites := sites s @ [Mark (cb_position body) (MARKID_DEOPT_HANDLER_ENTRY config),
                           Call (handleDeoptStub config) (cb_position body) 5 True None],
       frameSize := slot_frame s, curStackSlot := curStackSlot s + 8,
       deoptRescue := Some (deopt_slot s), nextRegister := nextRegister s + 1\<rparr>)"

definition nmethod_of :: "string \<Rightarrow> 'r \<Rightarrow> int \<Rightarrow> byte list \<Rightarrow> site list \<Rightarrow> int \<Rightarrow> stack_slot \<Rightarrow> 'r compiled_nmethod" where
  "nmethod_of name r i bytes ss frame slot =
     \<lparr>nm_name = name, nm_targetCode = bytes, nm_targetCodeSize = int (length bytes), nm_sites = ss,
      nm_assumptions = [], nm_methods = [r], nm_comments = [], nm_dataSection = [],
      nm_dataSectionAlignment = 16, nm_dataSectionPatches = [], nm_isImmutablePIC = False,
      nm_totalFrameSize = frame, nm_deoptRescueSlot = Some slot, nm_method = r,
      nm_entryBCI = -1, nm_id = i, nm_jvmciEnv = 0, nm_hasUnsafeAccess = False\<rparr>"

lemma cb_finish_ok: "cb_ok bo cb \<Longrightarrow> cb_finish cb = Inr (cb_bytes cb)"
  by (metis cb_okE finish_cb_of)

definition injectable :: "asm_state \<Rightarrow> bool" where
  "injectable s \<longleftrightarrow> frame_ok s \<and> curStackSlot s + 8 < 2 ^ 29 \<and> 0 \<le> nextRegister s \<and>
     nextRegister s < int (length (registers s)) \<and> nextRegister s < 2 ^ 30 \<and> dataPatches s = [] \<and>
     data s = new_CodeBuffer LittleEndian"

lemma injectFuncAddr_ok:
  assumes s: "injectable s" and ready: "ready s (length (code_of (injection s addr a @ epilogue_emission)))"
    and a: "getReturnRegister J JInt = a"
  shows "injectFuncAddr J addr m (s, v) =
    (let r = lookupJavaMethod J m;
         (i, v1) = allocateCompileId J r 0 (setNotInlinableOrCompilable J r v);
         s1 = injected (vm_config J) s addr a;
         nm = nmethod_of (getName J r) r i (cb_bytes (code s) @ code_of (injection s addr a @ epilogue_emission))
                (sites s1) (slot_frame s) (deopt_slot s);
         (res, v2) = setDefaultCode J r nm v1
     in (res, (s1, v2)))"
proof -
  let ?s1 = "injected (vm_config J) s addr a"
  have fits: "fits LittleEndian (injection s addr a @ epilogue_emission) (code s)"
    using ready by (simp add: ready_def fits_def code_of_def)
  have asm: "seqc [emitPrologue, emitCall addr, emitIntRet a, emitEpilogue (vm_config J)] s = (Inr (), ?s1)"
    using assemble_ok [of s "registers s ! nat (nextRegister s)" LittleEndian addr a "vm_config J"] s fits
    by (simp add: injectable_def injection_def injected_def Let_def)
  note F = fits_append [OF fits]
  have cs1: "code ?s1 = emits (injection s addr a @ epilogue_emission) (code s)"
    by (simp add: injected_def Let_def F(3))
  have fin: "cb_finish (code ?s1) = Inr (cb_bytes (code s) @ code_of (injection s addr a @ epilogue_emission))"
    using fits_emits [OF fits] by (simp add: cs1 cb_finish_ok code_of_def)
  have rest: "data ?s1 = new_CodeBuffer LittleEndian" "dataPatches ?s1 = []" "frameSize ?s1 = slot_frame s"
    "deoptRescue ?s1 = Some (deopt_slot s)"
    using s by (simp_all add: injectable_def injected_def Let_def)
  have "cb_finish (data ?s1) = Inr []" using cb_finish_ok [OF cb_ok_new] by (simp add: rest)
  then show ?thesis using asm fin
    by (simp add: injectFuncAddr_def getReturnReg_def a asm_finish_def rest nmethod_of_def Let_def
        split: prod.splits sum.splits)
qed

text \<open>The sites a trampoline of \<open>n\<close> bytes records: the handler's mark and its call to the stub.\<close>

definition handler_sites :: "vm_config \<Rightarrow> int \<Rightarrow> site list" where
  "handler_sites config n =
     [Mark n (MARKID_DEOPT_HANDLER_ENTRY config), Call (handleDeoptStub config) n 5 True None]"

lemma fresh_injection:
  "code_of (injection (new_AMD64Assembler bo) addr rax) = assemble (trampoline_body addr)"
  by (simp add: injection_def body_emission_def prologue_code load_code call_code_low ret_code
      new_AMD64Assembler_def new_AssemblerBase_def slot_frame_def round_up_def trampoline_body_def)

lemma length_trampoline_body: "length (assemble (trampoline_body addr)) = 33"
  using trampoline_sizes [of 9 addr] by (simp add: trampoline_body_def)

lemma fresh_trampoline:
  "code_of (injection (new_AMD64Assembler bo) addr rax @ epilogue_emission) = assemble (trampoline addr)"
  by (simp add: fresh_injection epilogue_code trampoline_def)

lemma injectable_fresh: "injectable (new_AMD64Assembler LittleEndian)"
  by (simp add: injectable_def frame_ok_def new_AMD64Assembler_def new_AssemblerBase_def)

lemma ready_fresh: "n < 2 ^ 29 \<Longrightarrow> ready (new_AMD64Assembler LittleEndian) n"
  by (simp add: ready_def new_AMD64Assembler_def new_AssemblerBase_def)

text \<open>C7: what a new injector installs for an address: it marks the method as neither
  inlinable nor compilable, allocates one compile id, and sets as default code the method
  whose code is the 38 bytes of the trampoline for this address, with the deoptimisation
  handler marked and its call site recorded at offset 33, a frame of 32 bytes, the rescue
  slot at offset -24 and an empty data section.\<close>

theorem injectFuncAddr_fresh:
  assumes "getReturnRegister J JInt = rax"
  shows "\<exists>s1. injectFuncAddr J addr m (new_AsmInjector LittleEndian, v) =
    (let r = lookupJavaMethod J m;
         (i, v1) = allocateCompileId J r 0 (setNotInlinableOrCompilable J r v);
         nm = nmethod_of (getName J r) r i (assemble (trampoline addr)) (handler_sites (vm_config J) 33) 32
                \<lparr>slot_kind = TestValueKind QWORD, slot_offset = -24, slot_add_frame_size = True\<rparr>;
         (res, v2) = setDefaultCode J r nm v1
     in (res, (s1, v2)))"
proof -
  let ?s = "new_AMD64Assembler LittleEndian"
  let ?s1 = "injected (vm_config J) ?s addr rax"
  have ready: "ready ?s (length (code_of (injection ?s addr rax @ epilogue_emission)))"
    by (rule ready_fresh) (simp add: fresh_injection length_trampoline_body epilogue_code x86_bytes.simps)
  have new: "cb_bytes (code ?s) = []" "sites ?s = []" "slot_frame ?s = 32" "deopt_slot ?s =
      \<lparr>slot_kind = TestValueKind QWORD, slot_offset = -24, slot_add_frame_size = True\<rparr>"
    by (simp_all add: new_AMD64Assembler_def new_AssemblerBase_def slot_frame_def round_up_def deopt_slot_def)
  have "fits LittleEndian (injection ?s addr rax @ epilogue_emission) (code ?s)"
    using ready by (simp add: ready_def fits_def code_of_def)
  note body = fits_emits [OF fits_append(1) [OF this]]
  have "cb_position (emits (injection ?s addr rax) (code ?s)) = 33"
    using body length_cb_bytes [OF body(2)] fresh_injection [of LittleEndian addr] length_trampoline_body [of addr]
    by (simp add: new code_of_def)
  then have "sites ?s1 = handler_sites (vm_config J) 33"
    by (simp add: injected_def handler_sites_def new Let_def)
  then show ?thesis
    using injectFuncAddr_ok [OF injectable_fresh ready assms, of m v]
    by (simp add: new_AsmInjector_def new fresh_trampoline del: code_of_simps(2)) blast
qed

text \<open>A virtual machine that records what it is asked, for the witnesses.\<close>

datatype vm_event = NotCompilable nat | CompileId nat int | DefaultCode nat "nat compiled_nmethod"

definition recording_vm :: "(nat, nat, vm_event list, nat) jvmci" where
  "recording_vm = \<lparr>lookupJavaMethod = (\<lambda>m. m),
     setNotInlinableOrCompilable = (\<lambda>r v. v @ [NotCompilable r]),
     allocateCompileId = (\<lambda>r n v. (int (length v), v @ [CompileId r n])),
     getName = (\<lambda>r. ''add''), getReturnRegister = (\<lambda>k. rax),
     setDefaultCode = (\<lambda>r c v. (Inr r, v @ [DefaultCode r c])),
     vm_config = \<lparr>MARKID_DEOPT_HANDLER_ENTRY = 7, handleDeoptStub = 0x4000\<rparr>\<rparr>"

lemma injectFuncAddr_fresh_witness:
  "\<exists>s1. injectFuncAddr recording_vm 0x7F00 5 (new_AsmInjector LittleEndian, []) =
     (Inr 5, (s1, [NotCompilable 5, CompileId 5 0,
        DefaultCode 5 (nmethod_of ''add'' 5 1 (assemble (trampoline 0x7F00))
          [Mark 33 7, Call 0x4000 33 5 True None] 32
          \<lparr>slot_kind = TestValueKind QWORD, slot_offset = -24, slot_add_frame_size = True\<rparr>)]))"
  using injectFuncAddr_fresh [of recording_vm "0x7F00" 5 "[]"]
  by (simp add: recording_vm_def handler_sites_def)

lemma injected_code:
  assumes "ready s (length (code_of (injection s addr a @ epilogue_emission)))"
  shows "cb_ok LittleEndian (code (injected config s addr a))"
    "cb_bytes (code (injected config s addr a)) = cb_bytes (code s) @ code_of (injection s addr a @ epilogue_emission)"
proof -
  have fits: "fits LittleEndian (injection s addr a @ epilogue_emission) (code s)"
    using assms by (simp add: ready_def fits_def code_of_def)
  have "code (injected config s addr a) = emits (injection s addr a @ epilogue_emission) (code s)"
    by (simp add: injected_def Let_def fits_append(3) [OF fits])
  then show "cb_ok LittleEndian (code (injected config s addr a))"
    "cb_bytes (code (injected config s addr a)) = cb_bytes (code s) @ code_of (injection s addr a @ epilogue_emission)"
    using fits_emits [OF fits] by (simp_all add: code_of_def)
qed

lemma fresh_code:
  assumes "getReturnRegister J JInt = rax"
    and "injectFuncAddr J addr m (new_AsmInjector LittleEndian, v) = (res, (s1, v1))"
  shows "cb_finish (code s1) = Inr (assemble (trampoline_body addr) @ x86_bytes (CallRel 0xDEADDEAD))"
proof -
  let ?s = "new_AMD64Assembler LittleEndian"
  let ?es = "injection ?s addr rax @ epilogue_emission"
  have "length (code_of ?es) = 38"
    by (simp add: fresh_injection length_trampoline_body epilogue_code x86_bytes.simps)
  then have ready: "ready ?s (length (code_of ?es))" by (simp add: ready_fresh)
  have "s1 = injected (vm_config J) ?s addr rax"
    using assms(2) injectFuncAddr_ok [OF injectable_fresh ready assms(1), of m v]
    by (simp add: new_AsmInjector_def Let_def split: prod.splits)
  moreover have "cb_bytes (code ?s) = []" by (simp add: new_AMD64Assembler_def new_AssemblerBase_def)
  ultimately show ?thesis
    using injected_code [OF ready, of "vm_config J"] by (simp add: cb_finish_ok fresh_injection epilogue_code)
qed

lemma fresh_code_runs:
  assumes "getReturnRegister J JInt = rax"
    and "injectFuncAddr J addr m (new_AsmInjector LittleEndian, v) = (res, (s1, v1))"
    and "cb_finish (code s1) = Inr bytes" "prog = take 33 bytes @ patch" "length prog < 2 ^ 32"
    and "pc c = base" "rg c rsp mod 16 = 8" "length prog \<le> unat (st c (rg c rsp) - base)"
    and "c_call_ok 4 env addr f"
  shows "\<exists>c'. run env base prog (9 + n) c = Some c' \<and> pc c' = st c (rg c rsp) \<and>
    rg c' rsp = rg c rsp + 8 \<and> rg c' rbp = rg c rbp \<and>
    ucast (rg c' rax) = f (rg c rdi) (rg c rsi) (rg c rdx) (rg c rcx)"
proof -
  have "bytes = assemble (trampoline_body addr) @ x86_bytes (CallRel 0xDEADDEAD)"
    using fresh_code [OF assms(1,2)] assms(3) by simp
  then have "prog = assemble (trampoline_body addr) @ patch"
    using assms(4) length_trampoline_body [of addr] by simp
  then show ?thesis by (rule trampoline_runs [OF _ assms(5-7,9,8)])
qed

text \<open>C2: running what a new injector assembled, the deoptimisation call at its end patched in
  any way: entered by a call with an aligned stack, the code calls the function at the
  address with the argument registers untouched, and returns to the caller with \<open>rsp\<close>,
  \<open>rbp\<close> as at the entry and the function's 32-bit result in \<open>eax\<close>, for every function that
  follows the C calling convention. Nine steps are enough.\<close>

theorem injected_code_runs:
  assumes "getReturnRegister J JInt = rax"
    and "injectFuncAddr J addr m (new_AsmInjector LittleEndian, v) = (res, (s1, v1))"
    and "cb_finish (code s1) = Inr bytes" "prog = take 33 bytes @ patch" "length prog < 2 ^ 32"
    and "pc c = base" "rg c rsp mod 16 = 8" "length prog \<le> unat (st c (rg c rsp) - base)"
    and "c_call_ok 4 env addr f"
  shows "\<exists>c'. run env base prog (9 + n) c = Some c' \<and> pc c' = st c (rg c rsp) \<and>
    rg c' rsp = rg c rsp + 8 \<and> rg c' rbp = rg c rbp \<and>
    ucast (rg c' rax) = f (rg c rdi) (rg c rsi) (rg c rdx) (rg c rcx)"
  using assms by (rule fresh_code_runs)

text \<open>A function for the witness: it returns the sum of its second and third argument.\<close>

definition adder :: callees where
  "adder target m = m\<lparr>pc := st m (rg m rsp), rg := (rg m)(rsp := rg m rsp + 8,
     rax := ucast (ucast (rg m rsi + rg m rdx) :: word32))\<rparr>"

lemma adder_ok: "c_call_ok 4 adder addr (\<lambda>_ a b _. ucast (a + b))"
proof -
  have "(ucast (ucast x :: word64) :: word32) = x" for x :: word32
    by (rule bit_word_eqI) (simp add: bit_simps)
  then show ?thesis by (simp add: c_call_ok_def adder_def Let_def)
qed

lemma injected_code_runs_witness:
  "\<exists>res s1 v1 bytes c'. injectFuncAddr recording_vm 0x7F00 5 (new_AsmInjector LittleEndian, []) = (res, (s1, v1)) \<and>
     cb_finish (code s1) = Inr bytes \<and>
     run adder 0x1000 (take 33 bytes @ [0xE8, 0, 0, 0, 0]) 9
       \<lparr>rg = (\<lambda>_. 0)(rsi := 3, rdx := 4, rsp := 0x8008), st = (\<lambda>_. 0), pc = 0x1000\<rparr> = Some c' \<and>
     ucast (rg c' rax) = (7 :: word32)"
proof -
  let ?c = "\<lparr>rg = (\<lambda>_. 0)(rsi := 3, rdx := 4, rsp := 0x8008), st = (\<lambda>_. 0), pc = 0x1000\<rparr> :: machine"
  let ?bytes = "assemble (trampoline_body 0x7F00) @ x86_bytes (CallRel 0xDEADDEAD)"
  have ret: "getReturnRegister recording_vm JInt = rax" by (simp add: recording_vm_def)
  obtain res s1 v1 where inj: "injectFuncAddr recording_vm 0x7F00 5 (new_AsmInjector LittleEndian, []) = (res, (s1, v1))"
    by (metis prod.exhaust)
  note fin = fresh_code [OF ret inj]
  have "\<exists>c'. run adder 0x1000 (take 33 ?bytes @ [0xE8, 0, 0, 0, 0]) (9 + 0) ?c = Some c' \<and>
      pc c' = st ?c (rg ?c rsp) \<and> rg c' rsp = rg ?c rsp + 8 \<and> rg c' rbp = rg ?c rbp \<and>
      ucast (rg c' rax) = (ucast (rg ?c rsi + rg ?c rdx) :: word32)"
    by (rule injected_code_runs [OF ret inj fin refl _ _ _ _ adder_ok]) (simp_all add: length_trampoline_body)
  then show ?thesis using inj fin by auto
qed

text \<open>
  An injector keeps its assembler, and the assembler its code: a second injection appends.
\<close>

lemma length_injection: "length (code_of (injection s addr a @ epilogue_emission)) \<le> 100"
proof -
  have m: "length (code_of (move_emission w d q)) \<le> 10" for w d q by (simp add: move_code length_x86_bytes)
  have i: "length (x86_bytes i) \<le> 10" for i by (rule length_x86_bytes)
  have c: "length (code_of (call_emission r)) \<le> 10" for r
    by (cases "encoding r < 8") (simp_all add: call_code_low call_code_high i)
  define r where "r = registers s ! nat (nextRegister s)"
  have "length (code_of (prologue_emission s)) \<le> 40"
    using i [of Nop5] i [of "Push rbp"] i [of "Mov True rbp rsp"] i [of "SubImm rsp (word_of_int (slot_frame s - frameSize s))"]
    by (simp add: prologue_code)
  moreover have "length (code_of (ret_emission a)) \<le> 30"
    using i [of "Mov False rax a"] by (simp add: ret_code x86_bytes.simps rex_prefix_def)
  moreover have "length (code_of epilogue_emission) = 5" by (simp add: epilogue_code x86_bytes.simps)
  ultimately show ?thesis
    using i [of "MovImm64 r addr"] c [of r] by (simp add: injection_def body_emission_def load_code r_def)
qed

text \<open>C29: A second injection through the same injector sets as the code of the second method all that
  the assembler has collected, which starts with the whole trampoline of the first. Entered as
  the first method's code, with everything behind the trampoline's return patched in any way, it
  calls the function of the first injection and returns its result: the second method behaves
  as the first one. (Every caller in the repository makes a new injector.)\<close>

theorem injector_reuse:
  assumes ret: "getReturnRegister J JInt = rax"
    and 1: "injectFuncAddr J addr1 m1 (new_AsmInjector LittleEndian, v) = (res1, (s1, v1))"
    and 2: "injectFuncAddr J addr2 m2 (s1, v1) = (res2, (s2, v2))"
    and callee: "c_call_ok 4 env addr1 f" and entry: "pc c = base" "rg c rsp mod 16 = 8"
    and patch: "length patch < 2 ^ 31" "33 + length patch \<le> unat (st c (rg c rsp) - base)"
  shows "\<exists>bytes. cb_finish (code s2) = Inr bytes \<and> 38 < length bytes \<and>
    (let r = lookupJavaMethod J m2; (i, w) = allocateCompileId J r 0 (setNotInlinableOrCompilable J r v1)
     in setDefaultCode J r (nmethod_of (getName J r) r i bytes (sites s2) (frameSize s2) (the (deoptRescue s2))) w =
       (res2, v2)) \<and>
    take 38 bytes = assemble (trampoline addr1) \<and>
    (\<exists>c'. run env base (take 33 bytes @ patch) 9 c = Some c' \<and> pc c' = st c (rg c rsp) \<and>
      rg c' rsp = rg c rsp + 8 \<and> rg c' rbp = rg c rbp \<and>
      ucast (rg c' rax) = f (rg c rdi) (rg c rsi) (rg c rdx) (rg c rcx))"
proof -
  let ?s = "new_AMD64Assembler LittleEndian"
  have rdy: "ready ?s (length (code_of (injection ?s addr1 rax @ epilogue_emission)))"
    using length_injection [of ?s addr1 rax] by (intro ready_fresh) simp
  have s1: "s1 = injected (vm_config J) ?s addr1 rax"
    using 1 injectFuncAddr_ok [OF injectable_fresh rdy ret, of m1 v]
    by (simp add: new_AsmInjector_def Let_def split: prod.splits)
  have c1: "cb_ok LittleEndian (code s1)" "cb_bytes (code s1) = assemble (trampoline addr1)"
    using injected_code [OF rdy, of "vm_config J"]
    by (simp_all only: s1 fresh_trampoline) (simp add: new_AMD64Assembler_def new_AssemblerBase_def)
  have ok1: "injectable s1"
    by (simp add: s1 injected_def injectable_def frame_ok_def Let_def slot_frame_def round_up_def
        new_AMD64Assembler_def new_AssemblerBase_def)
  have len1: "length (assemble (trampoline addr1)) = 38"
    by (simp add: trampoline_def length_trampoline_body x86_bytes.simps)
  then have rdy1: "ready s1 (length (code_of (injection s1 addr2 rax @ epilogue_emission)))"
    using c1 length_injection [of s1 addr2 rax] by (simp add: ready_def)
  let ?bytes = "assemble (trampoline addr1) @ code_of (injection s1 addr2 rax @ epilogue_emission)"
  note second = injectFuncAddr_ok [OF ok1 rdy1 ret, of m2 v1, unfolded 2 c1(2)]
  then have s2: "s2 = injected (vm_config J) s1 addr2 rax" by (simp add: Let_def split: prod.splits)
  then have "frameSize s2 = slot_frame s1" "the (deoptRescue s2) = deopt_slot s1"
    by (simp_all add: injected_def Let_def)
  then have set: "let r = lookupJavaMethod J m2; (i, w) = allocateCompileId J r 0 (setNotInlinableOrCompilable J r v1)
     in setDefaultCode J r (nmethod_of (getName J r) r i ?bytes (sites s2) (frameSize s2) (the (deoptRescue s2))) w =
       (res2, v2)"
    using second s2 by (simp add: Let_def split: prod.splits del: code_of_simps)
  have fin: "cb_finish (code s2) = Inr ?bytes"
    using injected_code [OF rdy1, of "vm_config J"] c1(2) s2 by (simp add: cb_finish_ok)
  have "take 33 ?bytes @ patch = assemble (trampoline_body addr1) @ patch"
    using length_trampoline_body [of addr1] by (simp add: trampoline_def)
  from trampoline_runs [OF this, of c base env f 0] have "\<exists>c'. run env base (take 33 ?bytes @ patch) 9 c = Some c' \<and>
      pc c' = st c (rg c rsp) \<and> rg c' rsp = rg c rsp + 8 \<and> rg c' rbp = rg c rbp \<and>
      ucast (rg c' rax) = f (rg c rdi) (rg c rsi) (rg c rdx) (rg c rcx)"
    using callee entry patch len1 by simp
  moreover have "38 < length ?bytes" "take 38 ?bytes = assemble (trampoline addr1)"
    using len1 by (simp_all add: epilogue_code x86_bytes.simps)
  ultimately show ?thesis using fin set by blast
qed

lemma injector_reuse_witness:
  "\<exists>res1 s1 v1 res2 s2 v2 bytes c'.
     injectFuncAddr recording_vm 0x7F00 5 (new_AsmInjector LittleEndian, []) = (res1, (s1, v1)) \<and>
     injectFuncAddr recording_vm 0x8800 6 (s1, v1) = (res2, (s2, v2)) \<and>
     cb_finish (code s2) = Inr bytes \<and> take 38 bytes = assemble (trampoline 0x7F00) \<and>
     run adder 0x1000 (take 33 bytes @ [0xE8, 0, 0, 0, 0]) 9
       \<lparr>rg = (\<lambda>_. 0)(rsi := 3, rdx := 4, rsp := 0x8008), st = (\<lambda>_. 0), pc = 0x1000\<rparr> = Some c' \<and>
     ucast (rg c' rax) = (7 :: word32)"
proof -
  let ?c = "\<lparr>rg = (\<lambda>_. 0)(rsi := 3, rdx := 4, rsp := 0x8008), st = (\<lambda>_. 0), pc = 0x1000\<rparr> :: machine"
  have ret: "getReturnRegister recording_vm JInt = rax" by (simp add: recording_vm_def)
  obtain res1 s1 v1 where 1: "injectFuncAddr recording_vm 0x7F00 5 (new_AsmInjector LittleEndian, []) = (res1, (s1, v1))"
    by (metis prod.exhaust)
  obtain res2 s2 v2 where 2: "injectFuncAddr recording_vm 0x8800 6 (s1, v1) = (res2, (s2, v2))"
    by (metis prod.exhaust)
  show ?thesis using 1 2 injector_reuse [OF ret 1 2 adder_ok, of ?c "0x1000" "[0xE8, 0, 0, 0, 0]"] by simp blast
qed

end
