(* ===== verification/Jni_Types.thy ===== *)
theory Jni_Types
  imports Prelude
begin

text \<open>
  The types of the Java Native Interface as the headers declare them: the machine-dependent
  integers of \<open>include/Linux/jni_md.h\<close> and \<open>include/Mac/jni_md.h\<close>, the reference types of
  \<open>jni.h\<close> in their C++ and their C form, the union \<open>jvalue\<close> and the constants.
\<close>

section \<open>Type expressions\<close>

datatype ctype =
    void_t | char_t
  | jboolean | jbyte | jchar | jshort | jint | jlong | jfloat | jdouble | jsize
  | jobject | jclass | jthrowable | jstring | jarray
  | jbooleanArray | jbyteArray | jcharArray | jshortArray | jintArray | jlongArray
  | jfloatArray | jdoubleArray | jobjectArray | jweak
  | jvalue | jfieldID | jmethodID | jobjectRefType | JNINativeMethod | JNIEnv | JavaVM | JavaVMOption | va_list
  | Ptr ctype | Const ctype

section \<open>Machine-dependent integers\<close>

text \<open>The types that the typedefs are made of, and their sizes; only \<open>long\<close> depends on the target.\<close>

datatype prim = c_unsigned_char | c_signed_char | c_unsigned_short | c_short | c_int | c_long | c_long_long | c_float | c_double

datatype header = Linux | Mac

definition prim_size :: "bool \<Rightarrow> prim \<Rightarrow> nat" where
  "prim_size lp64 p = (case p of c_unsigned_char \<Rightarrow> 1 | c_signed_char \<Rightarrow> 1 | c_unsigned_short \<Rightarrow> 2 | c_short \<Rightarrow> 2
     | c_int \<Rightarrow> 4 | c_long \<Rightarrow> if lp64 then 8 else 4 | c_long_long \<Rightarrow> 8 | c_float \<Rightarrow> 4 | c_double \<Rightarrow> 8)"

definition jni_md_linux :: "bool \<Rightarrow> ctype \<Rightarrow> prim option" where
  "jni_md_linux lp64 t = (case t of jint \<Rightarrow> Some c_int
     | jlong \<Rightarrow> Some (if lp64 then c_long else c_long_long)
     | jbyte \<Rightarrow> Some c_signed_char | _ \<Rightarrow> None)"

definition jni_md_mac :: "bool \<Rightarrow> ctype \<Rightarrow> prim option" where
  "jni_md_mac lp64 t = (case t of jint \<Rightarrow> Some (if lp64 then c_int else c_long)
     | jlong \<Rightarrow> Some c_long_long
     | jbyte \<Rightarrow> Some c_signed_char | _ \<Rightarrow> None)"

definition jni_md :: "header \<Rightarrow> bool \<Rightarrow> ctype \<Rightarrow> prim option" where
  "jni_md h = (case h of Linux \<Rightarrow> jni_md_linux | Mac \<Rightarrow> jni_md_mac)"

text \<open>The scalar typedefs of \<open>jni.h\<close>, on top of those of \<open>jni_md.h\<close>.\<close>

fun scalar :: "header \<Rightarrow> bool \<Rightarrow> ctype \<Rightarrow> prim option" where
  "scalar h lp64 jboolean = Some c_unsigned_char"
| "scalar h lp64 jchar = Some c_unsigned_short"
| "scalar h lp64 jshort = Some c_short"
| "scalar h lp64 jfloat = Some c_float"
| "scalar h lp64 jdouble = Some c_double"
| "scalar h lp64 jsize = jni_md h lp64 jint"
| "scalar h lp64 t = jni_md h lp64 t"

definition scalar_size :: "header \<Rightarrow> bool \<Rightarrow> ctype \<Rightarrow> nat option" where
  "scalar_size h lp64 t = map_option (prim_size lp64) (scalar h lp64 t)"

section \<open>Reference types\<close>

text \<open>
  In C++ each reference type points to a class of its own, derived from one base; \<open>jweak\<close> is
  only another name of \<open>jobject\<close> (\<open>typedef_of\<close>).
\<close>

fun base_class :: "ctype \<Rightarrow> ctype option" where
  "base_class jclass = Some jobject"
| "base_class jthrowable = Some jobject"
| "base_class jstring = Some jobject"
| "base_class jarray = Some jobject"
| "base_class jbooleanArray = Some jarray"
| "base_class jbyteArray = Some jarray"
| "base_class jcharArray = Some jarray"
| "base_class jshortArray = Some jarray"
| "base_class jintArray = Some jarray"
| "base_class jlongArray = Some jarray"
| "base_class jfloatArray = Some jarray"
| "base_class jdoubleArray = Some jarray"
| "base_class jobjectArray = Some jarray"
| "base_class _ = None"

text \<open>In C each is a name for the one it is defined by, \<open>jobject\<close> in the end.\<close>

fun c_typedef :: "ctype \<Rightarrow> ctype option" where
  "c_typedef jclass = Some jobject"
| "c_typedef jthrowable = Some jobject"
| "c_typedef jstring = Some jobject"
| "c_typedef jarray = Some jobject"
| "c_typedef jbooleanArray = Some jarray"
| "c_typedef jbyteArray = Some jarray"
| "c_typedef jcharArray = Some jarray"
| "c_typedef jshortArray = Some jarray"
| "c_typedef jintArray = Some jarray"
| "c_typedef jlongArray = Some jarray"
| "c_typedef jfloatArray = Some jarray"
| "c_typedef jdoubleArray = Some jarray"
| "c_typedef jobjectArray = Some jarray"
| "c_typedef jweak = Some jobject"
| "c_typedef _ = None"

text \<open>Typedefs that both languages have.\<close>

fun typedef_of :: "ctype \<Rightarrow> ctype" where
  "typedef_of jweak = jobject"
| "typedef_of jsize = jint"
| "typedef_of (Ptr t) = Ptr (typedef_of t)"
| "typedef_of (Const t) = Const (typedef_of t)"
| "typedef_of t = t"

text \<open>The implicit conversions of C++ between them: a type, under any of its names, and the bases above it.\<close>

inductive converts :: "ctype \<Rightarrow> ctype \<Rightarrow> bool" where
  same: "typedef_of t = typedef_of u \<Longrightarrow> converts t u"
| base: "base_class (typedef_of t) = Some u \<Longrightarrow> converts u v \<Longrightarrow> converts t v"

inductive_cases converts_cases: "converts t u"

text \<open>At most two steps lead from any class to \<open>_jobject\<close>, which makes the conversion a function.\<close>

definition converts_check :: "ctype \<Rightarrow> ctype \<Rightarrow> bool" where
  "converts_check t u \<longleftrightarrow> typedef_of t = typedef_of u \<or>
     (\<exists>b\<in>set_option (base_class (typedef_of t)). b = typedef_of u \<or> base_class b = Some (typedef_of u))"

definition c_type :: "ctype \<Rightarrow> ctype" where
  "c_type t = (let t = typedef_of t in
     case c_typedef t of None \<Rightarrow> t | Some u \<Rightarrow> (case c_typedef u of None \<Rightarrow> u | Some v \<Rightarrow> v))"

definition reference :: "ctype \<Rightarrow> bool" where
  "reference t \<longleftrightarrow> t \<in> {jobject, jclass, jthrowable, jstring, jarray, jbooleanArray, jbyteArray,
     jcharArray, jshortArray, jintArray, jlongArray, jfloatArray, jdoubleArray, jobjectArray, jweak}"

section \<open>The union of argument values\<close>

text \<open>
  \<open>jvalue\<close> as its bytes: storing a member writes the first bytes, reading one reads them, on
  a little-endian machine. Floating values are their bit patterns, references their addresses.
\<close>

definition jvalue_size :: "header \<Rightarrow> bool \<Rightarrow> nat" where
  "jvalue_size h lp64 = fold (\<lambda>t n. max (case scalar_size h lp64 t of Some k \<Rightarrow> k | None \<Rightarrow> if lp64 then 8 else 4) n)
     [jboolean, jbyte, jchar, jshort, jint, jlong, jfloat, jdouble, jobject] 0"

definition union_store :: "nat \<Rightarrow> 'a::len word \<Rightarrow> byte list \<Rightarrow> byte list" where
  "union_store n v bs = le_bytes n v @ drop n bs"

definition union_load :: "nat \<Rightarrow> byte list \<Rightarrow> 'a::len word" where
  "union_load n bs = le_word (take n bs)"

section \<open>Constants\<close>

datatype ref_type = JNIInvalidRefType | JNILocalRefType | JNIGlobalRefType | JNIWeakGlobalRefType

fun ref_type_value :: "ref_type \<Rightarrow> int" where
  "ref_type_value JNIInvalidRefType = 0"
| "ref_type_value JNILocalRefType = 1"
| "ref_type_value JNIGlobalRefType = 2"
| "ref_type_value JNIWeakGlobalRefType = 3"

definition JNI_FALSE :: int where "JNI_FALSE = 0"
definition JNI_TRUE :: int where "JNI_TRUE = 1"

datatype jni_result = JNI_OK | JNI_ERR | JNI_EDETACHED | JNI_EVERSION | JNI_ENOMEM | JNI_EEXIST | JNI_EINVAL

fun jni_result_value :: "jni_result \<Rightarrow> int" where
  "jni_result_value JNI_OK = 0"
| "jni_result_value JNI_ERR = -1"
| "jni_result_value JNI_EDETACHED = -2"
| "jni_result_value JNI_EVERSION = -3"
| "jni_result_value JNI_ENOMEM = -4"
| "jni_result_value JNI_EEXIST = -5"
| "jni_result_value JNI_EINVAL = -6"

definition JNI_COMMIT :: int where "JNI_COMMIT = 1"
definition JNI_ABORT :: int where "JNI_ABORT = 2"

text \<open>The version constants; the last one is only in the Linux header.\<close>

definition JNI_VERSIONS :: "header \<Rightarrow> word32 list" where
  "JNI_VERSIONS h = [0x00010001, 0x00010002, 0x00010004, 0x00010006] @
     (case h of Linux \<Rightarrow> [0x00010008] | Mac \<Rightarrow> [])"

section \<open>Properties\<close>

text \<open>C33: whichever header is used and whether \<open>long\<close> has four or eight bytes, the integer types
  have the widths the interface prescribes, and every \<open>jvalue\<close> has eight bytes.\<close>

theorem jni_widths:
  "map (scalar_size h lp64) [jboolean, jbyte, jchar, jshort, jint, jlong, jfloat, jdouble, jsize] =
     map Some [1, 1, 2, 2, 4, 8, 4, 8, 4] \<and> jvalue_size h lp64 = 8"
  by (cases h; cases lp64; simp add: scalar_size_def jni_md_def jni_md_linux_def jni_md_mac_def
      prim_size_def jvalue_size_def)

lemma base_class_typedef: "base_class t = Some u \<Longrightarrow> typedef_of t = t \<and> typedef_of u = u \<and>
    (u = jobject \<or> u = jarray) \<and> base_class jobject = None \<and> base_class jarray = Some jobject"
  by (cases t) auto

lemma converts_iff: "converts t u \<longleftrightarrow> converts_check t u"
proof
  assume "converts t u"
  then show "converts_check t u"
  proof induction
    case (base t u v)
    then show ?case using base_class_typedef [OF base(1)] by (auto simp: converts_check_def)
  qed (simp add: converts_check_def)
next
  assume "converts_check t u"
  then consider "typedef_of t = typedef_of u" | b where "base_class (typedef_of t) = Some b" "b = typedef_of u"
    | b where "base_class (typedef_of t) = Some b" "base_class b = Some (typedef_of u)"
    by (auto simp: converts_check_def)
  then show "converts t u"
  proof cases
    case 2
    then show ?thesis using base_class_typedef by (metis converts.base converts.same)
  next
    case 3
    then have "converts (typedef_of u) u" "typedef_of b = b" using base_class_typedef by (metis converts.same)+
    then show ?thesis using 3 by (metis converts.base)
  qed (rule converts.same)
qed

lemma converts_trans: "converts t u \<Longrightarrow> converts u v \<Longrightarrow> converts t v"
proof (induction rule: converts.induct)
  case (same t u)
  then show ?case by (simp add: converts_iff converts_check_def)
qed (rule converts.base)

lemma base_class_rank:
  "base_class t = Some u \<Longrightarrow> u = jobject \<and> t \<noteq> jobject \<or> u = jarray \<and> t \<noteq> jobject \<and> t \<noteq> jarray"
  by (cases t) auto

lemma converts_antisym: "converts t u \<Longrightarrow> converts u t \<Longrightarrow> typedef_of t = typedef_of u"
  by (auto simp: converts_iff converts_check_def dest: base_class_rank)

lemma converts_linear: "converts t u \<Longrightarrow> converts t v \<Longrightarrow> converts u v \<or> converts v u"
  using base_class_typedef by (auto simp: converts_iff converts_check_def)

lemma c_type_base: "base_class (typedef_of t) = Some u \<Longrightarrow> c_type t = jobject"
  by (cases "typedef_of t") (auto simp: c_type_def Let_def)

lemma converts_jobject: "converts t jobject \<longleftrightarrow> reference t"
  by (cases t) (simp_all add: converts_iff converts_check_def reference_def)

lemma c_type_reference: "c_type t = jobject \<longleftrightarrow> reference t"
  by (cases t) (simp_all add: c_type_def reference_def)

lemma converts_c_type: "converts t u \<Longrightarrow> c_type t = c_type u"
proof (induction rule: converts.induct)
  case (same t u)
  then show ?case by (simp add: c_type_def)
next
  case (base t u v)
  then have "c_type t = jobject" "u = jobject \<or> u = jarray" using c_type_base base_class_typedef by blast+
  then show ?case using base.IH by (auto simp: c_type_def)
qed

text \<open>C34: the reference types form a tree under the conversions of C++, with \<open>jobject\<close> at the
  root: exactly they convert to it, conversion is an order on the types (of which \<open>jweak\<close> and
  \<open>jobject\<close> are two names for one), two types that one type converts to are comparable; and in C
  all of them are the single type \<open>jobject\<close>, so that what converts in C++ is the same type in C.\<close>

theorem reference_types_tree:
  assumes "converts t u" "converts t v"
  shows "(converts u t \<longleftrightarrow> typedef_of t = typedef_of u) \<and> (converts u w \<longrightarrow> converts t w) \<and>
    (converts u v \<or> converts v u) \<and> c_type t = c_type u \<and>
    (reference t \<longleftrightarrow> reference u) \<and> (reference t \<longleftrightarrow> converts t jobject) \<and>
    (converts t jobject \<longleftrightarrow> c_type t = jobject)"
proof -
  have "converts u t \<longleftrightarrow> typedef_of t = typedef_of u"
    using converts_antisym [OF assms(1)] converts.same [of u t] by auto
  moreover have "reference t \<longleftrightarrow> reference u"
    using converts_c_type [OF assms(1)] c_type_reference [of t] c_type_reference [of u] by simp
  ultimately show ?thesis
    using converts_linear [OF assms] converts_c_type [OF assms(1)] converts_trans [OF assms(1), of w]
    by (simp add: converts_jobject c_type_reference)
qed

lemma reference_types_tree_witness:
  "converts jintArray jarray \<and> converts jintArray jweak \<and> \<not> converts jarray jintArray \<and>
   (converts jarray jweak \<or> converts jweak jarray) \<and> c_type jintArray = c_type jarray \<and>
   reference jweak \<and> c_type jweak = jobject"
proof -
  have "converts jintArray jarray" "converts jintArray jweak" "converts jweak jweak"
    by (simp_all add: converts_iff converts_check_def)
  moreover have "reference jweak" by (simp add: reference_def)
  ultimately show ?thesis
    using reference_types_tree [of jintArray jarray jweak jweak] reference_types_tree [of jweak jweak jweak jweak] by auto
qed

text \<open>What is stored into a member of a \<open>jvalue\<close> is read back from it, whatever the union
  held, and the bytes behind the member are left as they were.\<close>

theorem jvalue_member_roundtrip:
  assumes "LENGTH('a::len) = 8 * n" "n \<le> length bs"
  shows "union_load n (union_store n (v :: 'a word) bs) = v \<and>
    length (union_store n v bs) = length bs \<and> drop n (union_store n v bs) = drop n bs"
proof -
  have "length (le_bytes n v) = n" by simp
  moreover have "le_word (le_bytes n v) = v" by (rule le_word_le_bytes) (use assms(1) in simp)
  ultimately show ?thesis using assms(2) by (simp add: union_load_def union_store_def)
qed

lemma jvalue_member_roundtrip_witness:
  "union_load 4 (union_store 4 (0xDEADBEEF :: word32) [1, 2, 3, 4, 5, 6, 7, 8]) = (0xDEADBEEF :: word32) \<and>
   drop 4 (union_store 4 (0xDEADBEEF :: word32) [1, 2, 3, 4, 5, 6, 7, 8]) = [5, 6, 7, 8]"
  using jvalue_member_roundtrip [where 'a = 32, of 4 "[1, 2, 3, 4, 5, 6, 7, 8]" "0xDEADBEEF"] by simp

end
