(* ===== verification/Jni_Interface.thy ===== *)
theory Jni_Interface
  imports Jni_Types
begin

text \<open>
  The two function tables of \<open>include/Linux/jni.h\<close>, \<open>JNINativeInterface_\<close> and
  \<open>JNIInvokeInterface_\<close>, member by member in the order of the structs, and the contract of
  such a table: where a member lies, and which member lies at a place. A native library
  compiled against the header calls a function by its offset, so the order is the interface.
\<close>

section \<open>Tables\<close>

text \<open>
  A member is a reserved pointer (or an array of them) or a pointer to a function, given by
  its result, its parameters, and whether more arguments may follow. Parameter names have no
  meaning in a declaration and are left out.
\<close>

datatype slot =
    Reserved string nat
  | Fn string ctype "ctype list"
  | Variadic string ctype "ctype list"

fun slot_name :: "slot \<Rightarrow> string" where
  "slot_name (Reserved n k) = n" | "slot_name (Fn n r ps) = n" | "slot_name (Variadic n r ps) = n"

text \<open>The number of pointers a member occupies.\<close>

fun slot_words :: "slot \<Rightarrow> nat" where
  "slot_words (Reserved n k) = k" | "slot_words (Fn n r ps) = 1" | "slot_words (Variadic n r ps) = 1"

fun offset_of :: "string \<Rightarrow> slot list \<Rightarrow> nat option" where
  "offset_of n [] = None"
| "offset_of n (s # ss) =
     (if slot_name s = n then Some 0 else map_option (\<lambda>k. slot_words s + k) (offset_of n ss))"

fun slot_at :: "nat \<Rightarrow> slot list \<Rightarrow> slot option" where
  "slot_at k [] = None"
| "slot_at k (s # ss) = (if k < slot_words s then Some s else slot_at (k - slot_words s) ss)"

definition table_words :: "slot list \<Rightarrow> nat" where
  "table_words ss = sum_list (map slot_words ss)"

section \<open>The native interface\<close>

definition native_interface_1 :: "slot list" where
  "native_interface_1 = [
     Reserved ''reserved0'' 1, Reserved ''reserved1'' 1, Reserved ''reserved2'' 1,
     Reserved ''reserved3'' 1, Fn ''GetVersion'' jint [Ptr JNIEnv],
     Fn ''DefineClass'' jclass [Ptr JNIEnv, Ptr (Const char_t), jobject, Ptr (Const jbyte), jsize],
     Fn ''FindClass'' jclass [Ptr JNIEnv, Ptr (Const char_t)],
     Fn ''FromReflectedMethod'' jmethodID [Ptr JNIEnv, jobject],
     Fn ''FromReflectedField'' jfieldID [Ptr JNIEnv, jobject],
     Fn ''ToReflectedMethod'' jobject [Ptr JNIEnv, jclass, jmethodID, jboolean],
     Fn ''GetSuperclass'' jclass [Ptr JNIEnv, jclass],
     Fn ''IsAssignableFrom'' jboolean [Ptr JNIEnv, jclass, jclass],
     Fn ''ToReflectedField'' jobject [Ptr JNIEnv, jclass, jfieldID, jboolean],
     Fn ''Throw'' jint [Ptr JNIEnv, jthrowable],
     Fn ''ThrowNew'' jint [Ptr JNIEnv, jclass, Ptr (Const char_t)],
     Fn ''ExceptionOccurred'' jthrowable [Ptr JNIEnv],
     Fn ''ExceptionDescribe'' void_t [Ptr JNIEnv], Fn ''ExceptionClear'' void_t [Ptr JNIEnv],
     Fn ''FatalError'' void_t [Ptr JNIEnv, Ptr (Const char_t)],
     Fn ''PushLocalFrame'' jint [Ptr JNIEnv, jint],
     Fn ''PopLocalFrame'' jobject [Ptr JNIEnv, jobject],
     Fn ''NewGlobalRef'' jobject [Ptr JNIEnv, jobject],
     Fn ''DeleteGlobalRef'' void_t [Ptr JNIEnv, jobject],
     Fn ''DeleteLocalRef'' void_t [Ptr JNIEnv, jobject],
     Fn ''IsSameObject'' jboolean [Ptr JNIEnv, jobject, jobject],
     Fn ''NewLocalRef'' jobject [Ptr JNIEnv, jobject],
     Fn ''EnsureLocalCapacity'' jint [Ptr JNIEnv, jint],
     Fn ''AllocObject'' jobject [Ptr JNIEnv, jclass],
     Variadic ''NewObject'' jobject [Ptr JNIEnv, jclass, jmethodID],
     Fn ''NewObjectV'' jobject [Ptr JNIEnv, jclass, jmethodID, va_list],
     Fn ''NewObjectA'' jobject [Ptr JNIEnv, jclass, jmethodID, Ptr (Const jvalue)],
     Fn ''GetObjectClass'' jclass [Ptr JNIEnv, jobject],
     Fn ''IsInstanceOf'' jboolean [Ptr JNIEnv, jobject, jclass],
     Fn ''GetMethodID'' jmethodID [Ptr JNIEnv, jclass, Ptr (Const char_t), Ptr (Const char_t)],
     Variadic ''CallObjectMethod'' jobject [Ptr JNIEnv, jobject, jmethodID],
     Fn ''CallObjectMethodV'' jobject [Ptr JNIEnv, jobject, jmethodID, va_list],
     Fn ''CallObjectMethodA'' jobject [Ptr JNIEnv, jobject, jmethodID, Ptr (Const jvalue)],
     Variadic ''CallBooleanMethod'' jboolean [Ptr JNIEnv, jobject, jmethodID],
     Fn ''CallBooleanMethodV'' jboolean [Ptr JNIEnv, jobject, jmethodID, va_list],
     Fn ''CallBooleanMethodA'' jboolean [Ptr JNIEnv, jobject, jmethodID, Ptr (Const jvalue)],
     Variadic ''CallByteMethod'' jbyte [Ptr JNIEnv, jobject, jmethodID],
     Fn ''CallByteMethodV'' jbyte [Ptr JNIEnv, jobject, jmethodID, va_list],
     Fn ''CallByteMethodA'' jbyte [Ptr JNIEnv, jobject, jmethodID, Ptr (Const jvalue)],
     Variadic ''CallCharMethod'' jchar [Ptr JNIEnv, jobject, jmethodID],
     Fn ''CallCharMethodV'' jchar [Ptr JNIEnv, jobject, jmethodID, va_list],
     Fn ''CallCharMethodA'' jchar [Ptr JNIEnv, jobject, jmethodID, Ptr (Const jvalue)],
     Variadic ''CallShortMethod'' jshort [Ptr JNIEnv, jobject, jmethodID],
     Fn ''CallShortMethodV'' jshort [Ptr JNIEnv, jobject, jmethodID, va_list],
     Fn ''CallShortMethodA'' jshort [Ptr JNIEnv, jobject, jmethodID, Ptr (Const jvalue)],
     Variadic ''CallIntMethod'' jint [Ptr JNIEnv, jobject, jmethodID],
     Fn ''CallIntMethodV'' jint [Ptr JNIEnv, jobject, jmethodID, va_list],
     Fn ''CallIntMethodA'' jint [Ptr JNIEnv, jobject, jmethodID, Ptr (Const jvalue)],
     Variadic ''CallLongMethod'' jlong [Ptr JNIEnv, jobject, jmethodID],
     Fn ''CallLongMethodV'' jlong [Ptr JNIEnv, jobject, jmethodID, va_list],
     Fn ''CallLongMethodA'' jlong [Ptr JNIEnv, jobject, jmethodID, Ptr (Const jvalue)],
     Variadic ''CallFloatMethod'' jfloat [Ptr JNIEnv, jobject, jmethodID],
     Fn ''CallFloatMethodV'' jfloat [Ptr JNIEnv, jobject, jmethodID, va_list],
     Fn ''CallFloatMethodA'' jfloat [Ptr JNIEnv, jobject, jmethodID, Ptr (Const jvalue)],
     Variadic ''CallDoubleMethod'' jdouble [Ptr JNIEnv, jobject, jmethodID],
     Fn ''CallDoubleMethodV'' jdouble [Ptr JNIEnv, jobject, jmethodID, va_list],
     Fn ''CallDoubleMethodA'' jdouble [Ptr JNIEnv, jobject, jmethodID, Ptr (Const jvalue)]]"

definition native_interface_2 :: "slot list" where
  "native_interface_2 = [
     Variadic ''CallVoidMethod'' void_t [Ptr JNIEnv, jobject, jmethodID],
     Fn ''CallVoidMethodV'' void_t [Ptr JNIEnv, jobject, jmethodID, va_list],
     Fn ''CallVoidMethodA'' void_t [Ptr JNIEnv, jobject, jmethodID, Ptr (Const jvalue)],
     Variadic ''CallNonvirtualObjectMethod'' jobject [Ptr JNIEnv, jobject, jclass, jmethodID],
     Fn ''CallNonvirtualObjectMethodV'' jobject [Ptr JNIEnv, jobject, jclass, jmethodID, va_list],
     Fn ''CallNonvirtualObjectMethodA'' jobject [Ptr JNIEnv, jobject, jclass, jmethodID, Ptr (Const jvalue)],
     Variadic ''CallNonvirtualBooleanMethod'' jboolean [Ptr JNIEnv, jobject, jclass, jmethodID],
     Fn ''CallNonvirtualBooleanMethodV'' jboolean [Ptr JNIEnv, jobject, jclass, jmethodID, va_list],
     Fn ''CallNonvirtualBooleanMethodA'' jboolean [Ptr JNIEnv, jobject, jclass, jmethodID, Ptr (Const jvalue)],
     Variadic ''CallNonvirtualByteMethod'' jbyte [Ptr JNIEnv, jobject, jclass, jmethodID],
     Fn ''CallNonvirtualByteMethodV'' jbyte [Ptr JNIEnv, jobject, jclass, jmethodID, va_list],
     Fn ''CallNonvirtualByteMethodA'' jbyte [Ptr JNIEnv, jobject, jclass, jmethodID, Ptr (Const jvalue)],
     Variadic ''CallNonvirtualCharMethod'' jchar [Ptr JNIEnv, jobject, jclass, jmethodID],
     Fn ''CallNonvirtualCharMethodV'' jchar [Ptr JNIEnv, jobject, jclass, jmethodID, va_list],
     Fn ''CallNonvirtualCharMethodA'' jchar [Ptr JNIEnv, jobject, jclass, jmethodID, Ptr (Const jvalue)],
     Variadic ''CallNonvirtualShortMethod'' jshort [Ptr JNIEnv, jobject, jclass, jmethodID],
     Fn ''CallNonvirtualShortMethodV'' jshort [Ptr JNIEnv, jobject, jclass, jmethodID, va_list],
     Fn ''CallNonvirtualShortMethodA'' jshort [Ptr JNIEnv, jobject, jclass, jmethodID, Ptr (Const jvalue)],
     Variadic ''CallNonvirtualIntMethod'' jint [Ptr JNIEnv, jobject, jclass, jmethodID],
     Fn ''CallNonvirtualIntMethodV'' jint [Ptr JNIEnv, jobject, jclass, jmethodID, va_list],
     Fn ''CallNonvirtualIntMethodA'' jint [Ptr JNIEnv, jobject, jclass, jmethodID, Ptr (Const jvalue)],
     Variadic ''CallNonvirtualLongMethod'' jlong [Ptr JNIEnv, jobject, jclass, jmethodID],
     Fn ''CallNonvirtualLongMethodV'' jlong [Ptr JNIEnv, jobject, jclass, jmethodID, va_list],
     Fn ''CallNonvirtualLongMethodA'' jlong [Ptr JNIEnv, jobject, jclass, jmethodID, Ptr (Const jvalue)],
     Variadic ''CallNonvirtualFloatMethod'' jfloat [Ptr JNIEnv, jobject, jclass, jmethodID],
     Fn ''CallNonvirtualFloatMethodV'' jfloat [Ptr JNIEnv, jobject, jclass, jmethodID, va_list],
     Fn ''CallNonvirtualFloatMethodA'' jfloat [Ptr JNIEnv, jobject, jclass, jmethodID, Ptr (Const jvalue)],
     Variadic ''CallNonvirtualDoubleMethod'' jdouble [Ptr JNIEnv, jobject, jclass, jmethodID],
     Fn ''CallNonvirtualDoubleMethodV'' jdouble [Ptr JNIEnv, jobject, jclass, jmethodID, va_list],
     Fn ''CallNonvirtualDoubleMethodA'' jdouble [Ptr JNIEnv, jobject, jclass, jmethodID, Ptr (Const jvalue)],
     Variadic ''CallNonvirtualVoidMethod'' void_t [Ptr JNIEnv, jobject, jclass, jmethodID],
     Fn ''CallNonvirtualVoidMethodV'' void_t [Ptr JNIEnv, jobject, jclass, jmethodID, va_list],
     Fn ''CallNonvirtualVoidMethodA'' void_t [Ptr JNIEnv, jobject, jclass, jmethodID, Ptr (Const jvalue)],
     Fn ''GetFieldID'' jfieldID [Ptr JNIEnv, jclass, Ptr (Const char_t), Ptr (Const char_t)],
     Fn ''GetObjectField'' jobject [Ptr JNIEnv, jobject, jfieldID],
     Fn ''GetBooleanField'' jboolean [Ptr JNIEnv, jobject, jfieldID],
     Fn ''GetByteField'' jbyte [Ptr JNIEnv, jobject, jfieldID],
     Fn ''GetCharField'' jchar [Ptr JNIEnv, jobject, jfieldID],
     Fn ''GetShortField'' jshort [Ptr JNIEnv, jobject, jfieldID],
     Fn ''GetIntField'' jint [Ptr JNIEnv, jobject, jfieldID],
     Fn ''GetLongField'' jlong [Ptr JNIEnv, jobject, jfieldID],
     Fn ''GetFloatField'' jfloat [Ptr JNIEnv, jobject, jfieldID],
     Fn ''GetDoubleField'' jdouble [Ptr JNIEnv, jobject, jfieldID],
     Fn ''SetObjectField'' void_t [Ptr JNIEnv, jobject, jfieldID, jobject],
     Fn ''SetBooleanField'' void_t [Ptr JNIEnv, jobject, jfieldID, jboolean],
     Fn ''SetByteField'' void_t [Ptr JNIEnv, jobject, jfieldID, jbyte],
     Fn ''SetCharField'' void_t [Ptr JNIEnv, jobject, jfieldID, jchar],
     Fn ''SetShortField'' void_t [Ptr JNIEnv, jobject, jfieldID, jshort],
     Fn ''SetIntField'' void_t [Ptr JNIEnv, jobject, jfieldID, jint],
     Fn ''SetLongField'' void_t [Ptr JNIEnv, jobject, jfieldID, jlong],
     Fn ''SetFloatField'' void_t [Ptr JNIEnv, jobject, jfieldID, jfloat],
     Fn ''SetDoubleField'' void_t [Ptr JNIEnv, jobject, jfieldID, jdouble],
     Fn ''GetStaticMethodID'' jmethodID [Ptr JNIEnv, jclass, Ptr (Const char_t), Ptr (Const char_t)]]"

definition native_interface_3 :: "slot list" where
  "native_interface_3 = [
     Variadic ''CallStaticObjectMethod'' jobject [Ptr JNIEnv, jclass, jmethodID],
     Fn ''CallStaticObjectMethodV'' jobject [Ptr JNIEnv, jclass, jmethodID, va_list],
     Fn ''CallStaticObjectMethodA'' jobject [Ptr JNIEnv, jclass, jmethodID, Ptr (Const jvalue)],
     Variadic ''CallStaticBooleanMethod'' jboolean [Ptr JNIEnv, jclass, jmethodID],
     Fn ''CallStaticBooleanMethodV'' jboolean [Ptr JNIEnv, jclass, jmethodID, va_list],
     Fn ''CallStaticBooleanMethodA'' jboolean [Ptr JNIEnv, jclass, jmethodID, Ptr (Const jvalue)],
     Variadic ''CallStaticByteMethod'' jbyte [Ptr JNIEnv, jclass, jmethodID],
     Fn ''CallStaticByteMethodV'' jbyte [Ptr JNIEnv, jclass, jmethodID, va_list],
     Fn ''CallStaticByteMethodA'' jbyte [Ptr JNIEnv, jclass, jmethodID, Ptr (Const jvalue)],
     Variadic ''CallStaticCharMethod'' jchar [Ptr JNIEnv, jclass, jmethodID],
     Fn ''CallStaticCharMethodV'' jchar [Ptr JNIEnv, jclass, jmethodID, va_list],
     Fn ''CallStaticCharMethodA'' jchar [Ptr JNIEnv, jclass, jmethodID, Ptr (Const jvalue)],
     Variadic ''CallStaticShortMethod'' jshort [Ptr JNIEnv, jclass, jmethodID],
     Fn ''CallStaticShortMethodV'' jshort [Ptr JNIEnv, jclass, jmethodID, va_list],
     Fn ''CallStaticShortMethodA'' jshort [Ptr JNIEnv, jclass, jmethodID, Ptr (Const jvalue)],
     Variadic ''CallStaticIntMethod'' jint [Ptr JNIEnv, jclass, jmethodID],
     Fn ''CallStaticIntMethodV'' jint [Ptr JNIEnv, jclass, jmethodID, va_list],
     Fn ''CallStaticIntMethodA'' jint [Ptr JNIEnv, jclass, jmethodID, Ptr (Const jvalue)],
     Variadic ''CallStaticLongMethod'' jlong [Ptr JNIEnv, jclass, jmethodID],
     Fn ''CallStaticLongMethodV'' jlong [Ptr JNIEnv, jclass, jmethodID, va_list],
     Fn ''CallStaticLongMethodA'' jlong [Ptr JNIEnv, jclass, jmethodID, Ptr (Const jvalue)],
     Variadic ''CallStaticFloatMethod'' jfloat [Ptr JNIEnv, jclass, jmethodID],
     Fn ''CallStaticFloatMethodV'' jfloat [Ptr JNIEnv, jclass, jmethodID, va_list],
     Fn ''CallStaticFloatMethodA'' jfloat [Ptr JNIEnv, jclass, jmethodID, Ptr (Const jvalue)],
     Variadic ''CallStaticDoubleMethod'' jdouble [Ptr JNIEnv, jclass, jmethodID],
     Fn ''CallStaticDoubleMethodV'' jdouble [Ptr JNIEnv, jclass, jmethodID, va_list],
     Fn ''CallStaticDoubleMethodA'' jdouble [Ptr JNIEnv, jclass, jmethodID, Ptr (Const jvalue)],
     Variadic ''CallStaticVoidMethod'' void_t [Ptr JNIEnv, jclass, jmethodID],
     Fn ''CallStaticVoidMethodV'' void_t [Ptr JNIEnv, jclass, jmethodID, va_list],
     Fn ''CallStaticVoidMethodA'' void_t [Ptr JNIEnv, jclass, jmethodID, Ptr (Const jvalue)],
     Fn ''GetStaticFieldID'' jfieldID [Ptr JNIEnv, jclass, Ptr (Const char_t), Ptr (Const char_t)],
     Fn ''GetStaticObjectField'' jobject [Ptr JNIEnv, jclass, jfieldID],
     Fn ''GetStaticBooleanField'' jboolean [Ptr JNIEnv, jclass, jfieldID],
     Fn ''GetStaticByteField'' jbyte [Ptr JNIEnv, jclass, jfieldID],
     Fn ''GetStaticCharField'' jchar [Ptr JNIEnv, jclass, jfieldID],
     Fn ''GetStaticShortField'' jshort [Ptr JNIEnv, jclass, jfieldID],
     Fn ''GetStaticIntField'' jint [Ptr JNIEnv, jclass, jfieldID],
     Fn ''GetStaticLongField'' jlong [Ptr JNIEnv, jclass, jfieldID],
     Fn ''GetStaticFloatField'' jfloat [Ptr JNIEnv, jclass, jfieldID],
     Fn ''GetStaticDoubleField'' jdouble [Ptr JNIEnv, jclass, jfieldID],
     Fn ''SetStaticObjectField'' void_t [Ptr JNIEnv, jclass, jfieldID, jobject],
     Fn ''SetStaticBooleanField'' void_t [Ptr JNIEnv, jclass, jfieldID, jboolean],
     Fn ''SetStaticByteField'' void_t [Ptr JNIEnv, jclass, jfieldID, jbyte],
     Fn ''SetStaticCharField'' void_t [Ptr JNIEnv, jclass, jfieldID, jchar],
     Fn ''SetStaticShortField'' void_t [Ptr JNIEnv, jclass, jfieldID, jshort],
     Fn ''SetStaticIntField'' void_t [Ptr JNIEnv, jclass, jfieldID, jint],
     Fn ''SetStaticLongField'' void_t [Ptr JNIEnv, jclass, jfieldID, jlong],
     Fn ''SetStaticFloatField'' void_t [Ptr JNIEnv, jclass, jfieldID, jfloat],
     Fn ''SetStaticDoubleField'' void_t [Ptr JNIEnv, jclass, jfieldID, jdouble],
     Fn ''NewString'' jstring [Ptr JNIEnv, Ptr (Const jchar), jsize],
     Fn ''GetStringLength'' jsize [Ptr JNIEnv, jstring],
     Fn ''GetStringChars'' (Ptr (Const jchar)) [Ptr JNIEnv, jstring, Ptr jboolean],
     Fn ''ReleaseStringChars'' void_t [Ptr JNIEnv, jstring, Ptr (Const jchar)],
     Fn ''NewStringUTF'' jstring [Ptr JNIEnv, Ptr (Const char_t)],
     Fn ''GetStringUTFLength'' jsize [Ptr JNIEnv, jstring],
     Fn ''GetStringUTFChars'' (Ptr (Const char_t)) [Ptr JNIEnv, jstring, Ptr jboolean],
     Fn ''ReleaseStringUTFChars'' void_t [Ptr JNIEnv, jstring, Ptr (Const char_t)],
     Fn ''GetArrayLength'' jsize [Ptr JNIEnv, jarray],
     Fn ''NewObjectArray'' jobjectArray [Ptr JNIEnv, jsize, jclass, jobject],
     Fn ''GetObjectArrayElement'' jobject [Ptr JNIEnv, jobjectArray, jsize],
     Fn ''SetObjectArrayElement'' void_t [Ptr JNIEnv, jobjectArray, jsize, jobject]]"

definition native_interface_4 :: "slot list" where
  "native_interface_4 = [
     Fn ''NewBooleanArray'' jbooleanArray [Ptr JNIEnv, jsize],
     Fn ''NewByteArray'' jbyteArray [Ptr JNIEnv, jsize],
     Fn ''NewCharArray'' jcharArray [Ptr JNIEnv, jsize],
     Fn ''NewShortArray'' jshortArray [Ptr JNIEnv, jsize],
     Fn ''NewIntArray'' jintArray [Ptr JNIEnv, jsize],
     Fn ''NewLongArray'' jlongArray [Ptr JNIEnv, jsize],
     Fn ''NewFloatArray'' jfloatArray [Ptr JNIEnv, jsize],
     Fn ''NewDoubleArray'' jdoubleArray [Ptr JNIEnv, jsize],
     Fn ''GetBooleanArrayElements'' (Ptr jboolean) [Ptr JNIEnv, jbooleanArray, Ptr jboolean],
     Fn ''GetByteArrayElements'' (Ptr jbyte) [Ptr JNIEnv, jbyteArray, Ptr jboolean],
     Fn ''GetCharArrayElements'' (Ptr jchar) [Ptr JNIEnv, jcharArray, Ptr jboolean],
     Fn ''GetShortArrayElements'' (Ptr jshort) [Ptr JNIEnv, jshortArray, Ptr jboolean],
     Fn ''GetIntArrayElements'' (Ptr jint) [Ptr JNIEnv, jintArray, Ptr jboolean],
     Fn ''GetLongArrayElements'' (Ptr jlong) [Ptr JNIEnv, jlongArray, Ptr jboolean],
     Fn ''GetFloatArrayElements'' (Ptr jfloat) [Ptr JNIEnv, jfloatArray, Ptr jboolean],
     Fn ''GetDoubleArrayElements'' (Ptr jdouble) [Ptr JNIEnv, jdoubleArray, Ptr jboolean],
     Fn ''ReleaseBooleanArrayElements'' void_t [Ptr JNIEnv, jbooleanArray, Ptr jboolean, jint],
     Fn ''ReleaseByteArrayElements'' void_t [Ptr JNIEnv, jbyteArray, Ptr jbyte, jint],
     Fn ''ReleaseCharArrayElements'' void_t [Ptr JNIEnv, jcharArray, Ptr jchar, jint],
     Fn ''ReleaseShortArrayElements'' void_t [Ptr JNIEnv, jshortArray, Ptr jshort, jint],
     Fn ''ReleaseIntArrayElements'' void_t [Ptr JNIEnv, jintArray, Ptr jint, jint],
     Fn ''ReleaseLongArrayElements'' void_t [Ptr JNIEnv, jlongArray, Ptr jlong, jint],
     Fn ''ReleaseFloatArrayElements'' void_t [Ptr JNIEnv, jfloatArray, Ptr jfloat, jint],
     Fn ''ReleaseDoubleArrayElements'' void_t [Ptr JNIEnv, jdoubleArray, Ptr jdouble, jint],
     Fn ''GetBooleanArrayRegion'' void_t [Ptr JNIEnv, jbooleanArray, jsize, jsize, Ptr jboolean],
     Fn ''GetByteArrayRegion'' void_t [Ptr JNIEnv, jbyteArray, jsize, jsize, Ptr jbyte],
     Fn ''GetCharArrayRegion'' void_t [Ptr JNIEnv, jcharArray, jsize, jsize, Ptr jchar],
     Fn ''GetShortArrayRegion'' void_t [Ptr JNIEnv, jshortArray, jsize, jsize, Ptr jshort],
     Fn ''GetIntArrayRegion'' void_t [Ptr JNIEnv, jintArray, jsize, jsize, Ptr jint],
     Fn ''GetLongArrayRegion'' void_t [Ptr JNIEnv, jlongArray, jsize, jsize, Ptr jlong],
     Fn ''GetFloatArrayRegion'' void_t [Ptr JNIEnv, jfloatArray, jsize, jsize, Ptr jfloat],
     Fn ''GetDoubleArrayRegion'' void_t [Ptr JNIEnv, jdoubleArray, jsize, jsize, Ptr jdouble],
     Fn ''SetBooleanArrayRegion'' void_t [Ptr JNIEnv, jbooleanArray, jsize, jsize, Ptr (Const jboolean)],
     Fn ''SetByteArrayRegion'' void_t [Ptr JNIEnv, jbyteArray, jsize, jsize, Ptr (Const jbyte)],
     Fn ''SetCharArrayRegion'' void_t [Ptr JNIEnv, jcharArray, jsize, jsize, Ptr (Const jchar)],
     Fn ''SetShortArrayRegion'' void_t [Ptr JNIEnv, jshortArray, jsize, jsize, Ptr (Const jshort)],
     Fn ''SetIntArrayRegion'' void_t [Ptr JNIEnv, jintArray, jsize, jsize, Ptr (Const jint)],
     Fn ''SetLongArrayRegion'' void_t [Ptr JNIEnv, jlongArray, jsize, jsize, Ptr (Const jlong)],
     Fn ''SetFloatArrayRegion'' void_t [Ptr JNIEnv, jfloatArray, jsize, jsize, Ptr (Const jfloat)],
     Fn ''SetDoubleArrayRegion'' void_t [Ptr JNIEnv, jdoubleArray, jsize, jsize, Ptr (Const jdouble)],
     Fn ''RegisterNatives'' jint [Ptr JNIEnv, jclass, Ptr (Const JNINativeMethod), jint],
     Fn ''UnregisterNatives'' jint [Ptr JNIEnv, jclass],
     Fn ''MonitorEnter'' jint [Ptr JNIEnv, jobject],
     Fn ''MonitorExit'' jint [Ptr JNIEnv, jobject],
     Fn ''GetJavaVM'' jint [Ptr JNIEnv, Ptr (Ptr JavaVM)],
     Fn ''GetStringRegion'' void_t [Ptr JNIEnv, jstring, jsize, jsize, Ptr jchar],
     Fn ''GetStringUTFRegion'' void_t [Ptr JNIEnv, jstring, jsize, jsize, Ptr char_t],
     Fn ''GetPrimitiveArrayCritical'' (Ptr void_t) [Ptr JNIEnv, jarray, Ptr jboolean],
     Fn ''ReleasePrimitiveArrayCritical'' void_t [Ptr JNIEnv, jarray, Ptr void_t, jint],
     Fn ''GetStringCritical'' (Ptr (Const jchar)) [Ptr JNIEnv, jstring, Ptr jboolean],
     Fn ''ReleaseStringCritical'' void_t [Ptr JNIEnv, jstring, Ptr (Const jchar)],
     Fn ''NewWeakGlobalRef'' jweak [Ptr JNIEnv, jobject],
     Fn ''DeleteWeakGlobalRef'' void_t [Ptr JNIEnv, jweak],
     Fn ''ExceptionCheck'' jboolean [Ptr JNIEnv],
     Fn ''NewDirectByteBuffer'' jobject [Ptr JNIEnv, Ptr void_t, jlong],
     Fn ''GetDirectBufferAddress'' (Ptr void_t) [Ptr JNIEnv, jobject],
     Fn ''GetDirectBufferCapacity'' jlong [Ptr JNIEnv, jobject],
     Fn ''GetObjectRefType'' jobjectRefType [Ptr JNIEnv, jobject]]"

definition JNINativeInterface :: "slot list" where
  "JNINativeInterface =
     native_interface_1 @ native_interface_2 @ native_interface_3 @ native_interface_4"

section \<open>The invocation interface\<close>

definition JNIInvokeInterface :: "slot list" where
  "JNIInvokeInterface = [
     Reserved ''reserved0'' 1, Reserved ''reserved1'' 1, Reserved ''reserved2'' 1,
     Fn ''DestroyJavaVM'' jint [Ptr JavaVM],
     Fn ''AttachCurrentThread'' jint [Ptr JavaVM, Ptr (Ptr void_t), Ptr void_t],
     Fn ''DetachCurrentThread'' jint [Ptr JavaVM],
     Fn ''GetEnv'' jint [Ptr JavaVM, Ptr (Ptr void_t), jint],
     Fn ''AttachCurrentThreadAsDaemon'' jint [Ptr JavaVM, Ptr (Ptr void_t), Ptr void_t]]"

section \<open>The contract of a table\<close>

lemma offset_of_name: "offset_of n ss = Some k \<Longrightarrow> \<exists>s\<in>set ss. slot_name s = n"
  by (induction ss arbitrary: k) (auto split: if_splits)

lemma offset_of_nth:
  "distinct (map slot_name ss) \<Longrightarrow> i < length ss \<Longrightarrow>
     offset_of (slot_name (ss ! i)) ss = Some (table_words (take i ss))"
proof (induction ss arbitrary: i)
  case (Cons s ss)
  then show ?case
  proof (cases i)
    case (Suc j)
    then have "slot_name (ss ! j) \<noteq> slot_name s" using Cons.prems by (metis distinct.simps(2) imageI length_Cons
          list.set_map list.simps(9) nth_mem Suc_less_SucD)
    with Suc Cons show ?thesis by (simp add: table_words_def)
  qed (simp add: table_words_def)
qed simp

lemma slot_at_append:
  "slot_at k (ss @ ts) = (if k < table_words ss then slot_at k ss else slot_at (k - table_words ss) ts)"
  by (induction ss arbitrary: k) (auto simp: table_words_def)

locale function_table =
  fixes table :: "slot list"
  assumes names_distinct: "distinct (map slot_name table)"
    and words_positive: "s \<in> set table \<Longrightarrow> 0 < slot_words s"
begin

lemma slot_at_nth: "i < length table \<Longrightarrow> slot_at (table_words (take i table)) table = Some (table ! i)"
proof -
  assume i: "i < length table"
  then have "table = take i table @ table ! i # drop (Suc i) table" by (rule id_take_nth_drop)
  moreover have "0 < slot_words (table ! i)" using words_positive i by simp
  ultimately show ?thesis
    by (metis diff_self_eq_0 less_irrefl slot_at.simps(2) slot_at_append)
qed

lemma offset_of_iff:
  "offset_of n table = Some k \<longleftrightarrow>
     (\<exists>i<length table. slot_name (table ! i) = n \<and> k = table_words (take i table))"
proof
  assume k: "offset_of n table = Some k"
  then obtain i where "i < length table" "slot_name (table ! i) = n"
    using offset_of_name by (metis in_set_conv_nth)
  with k offset_of_nth [OF names_distinct] show "\<exists>i<length table. slot_name (table ! i) = n \<and> k = table_words (take i table)"
    by fastforce
qed (use offset_of_nth [OF names_distinct] in auto)

lemma slot_at_offset: "offset_of n table = Some k \<Longrightarrow> \<exists>s\<in>set table. slot_at k table = Some s \<and> slot_name s = n"
  using slot_at_nth by (auto simp: offset_of_iff)

lemma offset_of_inject:
  "offset_of n table = Some k \<Longrightarrow> offset_of m table = Some k \<Longrightarrow> n = m"
  using slot_at_offset [of n k] slot_at_offset [of m k] by auto

lemma offset_of_defined: "s \<in> set table \<Longrightarrow> \<exists>k. offset_of (slot_name s) table = Some k \<and> slot_at k table = Some s"
  using offset_of_nth [OF names_distinct] slot_at_nth by (metis in_set_conv_nth)

lemma offset_of_bound: "offset_of n table = Some k \<Longrightarrow> k < table_words table"
proof -
  assume "offset_of n table = Some k"
  then obtain i where i: "i < length table" "k = table_words (take i table)" by (auto simp: offset_of_iff)
  then have "table = take i table @ table ! i # drop (Suc i) table" by (simp add: id_take_nth_drop)
  moreover have "0 < slot_words (table ! i)" using words_positive i by simp
  ultimately have "table_words (take i table) < table_words table"
    by (metis (no_types) add_less_cancel_left less_add_same_cancel1 list.simps(9) map_append sum_list.Cons
        sum_list_append table_words_def trans_less_add1)
  then show ?thesis using i by simp
qed

end

text \<open>
  Names are compared through a number, which keeps the check that all names of a table
  differ small.
\<close>

fun char_value :: "char \<Rightarrow> int" where
  "char_value (Char a b c d e f g h) =
     of_bool a + 2 * (of_bool b + 2 * (of_bool c + 2 * (of_bool d + 2 * (of_bool e + 2 *
       (of_bool f + 2 * (of_bool g + 2 * of_bool h))))))"

fun name_hash :: "string \<Rightarrow> int" where
  "name_hash [] = 0" | "name_hash (c # cs) = char_value c + 2 * name_hash cs"

lemma distinct_by_hash: "distinct (map (\<lambda>x. name_hash (f x)) xs) \<Longrightarrow> distinct (map f xs)"
  using distinct_map [of name_hash "map f xs"] by (simp add: comp_def)

lemmas native_interface_defs =
  native_interface_1_def native_interface_2_def native_interface_3_def native_interface_4_def

interpretation native_table: function_table JNINativeInterface
proof
  have "distinct (map (\<lambda>s. name_hash (slot_name s)) JNINativeInterface)"
    by (simp add: JNINativeInterface_def native_interface_defs)
  then show "distinct (map slot_name JNINativeInterface)" by (rule distinct_by_hash)
  have "list_all (\<lambda>s. 0 < slot_words s) JNINativeInterface"
    by (simp add: JNINativeInterface_def native_interface_defs)
  then show "s \<in> set JNINativeInterface \<Longrightarrow> 0 < slot_words s" for s by (simp add: list_all_iff)
qed

interpretation invoke_table: function_table JNIInvokeInterface
  by unfold_locales (auto simp: JNIInvokeInterface_def)

section \<open>Properties\<close>

text \<open>The native interface has one pointer per member, so that a member lies at its index.\<close>

lemma length_native_interface: "length JNINativeInterface = 233"
  by (simp add: JNINativeInterface_def native_interface_defs)

lemma native_table_index:
  assumes "i < length JNINativeInterface" "slot_name (JNINativeInterface ! i) = n"
  shows "offset_of n JNINativeInterface = Some i"
proof -
  have "list_all (\<lambda>s. slot_words s = 1) JNINativeInterface" by (simp add: JNINativeInterface_def native_interface_defs)
  then have "map slot_words (take i JNINativeInterface) = replicate i 1"
    using assms(1) by (intro replicate_eqI) (auto simp: list_all_iff dest: in_set_takeD)
  then have "table_words (take i JNINativeInterface) = i" by (simp add: table_words_def sum_list_replicate)
  with assms show ?thesis using offset_of_nth [OF native_table.names_distinct, of i] by simp
qed

text \<open>The calling forms: a function with open arguments is followed by its two forms with a
  \<open>va_list\<close> and with an array of values, and every function takes the environment first.\<close>

fun further_forms :: "slot \<Rightarrow> slot list" where
  "further_forms (Variadic n r ps) =
     [Fn (n @ ''V'') r (ps @ [va_list]), Fn (n @ ''A'') r (ps @ [Ptr (Const jvalue)])]"
| "further_forms s = []"

fun forms_follow :: "slot list \<Rightarrow> slot list \<Rightarrow> bool" where
  "forms_follow es [] \<longleftrightarrow> es = []"
| "forms_follow [] (s # ss) \<longleftrightarrow> forms_follow (further_forms s) ss"
| "forms_follow (e # es) (s # ss) \<longleftrightarrow> s = e \<and> forms_follow es ss"

fun takes_first :: "ctype \<Rightarrow> slot \<Rightarrow> bool" where
  "takes_first t (Reserved n k) = True"
| "takes_first t (Fn n r ps) = (ps \<noteq> [] \<and> hd ps = t)"
| "takes_first t (Variadic n r ps) = (ps \<noteq> [] \<and> hd ps = t)"

lemma forms_follow_prefix: "forms_follow es ss \<Longrightarrow> \<exists>ts. ss = es @ ts"
  by (induction es ss rule: forms_follow.induct) auto

lemma forms_follow_nth:
  assumes "forms_follow es ss" "\<forall>e\<in>set es. further_forms e = []" "i < length ss" "ss ! i = Variadic n r ps"
  shows "\<exists>pre ts. ss = pre @ further_forms (Variadic n r ps) @ ts \<and> length pre = Suc i"
  using assms
proof (induction es ss arbitrary: i rule: forms_follow.induct)
  case (2 s ss)
  show ?case
  proof (cases i)
    case 0
    then obtain ts where "ss = further_forms s @ ts" using 2 forms_follow_prefix by fastforce
    then have "s # ss = [s] @ further_forms (Variadic n r ps) @ ts" using 0 2 by simp
    then show ?thesis using 0 by (metis One_nat_def length_Cons list.size(3))
  next
    case (Suc j)
    have "\<forall>e\<in>set (further_forms s). further_forms e = []" by (cases s) simp_all
    then obtain pre ts where "ss = pre @ further_forms (Variadic n r ps) @ ts" "length pre = Suc j"
      using 2(1) [of j] 2(2-) Suc by auto
    then have "s # ss = (s # pre) @ further_forms (Variadic n r ps) @ ts \<and> length (s # pre) = Suc i"
      using Suc by simp
    then show ?thesis by blast
  qed
next
  case (3 e es s ss)
  show ?case
  proof (cases i)
    case 0
    then show ?thesis using 3 by auto
  next
    case (Suc j)
    then obtain pre ts where "ss = pre @ further_forms (Variadic n r ps) @ ts" "length pre = Suc j"
      using 3(1) [of j] 3(2-) by auto
    then have "s # ss = (s # pre) @ further_forms (Variadic n r ps) @ ts \<and> length (s # pre) = Suc i"
      using Suc by simp
    then show ?thesis by blast
  qed
qed simp

lemma native_forms_follow: "forms_follow [] JNINativeInterface"
  by (simp add: JNINativeInterface_def native_interface_defs)

lemma forms_follow_at:
  assumes "forms_follow [] ss" "i < length ss" "ss ! i = Variadic n r ps"
  shows "i + 2 < length ss \<and> ss ! (i + 1) = Fn (n @ ''V'') r (ps @ [va_list]) \<and>
    ss ! (i + 2) = Fn (n @ ''A'') r (ps @ [Ptr (Const jvalue)])"
proof -
  obtain pre ts where "ss = pre @ further_forms (Variadic n r ps) @ ts" "length pre = Suc i"
    using forms_follow_nth [OF assms(1) _ assms(2,3)] by auto
  then show ?thesis by (simp add: nth_append)
qed

text \<open>C26: every function of the table takes the environment as its first argument, and the
  functions with open arguments are each followed by the form with a \<open>va_list\<close> and the form
  with an array of values, with the same result and the same other parameters.\<close>

theorem native_calling_forms:
  "list_all (takes_first (Ptr JNIEnv)) JNINativeInterface \<and>
   (\<forall>i n r ps. i < 233 \<and> JNINativeInterface ! i = Variadic n r ps \<longrightarrow> i + 2 < 233 \<and>
     JNINativeInterface ! (i + 1) = Fn (n @ ''V'') r (ps @ [va_list]) \<and>
     JNINativeInterface ! (i + 2) = Fn (n @ ''A'') r (ps @ [Ptr (Const jvalue)]))"
proof -
  have forms: "i + 2 < 233 \<and> JNINativeInterface ! (i + 1) = Fn (n @ ''V'') r (ps @ [va_list]) \<and>
      JNINativeInterface ! (i + 2) = Fn (n @ ''A'') r (ps @ [Ptr (Const jvalue)])"
    if "i < 233" "JNINativeInterface ! i = Variadic n r ps" for i n r ps
    using forms_follow_at [OF native_forms_follow, of i n r ps] that by (simp add: length_native_interface)
  have "list_all (takes_first (Ptr JNIEnv)) JNINativeInterface"
    by (simp add: JNINativeInterface_def native_interface_defs)
  then show ?thesis using forms by blast
qed

lemma native_calling_forms_witness:
  "JNINativeInterface ! 28 = Variadic ''NewObject'' jobject [Ptr JNIEnv, jclass, jmethodID] \<and>
   JNINativeInterface ! 29 = Fn ''NewObjectV'' jobject [Ptr JNIEnv, jclass, jmethodID, va_list]"
proof -
  have v: "JNINativeInterface ! 28 = Variadic ''NewObject'' jobject [Ptr JNIEnv, jclass, jmethodID]"
    by (simp add: JNINativeInterface_def native_interface_1_def)
  have "(28 :: nat) < 233" by simp
  note forms = native_calling_forms [THEN conjunct2, rule_format, OF conjI, OF this v]
  show ?thesis using v forms by simp
qed

end
