(* ===== verification/Jni_Members.thy ===== *)
theory Jni_Members
  imports Jni_Interface
begin

text \<open>
  The language of the inline members through which C++ code calls the function tables of
  \<open>jni.h\<close>: the few statements their bodies are made of, what executing such a body does, and
  the proof that a body of one of two shapes only forwards its arguments to one entry of the
  table, through a \<open>va_list\<close> where it has open arguments.
\<close>

section \<open>Members and their bodies\<close>

text \<open>
  The statements that occur: the declaration of the \<open>va_list\<close> and of the result, the two
  macros that start and end the list, and a call through the table, its arguments given by
  name, whose result is assigned, returned or dropped.
\<close>

datatype cstmt =
    VaDecl string
  | VarDecl ctype string
  | VaStart string string
  | VaEnd string
  | AssignCall string string "string list"
  | Call string "string list"
  | ReturnCall string "string list"
  | Return string

datatype cmember = Member
  (member_name: string) (member_ret: ctype) (member_params: "(ctype \<times> string) list")
  (member_open: bool) (member_body: "cstmt list")

section \<open>Executing a body\<close>

text \<open>
  Values are of any type \<open>'v\<close>. What is passed to a function is the environment itself, a
  value, or a \<open>va_list\<close> that stands for the remaining arguments. A local variable is without
  a value, has one, or is a \<open>va_list\<close> not yet started, started, used by a callee, or ended.
  Using a variable in a state that does not allow it is an error: C leaves it undefined.
\<close>

datatype 'v arg = This | Val 'v | VaArgs "'v list"

datatype 'v local = NoValue | Value 'v | VaIdle | VaRunning "'v list" | VaUsed

datatype undefined_behaviour =
    UnknownName string | NoFunction string | VaListState string | BadLastParameter string | MissingReturn

text \<open>
  The functions behind a table are given by the pointers it holds: a function for each place,
  which takes the arguments and a state \<open>'w\<close> of the virtual machine.
\<close>

type_synonym ('v, 'w) implementation = "nat \<Rightarrow> 'v arg list \<Rightarrow> 'w \<Rightarrow> 'v \<times> 'w"

type_synonym 'v locals = "string \<Rightarrow> 'v local option"

definition arg_value :: "'v locals \<Rightarrow> string \<Rightarrow> undefined_behaviour + 'v arg" where
  "arg_value L x = (if x = ''this'' then Inr This else
     (case L x of
        Some (Value v) \<Rightarrow> Inr (Val v)
      | Some (VaRunning vs) \<Rightarrow> Inr (VaArgs vs)
      | Some _ \<Rightarrow> Inl (VaListState x)
      | None \<Rightarrow> Inl (UnknownName x)))"

fun arg_values :: "'v locals \<Rightarrow> string list \<Rightarrow> undefined_behaviour + 'v arg list" where
  "arg_values L [] = Inr []"
| "arg_values L (x # xs) = (case arg_value L x of Inl e \<Rightarrow> Inl e
     | Inr v \<Rightarrow> (case arg_values L xs of Inl e \<Rightarrow> Inl e | Inr vs \<Rightarrow> Inr (v # vs)))"

text \<open>A callee leaves a \<open>va_list\<close> it is given in no state to be used again, only to be ended.\<close>

fun after_call :: "string list \<Rightarrow> 'v locals \<Rightarrow> 'v locals" where
  "after_call [] L = L"
| "after_call (x # xs) L =
     after_call xs (case L x of Some (VaRunning vs) \<Rightarrow> L(x \<mapsto> VaUsed) | _ \<Rightarrow> L)"

definition call_slot ::
  "slot list \<Rightarrow> ('v, 'w) implementation \<Rightarrow> string \<Rightarrow> string list \<Rightarrow> 'v locals \<Rightarrow> 'w \<Rightarrow>
     undefined_behaviour + 'v \<times> 'w" where
  "call_slot table impl f xs L w = (case offset_of f table of None \<Rightarrow> Inl (NoFunction f)
     | Some k \<Rightarrow> (case arg_values L xs of Inl e \<Rightarrow> Inl e | Inr vs \<Rightarrow> Inr (impl k vs w)))"

text \<open>No \<open>va_list\<close> may be left running when the body is left.\<close>

definition va_ended :: "string list \<Rightarrow> 'v locals \<Rightarrow> bool" where
  "va_ended xs L \<longleftrightarrow> list_all (\<lambda>x. case L x of Some (VaRunning vs) \<Rightarrow> False | Some VaUsed \<Rightarrow> False | _ \<Rightarrow> True) xs"

text \<open>
  The arguments of \<open>exec\<close>: the table and what is behind it, the name of the last named
  parameter, the open arguments, the \<open>va_list\<close>s declared so far, and the local variables.
  The result is the returned value, none for a body that ends without a return.
\<close>

fun exec_body ::
  "slot list \<Rightarrow> ('v, 'w) implementation \<Rightarrow> string \<Rightarrow> 'v list \<Rightarrow> cstmt list \<Rightarrow> string list \<Rightarrow>
     'v locals \<Rightarrow> 'w \<Rightarrow> undefined_behaviour + 'v option \<times> 'w" where
  "exec_body table impl last_param vargs [] vls L w =
     (if va_ended vls L then Inr (None, w) else Inl (VaListState (concat vls)))"
| "exec_body table impl last_param vargs (VaDecl x # ss) vls L w =
     exec_body table impl last_param vargs ss (x # vls) (L(x \<mapsto> VaIdle)) w"
| "exec_body table impl last_param vargs (VarDecl t x # ss) vls L w =
     exec_body table impl last_param vargs ss vls (L(x \<mapsto> NoValue)) w"
| "exec_body table impl last_param vargs (VaStart x y # ss) vls L w =
     (if L x \<noteq> Some VaIdle then Inl (VaListState x)
      else if y \<noteq> last_param then Inl (BadLastParameter y)
      else exec_body table impl last_param vargs ss vls (L(x \<mapsto> VaRunning vargs)) w)"
| "exec_body table impl last_param vargs (VaEnd x # ss) vls L w =
     (case L x of
        Some (VaRunning vs) \<Rightarrow> exec_body table impl last_param vargs ss vls (L(x \<mapsto> VaIdle)) w
      | Some VaUsed \<Rightarrow> exec_body table impl last_param vargs ss vls (L(x \<mapsto> VaIdle)) w
      | _ \<Rightarrow> Inl (VaListState x))"
| "exec_body table impl last_param vargs (AssignCall r f xs # ss) vls L w =
     (case call_slot table impl f xs L w of Inl e \<Rightarrow> Inl e
      | Inr (v, w') \<Rightarrow> exec_body table impl last_param vargs ss vls ((after_call xs L)(r \<mapsto> Value v)) w')"
| "exec_body table impl last_param vargs (Call f xs # ss) vls L w =
     (case call_slot table impl f xs L w of Inl e \<Rightarrow> Inl e
      | Inr (v, w') \<Rightarrow> exec_body table impl last_param vargs ss vls (after_call xs L) w')"
| "exec_body table impl last_param vargs (ReturnCall f xs # ss) vls L w =
     (case call_slot table impl f xs L w of Inl e \<Rightarrow> Inl e
      | Inr (v, w') \<Rightarrow> if va_ended vls (after_call xs L) then Inr (Some v, w') else Inl (VaListState f))"
| "exec_body table impl last_param vargs (Return x # ss) vls L w =
     (case L x of
        Some (Value v) \<Rightarrow> if va_ended vls L then Inr (Some v, w) else Inl (VaListState x)
      | _ \<Rightarrow> Inl (UnknownName x))"

text \<open>
  A call of a member binds its parameters. A parameter of type \<open>va_list\<close> is a value here, the
  callee's business. A member with a result must return one.
\<close>

definition call_member ::
  "slot list \<Rightarrow> ('v, 'w) implementation \<Rightarrow> cmember \<Rightarrow> 'v list \<Rightarrow> 'v list \<Rightarrow> 'w \<Rightarrow>
     undefined_behaviour + 'v option \<times> 'w" where
  "call_member table impl m args vargs w =
     (let names = map snd (member_params m) in
      case exec_body table impl (if names = [] then [] else last names) vargs (member_body m) []
             (map_of (zip names (map Value args))) w of
        Inl e \<Rightarrow> Inl e
      | Inr (r, w') \<Rightarrow> if (r = None) = (member_ret m = void_t) then Inr (r, w') else Inl MissingReturn)"

section \<open>The two shapes of a member\<close>

text \<open>
  A member without open arguments forwards to the function of its own name; one with open
  arguments forwards to the form that takes a \<open>va_list\<close>.
\<close>

definition param_names :: "cmember \<Rightarrow> string list" where
  "param_names m = map snd (member_params m)"

definition target :: "cmember \<Rightarrow> string" where
  "target m = (if member_open m then member_name m @ ''V'' else member_name m)"

definition forwarding :: "cmember \<Rightarrow> cstmt list" where
  "forwarding m = (let args = ''this'' # param_names m in
     if member_open m then
       (if member_ret m = void_t
        then [VaDecl ''args'', VaStart ''args'' (last (param_names m)),
              Call (target m) (args @ [''args'']), VaEnd ''args'']
        else [VaDecl ''args'', VarDecl (member_ret m) ''result'', VaStart ''args'' (last (param_names m)),
              AssignCall ''result'' (target m) (args @ [''args'']), VaEnd ''args'', Return ''result''])
     else if member_ret m = void_t then [Call (target m) args]
     else [ReturnCall (target m) args])"

definition well_formed :: "cmember \<Rightarrow> bool" where
  "well_formed m \<longleftrightarrow> member_body m = forwarding m \<and> distinct (param_names m) \<and>
     ''this'' \<notin> set (param_names m) \<and>
     (member_open m \<longrightarrow> param_names m \<noteq> [] \<and> ''args'' \<notin> set (param_names m) \<and> ''result'' \<notin> set (param_names m))"

text \<open>What a table must offer for a member: the function it forwards to, with the types of its call.\<close>

definition call_types :: "ctype \<Rightarrow> cmember \<Rightarrow> ctype list" where
  "call_types self m = Ptr self # map fst (member_params m) @ (if member_open m then [va_list] else [])"

definition offered :: "ctype \<Rightarrow> cmember \<Rightarrow> slot" where
  "offered self m = Fn (target m) (member_ret m) (call_types self m)"

lemma arg_values_bound:
  assumes "length xs = length vs" "\<And>i. i < length xs \<Longrightarrow> L (xs ! i) = Some (Value (vs ! i))"
    and "''this'' \<notin> set xs"
  shows "arg_values L xs = Inr (map Val vs)"
  using assms
proof (induction xs vs rule: list_induct2)
  case (Cons x xs v vs)
  have "L x = Some (Value v)" using Cons.prems(1) [of 0] by simp
  moreover have "L (xs ! i) = Some (Value (vs ! i))" if "i < length xs" for i
    using Cons.prems(1) [of "Suc i"] that by simp
  moreover have "x \<noteq> ''this''" "''this'' \<notin> set xs" using Cons.prems(2) by auto
  ultimately show ?case using Cons.IH by (simp add: arg_value_def)
qed simp

lemma arg_values_append:
  "arg_values L (xs @ ys) = (case arg_values L xs of Inl e \<Rightarrow> Inl e
     | Inr vs \<Rightarrow> (case arg_values L ys of Inl e \<Rightarrow> Inl e | Inr ws \<Rightarrow> Inr (vs @ ws)))"
  by (induction xs) (auto split: sum.splits)

lemma after_call_values:
  "(\<And>x. x \<in> set xs \<Longrightarrow> \<forall>vs. L x \<noteq> Some (VaRunning vs)) \<Longrightarrow> after_call xs L = L"
  by (induction xs) (auto split: option.splits local.splits)

lemma after_call_append: "after_call (xs @ ys) L = after_call ys (after_call xs L)"
  by (induction xs arbitrary: L) auto

lemma map_of_zip_values:
  "length xs = length vs \<Longrightarrow> distinct xs \<Longrightarrow> i < length xs \<Longrightarrow>
     map_of (zip xs (map Value vs)) (xs ! i) = Some (Value (vs ! i))"
  by (metis length_map map_of_zip_nth nth_map)

lemma map_of_zip_no_va:
  "map_of (zip xs (map Value vs)) x \<noteq> Some (VaRunning us)"
proof
  assume "map_of (zip xs (map Value vs)) x = Some (VaRunning us)"
  then have "VaRunning us \<in> set (map Value vs)" by (metis map_of_SomeD set_zip_rightD)
  then show False by auto
qed

lemma call_forwarding:
  assumes wf: "well_formed m" and len: "length args = length (param_names m)"
    and k: "offset_of (target m) table = Some k"
  shows "call_member table impl m args vargs w =
    (let (v, w') = impl k (This # map Val args @ (if member_open m then [VaArgs vargs] else [])) w
     in Inr (if member_ret m = void_t then None else Some v, w'))"
proof -
  define ps where "ps = param_names m"
  define L :: "'a locals" where "L = map_of (zip ps (map Value args))"
  have wf': "distinct ps" "''this'' \<notin> set ps" "length args = length ps" "member_body m = forwarding m"
    "member_open m \<Longrightarrow> ps \<noteq> [] \<and> ''args'' \<notin> set ps \<and> ''result'' \<notin> set ps"
    using wf len by (auto simp: well_formed_def ps_def)
  have bound: "L' (ps ! i) = Some (Value (args ! i))"
    if "i < length ps" "\<And>x. x \<in> set ps \<Longrightarrow> L' x = L x" for i L'
    using map_of_zip_values [of ps args i] that wf' by (simp add: L_def)
  have args: "arg_values L' ps = Inr (map Val args)" if "\<And>x. x \<in> set ps \<Longrightarrow> L' x = L x" for L'
    using arg_values_bound [of ps args L'] bound [of _ L'] that wf' by simp
  have no_va: "after_call ps L' = L'" if "\<And>x. x \<in> set ps \<Longrightarrow> L' x = L x" for L'
    using that map_of_zip_no_va [of ps args] by (intro after_call_values) (simp add: L_def)
  have self: "arg_value L' ''this'' = Inr This" for L' :: "'a locals" by (simp add: arg_value_def)
  have L_this: "L ''this'' = None" using wf'(2,3) by (simp add: L_def)
  obtain v w' where impl: "impl k (This # map Val args @ (if member_open m then [VaArgs vargs] else [])) w = (v, w')"
    by (cases "impl k (This # map Val args @ (if member_open m then [VaArgs vargs] else [])) w")
  show ?thesis
  proof (cases "member_open m")
    case False
    then have "call_slot table impl (target m) (''this'' # ps) L w = Inr (v, w')"
      using impl k args [of L] by (simp add: call_slot_def self)
    then show ?thesis
      using False impl no_va [of L] L_this wf'(4)
      by (simp add: call_member_def forwarding_def ps_def [symmetric] param_names_def [symmetric]
          L_def [symmetric] Let_def va_ended_def)
  next
    case True
    define L1 where "L1 = (if member_ret m = void_t then L(''args'' \<mapsto> VaRunning vargs)
      else L(''args'' \<mapsto> VaRunning vargs, ''result'' \<mapsto> NoValue))"
    have L1: "L1 x = L x" if "x \<in> set ps" for x using wf'(5) True that by (auto simp: L1_def)
    have args_this: "L1 ''args'' = Some (VaRunning vargs)" "L1 ''this'' = None" by (simp_all add: L1_def L_this)
    then have slot: "call_slot table impl (target m) (''this'' # ps @ [''args'']) L1 w = Inr (v, w')"
      using impl k args [of L1] L1 True by (simp add: call_slot_def self arg_values_append arg_value_def [of L1 "''args''"])
    have after: "after_call (''this'' # ps @ [''args'']) L1 = L1(''args'' \<mapsto> VaUsed)"
      using no_va [of L1] L1 args_this by (simp add: after_call_append)
    show ?thesis
      using True impl slot after wf'(4,5)
      by (simp add: call_member_def forwarding_def ps_def [symmetric] param_names_def [symmetric]
          L_def [symmetric] Let_def va_ended_def L1_def fun_upd_twist split: if_splits)
  qed
qed

section \<open>Members over a table\<close>

text \<open>The entry of the table that stands for a member: the same function, the object itself in front.\<close>

definition member_slot :: "ctype \<Rightarrow> cmember \<Rightarrow> slot" where
  "member_slot self m = (if member_open m then Variadic else Fn) (member_name m) (member_ret m)
     (Ptr self # map fst (member_params m))"

text \<open>
  The contract between the members of a class and its table: the members are well formed and
  stand for consecutive entries behind the reserved ones, in order, and the entries with open
  arguments are followed by their other forms. It is all a member needs to forward.
\<close>

locale member_table = function_table table for table :: "slot list" +
  fixes members :: "cmember list" and self :: ctype and reserved :: nat
  assumes members_well_formed: "list_all well_formed members"
    and members_slots: "take (length members) (drop reserved table) = map (member_slot self) members"
    and table_forms: "forms_follow [] table"
begin

lemma offered_in_table:
  assumes "m \<in> set members"
  shows "offered self m \<in> set table"
proof -
  have "member_slot self m \<in> set (take (length members) (drop reserved table))"
    using assms by (simp add: members_slots)
  then have mem: "member_slot self m \<in> set table" by (blast dest: in_set_takeD in_set_dropD)
  show ?thesis
  proof (cases "member_open m")
    case False
    then have "offered self m = member_slot self m"
      by (simp add: offered_def member_slot_def target_def call_types_def)
    with mem show ?thesis by simp
  next
    case True
    let ?v = "Variadic (member_name m) (member_ret m) (Ptr self # map fst (member_params m))"
    obtain i where "i < length table" "table ! i = ?v"
      using mem True by (auto simp: in_set_conv_nth member_slot_def)
    then obtain pre ts where "table = pre @ further_forms ?v @ ts"
      using forms_follow_nth [OF table_forms] by fastforce
    moreover have "offered self m \<in> set (further_forms ?v)"
      using True by (simp add: offered_def target_def call_types_def)
    ultimately show ?thesis by (metis Un_iff set_append)
  qed
qed

lemma member_forwards:
  assumes "m \<in> set members" "length args = length (member_params m)"
  shows "\<exists>k. offset_of (target m) table = Some k \<and>
    slot_at k table = Some (Fn (target m) (member_ret m) (call_types self m)) \<and>
    call_member table impl m args vargs w =
      (let (v, w') = impl k (This # map Val args @ (if member_open m then [VaArgs vargs] else [])) w
       in Inr (if member_ret m = void_t then None else Some v, w'))"
proof -
  have wf: "well_formed m" using assms(1) members_well_formed by (simp add: list_all_iff)
  obtain k where k: "offset_of (target m) table = Some k" "slot_at k table = Some (offered self m)"
    using offset_of_defined [OF offered_in_table [OF assms(1)]] by (auto simp: offered_def)
  have "length args = length (param_names m)" using assms(2) by (simp add: param_names_def)
  from call_forwarding [OF wf this k(1), of impl vargs w] k show ?thesis unfolding offered_def by blast
qed

end

end
