(* ===== verification/Jni_Env.thy ===== *)
theory Jni_Env
  imports Jni_Members
begin

text \<open>
  The inline members of \<open>JNIEnv_\<close> and \<open>JavaVM_\<close> in \<open>include/Linux/jni.h\<close>, each with its
  parameters and the statements of its body, in the order of the structs, and what they do:
  every one forwards to its entry of the table.
\<close>

section \<open>The members of the environment\<close>

definition env_members_1 :: "cmember list" where
  "env_members_1 = [
     Member ''GetVersion'' jint [] False [ReturnCall ''GetVersion'' [''this'']],
     Member ''DefineClass'' jclass [(Ptr (Const char_t), ''name''), (jobject, ''loader''),
       (Ptr (Const jbyte), ''buf''), (jsize, ''len'')]
       False [ReturnCall ''DefineClass'' [''this'', ''name'', ''loader'', ''buf'', ''len'']],
     Member ''FindClass'' jclass [(Ptr (Const char_t), ''name'')]
       False [ReturnCall ''FindClass'' [''this'', ''name'']],
     Member ''FromReflectedMethod'' jmethodID [(jobject, ''method'')]
       False [ReturnCall ''FromReflectedMethod'' [''this'', ''method'']],
     Member ''FromReflectedField'' jfieldID [(jobject, ''field'')]
       False [ReturnCall ''FromReflectedField'' [''this'', ''field'']],
     Member ''ToReflectedMethod'' jobject [(jclass, ''cls''), (jmethodID, ''methodID''),
       (jboolean, ''isStatic'')] False [ReturnCall ''ToReflectedMethod'' [''this'', ''cls'',
       ''methodID'', ''isStatic'']],
     Member ''GetSuperclass'' jclass [(jclass, ''sub'')]
       False [ReturnCall ''GetSuperclass'' [''this'', ''sub'']],
     Member ''IsAssignableFrom'' jboolean [(jclass, ''sub''), (jclass, ''sup'')]
       False [ReturnCall ''IsAssignableFrom'' [''this'', ''sub'', ''sup'']],
     Member ''ToReflectedField'' jobject [(jclass, ''cls''), (jfieldID, ''fieldID''), (jboolean,
       ''isStatic'')] False [ReturnCall ''ToReflectedField'' [''this'', ''cls'', ''fieldID'',
       ''isStatic'']],
     Member ''Throw'' jint [(jthrowable, ''obj'')] False [ReturnCall ''Throw'' [''this'',
       ''obj'']],
     Member ''ThrowNew'' jint [(jclass, ''clazz''), (Ptr (Const char_t), ''msg'')]
       False [ReturnCall ''ThrowNew'' [''this'', ''clazz'', ''msg'']],
     Member ''ExceptionOccurred'' jthrowable []
       False [ReturnCall ''ExceptionOccurred'' [''this'']],
     Member ''ExceptionDescribe'' void_t [] False [Call ''ExceptionDescribe'' [''this'']],
     Member ''ExceptionClear'' void_t [] False [Call ''ExceptionClear'' [''this'']],
     Member ''FatalError'' void_t [(Ptr (Const char_t), ''msg'')]
       False [Call ''FatalError'' [''this'', ''msg'']],
     Member ''PushLocalFrame'' jint [(jint, ''capacity'')]
       False [ReturnCall ''PushLocalFrame'' [''this'', ''capacity'']],
     Member ''PopLocalFrame'' jobject [(jobject, ''result'')]
       False [ReturnCall ''PopLocalFrame'' [''this'', ''result'']],
     Member ''NewGlobalRef'' jobject [(jobject, ''lobj'')]
       False [ReturnCall ''NewGlobalRef'' [''this'', ''lobj'']],
     Member ''DeleteGlobalRef'' void_t [(jobject, ''gref'')]
       False [Call ''DeleteGlobalRef'' [''this'', ''gref'']],
     Member ''DeleteLocalRef'' void_t [(jobject, ''obj'')]
       False [Call ''DeleteLocalRef'' [''this'', ''obj'']],
     Member ''IsSameObject'' jboolean [(jobject, ''obj1''), (jobject, ''obj2'')]
       False [ReturnCall ''IsSameObject'' [''this'', ''obj1'', ''obj2'']],
     Member ''NewLocalRef'' jobject [(jobject, ''ref'')]
       False [ReturnCall ''NewLocalRef'' [''this'', ''ref'']],
     Member ''EnsureLocalCapacity'' jint [(jint, ''capacity'')]
       False [ReturnCall ''EnsureLocalCapacity'' [''this'', ''capacity'']],
     Member ''AllocObject'' jobject [(jclass, ''clazz'')]
       False [ReturnCall ''AllocObject'' [''this'', ''clazz'']],
     Member ''NewObject'' jobject [(jclass, ''clazz''), (jmethodID, ''methodID'')]
       True [VaDecl ''args'', VarDecl jobject ''result'', VaStart ''args'' ''methodID'',
       AssignCall ''result'' ''NewObjectV'' [''this'', ''clazz'', ''methodID'', ''args''],
       VaEnd ''args'', Return ''result''],
     Member ''NewObjectV'' jobject [(jclass, ''clazz''), (jmethodID, ''methodID''), (va_list,
       ''args'')] False [ReturnCall ''NewObjectV'' [''this'', ''clazz'', ''methodID'', ''args'']],
     Member ''NewObjectA'' jobject [(jclass, ''clazz''), (jmethodID, ''methodID''),
       (Ptr (Const jvalue), ''args'')] False [ReturnCall ''NewObjectA'' [''this'', ''clazz'',
       ''methodID'', ''args'']],
     Member ''GetObjectClass'' jclass [(jobject, ''obj'')]
       False [ReturnCall ''GetObjectClass'' [''this'', ''obj'']],
     Member ''IsInstanceOf'' jboolean [(jobject, ''obj''), (jclass, ''clazz'')]
       False [ReturnCall ''IsInstanceOf'' [''this'', ''obj'', ''clazz'']],
     Member ''GetMethodID'' jmethodID [(jclass, ''clazz''), (Ptr (Const char_t), ''name''),
       (Ptr (Const char_t), ''sig'')] False [ReturnCall ''GetMethodID'' [''this'', ''clazz'',
       ''name'', ''sig'']],
     Member ''CallObjectMethod'' jobject [(jobject, ''obj''), (jmethodID, ''methodID'')]
       True [VaDecl ''args'', VarDecl jobject ''result'', VaStart ''args'' ''methodID'',
       AssignCall ''result'' ''CallObjectMethodV'' [''this'', ''obj'', ''methodID'', ''args''],
       VaEnd ''args'', Return ''result''],
     Member ''CallObjectMethodV'' jobject [(jobject, ''obj''), (jmethodID, ''methodID''),
       (va_list, ''args'')] False [ReturnCall ''CallObjectMethodV'' [''this'', ''obj'',
       ''methodID'', ''args'']],
     Member ''CallObjectMethodA'' jobject [(jobject, ''obj''), (jmethodID, ''methodID''),
       (Ptr (Const jvalue), ''args'')] False [ReturnCall ''CallObjectMethodA'' [''this'', ''obj'',
       ''methodID'', ''args'']],
     Member ''CallBooleanMethod'' jboolean [(jobject, ''obj''), (jmethodID, ''methodID'')]
       True [VaDecl ''args'', VarDecl jboolean ''result'', VaStart ''args'' ''methodID'',
       AssignCall ''result'' ''CallBooleanMethodV'' [''this'', ''obj'', ''methodID'', ''args''],
       VaEnd ''args'', Return ''result'']]"

definition env_members_2 :: "cmember list" where
  "env_members_2 = [
     Member ''CallBooleanMethodV'' jboolean [(jobject, ''obj''), (jmethodID, ''methodID''),
       (va_list, ''args'')] False [ReturnCall ''CallBooleanMethodV'' [''this'', ''obj'',
       ''methodID'', ''args'']],
     Member ''CallBooleanMethodA'' jboolean [(jobject, ''obj''), (jmethodID, ''methodID''),
       (Ptr (Const jvalue), ''args'')] False [ReturnCall ''CallBooleanMethodA'' [''this'',
       ''obj'', ''methodID'', ''args'']],
     Member ''CallByteMethod'' jbyte [(jobject, ''obj''), (jmethodID, ''methodID'')]
       True [VaDecl ''args'', VarDecl jbyte ''result'', VaStart ''args'' ''methodID'',
       AssignCall ''result'' ''CallByteMethodV'' [''this'', ''obj'', ''methodID'', ''args''],
       VaEnd ''args'', Return ''result''],
     Member ''CallByteMethodV'' jbyte [(jobject, ''obj''), (jmethodID, ''methodID''), (va_list,
       ''args'')] False [ReturnCall ''CallByteMethodV'' [''this'', ''obj'', ''methodID'',
       ''args'']],
     Member ''CallByteMethodA'' jbyte [(jobject, ''obj''), (jmethodID, ''methodID''),
       (Ptr (Const jvalue), ''args'')] False [ReturnCall ''CallByteMethodA'' [''this'', ''obj'',
       ''methodID'', ''args'']],
     Member ''CallCharMethod'' jchar [(jobject, ''obj''), (jmethodID, ''methodID'')]
       True [VaDecl ''args'', VarDecl jchar ''result'', VaStart ''args'' ''methodID'',
       AssignCall ''result'' ''CallCharMethodV'' [''this'', ''obj'', ''methodID'', ''args''],
       VaEnd ''args'', Return ''result''],
     Member ''CallCharMethodV'' jchar [(jobject, ''obj''), (jmethodID, ''methodID''), (va_list,
       ''args'')] False [ReturnCall ''CallCharMethodV'' [''this'', ''obj'', ''methodID'',
       ''args'']],
     Member ''CallCharMethodA'' jchar [(jobject, ''obj''), (jmethodID, ''methodID''),
       (Ptr (Const jvalue), ''args'')] False [ReturnCall ''CallCharMethodA'' [''this'', ''obj'',
       ''methodID'', ''args'']],
     Member ''CallShortMethod'' jshort [(jobject, ''obj''), (jmethodID, ''methodID'')]
       True [VaDecl ''args'', VarDecl jshort ''result'', VaStart ''args'' ''methodID'',
       AssignCall ''result'' ''CallShortMethodV'' [''this'', ''obj'', ''methodID'', ''args''],
       VaEnd ''args'', Return ''result''],
     Member ''CallShortMethodV'' jshort [(jobject, ''obj''), (jmethodID, ''methodID''), (va_list,
       ''args'')] False [ReturnCall ''CallShortMethodV'' [''this'', ''obj'', ''methodID'',
       ''args'']],
     Member ''CallShortMethodA'' jshort [(jobject, ''obj''), (jmethodID, ''methodID''),
       (Ptr (Const jvalue), ''args'')] False [ReturnCall ''CallShortMethodA'' [''this'', ''obj'',
       ''methodID'', ''args'']],
     Member ''CallIntMethod'' jint [(jobject, ''obj''), (jmethodID, ''methodID'')]
       True [VaDecl ''args'', VarDecl jint ''result'', VaStart ''args'' ''methodID'',
       AssignCall ''result'' ''CallIntMethodV'' [''this'', ''obj'', ''methodID'', ''args''],
       VaEnd ''args'', Return ''result''],
     Member ''CallIntMethodV'' jint [(jobject, ''obj''), (jmethodID, ''methodID''), (va_list,
       ''args'')] False [ReturnCall ''CallIntMethodV'' [''this'', ''obj'', ''methodID'',
       ''args'']],
     Member ''CallIntMethodA'' jint [(jobject, ''obj''), (jmethodID, ''methodID''),
       (Ptr (Const jvalue), ''args'')] False [ReturnCall ''CallIntMethodA'' [''this'', ''obj'',
       ''methodID'', ''args'']],
     Member ''CallLongMethod'' jlong [(jobject, ''obj''), (jmethodID, ''methodID'')]
       True [VaDecl ''args'', VarDecl jlong ''result'', VaStart ''args'' ''methodID'',
       AssignCall ''result'' ''CallLongMethodV'' [''this'', ''obj'', ''methodID'', ''args''],
       VaEnd ''args'', Return ''result''],
     Member ''CallLongMethodV'' jlong [(jobject, ''obj''), (jmethodID, ''methodID''), (va_list,
       ''args'')] False [ReturnCall ''CallLongMethodV'' [''this'', ''obj'', ''methodID'',
       ''args'']],
     Member ''CallLongMethodA'' jlong [(jobject, ''obj''), (jmethodID, ''methodID''),
       (Ptr (Const jvalue), ''args'')] False [ReturnCall ''CallLongMethodA'' [''this'', ''obj'',
       ''methodID'', ''args'']],
     Member ''CallFloatMethod'' jfloat [(jobject, ''obj''), (jmethodID, ''methodID'')]
       True [VaDecl ''args'', VarDecl jfloat ''result'', VaStart ''args'' ''methodID'',
       AssignCall ''result'' ''CallFloatMethodV'' [''this'', ''obj'', ''methodID'', ''args''],
       VaEnd ''args'', Return ''result''],
     Member ''CallFloatMethodV'' jfloat [(jobject, ''obj''), (jmethodID, ''methodID''), (va_list,
       ''args'')] False [ReturnCall ''CallFloatMethodV'' [''this'', ''obj'', ''methodID'',
       ''args'']],
     Member ''CallFloatMethodA'' jfloat [(jobject, ''obj''), (jmethodID, ''methodID''),
       (Ptr (Const jvalue), ''args'')] False [ReturnCall ''CallFloatMethodA'' [''this'', ''obj'',
       ''methodID'', ''args'']],
     Member ''CallDoubleMethod'' jdouble [(jobject, ''obj''), (jmethodID, ''methodID'')]
       True [VaDecl ''args'', VarDecl jdouble ''result'', VaStart ''args'' ''methodID'',
       AssignCall ''result'' ''CallDoubleMethodV'' [''this'', ''obj'', ''methodID'', ''args''],
       VaEnd ''args'', Return ''result''],
     Member ''CallDoubleMethodV'' jdouble [(jobject, ''obj''), (jmethodID, ''methodID''),
       (va_list, ''args'')] False [ReturnCall ''CallDoubleMethodV'' [''this'', ''obj'',
       ''methodID'', ''args'']],
     Member ''CallDoubleMethodA'' jdouble [(jobject, ''obj''), (jmethodID, ''methodID''),
       (Ptr (Const jvalue), ''args'')] False [ReturnCall ''CallDoubleMethodA'' [''this'', ''obj'',
       ''methodID'', ''args'']],
     Member ''CallVoidMethod'' void_t [(jobject, ''obj''), (jmethodID, ''methodID'')]
       True [VaDecl ''args'', VaStart ''args'' ''methodID'', Call ''CallVoidMethodV'' [''this'',
       ''obj'', ''methodID'', ''args''], VaEnd ''args''],
     Member ''CallVoidMethodV'' void_t [(jobject, ''obj''), (jmethodID, ''methodID''), (va_list,
       ''args'')] False [Call ''CallVoidMethodV'' [''this'', ''obj'', ''methodID'', ''args'']]]"

definition env_members_3 :: "cmember list" where
  "env_members_3 = [
     Member ''CallVoidMethodA'' void_t [(jobject, ''obj''), (jmethodID, ''methodID''),
       (Ptr (Const jvalue), ''args'')] False [Call ''CallVoidMethodA'' [''this'', ''obj'',
       ''methodID'', ''args'']],
     Member ''CallNonvirtualObjectMethod'' jobject [(jobject, ''obj''), (jclass, ''clazz''),
       (jmethodID, ''methodID'')] True [VaDecl ''args'', VarDecl jobject ''result'',
       VaStart ''args'' ''methodID'',
       AssignCall ''result'' ''CallNonvirtualObjectMethodV'' [''this'', ''obj'', ''clazz'',
       ''methodID'', ''args''], VaEnd ''args'', Return ''result''],
     Member ''CallNonvirtualObjectMethodV'' jobject [(jobject, ''obj''), (jclass, ''clazz''),
       (jmethodID, ''methodID''), (va_list, ''args'')]
       False [ReturnCall ''CallNonvirtualObjectMethodV'' [''this'', ''obj'', ''clazz'',
       ''methodID'', ''args'']],
     Member ''CallNonvirtualObjectMethodA'' jobject [(jobject, ''obj''), (jclass, ''clazz''),
       (jmethodID, ''methodID''), (Ptr (Const jvalue), ''args'')]
       False [ReturnCall ''CallNonvirtualObjectMethodA'' [''this'', ''obj'', ''clazz'',
       ''methodID'', ''args'']],
     Member ''CallNonvirtualBooleanMethod'' jboolean [(jobject, ''obj''), (jclass, ''clazz''),
       (jmethodID, ''methodID'')] True [VaDecl ''args'', VarDecl jboolean ''result'',
       VaStart ''args'' ''methodID'',
       AssignCall ''result'' ''CallNonvirtualBooleanMethodV'' [''this'', ''obj'', ''clazz'',
       ''methodID'', ''args''], VaEnd ''args'', Return ''result''],
     Member ''CallNonvirtualBooleanMethodV'' jboolean [(jobject, ''obj''), (jclass, ''clazz''),
       (jmethodID, ''methodID''), (va_list, ''args'')]
       False [ReturnCall ''CallNonvirtualBooleanMethodV'' [''this'', ''obj'', ''clazz'',
       ''methodID'', ''args'']],
     Member ''CallNonvirtualBooleanMethodA'' jboolean [(jobject, ''obj''), (jclass, ''clazz''),
       (jmethodID, ''methodID''), (Ptr (Const jvalue), ''args'')]
       False [ReturnCall ''CallNonvirtualBooleanMethodA'' [''this'', ''obj'', ''clazz'',
       ''methodID'', ''args'']],
     Member ''CallNonvirtualByteMethod'' jbyte [(jobject, ''obj''), (jclass, ''clazz''),
       (jmethodID, ''methodID'')] True [VaDecl ''args'', VarDecl jbyte ''result'',
       VaStart ''args'' ''methodID'',
       AssignCall ''result'' ''CallNonvirtualByteMethodV'' [''this'', ''obj'', ''clazz'',
       ''methodID'', ''args''], VaEnd ''args'', Return ''result''],
     Member ''CallNonvirtualByteMethodV'' jbyte [(jobject, ''obj''), (jclass, ''clazz''),
       (jmethodID, ''methodID''), (va_list, ''args'')]
       False [ReturnCall ''CallNonvirtualByteMethodV'' [''this'', ''obj'', ''clazz'',
       ''methodID'', ''args'']],
     Member ''CallNonvirtualByteMethodA'' jbyte [(jobject, ''obj''), (jclass, ''clazz''),
       (jmethodID, ''methodID''), (Ptr (Const jvalue), ''args'')]
       False [ReturnCall ''CallNonvirtualByteMethodA'' [''this'', ''obj'', ''clazz'',
       ''methodID'', ''args'']],
     Member ''CallNonvirtualCharMethod'' jchar [(jobject, ''obj''), (jclass, ''clazz''),
       (jmethodID, ''methodID'')] True [VaDecl ''args'', VarDecl jchar ''result'',
       VaStart ''args'' ''methodID'',
       AssignCall ''result'' ''CallNonvirtualCharMethodV'' [''this'', ''obj'', ''clazz'',
       ''methodID'', ''args''], VaEnd ''args'', Return ''result''],
     Member ''CallNonvirtualCharMethodV'' jchar [(jobject, ''obj''), (jclass, ''clazz''),
       (jmethodID, ''methodID''), (va_list, ''args'')]
       False [ReturnCall ''CallNonvirtualCharMethodV'' [''this'', ''obj'', ''clazz'',
       ''methodID'', ''args'']],
     Member ''CallNonvirtualCharMethodA'' jchar [(jobject, ''obj''), (jclass, ''clazz''),
       (jmethodID, ''methodID''), (Ptr (Const jvalue), ''args'')]
       False [ReturnCall ''CallNonvirtualCharMethodA'' [''this'', ''obj'', ''clazz'',
       ''methodID'', ''args'']],
     Member ''CallNonvirtualShortMethod'' jshort [(jobject, ''obj''), (jclass, ''clazz''),
       (jmethodID, ''methodID'')] True [VaDecl ''args'', VarDecl jshort ''result'',
       VaStart ''args'' ''methodID'',
       AssignCall ''result'' ''CallNonvirtualShortMethodV'' [''this'', ''obj'', ''clazz'',
       ''methodID'', ''args''], VaEnd ''args'', Return ''result''],
     Member ''CallNonvirtualShortMethodV'' jshort [(jobject, ''obj''), (jclass, ''clazz''),
       (jmethodID, ''methodID''), (va_list, ''args'')]
       False [ReturnCall ''CallNonvirtualShortMethodV'' [''this'', ''obj'', ''clazz'',
       ''methodID'', ''args'']],
     Member ''CallNonvirtualShortMethodA'' jshort [(jobject, ''obj''), (jclass, ''clazz''),
       (jmethodID, ''methodID''), (Ptr (Const jvalue), ''args'')]
       False [ReturnCall ''CallNonvirtualShortMethodA'' [''this'', ''obj'', ''clazz'',
       ''methodID'', ''args'']],
     Member ''CallNonvirtualIntMethod'' jint [(jobject, ''obj''), (jclass, ''clazz''), (jmethodID,
       ''methodID'')] True [VaDecl ''args'', VarDecl jint ''result'',
       VaStart ''args'' ''methodID'',
       AssignCall ''result'' ''CallNonvirtualIntMethodV'' [''this'', ''obj'', ''clazz'',
       ''methodID'', ''args''], VaEnd ''args'', Return ''result''],
     Member ''CallNonvirtualIntMethodV'' jint [(jobject, ''obj''), (jclass, ''clazz''),
       (jmethodID, ''methodID''), (va_list, ''args'')]
       False [ReturnCall ''CallNonvirtualIntMethodV'' [''this'', ''obj'', ''clazz'', ''methodID'',
       ''args'']],
     Member ''CallNonvirtualIntMethodA'' jint [(jobject, ''obj''), (jclass, ''clazz''),
       (jmethodID, ''methodID''), (Ptr (Const jvalue), ''args'')]
       False [ReturnCall ''CallNonvirtualIntMethodA'' [''this'', ''obj'', ''clazz'', ''methodID'',
       ''args'']]]"

definition env_members_4 :: "cmember list" where
  "env_members_4 = [
     Member ''CallNonvirtualLongMethod'' jlong [(jobject, ''obj''), (jclass, ''clazz''),
       (jmethodID, ''methodID'')] True [VaDecl ''args'', VarDecl jlong ''result'',
       VaStart ''args'' ''methodID'',
       AssignCall ''result'' ''CallNonvirtualLongMethodV'' [''this'', ''obj'', ''clazz'',
       ''methodID'', ''args''], VaEnd ''args'', Return ''result''],
     Member ''CallNonvirtualLongMethodV'' jlong [(jobject, ''obj''), (jclass, ''clazz''),
       (jmethodID, ''methodID''), (va_list, ''args'')]
       False [ReturnCall ''CallNonvirtualLongMethodV'' [''this'', ''obj'', ''clazz'',
       ''methodID'', ''args'']],
     Member ''CallNonvirtualLongMethodA'' jlong [(jobject, ''obj''), (jclass, ''clazz''),
       (jmethodID, ''methodID''), (Ptr (Const jvalue), ''args'')]
       False [ReturnCall ''CallNonvirtualLongMethodA'' [''this'', ''obj'', ''clazz'',
       ''methodID'', ''args'']],
     Member ''CallNonvirtualFloatMethod'' jfloat [(jobject, ''obj''), (jclass, ''clazz''),
       (jmethodID, ''methodID'')] True [VaDecl ''args'', VarDecl jfloat ''result'',
       VaStart ''args'' ''methodID'',
       AssignCall ''result'' ''CallNonvirtualFloatMethodV'' [''this'', ''obj'', ''clazz'',
       ''methodID'', ''args''], VaEnd ''args'', Return ''result''],
     Member ''CallNonvirtualFloatMethodV'' jfloat [(jobject, ''obj''), (jclass, ''clazz''),
       (jmethodID, ''methodID''), (va_list, ''args'')]
       False [ReturnCall ''CallNonvirtualFloatMethodV'' [''this'', ''obj'', ''clazz'',
       ''methodID'', ''args'']],
     Member ''CallNonvirtualFloatMethodA'' jfloat [(jobject, ''obj''), (jclass, ''clazz''),
       (jmethodID, ''methodID''), (Ptr (Const jvalue), ''args'')]
       False [ReturnCall ''CallNonvirtualFloatMethodA'' [''this'', ''obj'', ''clazz'',
       ''methodID'', ''args'']],
     Member ''CallNonvirtualDoubleMethod'' jdouble [(jobject, ''obj''), (jclass, ''clazz''),
       (jmethodID, ''methodID'')] True [VaDecl ''args'', VarDecl jdouble ''result'',
       VaStart ''args'' ''methodID'',
       AssignCall ''result'' ''CallNonvirtualDoubleMethodV'' [''this'', ''obj'', ''clazz'',
       ''methodID'', ''args''], VaEnd ''args'', Return ''result''],
     Member ''CallNonvirtualDoubleMethodV'' jdouble [(jobject, ''obj''), (jclass, ''clazz''),
       (jmethodID, ''methodID''), (va_list, ''args'')]
       False [ReturnCall ''CallNonvirtualDoubleMethodV'' [''this'', ''obj'', ''clazz'',
       ''methodID'', ''args'']],
     Member ''CallNonvirtualDoubleMethodA'' jdouble [(jobject, ''obj''), (jclass, ''clazz''),
       (jmethodID, ''methodID''), (Ptr (Const jvalue), ''args'')]
       False [ReturnCall ''CallNonvirtualDoubleMethodA'' [''this'', ''obj'', ''clazz'',
       ''methodID'', ''args'']],
     Member ''CallNonvirtualVoidMethod'' void_t [(jobject, ''obj''), (jclass, ''clazz''),
       (jmethodID, ''methodID'')] True [VaDecl ''args'', VaStart ''args'' ''methodID'',
       Call ''CallNonvirtualVoidMethodV'' [''this'', ''obj'', ''clazz'', ''methodID'', ''args''],
       VaEnd ''args''],
     Member ''CallNonvirtualVoidMethodV'' void_t [(jobject, ''obj''), (jclass, ''clazz''),
       (jmethodID, ''methodID''), (va_list, ''args'')]
       False [Call ''CallNonvirtualVoidMethodV'' [''this'', ''obj'', ''clazz'', ''methodID'',
       ''args'']],
     Member ''CallNonvirtualVoidMethodA'' void_t [(jobject, ''obj''), (jclass, ''clazz''),
       (jmethodID, ''methodID''), (Ptr (Const jvalue), ''args'')]
       False [Call ''CallNonvirtualVoidMethodA'' [''this'', ''obj'', ''clazz'', ''methodID'',
       ''args'']],
     Member ''GetFieldID'' jfieldID [(jclass, ''clazz''), (Ptr (Const char_t), ''name''),
       (Ptr (Const char_t), ''sig'')] False [ReturnCall ''GetFieldID'' [''this'', ''clazz'',
       ''name'', ''sig'']],
     Member ''GetObjectField'' jobject [(jobject, ''obj''), (jfieldID, ''fieldID'')]
       False [ReturnCall ''GetObjectField'' [''this'', ''obj'', ''fieldID'']],
     Member ''GetBooleanField'' jboolean [(jobject, ''obj''), (jfieldID, ''fieldID'')]
       False [ReturnCall ''GetBooleanField'' [''this'', ''obj'', ''fieldID'']],
     Member ''GetByteField'' jbyte [(jobject, ''obj''), (jfieldID, ''fieldID'')]
       False [ReturnCall ''GetByteField'' [''this'', ''obj'', ''fieldID'']],
     Member ''GetCharField'' jchar [(jobject, ''obj''), (jfieldID, ''fieldID'')]
       False [ReturnCall ''GetCharField'' [''this'', ''obj'', ''fieldID'']],
     Member ''GetShortField'' jshort [(jobject, ''obj''), (jfieldID, ''fieldID'')]
       False [ReturnCall ''GetShortField'' [''this'', ''obj'', ''fieldID'']],
     Member ''GetIntField'' jint [(jobject, ''obj''), (jfieldID, ''fieldID'')]
       False [ReturnCall ''GetIntField'' [''this'', ''obj'', ''fieldID'']],
     Member ''GetLongField'' jlong [(jobject, ''obj''), (jfieldID, ''fieldID'')]
       False [ReturnCall ''GetLongField'' [''this'', ''obj'', ''fieldID'']],
     Member ''GetFloatField'' jfloat [(jobject, ''obj''), (jfieldID, ''fieldID'')]
       False [ReturnCall ''GetFloatField'' [''this'', ''obj'', ''fieldID'']],
     Member ''GetDoubleField'' jdouble [(jobject, ''obj''), (jfieldID, ''fieldID'')]
       False [ReturnCall ''GetDoubleField'' [''this'', ''obj'', ''fieldID'']],
     Member ''SetObjectField'' void_t [(jobject, ''obj''), (jfieldID, ''fieldID''), (jobject,
       ''val'')] False [Call ''SetObjectField'' [''this'', ''obj'', ''fieldID'', ''val'']],
     Member ''SetBooleanField'' void_t [(jobject, ''obj''), (jfieldID, ''fieldID''), (jboolean,
       ''val'')] False [Call ''SetBooleanField'' [''this'', ''obj'', ''fieldID'', ''val'']],
     Member ''SetByteField'' void_t [(jobject, ''obj''), (jfieldID, ''fieldID''), (jbyte,
       ''val'')] False [Call ''SetByteField'' [''this'', ''obj'', ''fieldID'', ''val'']],
     Member ''SetCharField'' void_t [(jobject, ''obj''), (jfieldID, ''fieldID''), (jchar,
       ''val'')] False [Call ''SetCharField'' [''this'', ''obj'', ''fieldID'', ''val'']],
     Member ''SetShortField'' void_t [(jobject, ''obj''), (jfieldID, ''fieldID''), (jshort,
       ''val'')] False [Call ''SetShortField'' [''this'', ''obj'', ''fieldID'', ''val'']]]"

definition env_members_5 :: "cmember list" where
  "env_members_5 = [
     Member ''SetIntField'' void_t [(jobject, ''obj''), (jfieldID, ''fieldID''), (jint, ''val'')]
       False [Call ''SetIntField'' [''this'', ''obj'', ''fieldID'', ''val'']],
     Member ''SetLongField'' void_t [(jobject, ''obj''), (jfieldID, ''fieldID''), (jlong,
       ''val'')] False [Call ''SetLongField'' [''this'', ''obj'', ''fieldID'', ''val'']],
     Member ''SetFloatField'' void_t [(jobject, ''obj''), (jfieldID, ''fieldID''), (jfloat,
       ''val'')] False [Call ''SetFloatField'' [''this'', ''obj'', ''fieldID'', ''val'']],
     Member ''SetDoubleField'' void_t [(jobject, ''obj''), (jfieldID, ''fieldID''), (jdouble,
       ''val'')] False [Call ''SetDoubleField'' [''this'', ''obj'', ''fieldID'', ''val'']],
     Member ''GetStaticMethodID'' jmethodID [(jclass, ''clazz''), (Ptr (Const char_t), ''name''),
       (Ptr (Const char_t), ''sig'')] False [ReturnCall ''GetStaticMethodID'' [''this'',
       ''clazz'', ''name'', ''sig'']],
     Member ''CallStaticObjectMethod'' jobject [(jclass, ''clazz''), (jmethodID, ''methodID'')]
       True [VaDecl ''args'', VarDecl jobject ''result'', VaStart ''args'' ''methodID'',
       AssignCall ''result'' ''CallStaticObjectMethodV'' [''this'', ''clazz'', ''methodID'',
       ''args''], VaEnd ''args'', Return ''result''],
     Member ''CallStaticObjectMethodV'' jobject [(jclass, ''clazz''), (jmethodID, ''methodID''),
       (va_list, ''args'')] False [ReturnCall ''CallStaticObjectMethodV'' [''this'', ''clazz'',
       ''methodID'', ''args'']],
     Member ''CallStaticObjectMethodA'' jobject [(jclass, ''clazz''), (jmethodID, ''methodID''),
       (Ptr (Const jvalue), ''args'')] False [ReturnCall ''CallStaticObjectMethodA'' [''this'',
       ''clazz'', ''methodID'', ''args'']],
     Member ''CallStaticBooleanMethod'' jboolean [(jclass, ''clazz''), (jmethodID, ''methodID'')]
       True [VaDecl ''args'', VarDecl jboolean ''result'', VaStart ''args'' ''methodID'',
       AssignCall ''result'' ''CallStaticBooleanMethodV'' [''this'', ''clazz'', ''methodID'',
       ''args''], VaEnd ''args'', Return ''result''],
     Member ''CallStaticBooleanMethodV'' jboolean [(jclass, ''clazz''), (jmethodID, ''methodID''),
       (va_list, ''args'')] False [ReturnCall ''CallStaticBooleanMethodV'' [''this'', ''clazz'',
       ''methodID'', ''args'']],
     Member ''CallStaticBooleanMethodA'' jboolean [(jclass, ''clazz''), (jmethodID, ''methodID''),
       (Ptr (Const jvalue), ''args'')] False [ReturnCall ''CallStaticBooleanMethodA'' [''this'',
       ''clazz'', ''methodID'', ''args'']],
     Member ''CallStaticByteMethod'' jbyte [(jclass, ''clazz''), (jmethodID, ''methodID'')]
       True [VaDecl ''args'', VarDecl jbyte ''result'', VaStart ''args'' ''methodID'',
       AssignCall ''result'' ''CallStaticByteMethodV'' [''this'', ''clazz'', ''methodID'',
       ''args''], VaEnd ''args'', Return ''result''],
     Member ''CallStaticByteMethodV'' jbyte [(jclass, ''clazz''), (jmethodID, ''methodID''),
       (va_list, ''args'')] False [ReturnCall ''CallStaticByteMethodV'' [''this'', ''clazz'',
       ''methodID'', ''args'']],
     Member ''CallStaticByteMethodA'' jbyte [(jclass, ''clazz''), (jmethodID, ''methodID''),
       (Ptr (Const jvalue), ''args'')] False [ReturnCall ''CallStaticByteMethodA'' [''this'',
       ''clazz'', ''methodID'', ''args'']],
     Member ''CallStaticCharMethod'' jchar [(jclass, ''clazz''), (jmethodID, ''methodID'')]
       True [VaDecl ''args'', VarDecl jchar ''result'', VaStart ''args'' ''methodID'',
       AssignCall ''result'' ''CallStaticCharMethodV'' [''this'', ''clazz'', ''methodID'',
       ''args''], VaEnd ''args'', Return ''result''],
     Member ''CallStaticCharMethodV'' jchar [(jclass, ''clazz''), (jmethodID, ''methodID''),
       (va_list, ''args'')] False [ReturnCall ''CallStaticCharMethodV'' [''this'', ''clazz'',
       ''methodID'', ''args'']],
     Member ''CallStaticCharMethodA'' jchar [(jclass, ''clazz''), (jmethodID, ''methodID''),
       (Ptr (Const jvalue), ''args'')] False [ReturnCall ''CallStaticCharMethodA'' [''this'',
       ''clazz'', ''methodID'', ''args'']],
     Member ''CallStaticShortMethod'' jshort [(jclass, ''clazz''), (jmethodID, ''methodID'')]
       True [VaDecl ''args'', VarDecl jshort ''result'', VaStart ''args'' ''methodID'',
       AssignCall ''result'' ''CallStaticShortMethodV'' [''this'', ''clazz'', ''methodID'',
       ''args''], VaEnd ''args'', Return ''result''],
     Member ''CallStaticShortMethodV'' jshort [(jclass, ''clazz''), (jmethodID, ''methodID''),
       (va_list, ''args'')] False [ReturnCall ''CallStaticShortMethodV'' [''this'', ''clazz'',
       ''methodID'', ''args'']],
     Member ''CallStaticShortMethodA'' jshort [(jclass, ''clazz''), (jmethodID, ''methodID''),
       (Ptr (Const jvalue), ''args'')] False [ReturnCall ''CallStaticShortMethodA'' [''this'',
       ''clazz'', ''methodID'', ''args'']],
     Member ''CallStaticIntMethod'' jint [(jclass, ''clazz''), (jmethodID, ''methodID'')]
       True [VaDecl ''args'', VarDecl jint ''result'', VaStart ''args'' ''methodID'',
       AssignCall ''result'' ''CallStaticIntMethodV'' [''this'', ''clazz'', ''methodID'',
       ''args''], VaEnd ''args'', Return ''result''],
     Member ''CallStaticIntMethodV'' jint [(jclass, ''clazz''), (jmethodID, ''methodID''),
       (va_list, ''args'')] False [ReturnCall ''CallStaticIntMethodV'' [''this'', ''clazz'',
       ''methodID'', ''args'']],
     Member ''CallStaticIntMethodA'' jint [(jclass, ''clazz''), (jmethodID, ''methodID''),
       (Ptr (Const jvalue), ''args'')] False [ReturnCall ''CallStaticIntMethodA'' [''this'',
       ''clazz'', ''methodID'', ''args'']],
     Member ''CallStaticLongMethod'' jlong [(jclass, ''clazz''), (jmethodID, ''methodID'')]
       True [VaDecl ''args'', VarDecl jlong ''result'', VaStart ''args'' ''methodID'',
       AssignCall ''result'' ''CallStaticLongMethodV'' [''this'', ''clazz'', ''methodID'',
       ''args''], VaEnd ''args'', Return ''result'']]"

definition env_members_6 :: "cmember list" where
  "env_members_6 = [
     Member ''CallStaticLongMethodV'' jlong [(jclass, ''clazz''), (jmethodID, ''methodID''),
       (va_list, ''args'')] False [ReturnCall ''CallStaticLongMethodV'' [''this'', ''clazz'',
       ''methodID'', ''args'']],
     Member ''CallStaticLongMethodA'' jlong [(jclass, ''clazz''), (jmethodID, ''methodID''),
       (Ptr (Const jvalue), ''args'')] False [ReturnCall ''CallStaticLongMethodA'' [''this'',
       ''clazz'', ''methodID'', ''args'']],
     Member ''CallStaticFloatMethod'' jfloat [(jclass, ''clazz''), (jmethodID, ''methodID'')]
       True [VaDecl ''args'', VarDecl jfloat ''result'', VaStart ''args'' ''methodID'',
       AssignCall ''result'' ''CallStaticFloatMethodV'' [''this'', ''clazz'', ''methodID'',
       ''args''], VaEnd ''args'', Return ''result''],
     Member ''CallStaticFloatMethodV'' jfloat [(jclass, ''clazz''), (jmethodID, ''methodID''),
       (va_list, ''args'')] False [ReturnCall ''CallStaticFloatMethodV'' [''this'', ''clazz'',
       ''methodID'', ''args'']],
     Member ''CallStaticFloatMethodA'' jfloat [(jclass, ''clazz''), (jmethodID, ''methodID''),
       (Ptr (Const jvalue), ''args'')] False [ReturnCall ''CallStaticFloatMethodA'' [''this'',
       ''clazz'', ''methodID'', ''args'']],
     Member ''CallStaticDoubleMethod'' jdouble [(jclass, ''clazz''), (jmethodID, ''methodID'')]
       True [VaDecl ''args'', VarDecl jdouble ''result'', VaStart ''args'' ''methodID'',
       AssignCall ''result'' ''CallStaticDoubleMethodV'' [''this'', ''clazz'', ''methodID'',
       ''args''], VaEnd ''args'', Return ''result''],
     Member ''CallStaticDoubleMethodV'' jdouble [(jclass, ''clazz''), (jmethodID, ''methodID''),
       (va_list, ''args'')] False [ReturnCall ''CallStaticDoubleMethodV'' [''this'', ''clazz'',
       ''methodID'', ''args'']],
     Member ''CallStaticDoubleMethodA'' jdouble [(jclass, ''clazz''), (jmethodID, ''methodID''),
       (Ptr (Const jvalue), ''args'')] False [ReturnCall ''CallStaticDoubleMethodA'' [''this'',
       ''clazz'', ''methodID'', ''args'']],
     Member ''CallStaticVoidMethod'' void_t [(jclass, ''cls''), (jmethodID, ''methodID'')]
       True [VaDecl ''args'', VaStart ''args'' ''methodID'',
       Call ''CallStaticVoidMethodV'' [''this'', ''cls'', ''methodID'', ''args''],
       VaEnd ''args''],
     Member ''CallStaticVoidMethodV'' void_t [(jclass, ''cls''), (jmethodID, ''methodID''),
       (va_list, ''args'')] False [Call ''CallStaticVoidMethodV'' [''this'', ''cls'',
       ''methodID'', ''args'']],
     Member ''CallStaticVoidMethodA'' void_t [(jclass, ''cls''), (jmethodID, ''methodID''),
       (Ptr (Const jvalue), ''args'')] False [Call ''CallStaticVoidMethodA'' [''this'', ''cls'',
       ''methodID'', ''args'']],
     Member ''GetStaticFieldID'' jfieldID [(jclass, ''clazz''), (Ptr (Const char_t), ''name''),
       (Ptr (Const char_t), ''sig'')] False [ReturnCall ''GetStaticFieldID'' [''this'', ''clazz'',
       ''name'', ''sig'']],
     Member ''GetStaticObjectField'' jobject [(jclass, ''clazz''), (jfieldID, ''fieldID'')]
       False [ReturnCall ''GetStaticObjectField'' [''this'', ''clazz'', ''fieldID'']],
     Member ''GetStaticBooleanField'' jboolean [(jclass, ''clazz''), (jfieldID, ''fieldID'')]
       False [ReturnCall ''GetStaticBooleanField'' [''this'', ''clazz'', ''fieldID'']],
     Member ''GetStaticByteField'' jbyte [(jclass, ''clazz''), (jfieldID, ''fieldID'')]
       False [ReturnCall ''GetStaticByteField'' [''this'', ''clazz'', ''fieldID'']],
     Member ''GetStaticCharField'' jchar [(jclass, ''clazz''), (jfieldID, ''fieldID'')]
       False [ReturnCall ''GetStaticCharField'' [''this'', ''clazz'', ''fieldID'']],
     Member ''GetStaticShortField'' jshort [(jclass, ''clazz''), (jfieldID, ''fieldID'')]
       False [ReturnCall ''GetStaticShortField'' [''this'', ''clazz'', ''fieldID'']],
     Member ''GetStaticIntField'' jint [(jclass, ''clazz''), (jfieldID, ''fieldID'')]
       False [ReturnCall ''GetStaticIntField'' [''this'', ''clazz'', ''fieldID'']],
     Member ''GetStaticLongField'' jlong [(jclass, ''clazz''), (jfieldID, ''fieldID'')]
       False [ReturnCall ''GetStaticLongField'' [''this'', ''clazz'', ''fieldID'']],
     Member ''GetStaticFloatField'' jfloat [(jclass, ''clazz''), (jfieldID, ''fieldID'')]
       False [ReturnCall ''GetStaticFloatField'' [''this'', ''clazz'', ''fieldID'']],
     Member ''GetStaticDoubleField'' jdouble [(jclass, ''clazz''), (jfieldID, ''fieldID'')]
       False [ReturnCall ''GetStaticDoubleField'' [''this'', ''clazz'', ''fieldID'']],
     Member ''SetStaticObjectField'' void_t [(jclass, ''clazz''), (jfieldID, ''fieldID''),
       (jobject, ''value'')] False [Call ''SetStaticObjectField'' [''this'', ''clazz'',
       ''fieldID'', ''value'']],
     Member ''SetStaticBooleanField'' void_t [(jclass, ''clazz''), (jfieldID, ''fieldID''),
       (jboolean, ''value'')] False [Call ''SetStaticBooleanField'' [''this'', ''clazz'',
       ''fieldID'', ''value'']],
     Member ''SetStaticByteField'' void_t [(jclass, ''clazz''), (jfieldID, ''fieldID''), (jbyte,
       ''value'')] False [Call ''SetStaticByteField'' [''this'', ''clazz'', ''fieldID'',
       ''value'']],
     Member ''SetStaticCharField'' void_t [(jclass, ''clazz''), (jfieldID, ''fieldID''), (jchar,
       ''value'')] False [Call ''SetStaticCharField'' [''this'', ''clazz'', ''fieldID'',
       ''value'']],
     Member ''SetStaticShortField'' void_t [(jclass, ''clazz''), (jfieldID, ''fieldID''), (jshort,
       ''value'')] False [Call ''SetStaticShortField'' [''this'', ''clazz'', ''fieldID'',
       ''value'']],
     Member ''SetStaticIntField'' void_t [(jclass, ''clazz''), (jfieldID, ''fieldID''), (jint,
       ''value'')] False [Call ''SetStaticIntField'' [''this'', ''clazz'', ''fieldID'',
       ''value'']],
     Member ''SetStaticLongField'' void_t [(jclass, ''clazz''), (jfieldID, ''fieldID''), (jlong,
       ''value'')] False [Call ''SetStaticLongField'' [''this'', ''clazz'', ''fieldID'',
       ''value'']],
     Member ''SetStaticFloatField'' void_t [(jclass, ''clazz''), (jfieldID, ''fieldID''), (jfloat,
       ''value'')] False [Call ''SetStaticFloatField'' [''this'', ''clazz'', ''fieldID'',
       ''value'']],
     Member ''SetStaticDoubleField'' void_t [(jclass, ''clazz''), (jfieldID, ''fieldID''),
       (jdouble, ''value'')] False [Call ''SetStaticDoubleField'' [''this'', ''clazz'',
       ''fieldID'', ''value'']],
     Member ''NewString'' jstring [(Ptr (Const jchar), ''unicode''), (jsize, ''len'')]
       False [ReturnCall ''NewString'' [''this'', ''unicode'', ''len'']],
     Member ''GetStringLength'' jsize [(jstring, ''str'')]
       False [ReturnCall ''GetStringLength'' [''this'', ''str'']],
     Member ''GetStringChars'' (Ptr (Const jchar)) [(jstring, ''str''), (Ptr jboolean,
       ''isCopy'')] False [ReturnCall ''GetStringChars'' [''this'', ''str'', ''isCopy'']]]"

definition env_members_7 :: "cmember list" where
  "env_members_7 = [
     Member ''ReleaseStringChars'' void_t [(jstring, ''str''), (Ptr (Const jchar), ''chars'')]
       False [Call ''ReleaseStringChars'' [''this'', ''str'', ''chars'']],
     Member ''NewStringUTF'' jstring [(Ptr (Const char_t), ''utf'')]
       False [ReturnCall ''NewStringUTF'' [''this'', ''utf'']],
     Member ''GetStringUTFLength'' jsize [(jstring, ''str'')]
       False [ReturnCall ''GetStringUTFLength'' [''this'', ''str'']],
     Member ''GetStringUTFChars'' (Ptr (Const char_t)) [(jstring, ''str''), (Ptr jboolean,
       ''isCopy'')] False [ReturnCall ''GetStringUTFChars'' [''this'', ''str'', ''isCopy'']],
     Member ''ReleaseStringUTFChars'' void_t [(jstring, ''str''), (Ptr (Const char_t), ''chars'')]
       False [Call ''ReleaseStringUTFChars'' [''this'', ''str'', ''chars'']],
     Member ''GetArrayLength'' jsize [(jarray, ''array'')]
       False [ReturnCall ''GetArrayLength'' [''this'', ''array'']],
     Member ''NewObjectArray'' jobjectArray [(jsize, ''len''), (jclass, ''clazz''), (jobject,
       ''init'')] False [ReturnCall ''NewObjectArray'' [''this'', ''len'', ''clazz'', ''init'']],
     Member ''GetObjectArrayElement'' jobject [(jobjectArray, ''array''), (jsize, ''index'')]
       False [ReturnCall ''GetObjectArrayElement'' [''this'', ''array'', ''index'']],
     Member ''SetObjectArrayElement'' void_t [(jobjectArray, ''array''), (jsize, ''index''),
       (jobject, ''val'')] False [Call ''SetObjectArrayElement'' [''this'', ''array'', ''index'',
       ''val'']],
     Member ''NewBooleanArray'' jbooleanArray [(jsize, ''len'')]
       False [ReturnCall ''NewBooleanArray'' [''this'', ''len'']],
     Member ''NewByteArray'' jbyteArray [(jsize, ''len'')]
       False [ReturnCall ''NewByteArray'' [''this'', ''len'']],
     Member ''NewCharArray'' jcharArray [(jsize, ''len'')]
       False [ReturnCall ''NewCharArray'' [''this'', ''len'']],
     Member ''NewShortArray'' jshortArray [(jsize, ''len'')]
       False [ReturnCall ''NewShortArray'' [''this'', ''len'']],
     Member ''NewIntArray'' jintArray [(jsize, ''len'')]
       False [ReturnCall ''NewIntArray'' [''this'', ''len'']],
     Member ''NewLongArray'' jlongArray [(jsize, ''len'')]
       False [ReturnCall ''NewLongArray'' [''this'', ''len'']],
     Member ''NewFloatArray'' jfloatArray [(jsize, ''len'')]
       False [ReturnCall ''NewFloatArray'' [''this'', ''len'']],
     Member ''NewDoubleArray'' jdoubleArray [(jsize, ''len'')]
       False [ReturnCall ''NewDoubleArray'' [''this'', ''len'']],
     Member ''GetBooleanArrayElements'' (Ptr jboolean) [(jbooleanArray, ''array''), (Ptr jboolean,
       ''isCopy'')] False [ReturnCall ''GetBooleanArrayElements'' [''this'', ''array'',
       ''isCopy'']],
     Member ''GetByteArrayElements'' (Ptr jbyte) [(jbyteArray, ''array''), (Ptr jboolean,
       ''isCopy'')] False [ReturnCall ''GetByteArrayElements'' [''this'', ''array'', ''isCopy'']],
     Member ''GetCharArrayElements'' (Ptr jchar) [(jcharArray, ''array''), (Ptr jboolean,
       ''isCopy'')] False [ReturnCall ''GetCharArrayElements'' [''this'', ''array'', ''isCopy'']],
     Member ''GetShortArrayElements'' (Ptr jshort) [(jshortArray, ''array''), (Ptr jboolean,
       ''isCopy'')] False [ReturnCall ''GetShortArrayElements'' [''this'', ''array'',
       ''isCopy'']],
     Member ''GetIntArrayElements'' (Ptr jint) [(jintArray, ''array''), (Ptr jboolean,
       ''isCopy'')] False [ReturnCall ''GetIntArrayElements'' [''this'', ''array'', ''isCopy'']],
     Member ''GetLongArrayElements'' (Ptr jlong) [(jlongArray, ''array''), (Ptr jboolean,
       ''isCopy'')] False [ReturnCall ''GetLongArrayElements'' [''this'', ''array'', ''isCopy'']],
     Member ''GetFloatArrayElements'' (Ptr jfloat) [(jfloatArray, ''array''), (Ptr jboolean,
       ''isCopy'')] False [ReturnCall ''GetFloatArrayElements'' [''this'', ''array'',
       ''isCopy'']],
     Member ''GetDoubleArrayElements'' (Ptr jdouble) [(jdoubleArray, ''array''), (Ptr jboolean,
       ''isCopy'')] False [ReturnCall ''GetDoubleArrayElements'' [''this'', ''array'',
       ''isCopy'']],
     Member ''ReleaseBooleanArrayElements'' void_t [(jbooleanArray, ''array''), (Ptr jboolean,
       ''elems''), (jint, ''mode'')] False [Call ''ReleaseBooleanArrayElements'' [''this'',
       ''array'', ''elems'', ''mode'']],
     Member ''ReleaseByteArrayElements'' void_t [(jbyteArray, ''array''), (Ptr jbyte, ''elems''),
       (jint, ''mode'')] False [Call ''ReleaseByteArrayElements'' [''this'', ''array'', ''elems'',
       ''mode'']],
     Member ''ReleaseCharArrayElements'' void_t [(jcharArray, ''array''), (Ptr jchar, ''elems''),
       (jint, ''mode'')] False [Call ''ReleaseCharArrayElements'' [''this'', ''array'', ''elems'',
       ''mode'']],
     Member ''ReleaseShortArrayElements'' void_t [(jshortArray, ''array''), (Ptr jshort,
       ''elems''), (jint, ''mode'')] False [Call ''ReleaseShortArrayElements'' [''this'',
       ''array'', ''elems'', ''mode'']],
     Member ''ReleaseIntArrayElements'' void_t [(jintArray, ''array''), (Ptr jint, ''elems''),
       (jint, ''mode'')] False [Call ''ReleaseIntArrayElements'' [''this'', ''array'', ''elems'',
       ''mode'']],
     Member ''ReleaseLongArrayElements'' void_t [(jlongArray, ''array''), (Ptr jlong, ''elems''),
       (jint, ''mode'')] False [Call ''ReleaseLongArrayElements'' [''this'', ''array'', ''elems'',
       ''mode'']],
     Member ''ReleaseFloatArrayElements'' void_t [(jfloatArray, ''array''), (Ptr jfloat,
       ''elems''), (jint, ''mode'')] False [Call ''ReleaseFloatArrayElements'' [''this'',
       ''array'', ''elems'', ''mode'']],
     Member ''ReleaseDoubleArrayElements'' void_t [(jdoubleArray, ''array''), (Ptr jdouble,
       ''elems''), (jint, ''mode'')] False [Call ''ReleaseDoubleArrayElements'' [''this'',
       ''array'', ''elems'', ''mode'']],
     Member ''GetBooleanArrayRegion'' void_t [(jbooleanArray, ''array''), (jsize, ''start''),
       (jsize, ''len''), (Ptr jboolean, ''buf'')] False [Call ''GetBooleanArrayRegion'' [''this'',
       ''array'', ''start'', ''len'', ''buf'']],
     Member ''GetByteArrayRegion'' void_t [(jbyteArray, ''array''), (jsize, ''start''), (jsize,
       ''len''), (Ptr jbyte, ''buf'')] False [Call ''GetByteArrayRegion'' [''this'', ''array'',
       ''start'', ''len'', ''buf'']],
     Member ''GetCharArrayRegion'' void_t [(jcharArray, ''array''), (jsize, ''start''), (jsize,
       ''len''), (Ptr jchar, ''buf'')] False [Call ''GetCharArrayRegion'' [''this'', ''array'',
       ''start'', ''len'', ''buf'']],
     Member ''GetShortArrayRegion'' void_t [(jshortArray, ''array''), (jsize, ''start''), (jsize,
       ''len''), (Ptr jshort, ''buf'')] False [Call ''GetShortArrayRegion'' [''this'', ''array'',
       ''start'', ''len'', ''buf'']]]"

definition env_members_8 :: "cmember list" where
  "env_members_8 = [
     Member ''GetIntArrayRegion'' void_t [(jintArray, ''array''), (jsize, ''start''), (jsize,
       ''len''), (Ptr jint, ''buf'')] False [Call ''GetIntArrayRegion'' [''this'', ''array'',
       ''start'', ''len'', ''buf'']],
     Member ''GetLongArrayRegion'' void_t [(jlongArray, ''array''), (jsize, ''start''), (jsize,
       ''len''), (Ptr jlong, ''buf'')] False [Call ''GetLongArrayRegion'' [''this'', ''array'',
       ''start'', ''len'', ''buf'']],
     Member ''GetFloatArrayRegion'' void_t [(jfloatArray, ''array''), (jsize, ''start''), (jsize,
       ''len''), (Ptr jfloat, ''buf'')] False [Call ''GetFloatArrayRegion'' [''this'', ''array'',
       ''start'', ''len'', ''buf'']],
     Member ''GetDoubleArrayRegion'' void_t [(jdoubleArray, ''array''), (jsize, ''start''),
       (jsize, ''len''), (Ptr jdouble, ''buf'')] False [Call ''GetDoubleArrayRegion'' [''this'',
       ''array'', ''start'', ''len'', ''buf'']],
     Member ''SetBooleanArrayRegion'' void_t [(jbooleanArray, ''array''), (jsize, ''start''),
       (jsize, ''len''), (Ptr (Const jboolean), ''buf'')]
       False [Call ''SetBooleanArrayRegion'' [''this'', ''array'', ''start'', ''len'', ''buf'']],
     Member ''SetByteArrayRegion'' void_t [(jbyteArray, ''array''), (jsize, ''start''), (jsize,
       ''len''), (Ptr (Const jbyte), ''buf'')] False [Call ''SetByteArrayRegion'' [''this'',
       ''array'', ''start'', ''len'', ''buf'']],
     Member ''SetCharArrayRegion'' void_t [(jcharArray, ''array''), (jsize, ''start''), (jsize,
       ''len''), (Ptr (Const jchar), ''buf'')] False [Call ''SetCharArrayRegion'' [''this'',
       ''array'', ''start'', ''len'', ''buf'']],
     Member ''SetShortArrayRegion'' void_t [(jshortArray, ''array''), (jsize, ''start''), (jsize,
       ''len''), (Ptr (Const jshort), ''buf'')] False [Call ''SetShortArrayRegion'' [''this'',
       ''array'', ''start'', ''len'', ''buf'']],
     Member ''SetIntArrayRegion'' void_t [(jintArray, ''array''), (jsize, ''start''), (jsize,
       ''len''), (Ptr (Const jint), ''buf'')] False [Call ''SetIntArrayRegion'' [''this'',
       ''array'', ''start'', ''len'', ''buf'']],
     Member ''SetLongArrayRegion'' void_t [(jlongArray, ''array''), (jsize, ''start''), (jsize,
       ''len''), (Ptr (Const jlong), ''buf'')] False [Call ''SetLongArrayRegion'' [''this'',
       ''array'', ''start'', ''len'', ''buf'']],
     Member ''SetFloatArrayRegion'' void_t [(jfloatArray, ''array''), (jsize, ''start''), (jsize,
       ''len''), (Ptr (Const jfloat), ''buf'')] False [Call ''SetFloatArrayRegion'' [''this'',
       ''array'', ''start'', ''len'', ''buf'']],
     Member ''SetDoubleArrayRegion'' void_t [(jdoubleArray, ''array''), (jsize, ''start''),
       (jsize, ''len''), (Ptr (Const jdouble), ''buf'')]
       False [Call ''SetDoubleArrayRegion'' [''this'', ''array'', ''start'', ''len'', ''buf'']],
     Member ''RegisterNatives'' jint [(jclass, ''clazz''), (Ptr (Const JNINativeMethod),
       ''methods''), (jint, ''nMethods'')] False [ReturnCall ''RegisterNatives'' [''this'',
       ''clazz'', ''methods'', ''nMethods'']],
     Member ''UnregisterNatives'' jint [(jclass, ''clazz'')]
       False [ReturnCall ''UnregisterNatives'' [''this'', ''clazz'']],
     Member ''MonitorEnter'' jint [(jobject, ''obj'')]
       False [ReturnCall ''MonitorEnter'' [''this'', ''obj'']],
     Member ''MonitorExit'' jint [(jobject, ''obj'')] False [ReturnCall ''MonitorExit'' [''this'',
       ''obj'']],
     Member ''GetJavaVM'' jint [(Ptr (Ptr JavaVM), ''vm'')]
       False [ReturnCall ''GetJavaVM'' [''this'', ''vm'']],
     Member ''GetStringRegion'' void_t [(jstring, ''str''), (jsize, ''start''), (jsize, ''len''),
       (Ptr jchar, ''buf'')] False [Call ''GetStringRegion'' [''this'', ''str'', ''start'',
       ''len'', ''buf'']],
     Member ''GetStringUTFRegion'' void_t [(jstring, ''str''), (jsize, ''start''), (jsize,
       ''len''), (Ptr char_t, ''buf'')] False [Call ''GetStringUTFRegion'' [''this'', ''str'',
       ''start'', ''len'', ''buf'']],
     Member ''GetPrimitiveArrayCritical'' (Ptr void_t) [(jarray, ''array''), (Ptr jboolean,
       ''isCopy'')] False [ReturnCall ''GetPrimitiveArrayCritical'' [''this'', ''array'',
       ''isCopy'']],
     Member ''ReleasePrimitiveArrayCritical'' void_t [(jarray, ''array''), (Ptr void_t,
       ''carray''), (jint, ''mode'')] False [Call ''ReleasePrimitiveArrayCritical'' [''this'',
       ''array'', ''carray'', ''mode'']],
     Member ''GetStringCritical'' (Ptr (Const jchar)) [(jstring, ''string''), (Ptr jboolean,
       ''isCopy'')] False [ReturnCall ''GetStringCritical'' [''this'', ''string'', ''isCopy'']],
     Member ''ReleaseStringCritical'' void_t [(jstring, ''string''), (Ptr (Const jchar),
       ''cstring'')] False [Call ''ReleaseStringCritical'' [''this'', ''string'', ''cstring'']],
     Member ''NewWeakGlobalRef'' jweak [(jobject, ''obj'')]
       False [ReturnCall ''NewWeakGlobalRef'' [''this'', ''obj'']],
     Member ''DeleteWeakGlobalRef'' void_t [(jweak, ''ref'')]
       False [Call ''DeleteWeakGlobalRef'' [''this'', ''ref'']],
     Member ''ExceptionCheck'' jboolean [] False [ReturnCall ''ExceptionCheck'' [''this'']],
     Member ''NewDirectByteBuffer'' jobject [(Ptr void_t, ''address''), (jlong, ''capacity'')]
       False [ReturnCall ''NewDirectByteBuffer'' [''this'', ''address'', ''capacity'']],
     Member ''GetDirectBufferAddress'' (Ptr void_t) [(jobject, ''buf'')]
       False [ReturnCall ''GetDirectBufferAddress'' [''this'', ''buf'']],
     Member ''GetDirectBufferCapacity'' jlong [(jobject, ''buf'')]
       False [ReturnCall ''GetDirectBufferCapacity'' [''this'', ''buf'']],
     Member ''GetObjectRefType'' jobjectRefType [(jobject, ''obj'')]
       False [ReturnCall ''GetObjectRefType'' [''this'', ''obj'']]]"

definition JNIEnv_members :: "cmember list" where
  "JNIEnv_members = env_members_1 @ env_members_2 @ env_members_3 @ env_members_4 @
     env_members_5 @ env_members_6 @ env_members_7 @ env_members_8"

section \<open>The members of the virtual machine handle\<close>

definition JavaVM_members :: "cmember list" where
  "JavaVM_members = [
     Member ''DestroyJavaVM'' jint [] False [ReturnCall ''DestroyJavaVM'' [''this'']],
     Member ''AttachCurrentThread'' jint [(Ptr (Ptr void_t), ''penv''), (Ptr void_t, ''args'')]
       False [ReturnCall ''AttachCurrentThread'' [''this'', ''penv'', ''args'']],
     Member ''DetachCurrentThread'' jint [] False [ReturnCall ''DetachCurrentThread'' [''this'']],
     Member ''GetEnv'' jint [(Ptr (Ptr void_t), ''penv''), (jint, ''version'')]
       False [ReturnCall ''GetEnv'' [''this'', ''penv'', ''version'']],
     Member ''AttachCurrentThreadAsDaemon'' jint [(Ptr (Ptr void_t), ''penv''), (Ptr void_t,
       ''args'')] False [ReturnCall ''AttachCurrentThreadAsDaemon'' [''this'', ''penv'',
       ''args'']]]"

section \<open>Members and table match\<close>

lemmas env_members_defs = env_members_1_def env_members_2_def env_members_3_def env_members_4_def
  env_members_5_def env_members_6_def env_members_7_def env_members_8_def

lemma env_members_well_formed: "list_all well_formed JNIEnv_members"
proof -
  note [simp] = well_formed_def forwarding_def param_names_def target_def Let_def
  have "list_all well_formed env_members_1" by (simp add: env_members_1_def)
  moreover have "list_all well_formed env_members_2" by (simp add: env_members_2_def)
  moreover have "list_all well_formed env_members_3" by (simp add: env_members_3_def)
  moreover have "list_all well_formed env_members_4" by (simp add: env_members_4_def)
  moreover have "list_all well_formed env_members_5" by (simp add: env_members_5_def)
  moreover have "list_all well_formed env_members_6" by (simp add: env_members_6_def)
  moreover have "list_all well_formed env_members_7" by (simp add: env_members_7_def)
  moreover have "list_all well_formed env_members_8" by (simp add: env_members_8_def)
  ultimately show ?thesis by (simp only: JNIEnv_members_def list_all_append)
qed

lemma env_members_slots: "map (member_slot JNIEnv) JNIEnv_members = drop 4 JNINativeInterface"
  by (simp add: JNIEnv_members_def env_members_defs JNINativeInterface_def native_interface_defs member_slot_def)

lemma vm_members_slots: "map (member_slot JavaVM) JavaVM_members = drop 3 JNIInvokeInterface"
  by (simp add: JavaVM_members_def JNIInvokeInterface_def member_slot_def)

interpretation env: member_table JNINativeInterface JNIEnv_members JNIEnv 4
proof
  have "length JNIEnv_members = length (drop 4 JNINativeInterface)"
    using arg_cong [OF env_members_slots, of length] by simp
  then show "take (length JNIEnv_members) (drop 4 JNINativeInterface) = map (member_slot JNIEnv) JNIEnv_members"
    by (simp add: env_members_slots)
qed (rule env_members_well_formed native_forms_follow)+

interpretation vm: member_table JNIInvokeInterface JavaVM_members JavaVM 3
proof
  show "list_all well_formed JavaVM_members"
    by (simp add: JavaVM_members_def well_formed_def forwarding_def param_names_def target_def Let_def)
  show "take (length JavaVM_members) (drop 3 JNIInvokeInterface) = map (member_slot JavaVM) JavaVM_members"
    by (simp add: JavaVM_members_def JNIInvokeInterface_def member_slot_def)
  show "forms_follow [] JNIInvokeInterface" by (simp add: JNIInvokeInterface_def)
qed

section \<open>Properties\<close>

text \<open>C4: every one of the 229 members of \<open>JNIEnv_\<close> is a plain forwarder: called with any
  arguments it runs into no undefined use of a \<open>va_list\<close> and no unknown name, calls exactly
  one function of the table once, namely the one of its own name (or, with open arguments,
  its form with a \<open>va_list\<close>), with the environment, the given arguments in order and the
  open arguments, and returns that function's result. The entry it calls has the result type
  of the member and exactly the types of the arguments passed.\<close>

theorem env_member_forwards:
  assumes "m \<in> set JNIEnv_members" "length args = length (member_params m)"
  shows "\<exists>k. offset_of (target m) JNINativeInterface = Some k \<and>
    slot_at k JNINativeInterface = Some (Fn (target m) (member_ret m) (call_types JNIEnv m)) \<and>
    call_member JNINativeInterface impl m args vargs w =
      (let (v, w') = impl k (This # map Val args @ (if member_open m then [VaArgs vargs] else [])) w
       in Inr (if member_ret m = void_t then None else Some v, w'))"
  by (rule env.member_forwards [OF assms])

lemma env_member_forwards_witness:
  "\<exists>k m. m \<in> set JNIEnv_members \<and> member_name m = ''NewObject'' \<and>
     offset_of ''NewObjectV'' JNINativeInterface = Some k \<and>
     call_member JNINativeInterface (\<lambda>k vs w. (int (length vs), w + 1)) m [10, 20] [30, 40, 50] (0 :: int) = Inr (Some 4, 1)"
proof -
  let ?m = "env_members_1 ! 24"
  have m: "?m = Member ''NewObject'' jobject [(jclass, ''clazz''), (jmethodID, ''methodID'')] True
    [VaDecl ''args'', VarDecl jobject ''result'', VaStart ''args'' ''methodID'',
     AssignCall ''result'' ''NewObjectV'' [''this'', ''clazz'', ''methodID'', ''args''],
     VaEnd ''args'', Return ''result'']" and "length env_members_1 = 34"
    by (simp_all add: env_members_1_def)
  then have mem: "?m \<in> set JNIEnv_members" unfolding JNIEnv_members_def set_append by (intro UnI1 nth_mem) simp
  from env_member_forwards [OF mem, of "[10, 20]" "\<lambda>k vs w. (int (length vs), w + 1)" "[30, 40, 50]" "0 :: int"]
  obtain k where "offset_of ''NewObjectV'' JNINativeInterface = Some k"
    "call_member JNINativeInterface (\<lambda>k vs w. (int (length vs), w + 1)) ?m [10, 20] [30, 40, 50] (0 :: int) = Inr (Some 4, 1)"
    by (auto simp: m target_def)
  with mem m show ?thesis by (metis cmember.sel(1))
qed

text \<open>C17: members and table entries correspond one to one and in order: the members of \<open>JNIEnv_\<close>,
  with the environment put in front of their parameters, are exactly the entries of the table
  behind its four reserved pointers, and likewise for \<open>JavaVM_\<close> behind three.\<close>

theorem members_cover_tables:
  "map (member_slot JNIEnv) JNIEnv_members = drop 4 JNINativeInterface \<and>
   map (member_slot JavaVM) JavaVM_members = drop 3 JNIInvokeInterface"
  by (rule conjI [OF env_members_slots vm_members_slots])

text \<open>The members of \<open>JavaVM_\<close> forward to the invocation interface in the same way.\<close>

theorem vm_member_forwards:
  assumes "m \<in> set JavaVM_members" "length args = length (member_params m)"
  shows "\<exists>k. offset_of (member_name m) JNIInvokeInterface = Some k \<and>
    slot_at k JNIInvokeInterface = Some (Fn (member_name m) (member_ret m) (Ptr JavaVM # map fst (member_params m))) \<and>
    call_member JNIInvokeInterface impl m args [] w = (let (v, w') = impl k (This # map Val args) w in Inr (Some v, w'))"
proof -
  have "\<not> member_open m" "member_ret m \<noteq> void_t" using assms(1) by (auto simp: JavaVM_members_def)
  with vm.member_forwards [OF assms, of impl "[]" w] show ?thesis by (simp add: target_def call_types_def)
qed

lemma vm_member_forwards_witness:
  "call_member JNIInvokeInterface (\<lambda>k vs w. (k, length vs # w)) (JavaVM_members ! 3) [1, 2] [] [] = Inr (Some 6, [3])"
proof -
  have m: "JavaVM_members ! 3 \<in> set JavaVM_members" "length (member_params (JavaVM_members ! 3)) = 2"
      "member_name (JavaVM_members ! 3) = ''GetEnv''"
    by (simp_all add: JavaVM_members_def)
  have "offset_of ''GetEnv'' JNIInvokeInterface = Some 6" by (simp add: JNIInvokeInterface_def)
  with vm_member_forwards [OF m(1), of "[1, 2]" "\<lambda>k vs w. (k, length vs # w)" "[]"] m show ?thesis by auto
qed

end
