(* ===== verification/Jni_Call.thy ===== *)
theory Jni_Call
  imports Jni_Env
begin

text \<open>
  Calls of the virtual machine from the native library: \<open>env->F(...)\<close> looks the member up in
  \<open>JNIEnv_\<close>, executes its body, and so calls an entry of the function table. Every call is
  recorded, with its place in the table, its arguments and its result; what the native code
  holds at a moment is read off this record.
\<close>

section \<open>Values and events\<close>

text \<open>
  A value passed to or returned from the virtual machine: a reference (0 is null), an integer,
  an address (0 is null), a C string constant, a method ID (0 is null), or nothing.
\<close>

datatype jval = JRef nat | JNum int | CPtr nat | CStr string | JMethod nat | JVoid

text \<open>
  The objects of the compiler library that variables of the code own: a context, a module (with
  the context it was created in) and an execution engine (with the module it owns).
\<close>

datatype llvm_object =
    Context nat
  | Module nat (module_context: nat)
  | Engine nat llvm_object

text \<open>
  What native code does to the outside: a call through the table, or the creation or
  destruction of an object. \<open>Moved\<close> records that an object got another owner. A target machine
  has no owner: the caller of the function that creates one gets a plain pointer.
\<close>

datatype event =
    JniCall nat "jval arg list" jval
  | Created llvm_object
  | Destroyed llvm_object
  | Moved llvm_object
  | CreatedMachine nat

text \<open>Why C++ code stops other than by returning.\<close>

datatype cpp_stop =
    ThrownString string      \<comment> \<open>an exception of type \<open>std::string\<close>\<close>
  | ThrownChars string       \<comment> \<open>an exception of type \<open>const char *\<close>\<close>
  | AssertionFailed string
  | Undefined string         \<comment> \<open>undefined behaviour\<close>

text \<open>
  The state: the virtual machine \<open>'w\<close>, the state \<open>'l\<close> of the compiler library, the C++ objects
  that the code allocates with \<open>new\<close> at their addresses, the \<open>unique_ptr\<close> variables of the
  running function (null once they have been moved from), and the record of events. The
  virtual machine is given by the functions behind its table and by the memory it exposes.
\<close>

record compile_state =
  cs_engine :: llvm_object
  cs_f :: word64

record ('w, 'l) native_state =
  jvm :: 'w
  lib :: 'l
  heap :: "word64 \<Rightarrow> compile_state option"
  unique :: "string \<Rightarrow> llvm_object option"
  events :: "event list"

record 'w jvm_interface =
  jni_impl :: "(jval, 'w) implementation"
  c_string_at :: "nat \<Rightarrow> 'w \<Rightarrow> string"
  bytes_at :: "nat \<Rightarrow> nat \<Rightarrow> 'w \<Rightarrow> byte list"

type_synonym ('w, 'l, 'a) native = "(('w, 'l) native_state, cpp_stop, 'a) comp"

definition log_event :: "event \<Rightarrow> ('w, 'l) native_state \<Rightarrow> ('w, 'l) native_state" where
  "log_event e s = s\<lparr>events := events s @ [e]\<rparr>"

definition logged :: "'w jvm_interface \<Rightarrow> (jval, ('w, 'l) native_state) implementation" where
  "logged V k vs s = (case jni_impl V k vs (jvm s) of (r, w) \<Rightarrow> (r, log_event (JniCall k vs r) (s\<lparr>jvm := w\<rparr>)))"

definition member_of :: "string \<Rightarrow> cmember option" where
  "member_of n = find (\<lambda>m. member_name m = n) JNIEnv_members"

definition jni :: "'w jvm_interface \<Rightarrow> string \<Rightarrow> jval list \<Rightarrow> jval list \<Rightarrow> ('w, 'l, jval) native" where
  "jni V n args vargs s = (case member_of n of None \<Rightarrow> (Inl (Undefined n), s)
     | Some m \<Rightarrow> (case call_member JNINativeInterface (logged V) m args vargs s of
         Inl e \<Rightarrow> (Inl (Undefined n), s)
       | Inr (r, s') \<Rightarrow> (Inr (case r of None \<Rightarrow> JVoid | Some v \<Rightarrow> v), s')))"

section \<open>Calls reach the table\<close>

lemma length_JNIEnv_members: "length JNIEnv_members = 229"
  using arg_cong [OF env_members_slots, of length] by (simp add: length_native_interface)

lemma env_member_slot: "i < 229 \<Longrightarrow> JNINativeInterface ! (i + 4) = member_slot JNIEnv (JNIEnv_members ! i)"
proof -
  assume "i < 229"
  then have "map (member_slot JNIEnv) JNIEnv_members ! i = JNINativeInterface ! (4 + i)"
    by (simp add: env_members_slots length_native_interface)
  then show ?thesis using \<open>i < 229\<close> by (simp add: length_JNIEnv_members add.commute)
qed

lemma slot_name_member_slot [simp]: "slot_name (member_slot self m) = member_name m"
  by (simp add: member_slot_def)

lemma member_of_nth: "i < 229 \<Longrightarrow> member_of (member_name (JNIEnv_members ! i)) = Some (JNIEnv_members ! i)"
proof -
  assume i: "i < 229"
  have "distinct (map slot_name (drop 4 JNINativeInterface))"
    using native_table.names_distinct by (simp add: distinct_drop flip: drop_map)
  then have "distinct (map member_name JNIEnv_members)"
    by (simp add: env_members_slots [symmetric] comp_def)
  then show ?thesis
    using i by (auto simp: member_of_def find_Some_iff length_JNIEnv_members nth_eq_iff_index_eq distinct_map
        dest: inj_onD intro!: exI [of _ i])
qed

text \<open>A member's call in terms of the table: at its own place, or one further for the open ones.\<close>

lemma jni_at:
  assumes i: "i < 229" "JNIEnv_members ! i = m" and args: "length args = length (member_params m)"
    and k: "k = (if member_open m then i + 5 else i + 4)"
  shows "jni V (member_name m) args vargs s =
    (let (r, s') = logged V k (This # map Val args @ (if member_open m then [VaArgs vargs] else [])) s
     in (Inr (if member_ret m = void_t then JVoid else r), s'))"
proof -
  have mem: "m \<in> set JNIEnv_members" using i length_JNIEnv_members by auto
  have slot: "JNINativeInterface ! (i + 4) = member_slot JNIEnv m" using env_member_slot i by blast
  have "slot_name (JNINativeInterface ! k) = target m \<and> k < 233"
  proof (cases "member_open m")
    case False
    then show ?thesis using slot i k by (simp add: target_def)
  next
    case True
    then have "JNINativeInterface ! (i + 4) = Variadic (member_name m) (member_ret m) (Ptr JNIEnv # map fst (member_params m))"
      using slot by (simp add: member_slot_def)
    from forms_follow_at [OF native_forms_follow _ this] show ?thesis
      using True i k by (simp add: length_native_interface target_def add.commute)
  qed
  then have "offset_of (target m) JNINativeInterface = Some k"
    using native_table_index [of k] length_native_interface by simp
  then show ?thesis
    using env.member_forwards [OF mem args, of "logged V" vargs s] member_of_nth [OF i(1)] i(2)
    by (auto simp: jni_def Let_def split: prod.splits)
qed

text \<open>The functions the library calls, with their places and what passes.\<close>

definition used_members :: "(nat \<times> string \<times> nat \<times> bool \<times> bool) list" where
  "used_members =
     [(2, ''FindClass'', 1, False, False), (29, ''GetMethodID'', 3, False, False),
      (57, ''CallVoidMethod'', 2, True, True), (160, ''GetStringLength'', 1, False, False),
      (163, ''NewStringUTF'', 1, False, False), (165, ''GetStringUTFChars'', 2, False, False),
      (166, ''ReleaseStringUTFChars'', 2, False, True), (167, ''GetArrayLength'', 1, False, False),
      (218, ''GetPrimitiveArrayCritical'', 2, False, False),
      (219, ''ReleasePrimitiveArrayCritical'', 3, False, True)]"

lemma length_env_members:
  "length env_members_1 = 34" "length env_members_2 = 25" "length env_members_3 = 19" "length env_members_4 = 27"
  "length env_members_5 = 24" "length env_members_6 = 33" "length env_members_7 = 37" "length env_members_8 = 30"
  by (simp_all add: env_members_defs)

lemma used_members_nth:
  "JNIEnv_members ! 2 = env_members_1 ! 2" "JNIEnv_members ! 29 = env_members_1 ! 29"
  "JNIEnv_members ! 57 = env_members_2 ! 23" "JNIEnv_members ! 160 = env_members_6 ! 31"
  "JNIEnv_members ! 163 = env_members_7 ! 1" "JNIEnv_members ! 165 = env_members_7 ! 3"
  "JNIEnv_members ! 166 = env_members_7 ! 4" "JNIEnv_members ! 167 = env_members_7 ! 5"
  "JNIEnv_members ! 218 = env_members_8 ! 19" "JNIEnv_members ! 219 = env_members_8 ! 20"
  by (simp_all add: JNIEnv_members_def nth_append length_env_members)

definition signature :: "cmember \<Rightarrow> string \<times> nat \<times> bool \<times> bool" where
  "signature m = (member_name m, length (member_params m), member_open m, member_ret m = void_t)"

lemma used_members_ok: "(i, n, k, v, e) \<in> set used_members \<Longrightarrow> i < 229 \<and> signature (JNIEnv_members ! i) = (n, k, v, e)"
proof -
  have "signature (env_members_1 ! 2) = (''FindClass'', 1, False, False)"
    "signature (env_members_1 ! 29) = (''GetMethodID'', 3, False, False)"
    by (simp_all add: env_members_1_def signature_def)
  moreover have "signature (env_members_2 ! 23) = (''CallVoidMethod'', 2, True, True)"
    by (simp add: env_members_2_def signature_def)
  moreover have "signature (env_members_6 ! 31) = (''GetStringLength'', 1, False, False)"
    by (simp add: env_members_6_def signature_def)
  moreover have "signature (env_members_7 ! 1) = (''NewStringUTF'', 1, False, False)"
    "signature (env_members_7 ! 3) = (''GetStringUTFChars'', 2, False, False)"
    "signature (env_members_7 ! 4) = (''ReleaseStringUTFChars'', 2, False, True)"
    "signature (env_members_7 ! 5) = (''GetArrayLength'', 1, False, False)"
    by (simp_all add: env_members_7_def signature_def)
  moreover have "signature (env_members_8 ! 19) = (''GetPrimitiveArrayCritical'', 2, False, False)"
    "signature (env_members_8 ! 20) = (''ReleasePrimitiveArrayCritical'', 3, False, True)"
    by (simp_all add: env_members_8_def signature_def)
  moreover assume "(i, n, k, v, e) \<in> set used_members"
  ultimately show ?thesis by (auto simp: used_members_def used_members_nth)
qed

lemma jni_used:
  assumes "(i, n, k, v, e) \<in> set used_members" "length args = k"
  shows "jni V n args vargs s =
    (let (r, s') = logged V (if v then i + 5 else i + 4) (This # map Val args @ (if v then [VaArgs vargs] else [])) s
     in (Inr (if e then JVoid else r), s'))"
proof -
  define m where "m = JNIEnv_members ! i"
  have "i < 229" "member_name m = n" "length (member_params m) = k" "member_open m = v" "(member_ret m = void_t) = e"
    using used_members_ok [OF assms(1)] by (simp_all add: m_def signature_def)
  then show ?thesis
    using jni_at [of i m args "if v then i + 5 else i + 4" V vargs s] assms(2) m_def by simp
qed

named_theorems jni_calls "calls of the virtual machine as calls of table entries"

lemma jni_functions [jni_calls]:
  "jni V ''FindClass'' [a] [] s = (let (r, s') = logged V 6 [This, Val a] s in (Inr r, s'))"
  "jni V ''GetMethodID'' [a, b, c] [] s = (let (r, s') = logged V 33 [This, Val a, Val b, Val c] s in (Inr r, s'))"
  "jni V ''CallVoidMethod'' [a, b] vs s = (let (r, s') = logged V 62 [This, Val a, Val b, VaArgs vs] s in (Inr JVoid, s'))"
  "jni V ''GetStringLength'' [a] [] s = (let (r, s') = logged V 164 [This, Val a] s in (Inr r, s'))"
  "jni V ''NewStringUTF'' [a] [] s = (let (r, s') = logged V 167 [This, Val a] s in (Inr r, s'))"
  "jni V ''GetStringUTFChars'' [a, b] [] s = (let (r, s') = logged V 169 [This, Val a, Val b] s in (Inr r, s'))"
  "jni V ''ReleaseStringUTFChars'' [a, b] [] s = (let (r, s') = logged V 170 [This, Val a, Val b] s in (Inr JVoid, s'))"
  "jni V ''GetArrayLength'' [a] [] s = (let (r, s') = logged V 171 [This, Val a] s in (Inr r, s'))"
  "jni V ''GetPrimitiveArrayCritical'' [a, b] [] s = (let (r, s') = logged V 222 [This, Val a, Val b] s in (Inr r, s'))"
  "jni V ''ReleasePrimitiveArrayCritical'' [a, b, c] [] s =
     (let (r, s') = logged V 223 [This, Val a, Val b, Val c] s in (Inr JVoid, s'))"
  using
    jni_used [of 2 "''FindClass''" 1 False False "[a]" V "[]" s]
    jni_used [of 29 "''GetMethodID''" 3 False False "[a, b, c]" V "[]" s]
    jni_used [of 57 "''CallVoidMethod''" 2 True True "[a, b]" V vs s]
    jni_used [of 160 "''GetStringLength''" 1 False False "[a]" V "[]" s]
    jni_used [of 163 "''NewStringUTF''" 1 False False "[a]" V "[]" s]
    jni_used [of 165 "''GetStringUTFChars''" 2 False False "[a, b]" V "[]" s]
    jni_used [of 166 "''ReleaseStringUTFChars''" 2 False True "[a, b]" V "[]" s]
    jni_used [of 167 "''GetArrayLength''" 1 False False "[a]" V "[]" s]
    jni_used [of 218 "''GetPrimitiveArrayCritical''" 2 False False "[a, b]" V "[]" s]
    jni_used [of 219 "''ReleasePrimitiveArrayCritical''" 3 False True "[a, b, c]" V "[]" s]
  by (simp_all add: used_members_def)

end
