(* ===== verification/Jni_Helpers.thy ===== *)
theory Jni_Helpers
  imports Jni_Call
begin

text \<open>
  The two helper classes of \<open>include/jni_types.h\<close>, whose constructors acquire a primitive array
  or the characters of a string and whose destructors release them, and the C++ scopes they
  live in. What is held at a moment is a function of the recorded events, and the contract of
  a scoped object is that it leaves exactly what was held before.
\<close>

section \<open>What is held\<close>

datatype handle = Critical jval jval | Chars jval jval | Object llvm_object | TargetMachine nat

text \<open>What each event acquires or releases, the functions of the virtual machine by their places.\<close>

fun held_step :: "event \<Rightarrow> handle list \<Rightarrow> handle list" where
  "held_step (JniCall k vs r) hs =
     (case vs of
        [This, Val a, Val b] \<Rightarrow>
          if k = 222 then Critical a r # hs
          else if k = 169 then Chars a r # hs
          else if k = 170 then remove1 (Chars a b) hs else hs
      | [This, Val a, Val p, Val m] \<Rightarrow> if k = 223 then remove1 (Critical a p) hs else hs
      | _ \<Rightarrow> hs)"
| "held_step (Created obj) hs = Object obj # hs"
| "held_step (CreatedMachine k) hs = TargetMachine k # hs"
| "held_step (Destroyed obj) hs = remove1 (Object obj) hs"
| "held_step (Moved obj) hs = remove1 (Object obj) hs"

definition held :: "('w, 'l) native_state \<Rightarrow> handle list" where
  "held s = fold held_step (events s) []"

text \<open>
  The target machines among it, and the rest, which scopes and \<open>unique_ptr\<close> variables own.
\<close>

fun is_machine :: "handle \<Rightarrow> bool" where
  "is_machine (TargetMachine k) = True" | "is_machine _ = False"

definition machines :: "('w, 'l) native_state \<Rightarrow> handle list" where
  "machines s = filter is_machine (held s)"

definition owned :: "('w, 'l) native_state \<Rightarrow> handle list" where
  "owned s = filter (\<lambda>h. \<not> is_machine h) (held s)"

text \<open>What is owned apart from what the variables \<open>ns\<close> own.\<close>

definition apart :: "string list \<Rightarrow> ('w, 'l) native_state \<Rightarrow> handle list" where
  "apart ns s = foldr (\<lambda>n hs. case unique s n of None \<Rightarrow> hs | Some obj \<Rightarrow> remove1 (Object obj) hs) ns (owned s)"

lemma held_log [simp]: "held (log_event e s) = held_step e (held s)"
  by (simp add: held_def log_event_def)

lemma held_update [simp]:
  "held (s\<lparr>jvm := w\<rparr>) = held s" "held (s\<lparr>lib := l\<rparr>) = held s" "held (s\<lparr>heap := h\<rparr>) = held s"
  "held (s\<lparr>unique := u\<rparr>) = held s"
  by (simp_all add: held_def)

lemma owned_update [simp]:
  "owned (s\<lparr>jvm := w\<rparr>) = owned s" "owned (s\<lparr>lib := l\<rparr>) = owned s" "owned (s\<lparr>heap := h\<rparr>) = owned s"
  "owned (s\<lparr>unique := u\<rparr>) = owned s"
  by (simp_all add: owned_def)

lemma machines_update [simp]:
  "machines (s\<lparr>jvm := w\<rparr>) = machines s" "machines (s\<lparr>lib := l\<rparr>) = machines s" "machines (s\<lparr>heap := h\<rparr>) = machines s"
  "machines (s\<lparr>unique := u\<rparr>) = machines s"
  by (simp_all add: machines_def)

lemma owned_held: "held s' = held s \<Longrightarrow> owned s' = owned s"
  by (simp add: owned_def)

lemma owned_log [simp]: "owned (log_event e s) = filter (\<lambda>h. \<not> is_machine h) (held_step e (held s))"
  by (simp add: owned_def)

text \<open>Only the creation of a machine changes the machines that are held.\<close>

lemma machines_log [simp]:
  "machines (log_event e s) = (case e of CreatedMachine k \<Rightarrow> TargetMachine k # machines s | _ \<Rightarrow> machines s)"
  by (cases "(e, held s)" rule: held_step.cases)
    (auto simp: machines_def filter_remove1 remove1_filter_not split: list.split arg.split)

lemma held_logged: "logged V k vs s = (r, s') \<Longrightarrow> held s' = held_step (JniCall k vs r) (held s)"
  by (cases "jni_impl V k vs (jvm s)") (auto simp: logged_def)

lemma unique_logged: "logged V k vs s = (r, s') \<Longrightarrow> unique s' = unique s"
  by (cases "jni_impl V k vs (jvm s)") (auto simp: logged_def log_event_def)

lemma apart_Nil [simp]: "apart [] = owned"
  by (simp add: apart_def fun_eq_iff)

lemma apart_Cons:
  "apart (n # ns) s = (case unique s n of None \<Rightarrow> apart ns s | Some obj \<Rightarrow> remove1 (Object obj) (apart ns s))"
  by (simp add: apart_def split: option.split)

lemma apart_cong: "owned s' = owned s \<Longrightarrow> \<forall>n \<in> set ns. unique s' n = unique s n \<Longrightarrow> apart ns s' = apart ns s"
  by (induction ns) (auto simp: apart_Cons split: option.splits)

lemma apart_update [simp]:
  "apart ns (s\<lparr>jvm := w\<rparr>) = apart ns s" "apart ns (s\<lparr>lib := l\<rparr>) = apart ns s" "apart ns (s\<lparr>heap := h\<rparr>) = apart ns s"
  by (rule apart_cong; simp)+

lemma apart_unique_other [simp]: "n \<notin> set ns \<Longrightarrow> apart ns (s\<lparr>unique := (unique s)(n := x)\<rparr>) = apart ns s"
  by (rule apart_cong) auto

text \<open>The release of what no variable owns does not disturb what they own.\<close>

lemma remove1_commute: "remove1 a (remove1 b xs) = remove1 b (remove1 a xs)"
  by (induction xs) auto

lemma apart_remove:
  assumes "held s' = remove1 h (held s)" "unique s' = unique s"
  shows "apart ns s' = remove1 h (apart ns s)"
  using assms by (induction ns) (auto simp: apart_Cons owned_def filter_remove1 remove1_commute split: option.splits)

lemma apart_acquire:
  assumes "held s' = h # held s" "\<not> is_machine h" "unique s' = unique s"
  shows "remove1 h (apart ns s') = apart ns s"
  using assms by (induction ns) (auto simp: apart_Cons owned_def remove1_commute [of h] split: option.splits)

text \<open>
  The rule of the interface: between \<open>GetPrimitiveArrayCritical\<close> and the matching release
  native code must not call other functions, except for nested critical regions.
\<close>

fun is_critical :: "handle \<Rightarrow> bool" where
  "is_critical (Critical a p) = True" | "is_critical _ = False"

definition allowed_in_critical :: "nat \<Rightarrow> bool" where
  "allowed_in_critical k \<longleftrightarrow> k \<in> {222, 223, 224, 225}"

fun critical_rule :: "event list \<Rightarrow> handle list \<Rightarrow> bool" where
  "critical_rule [] hs = True"
| "critical_rule (e # es) hs =
     ((case e of JniCall k vs r \<Rightarrow> list_ex is_critical hs \<longrightarrow> allowed_in_critical k | _ \<Rightarrow> True) \<and>
      critical_rule es (held_step e hs))"

section \<open>C++ scopes\<close>

text \<open>
  The only handlers of the library are for \<open>std::string\<close>. An exception that one of them will
  catch unwinds the scopes it leaves. For any other, the C++ runtime finds no handler, neither
  here nor in the frames of the virtual machine that called: it does not unwind, and what the
  scopes hold is not released. Neither a failed assertion nor undefined behaviour unwinds.
\<close>

fun caught :: "cpp_stop \<Rightarrow> bool" where
  "caught (ThrownString m) = True" | "caught _ = False"

definition scoped ::
  "('s, cpp_stop, 'o) comp \<Rightarrow> ('o \<Rightarrow> ('s, cpp_stop, unit) comp) \<Rightarrow> ('o \<Rightarrow> ('s, cpp_stop, 'a) comp) \<Rightarrow>
     ('s, cpp_stop, 'a) comp" where
  "scoped ctor dtor body = bindc ctor (\<lambda>obj s.
     case body obj s of
       (Inr x, s') \<Rightarrow> bindc (dtor obj) (\<lambda>_. ret x) s'
     | (Inl e, s') \<Rightarrow> if caught e then bindc (dtor obj) (\<lambda>_. raise e) s' else (Inl e, s'))"

text \<open>Whether a computation gave control back: by a value or an exception that is caught.\<close>

fun resumes :: "cpp_stop + 'a \<Rightarrow> bool" where
  "resumes (Inr x) = True" | "resumes (Inl e) = caught e"

definition balanced :: "('s \<Rightarrow> 'h list) \<Rightarrow> ('s, cpp_stop, 'a) comp \<Rightarrow> bool" where
  "balanced H m \<longleftrightarrow> (\<forall>s r s'. m s = (r, s') \<longrightarrow> resumes r \<longrightarrow> H s' = H s)"

lemma balancedI: "(\<And>s r s'. m s = (r, s') \<Longrightarrow> resumes r \<Longrightarrow> H s' = H s) \<Longrightarrow> balanced H m"
  by (simp add: balanced_def)

lemma balancedD: "balanced H m \<Longrightarrow> m s = (r, s') \<Longrightarrow> resumes r \<Longrightarrow> H s' = H s"
  by (simp add: balanced_def)

lemma balanced_ret [intro]: "balanced H (ret x)"
  by (simp add: balanced_def ret_apply)

lemma balanced_raise [intro]: "balanced H (raise e)"
  by (simp add: balanced_def raise_apply)

lemma balanced_gets [intro]: "balanced H (gets f)"
  by (simp add: balanced_def gets_apply)

lemma balanced_bindc [intro]:
  assumes "balanced H m" "\<And>x. balanced H (f x)"
  shows "balanced H (bindc m f)"
proof (rule balancedI)
  fix s r s' assume run: "bindc m f s = (r, s')" and res: "resumes r"
  show "H s' = H s"
  proof (cases "m s")
    case (Pair q t)
    show ?thesis
    proof (cases q)
      case (Inl e)
      then show ?thesis using run res Pair balancedD [OF assms(1) Pair] by (auto simp: bindc_def)
    next
      case (Inr x)
      then show ?thesis
        using run res Pair balancedD [OF assms(1) Pair] balancedD [OF assms(2), of x t r s'] by (simp add: bindc_def)
    qed
  qed
qed

lemma balanced_if [intro]: "balanced H m \<Longrightarrow> balanced H n \<Longrightarrow> balanced H (if b then m else n)"
  by simp

lemma balanced_remove: "balanced H m \<Longrightarrow> balanced (\<lambda>s. remove1 h (H s)) m"
  by (simp add: balanced_def)

text \<open>
  The contract of a scoped object, with \<open>H\<close> what is held and \<open>K\<close> what is held apart from the
  object: the constructor, if it returns, has acquired exactly the object, and the destructor
  returns and gives exactly it back. A constructor that ends with an exception that is caught
  holds nothing.
\<close>

locale scoped_object =
  fixes ctor :: "('s, cpp_stop, 'o) comp"
    and dtor :: "'o \<Rightarrow> ('s, cpp_stop, unit) comp"
    and H :: "'s \<Rightarrow> 'h list"
    and K :: "'o \<Rightarrow> 's \<Rightarrow> 'h list"
  assumes ctor_acquires: "ctor s = (Inr obj, s') \<Longrightarrow> K obj s' = H s"
    and ctor_fails: "ctor s = (Inl e, s') \<Longrightarrow> caught e \<Longrightarrow> H s' = H s"
    and dtor_releases: "\<exists>s'. dtor obj s = (Inr (), s') \<and> H s' = K obj s"
begin

lemma scoped_balanced:
  assumes "\<And>obj. balanced (K obj) (body obj)"
  shows "balanced H (scoped ctor dtor body)"
proof (rule balancedI)
  fix s r s' assume run: "scoped ctor dtor body s = (r, s')" and res: "resumes r"
  show "H s' = H s"
  proof (cases "ctor s")
    case (Pair q t)
    show ?thesis
    proof (cases q)
      case (Inl e)
      then show ?thesis using Pair run res ctor_fails by (auto simp: scoped_def bindc_def)
    next
      case (Inr obj)
      then have K_t: "K obj t = H s" using Pair ctor_acquires by blast
      obtain q' t' where body: "body obj t = (q', t')" by fastforce
      obtain u where u: "dtor obj t' = (Inr (), u)" "H u = K obj t'"
        using dtor_releases by blast
      have "resumes q' \<and> s' = u"
        using Pair Inr body run res u
        by (cases q') (auto simp: scoped_def bindc_def ret_apply raise_apply split: if_splits)
      moreover from this have "K obj t' = K obj t" using balancedD [OF assms body] by simp
      ultimately show ?thesis using K_t u by simp
    qed
  qed
qed

end

text \<open>
  An object with one handle that no \<open>unique_ptr\<close> is concerned with; it is a scoped object
  whatever the \<open>unique_ptr\<close> variables of the function own.
\<close>

locale handle_scope =
  fixes ctor :: "('w, 'l, 'o) native"
    and dtor :: "'o \<Rightarrow> ('w, 'l, unit) native"
    and h :: "'o \<Rightarrow> handle"
  assumes acquires: "ctor s = (Inr obj, s') \<Longrightarrow> held s' = h obj # held s \<and> unique s' = unique s"
    and fails: "ctor s = (Inl e, s') \<Longrightarrow> caught e \<Longrightarrow> held s' = held s \<and> unique s' = unique s"
    and releases: "\<exists>s'. dtor obj s = (Inr (), s') \<and> held s' = remove1 (h obj) (held s) \<and> unique s' = unique s"
    and no_machine: "\<not> is_machine (h obj)"

sublocale handle_scope \<subseteq> view: scoped_object ctor dtor "apart ns" "\<lambda>obj s. remove1 (h obj) (apart ns s)" for ns
proof
  fix s obj s' e
  show "ctor s = (Inr obj, s') \<Longrightarrow> remove1 (h obj) (apart ns s') = apart ns s"
    by (drule acquires) (auto simp: no_machine intro: apart_acquire)
  show "ctor s = (Inl e, s') \<Longrightarrow> caught e \<Longrightarrow> apart ns s' = apart ns s"
    by (drule fails) (auto intro: apart_cong owned_held)
  obtain s' where "dtor obj s = (Inr (), s')" "held s' = remove1 (h obj) (held s)" "unique s' = unique s"
    using releases by blast
  then show "\<exists>s'. dtor obj s = (Inr (), s') \<and> apart ns s' = remove1 (h obj) (apart ns s)"
    by (blast intro: apart_remove)
qed

context handle_scope begin

lemma scope_balanced: "(\<And>obj. balanced (apart ns) (body obj)) \<Longrightarrow> balanced (apart ns) (scoped ctor dtor body)"
  by (rule view.scoped_balanced) (rule balanced_remove)

end

section \<open>JniPrimitiveArrayPtr\<close>

text \<open>The members of the class; \<open>env_\<close> is the environment that every call takes.\<close>

record array_ptr =
  ap_array :: jval
  ap_ptr :: jval

definition new_JniPrimitiveArrayPtr :: "'w jvm_interface \<Rightarrow> jval \<Rightarrow> ('w, 'l, array_ptr) native" where
  "new_JniPrimitiveArrayPtr V ar =
     bindc (jni V ''GetPrimitiveArrayCritical'' [ar, CPtr 0] []) (\<lambda>p. ret \<lparr>ap_array = ar, ap_ptr = p\<rparr>)"

definition delete_JniPrimitiveArrayPtr :: "'w jvm_interface \<Rightarrow> array_ptr \<Rightarrow> ('w, 'l, unit) native" where
  "delete_JniPrimitiveArrayPtr V obj =
     bindc (jni V ''ReleasePrimitiveArrayCritical'' [ap_array obj, ap_ptr obj, JNum 0] []) (\<lambda>_. ret ())"

definition array_get :: "array_ptr \<Rightarrow> jval" where
  "array_get obj = ap_ptr obj"

text \<open>\<open>(size_t)\<close> of a \<open>jint\<close>: the conversion to an unsigned type of 64 bits.\<close>

definition to_size_t :: "jval \<Rightarrow> ('w, 'l, nat) native" where
  "to_size_t v = (case v of JNum n \<Rightarrow> ret (unat (word_of_int n :: word64)) | _ \<Rightarrow> raise (Undefined ''size_t''))"

definition array_size :: "'w jvm_interface \<Rightarrow> array_ptr \<Rightarrow> ('w, 'l, nat) native" where
  "array_size V obj = bindc (jni V ''GetArrayLength'' [ap_array obj] []) to_size_t"

section \<open>JniString\<close>

record jni_string =
  js_jstring :: jval
  js_cstring :: string
  js_cptr :: jval

text \<open>\<open>std::string(p)\<close> reads the characters up to the first zero; of a null pointer it is undefined.\<close>

definition std_string :: "'w jvm_interface \<Rightarrow> jval \<Rightarrow> ('w, 'l, string) native" where
  "std_string V p = (case p of
     CPtr a \<Rightarrow> if a = 0 then raise (Undefined ''std::string(NULL)'') else gets (\<lambda>s. c_string_at V a (jvm s))
   | _ \<Rightarrow> raise (Undefined ''std::string''))"

definition new_JniString :: "'w jvm_interface \<Rightarrow> jval \<Rightarrow> ('w, 'l, jni_string) native" where
  "new_JniString V jstr =
     bindc (jni V ''GetStringUTFChars'' [jstr, CPtr 0] [])
       (\<lambda>p. bindc (std_string V p)
          (\<lambda>str. ret \<lparr>js_jstring = jstr, js_cstring = str, js_cptr = p\<rparr>))"

definition delete_JniString :: "'w jvm_interface \<Rightarrow> jni_string \<Rightarrow> ('w, 'l, unit) native" where
  "delete_JniString V obj =
     bindc (jni V ''ReleaseStringUTFChars'' [js_jstring obj, js_cptr obj] []) (\<lambda>_. ret ())"

definition string_c_str :: "jni_string \<Rightarrow> jval" where
  "string_c_str obj = js_cptr obj"

definition string_len :: "'w jvm_interface \<Rightarrow> jni_string \<Rightarrow> ('w, 'l, nat) native" where
  "string_len V obj = bindc (jni V ''GetStringLength'' [js_jstring obj] []) to_size_t"

definition string_str :: "jni_string \<Rightarrow> string" where
  "string_str obj = js_cstring obj"

section \<open>Their scopes\<close>

lemmas run_jni = jni_calls bindc_def ret_apply raise_apply gets_apply Let_def

interpretation array_scope: handle_scope "new_JniPrimitiveArrayPtr V ar :: ('w, 'l, array_ptr) native"
    "delete_JniPrimitiveArrayPtr V" "\<lambda>obj. Critical (ap_array obj) (ap_ptr obj)" for V :: "'w jvm_interface" and ar
  by standard (auto simp: new_JniPrimitiveArrayPtr_def delete_JniPrimitiveArrayPtr_def run_jni held_logged unique_logged
      split: prod.splits)

interpretation string_scope: handle_scope "new_JniString V jstr :: ('w, 'l, jni_string) native"
    "delete_JniString V" "\<lambda>obj. Chars (js_jstring obj) (js_cptr obj)" for V :: "'w jvm_interface" and jstr
  by standard (auto simp: new_JniString_def delete_JniString_def std_string_def run_jni held_logged unique_logged
      split: prod.splits jval.splits if_splits)

text \<open>Computations that change nothing that is owned.\<close>

definition quiet :: "('w, 'l, 'a) native \<Rightarrow> bool" where
  "quiet m \<longleftrightarrow> (\<forall>s r s'. m s = (r, s') \<longrightarrow> owned s' = owned s \<and> unique s' = unique s)"

lemma quietI: "(\<And>s r s'. m s = (r, s') \<Longrightarrow> owned s' = owned s \<and> unique s' = unique s) \<Longrightarrow> quiet m"
  by (simp add: quiet_def)

lemma quiet_balanced: "quiet m \<Longrightarrow> balanced (apart ns) m"
  by (auto simp: quiet_def balanced_def intro: apart_cong)

lemma quiet_bindc: "quiet m \<Longrightarrow> (\<And>x. quiet (f x)) \<Longrightarrow> quiet (bindc m f)"
  by (auto simp: quiet_def bindc_def split: prod.splits sum.splits)

lemma quiet_simple: "quiet (ret x)" "quiet (raise e)" "quiet (gets f)"
  by (auto simp: quiet_def ret_apply raise_apply gets_apply)

lemma quiet_to_size_t: "quiet (to_size_t v)"
  by (cases v) (simp_all add: to_size_t_def quiet_simple)

lemma quiet_array_size: "quiet (array_size V obj)"
  unfolding array_size_def
  by (rule quiet_bindc [OF quietI quiet_to_size_t]) (auto simp: run_jni held_logged unique_logged split: prod.splits intro: owned_held)

end
