(* ===== verification/Entry_Point.thy ===== *)
theory Entry_Point
  imports Prelude
begin

text \<open>
  The entry point that \<open>compileToFunc\<close> of \<open>test-rt.cc\<close> inserts into a module: the calls of the
  construction interface of LLVM that the code makes, as data. What LLVM does with them is not
  modelled; \<open>Compiled_Method\<close> states what its documentation says of it.
\<close>

section \<open>The calls that build the entry point\<close>

datatype ir_type = VoidTy | IntTy nat | PointerTy ir_type nat

record fn_type =
  ft_result :: ir_type
  ft_params :: "ir_type list"
  ft_vararg :: bool

text \<open>\<open>llvm::FunctionType *epf_signature\<close>\<close>

definition epf_signature :: "bool \<Rightarrow> fn_type" where
  "epf_signature isStatic =
     (if \<not> isStatic then
        \<lparr>ft_result = IntTy 32,
         ft_params = [PointerTy VoidTy 0, PointerTy VoidTy 0, IntTy 32, IntTy 32],
         ft_vararg = False\<rparr>
      else
        \<lparr>ft_result = IntTy 32,
         ft_params = [PointerTy VoidTy 0, IntTy 32, IntTy 32],
         ft_vararg = False\<rparr>)"

text \<open>
  One constructor per call: the arguments of a function are named by their positions, and a
  function of the module by the value \<open>getFunction\<close> returned.
\<close>

datatype ir_op =
    GetOrInsertFunction string fn_type
  | CastToFunction
  | SetCallingConv string
  | SetArgName nat string
  | CreateBlock string
  | CreateCall nat "nat list"
  | CreateRet

definition entryPointFuncName :: string where
  "entryPointFuncName = ''entry_point''"

text \<open>The iterator \<open>args\<close> is the position that the next \<open>args++\<close> yields.\<close>

definition entry_point_ops :: "bool \<Rightarrow> nat \<Rightarrow> ir_op list" where
  "entry_point_ops isStatic f =
     (let args = (if \<not> isStatic then 2 else 1); x = args; y = args + 1 in
      [GetOrInsertFunction entryPointFuncName (epf_signature isStatic), CastToFunction, SetCallingConv ''C''] @
      (if \<not> isStatic then [SetArgName 0 ''unused1'', SetArgName 1 ''unused2''] else [SetArgName 0 ''unused'']) @
      [SetArgName x ''x'', SetArgName y ''y'',
       CreateBlock ''entry'', CreateCall f [x, y], CreateRet])"

section \<open>The form of the entry point\<close>

text \<open>
  The same calls for any name, type and parameter names: a function with one block, which calls
  \<open>f\<close> with some of its own arguments and returns the result.
\<close>

definition forwarding :: "string \<Rightarrow> fn_type \<Rightarrow> string list \<Rightarrow> string \<Rightarrow> nat \<Rightarrow> nat list \<Rightarrow> ir_op list" where
  "forwarding n ty names block f xs =
     [GetOrInsertFunction n ty, CastToFunction, SetCallingConv ''C''] @
     map (\<lambda>(i, a). SetArgName i a) (enumerate 0 names) @
     [CreateBlock block, CreateCall f xs, CreateRet]"

text \<open>The type \<open>int(int, int)\<close>, and the position of the first argument that is passed on.\<close>

definition int_binary :: fn_type where
  "int_binary = \<lparr>ft_result = IntTy 32, ft_params = [IntTy 32, IntTy 32], ft_vararg = False\<rparr>"

definition first_int :: "bool \<Rightarrow> nat" where
  "first_int isStatic = length (ft_params (epf_signature isStatic)) - 2"

lemma first_int_simps [simp]: "first_int True = 1" "first_int False = 2"
  by (simp_all add: first_int_def epf_signature_def)

definition argument_names :: "bool \<Rightarrow> string list" where
  "argument_names isStatic = (if isStatic then [''unused''] else [''unused1'', ''unused2'']) @ [''x'', ''y'']"

lemma entry_point_forwarding:
  "entry_point_ops isStatic f =
     forwarding entryPointFuncName (epf_signature isStatic) (argument_names isStatic) ''entry'' f
       [first_int isStatic, first_int isStatic + 1]"
  by (cases isStatic) (simp_all add: entry_point_ops_def forwarding_def argument_names_def Let_def numeral_2_eq_2 numeral_3_eq_3)

text \<open>
  A call of a function of type \<open>ty0\<close> with the arguments \<open>xs\<close> of a function of type \<open>ty\<close> that returns the
  result: every argument exists, and the types agree.
\<close>

definition call_typed :: "fn_type \<Rightarrow> fn_type \<Rightarrow> nat list \<Rightarrow> bool" where
  "call_typed ty0 ty xs \<longleftrightarrow> \<not> ft_vararg ty0 \<and> list_all (\<lambda>x. x < length (ft_params ty)) xs \<and>
     map ((!) (ft_params ty)) xs = ft_params ty0 \<and> ft_result ty = ft_result ty0"

lemma entry_point_typed: "call_typed int_binary (epf_signature isStatic) [first_int isStatic, first_int isStatic + 1]"
  by (cases isStatic) (simp_all add: call_typed_def int_binary_def epf_signature_def numeral_2_eq_2 numeral_3_eq_3)

end
