(* ===== verification/Test_Rt.thy ===== *)
theory Test_Rt
  imports Jni_Helpers Entry_Point
begin

text \<open>
  The native library \<open>lib/test-rt-native/test-rt.cc\<close>, function by function. LLVM and the
  linker are arguments; the exceptions, the scopes of the local objects and the ownership of
  what is created are those of the C++ code.
\<close>

section \<open>The build and the compiler library\<close>

text \<open>
  What the code takes from its build: whether assertions are compiled in, the text of
  \<open>__FILE__\<close> and the addresses of its two functions.
\<close>

record build =
  ndebug :: bool
  source_file :: string
  addr_testIntAdd :: word64
  addr_testIntMultiply :: word64

text \<open>
  The functions of LLVM that the code calls, over the state of the library. A pointer is a
  number, 0 for null; \<open>build_ir\<close> is \<open>False\<close> if one of the calls it stands for is one that LLVM does
  not allow. \<open>jit_code\<close> is what the machine
  finds at an address of compiled code.
\<close>

record 'l llvm =
  initialize_target :: "string \<Rightarrow> 'l \<Rightarrow> 'l"
  construct_context :: "'l \<Rightarrow> nat \<times> 'l"
  destroy :: "llvm_object \<Rightarrow> 'l \<Rightarrow> 'l"
  get_mem_buffer :: "byte list \<Rightarrow> 'l \<Rightarrow> nat option \<times> 'l"
  parse_bitcode_file :: "nat \<Rightarrow> nat \<Rightarrow> 'l \<Rightarrow> nat option \<times> 'l"
  print_module :: "llvm_object \<Rightarrow> 'l \<Rightarrow> string \<times> 'l"
  get_function :: "llvm_object \<Rightarrow> string \<Rightarrow> 'l \<Rightarrow> nat \<times> 'l"
  build_ir :: "llvm_object \<Rightarrow> ir_op list \<Rightarrow> 'l \<Rightarrow> bool \<times> 'l"
  create_engine :: "llvm_object \<Rightarrow> 'l \<Rightarrow> (nat \<times> string) \<times> 'l"
  function_address :: "llvm_object \<Rightarrow> string \<Rightarrow> 'l \<Rightarrow> word64 \<times> 'l"
  lookup_target :: "string \<Rightarrow> 'l \<Rightarrow> (nat \<times> string \<times> string) \<times> 'l"
  create_machine :: "nat \<Rightarrow> string \<Rightarrow> 'l \<Rightarrow> nat \<times> 'l"
  emit_passes :: "nat \<Rightarrow> 'l \<Rightarrow> bool \<times> 'l"
  emit_module :: "nat \<Rightarrow> llvm_object \<Rightarrow> 'l \<Rightarrow> string \<times> 'l"
  malloc :: "'l \<Rightarrow> word64 \<times> 'l"
  jit_code :: "word64 \<Rightarrow> 'l \<Rightarrow> (word64 \<Rightarrow> word32 \<Rightarrow> word32 \<Rightarrow> word32) option"

definition lib_call :: "('l \<Rightarrow> 'a \<times> 'l) \<Rightarrow> ('w, 'l, 'a) native" where
  "lib_call f s = (case f (lib s) of (x, l) \<Rightarrow> (Inr x, s\<lparr>lib := l\<rparr>))"

definition record_event :: "event \<Rightarrow> ('w, 'l, unit) native" where
  "record_event e = modify (log_event e)"

section \<open>Objects with an owner\<close>

text \<open>A local variable \<open>llvm::LLVMContext context\<close>.\<close>

definition new_LLVMContext :: "'l llvm \<Rightarrow> ('w, 'l, nat) native" where
  "new_LLVMContext L = bindc (lib_call (construct_context L)) (\<lambda>c. bindc (record_event (Created (Context c))) (\<lambda>_. ret c))"

definition delete_object :: "'l llvm \<Rightarrow> llvm_object \<Rightarrow> ('w, 'l, unit) native" where
  "delete_object L obj = bindc (lib_call (\<lambda>l. ((), destroy L obj l))) (\<lambda>_. record_event (Destroyed obj))"

definition delete_LLVMContext :: "'l llvm \<Rightarrow> nat \<Rightarrow> ('w, 'l, unit) native" where
  "delete_LLVMContext L c = delete_object L (Context c)"

text \<open>
  A variable of type \<open>std::unique_ptr\<close>: it is initialised with what a function returns, is null
  after \<open>std::move\<close> or \<open>release()\<close>, and its destructor deletes the object unless it is null.
\<close>

definition set_unique :: "string \<Rightarrow> llvm_object option \<Rightarrow> ('w, 'l, unit) native" where
  "set_unique n x = modify (\<lambda>s. s\<lparr>unique := (unique s)(n := x)\<rparr>)"

definition new_unique :: "string \<Rightarrow> ('a \<Rightarrow> llvm_object option) \<Rightarrow> ('w, 'l, 'a) native \<Rightarrow> ('w, 'l, 'a) native" where
  "new_unique n p m = bindc m (\<lambda>x. bindc (set_unique n (p x)) (\<lambda>_. ret x))"

definition delete_unique :: "'l llvm \<Rightarrow> string \<Rightarrow> ('w, 'l, unit) native" where
  "delete_unique L n = bindc (gets (\<lambda>s. unique s n)) (\<lambda>x.
     bindc (case x of None \<Rightarrow> ret () | Some obj \<Rightarrow> delete_object L obj) (\<lambda>_. set_unique n None))"

definition move_unique :: "string \<Rightarrow> ('w, 'l, unit) native" where
  "move_unique n = bindc (gets (\<lambda>s. unique s n)) (\<lambda>x.
     bindc (case x of None \<Rightarrow> ret () | Some obj \<Rightarrow> record_event (Moved obj)) (\<lambda>_. set_unique n None))"

section \<open>Errors\<close>

text \<open>
  \<open>c_str\<close> of a string, as a function that takes a C string reads it: up to the first zero.
  \<open>operator<<\<close> for integers writes their decimal digits.
\<close>

definition c_str :: "string \<Rightarrow> jval" where
  "c_str s = CStr (takeWhile (\<lambda>c. c \<noteq> CHR 0x00) s)"

function digits :: "nat \<Rightarrow> string" where
  "digits n = (if n < 10 then [char_of (48 + n)] else digits (n div 10) @ [char_of (48 + n mod 10)])"
  by auto

termination by (relation "measure id") auto

declare digits.simps [simp del]

definition decimal :: "int \<Rightarrow> string" where
  "decimal i = (if i < 0 then ''-'' else []) @ digits (nat \<bar>i\<bar>)"

definition test_rt_unreachable_internal :: "string \<Rightarrow> string \<Rightarrow> nat \<Rightarrow> ('w, 'l, 'a) native" where
  "test_rt_unreachable_internal errMsg f line =
     raise (ThrownString (''!!UNREACHABLE!! (file='' @ f @ '' line='' @ decimal (int line) @ '') '' @ errMsg))"

definition assertc :: "build \<Rightarrow> bool \<Rightarrow> string \<Rightarrow> ('w, 'l, unit) native" where
  "assertc B b e = whenc (\<not> b \<and> \<not> ndebug B) (raise (AssertionFailed e))"

definition is_null :: "jval \<Rightarrow> bool" where
  "is_null v \<longleftrightarrow> (case v of JRef n \<Rightarrow> n = 0 | JMethod n \<Rightarrow> n = 0 | CPtr n \<Rightarrow> n = 0 | _ \<Rightarrow> False)"

definition throwException :: "build \<Rightarrow> 'w jvm_interface \<Rightarrow> jval \<Rightarrow> string \<Rightarrow> ('w, 'l, unit) native" where
  "throwException B V self errMsg =
     bindc (jni V ''FindClass'' [CStr ''io/github/maropu/TestRuntimeNative''] []) (\<lambda>c.
     bindc (assertc B (\<not> is_null c) ''c != 0'') (\<lambda>_.
     bindc (jni V ''GetMethodID'' [c, CStr ''throwException'', CStr ''(Ljava/lang/String;)V''] []) (\<lambda>mth_throwex.
     bindc (assertc B (\<not> is_null mth_throwex) ''mth_throwex != 0'') (\<lambda>_.
     bindc (jni V ''NewStringUTF'' [c_str errMsg] []) (\<lambda>msg.
     bindc (jni V ''CallVoidMethod'' [self, mth_throwex] [msg]) (\<lambda>_. ret ()))))))"

text \<open>
  \<open>try { ... } catch (const std::string &e) { ... }\<close>: an exception of another type is not caught
  by it and leaves the function that contains it.
\<close>

definition try_catch :: "('w, 'l, 'a) native \<Rightarrow> (string \<Rightarrow> ('w, 'l, 'a) native) \<Rightarrow> ('w, 'l, 'a) native" where
  "try_catch body handler s = (case body s of
     (Inl (ThrownString e), s') \<Rightarrow> handler e s'
   | r \<Rightarrow> r)"

section \<open>Initialisation and the integer functions\<close>

definition native_initialize :: "'l llvm \<Rightarrow> ('w, 'l, unit) native" where
  "native_initialize L = seqc (map (\<lambda>f. lib_call (\<lambda>l. ((), initialize_target L f l)))
     [''InitializeNativeTarget'', ''LLVMInitializeNativeAsmPrinter'', ''LLVMInitializeNativeAsmParser''])"

definition native_finalize :: "('w, 'l, unit) native" where
  "native_finalize = ret ()"

text \<open>Signed overflow is undefined.\<close>

definition int_result :: "int \<Rightarrow> ('w, 'l, word32) native" where
  "int_result i = (if - (2 ^ 31) \<le> i \<and> i < 2 ^ 31 then ret (word_of_int i) else raise (Undefined ''signed overflow''))"

definition testIntAdd :: "word64 \<Rightarrow> word32 \<Rightarrow> word32 \<Rightarrow> ('w, 'l, word32) native" where
  "testIntAdd obj a b = int_result (sint a + sint b)"

definition testIntMultiply :: "word64 \<Rightarrow> word32 \<Rightarrow> word32 \<Rightarrow> ('w, 'l, word32) native" where
  "testIntMultiply obj a b = int_result (sint a * sint b)"

definition getIntFuncAddr :: "build \<Rightarrow> 'w jvm_interface \<Rightarrow> jval \<Rightarrow> word32 \<Rightarrow> ('w, 'l, word64) native" where
  "getIntFuncAddr B V self funcId =
     (if funcId = 1 then ret (addr_testIntAdd B)
      else if funcId = 2 then ret (addr_testIntMultiply B)
      else bindc (throwException B V self (''Unknown function id: '' @ decimal (sint funcId))) (\<lambda>_. ret 0))"

text \<open>A call through a function pointer finds one of the two functions, compiled code, or is undefined.\<close>

definition callIntFuncFromAddr :: "build \<Rightarrow> 'l llvm \<Rightarrow> word64 \<Rightarrow> word32 \<Rightarrow> word32 \<Rightarrow> ('w, 'l, word32) native" where
  "callIntFuncFromAddr B L addr a b =
     (if addr = addr_testIntAdd B then testIntAdd 0 a b
      else if addr = addr_testIntMultiply B then testIntMultiply 0 a b
      else bindc (gets (\<lambda>s. jit_code L addr (lib s))) (\<lambda>f.
        case f of None \<Rightarrow> raise (Undefined ''no function at this address'') | Some f \<Rightarrow> ret (f 0 a b)))"

section \<open>Bitcode\<close>

text \<open>
  The bytes behind \<open>bitcode\<close> are read from the memory that the virtual machine exposes. Reading
  through the null pointer, which \<open>GetPrimitiveArrayCritical\<close> may return, is undefined.
\<close>

definition read_bytes :: "'w jvm_interface \<Rightarrow> jval \<Rightarrow> nat \<Rightarrow> ('w, 'l, byte list) native" where
  "read_bytes V p len = (case p of
     CPtr a \<Rightarrow> if a = 0 then raise (Undefined ''bitcode == NULL'') else gets (\<lambda>s. bytes_at V a len (jvm s))
   | _ \<Rightarrow> raise (Undefined ''bitcode''))"

definition parseBitcode :: "'w jvm_interface \<Rightarrow> 'l llvm \<Rightarrow> jval \<Rightarrow> nat \<Rightarrow> nat \<Rightarrow> ('w, 'l, llvm_object) native" where
  "parseBitcode V L bitcode len ctx =
     bindc (read_bytes V bitcode len) (\<lambda>bytes.
     bindc (lib_call (get_mem_buffer L bytes)) (\<lambda>bufferOrError.
     case bufferOrError of
       None \<Rightarrow> raise (ThrownChars ''Can't load the given bitocde into memory.'')
     | Some buffer \<Rightarrow>
         bindc (lib_call (parse_bitcode_file L buffer ctx)) (\<lambda>modOrError.
         case modOrError of
           None \<Rightarrow> raise (ThrownChars ''Can't parse the given bitcode to build a LLVM module.'')
         | Some m \<Rightarrow> bindc (record_event (Created (Module m ctx))) (\<lambda>_. ret (Module m ctx)))))"

definition toLLVMAssemblyCodeFromModule :: "'l llvm \<Rightarrow> llvm_object \<Rightarrow> ('w, 'l, string) native" where
  "toLLVMAssemblyCodeFromModule L m = lib_call (print_module L m)"

definition toLLVMAssemblyCode :: "'w jvm_interface \<Rightarrow> 'l llvm \<Rightarrow> jval \<Rightarrow> nat \<Rightarrow> ('w, 'l, string) native" where
  "toLLVMAssemblyCode V L bitcode len =
     scoped (new_LLVMContext L) (delete_LLVMContext L) (\<lambda>context.
     scoped (new_unique ''m'' Some (parseBitcode V L bitcode len context)) (\<lambda>_. delete_unique L ''m'') (\<lambda>m.
       toLLVMAssemblyCodeFromModule L m))"

definition native_toLLVMAssemblyCode ::
  "build \<Rightarrow> 'w jvm_interface \<Rightarrow> 'l llvm \<Rightarrow> jval \<Rightarrow> jval \<Rightarrow> word32 \<Rightarrow> word32 \<Rightarrow> ('w, 'l, jval) native" where
  "native_toLLVMAssemblyCode B V L self bitcode optLevel sizeLevel =
     try_catch
       (scoped (new_JniPrimitiveArrayPtr V bitcode) (delete_JniPrimitiveArrayPtr V) (\<lambda>bitcodeArray.
          bindc (array_size V bitcodeArray) (\<lambda>n.
          bindc (toLLVMAssemblyCode V L (array_get bitcodeArray) n) (\<lambda>llvmAsm.
          jni V ''NewStringUTF'' [c_str llvmAsm] []))))
       (\<lambda>e. bindc (throwException B V self e) (\<lambda>_. jni V ''NewStringUTF'' [CStr ''N/A''] []))"

section \<open>Machine code\<close>

text \<open>The machine is returned as a pointer that nobody deletes.\<close>

definition lookupTargetMachine :: "'l llvm \<Rightarrow> string \<Rightarrow> ('w, 'l, nat) native" where
  "lookupTargetMachine L arch =
     bindc (lib_call (lookup_target L arch)) (\<lambda>(target, triple, errStr).
     if target = 0 then raise (ThrownString (''Can't create Target: '' @ errStr))
     else
       bindc (lib_call (create_machine L target triple)) (\<lambda>machine.
       if machine = 0 then raise (ThrownString (''Can't create TargetMachine: '' @ arch))
       else bindc (record_event (CreatedMachine machine)) (\<lambda>_. ret machine)))"

definition toMachineAssemblyCode :: "'w jvm_interface \<Rightarrow> 'l llvm \<Rightarrow> string \<Rightarrow> jval \<Rightarrow> nat \<Rightarrow> ('w, 'l, string) native" where
  "toMachineAssemblyCode V L arch bitcode len =
     scoped (new_LLVMContext L) (delete_LLVMContext L) (\<lambda>context.
     bindc (lookupTargetMachine L arch) (\<lambda>machine.
     bindc (lib_call (emit_passes L machine)) (\<lambda>failed.
     if failed then raise (ThrownChars ''Can't add an output pass for machine assembly code'')
     else
       scoped (new_unique ''m'' Some (parseBitcode V L bitcode len context)) (\<lambda>_. delete_unique L ''m'') (\<lambda>m.
         lib_call (emit_module L machine m)))))"

definition native_toMachineAssemblyCode ::
  "build \<Rightarrow> 'w jvm_interface \<Rightarrow> 'l llvm \<Rightarrow> jval \<Rightarrow> jval \<Rightarrow> jval \<Rightarrow> word32 \<Rightarrow> word32 \<Rightarrow> ('w, 'l, jval) native" where
  "native_toMachineAssemblyCode B V L self arch bitcode optLevel sizeLevel =
     try_catch
       (scoped (new_JniString V arch) (delete_JniString V) (\<lambda>archStr.
        scoped (new_JniPrimitiveArrayPtr V bitcode) (delete_JniPrimitiveArrayPtr V) (\<lambda>bitcodeArray.
          bindc (array_size V bitcodeArray) (\<lambda>n.
          bindc (toMachineAssemblyCode V L (string_str archStr) (array_get bitcodeArray) n) (\<lambda>machineAsm.
          jni V ''NewStringUTF'' [c_str machineAsm] [])))))
       (\<lambda>e. bindc (throwException B V self e) (\<lambda>_. jni V ''NewStringUTF'' [CStr ''N/A''] []))"

section \<open>Compiled functions\<close>

text \<open>\<open>new CompileState(engine.release(), funcAddr)\<close>: the state owns the engine from here on.\<close>

definition new_CompileState :: "'l llvm \<Rightarrow> llvm_object \<Rightarrow> word64 \<Rightarrow> ('w, 'l, word64) native" where
  "new_CompileState L engine f =
     bindc (lib_call (malloc L)) (\<lambda>p.
     bindc (modify (\<lambda>s. s\<lparr>heap := (heap s)(p \<mapsto> \<lparr>cs_engine = engine, cs_f = f\<rparr>)\<rparr>)) (\<lambda>_. ret p))"

text \<open>\<open>EngineBuilder(std::move(m)) ... .create()\<close>: the builder owns the module from here on.\<close>

definition new_engine :: "'l llvm \<Rightarrow> llvm_object \<Rightarrow> ('w, 'l, llvm_object option \<times> string) native" where
  "new_engine L m =
     bindc (move_unique ''m'') (\<lambda>_.
     bindc (lib_call (create_engine L m)) (\<lambda>(e, errStr).
     if e = 0 then ret (None, errStr)
     else bindc (record_event (Created (Engine e m))) (\<lambda>_. ret (Some (Engine e m), errStr))))"

definition build_entry_point :: "'l llvm \<Rightarrow> llvm_object \<Rightarrow> bool \<Rightarrow> nat \<Rightarrow> ('w, 'l, unit) native" where
  "build_entry_point L m isStatic f =
     bindc (lib_call (build_ir L m (entry_point_ops isStatic f))) (\<lambda>ok.
     if ok then ret () else raise (Undefined ''llvm::cast''))"

definition compileToFunc ::
  "build \<Rightarrow> 'w jvm_interface \<Rightarrow> 'l llvm \<Rightarrow> jval \<Rightarrow> jval \<Rightarrow> jval \<Rightarrow> byte \<Rightarrow> ('w, 'l, word64) native" where
  "compileToFunc B V L self bitcode funcName isStatic =
     try_catch
       (scoped (new_LLVMContext L) (delete_LLVMContext L) (\<lambda>context.
        scoped (new_JniPrimitiveArrayPtr V bitcode) (delete_JniPrimitiveArrayPtr V) (\<lambda>bitcodeArray.
        bindc (array_size V bitcodeArray) (\<lambda>n.
        scoped (new_unique ''m'' Some (parseBitcode V L (array_get bitcodeArray) n context)) (\<lambda>_. delete_unique L ''m'') (\<lambda>m.
        scoped (new_JniString V funcName) (delete_JniString V) (\<lambda>funcNameStr.
        bindc (lib_call (get_function L m (string_str funcNameStr))) (\<lambda>f.
        bindc (whenc (f = 0) (test_rt_unreachable_internal (''Function not found: '' @ string_str funcNameStr) (source_file B) 134)) (\<lambda>_.
        bindc (build_entry_point L m (isStatic \<noteq> 0) f) (\<lambda>_.
        scoped (new_unique ''engine'' fst (new_engine L m)) (\<lambda>_. delete_unique L ''engine'') (\<lambda>(engine, errStr).
        case engine of
          None \<Rightarrow> raise (ThrownString (''Can't create ExecutionEngine: '' @ errStr))
        | Some e \<Rightarrow>
            bindc (lib_call (function_address L e entryPointFuncName)) (\<lambda>funcAddr.
            bindc (whenc (funcAddr = 0)
              (test_rt_unreachable_internal (''Function not found: '' @ string_str funcNameStr) (source_file B) 201)) (\<lambda>_.
            bindc (move_unique ''engine'') (\<lambda>_.
            new_CompileState L e funcAddr)))))))))))))
       (\<lambda>e. bindc (throwException B V self e) (\<lambda>_. ret 0))"

definition deref_CompileState :: "word64 \<Rightarrow> ('w, 'l, compile_state) native" where
  "deref_CompileState state = bindc (gets (\<lambda>s. heap s state)) (\<lambda>x.
     case x of None \<Rightarrow> raise (Undefined ''CompileState'') | Some c \<Rightarrow> ret c)"

definition getFuncAddrFromCompileState :: "word64 \<Rightarrow> ('w, 'l, word64) native" where
  "getFuncAddrFromCompileState state = bindc (deref_CompileState state) (\<lambda>c. ret (cs_f c))"

text \<open>\<open>delete\<close> of a null pointer does nothing; the destructor deletes the engine.\<close>

definition releaseCompileState :: "'l llvm \<Rightarrow> word64 \<Rightarrow> ('w, 'l, unit) native" where
  "releaseCompileState L state =
     (if state = 0 then ret ()
      else
        bindc (deref_CompileState state) (\<lambda>c.
        bindc (delete_object L (cs_engine c)) (\<lambda>_.
        modify (\<lambda>s. s\<lparr>heap := (heap s)(state := None)\<rparr>))))"

end
