(* ===== verification/Test_Rt_Scopes.thy ===== *)
theory Test_Rt_Scopes
  imports Test_Rt
begin

text \<open>
  Ownership in \<open>test-rt.cc\<close>: contexts, modules and engines are scoped objects, so every native
  function that comes back to Java has released all it acquired, whichever way it took.
\<close>

section \<open>Steps that acquire and release nothing\<close>

named_theorems quiet_steps "computations that acquire and release nothing"

lemmas [quiet_steps] = quiet_simple quiet_to_size_t quiet_array_size

lemma quiet_lib_call [quiet_steps]: "quiet (lib_call f)"
  by (auto simp: quiet_def lib_call_def split: prod.splits)

lemma quiet_jni [quiet_steps]:
  "quiet (jni V ''FindClass'' [a] [])" "quiet (jni V ''GetMethodID'' [a, b, c] [])"
  "quiet (jni V ''CallVoidMethod'' [a, b] vs)" "quiet (jni V ''NewStringUTF'' [a] [])"
  by (auto simp: quiet_def run_jni held_logged unique_logged split: prod.splits intro: owned_held)

lemma quiet_whenc [quiet_steps]: "quiet m \<Longrightarrow> quiet (whenc b m)"
  by (cases b) (simp_all add: quiet_simple)

lemma quiet_assertc [quiet_steps]: "quiet (assertc B b e)"
  unfolding assertc_def by (intro quiet_steps)

lemma quiet_unreachable [quiet_steps]: "quiet (test_rt_unreachable_internal e f l)"
  unfolding test_rt_unreachable_internal_def by (intro quiet_steps)

lemma quiet_throwException [quiet_steps]: "quiet (throwException B V self e)"
  unfolding throwException_def by (intro quiet_bindc quiet_steps)

lemma quiet_build_entry_point [quiet_steps]: "quiet (build_entry_point L m st f)"
  unfolding build_entry_point_def by (rule quiet_bindc) (auto intro: quiet_steps)

lemma quiet_read_bytes [quiet_steps]: "quiet (read_bytes V p n)"
  unfolding read_bytes_def by (cases p) (auto intro: quiet_steps)

lemma quiet_new_CompileState [quiet_steps]: "quiet (new_CompileState L e f)"
  unfolding new_CompileState_def
  by (intro quiet_bindc quiet_steps) (auto simp: quiet_def modify_apply)

text \<open>A target machine is owned by nobody.\<close>

lemma quiet_lookupTargetMachine [quiet_steps]: "quiet (lookupTargetMachine L arch)"
proof -
  have machine: "quiet (record_event (CreatedMachine k))" for k
    by (auto simp: quiet_def record_event_def modify_apply) (simp_all add: owned_def log_event_def)
  show ?thesis unfolding lookupTargetMachine_def
    by (rule quiet_bindc) (auto intro!: quiet_bindc quiet_steps machine split: prod.splits)
qed

section \<open>The scopes of contexts, modules and engines\<close>

lemmas run_native = lib_call_def record_event_def modify_apply bindc_def ret_apply raise_apply gets_apply

lemma unique_log [simp]: "unique (log_event e s) = unique s"
  by (simp add: log_event_def)

lemma delete_object_run:
  "delete_object L obj s = (Inr (), log_event (Destroyed obj) (s\<lparr>lib := destroy L obj (lib s)\<rparr>))"
  by (simp add: delete_object_def run_native)

interpretation context_scope: handle_scope "new_LLVMContext L :: ('w, 'l, nat) native"
    "delete_LLVMContext L" "\<lambda>c. Object (Context c)" for L :: "'l llvm"
  by standard (auto simp: new_LLVMContext_def delete_LLVMContext_def delete_object_run run_native split: prod.splits)

lemma delete_unique_apart:
  "n \<notin> set ns \<Longrightarrow> \<exists>s'. delete_unique L n s = (Inr (), s') \<and> apart ns s' = apart (n # ns) s"
proof -
  assume n: "n \<notin> set ns"
  show ?thesis
  proof (cases "unique s n")
    case None
    then show ?thesis using n
      by (simp add: delete_unique_def set_unique_def run_native apart_Cons)
  next
    case (Some obj)
    let ?t = "log_event (Destroyed obj) (s\<lparr>lib := destroy L obj (lib s)\<rparr>)"
    have "apart ns ?t = remove1 (Object obj) (apart ns s)" by (rule apart_remove) simp_all
    then show ?thesis using n Some apart_unique_other [OF n, of ?t None]
      by (simp add: delete_unique_def set_unique_def run_native delete_object_run apart_Cons)
  qed
qed

lemma move_unique_apart: "n \<notin> set ns \<Longrightarrow> move_unique n s = (r, s') \<Longrightarrow> apart (n # ns) s' = apart (n # ns) s"
proof -
  assume n: "n \<notin> set ns" and run: "move_unique n s = (r, s')"
  show ?thesis
  proof (cases "unique s n")
    case None
    then show ?thesis using n run by (auto simp: move_unique_def set_unique_def run_native apart_Cons)
  next
    case (Some obj)
    have "apart ns (log_event (Moved obj) s) = remove1 (Object obj) (apart ns s)" by (rule apart_remove) simp_all
    moreover have "s' = log_event (Moved obj) s\<lparr>unique := (unique s)(n := None)\<rparr>"
      using Some run by (auto simp: move_unique_def set_unique_def run_native)
    ultimately show ?thesis
      using n Some apart_unique_other [OF n, of "log_event (Moved obj) s" None] by (simp add: apart_Cons)
  qed
qed

text \<open>What a function that creates an object for a \<open>unique_ptr\<close> promises.\<close>

definition yields :: "string list \<Rightarrow> ('a \<Rightarrow> llvm_object option) \<Rightarrow> ('w, 'l, 'a) native \<Rightarrow> bool" where
  "yields ns p m \<longleftrightarrow> (\<forall>s r s'. m s = (r, s') \<longrightarrow> resumes r \<longrightarrow>
     (case r of Inl e \<Rightarrow> apart ns s' = apart ns s
      | Inr x \<Rightarrow> apart ns s = (case p x of None \<Rightarrow> apart ns s' | Some obj \<Rightarrow> remove1 (Object obj) (apart ns s'))))"

lemma new_unique_acquires:
  assumes "yields ns p m" "n \<notin> set ns" "new_unique n p m s = (Inr x, s')"
  shows "apart (n # ns) s' = apart ns s"
proof -
  obtain t where t: "m s = (Inr x, t)" "s' = t\<lparr>unique := (unique t)(n := p x)\<rparr>"
    using assms(3) by (auto simp: new_unique_def set_unique_def run_native split: prod.splits sum.splits)
  then have "apart ns s = (case p x of None \<Rightarrow> apart ns t | Some obj \<Rightarrow> remove1 (Object obj) (apart ns t))"
    using assms(1) by (fastforce simp: yields_def)
  then show ?thesis using t assms(2) by (auto simp: apart_Cons split: option.splits)
qed

lemma new_unique_fails:
  assumes "yields ns p m" "new_unique n p m s = (Inl e, s')" "caught e"
  shows "apart ns s' = apart ns s"
proof -
  have "m s = (Inl e, s')"
    using assms(2) by (auto simp: new_unique_def set_unique_def run_native split: prod.splits sum.splits)
  then show ?thesis using assms(1,3) by (fastforce simp: yields_def)
qed

lemma parseBitcode_yields: "yields [] Some (parseBitcode V L b n c)"
  by (auto simp: yields_def parseBitcode_def read_bytes_def run_native owned_def
      split: prod.splits sum.splits option.splits jval.splits)

lemma move_unique_returns: "\<exists>t. move_unique n s = (Inr (), t)"
  by (auto simp: move_unique_def set_unique_def run_native split: option.splits)

lemma new_engine_yields: "yields [''m''] fst (new_engine L m :: ('w, 'l, _) native)"
  unfolding yields_def
proof (intro allI impI)
  fix s s' :: "('w, 'l) native_state" and r
  assume run: "new_engine L m s = (r, s')"
  obtain t where t: "move_unique ''m'' s = (Inr (), t)" using move_unique_returns by blast
  obtain e err l where e: "create_engine L m (lib t) = ((e, err), l)" by (metis prod.exhaust)
  let ?u = "t\<lparr>lib := l\<rparr>"
  have u: "apart [''m''] ?u = apart [''m''] s"
    using move_unique_apart [OF _ t, of "[]"] by simp
  show "case r of Inl e \<Rightarrow> apart [''m''] s' = apart [''m''] s
      | Inr x \<Rightarrow> apart [''m''] s =
          (case fst x of None \<Rightarrow> apart [''m''] s' | Some obj \<Rightarrow> remove1 (Object obj) (apart [''m''] s'))"
  proof (cases "e = 0")
    case True
    then show ?thesis using run t e u by (auto simp: new_engine_def run_native)
  next
    case False
    have "remove1 (Object (Engine e m)) (apart [''m''] (log_event (Created (Engine e m)) ?u)) = apart [''m''] ?u"
      by (rule apart_acquire) simp_all
    then show ?thesis using False run t e u by (auto simp: new_engine_def run_native)
  qed
qed

interpretation module_scope: scoped_object "new_unique ''m'' Some (parseBitcode V L b n c) :: ('w, 'l, llvm_object) native"
    "\<lambda>_. delete_unique L ''m''" "apart []" "\<lambda>_. apart [''m'']" for V :: "'w jvm_interface" and L :: "'l llvm" and b n c
proof
  fix s s' :: "('w, 'l) native_state" and obj :: llvm_object and e
  show "new_unique ''m'' Some (parseBitcode V L b n c) s = (Inr obj, s') \<Longrightarrow> apart [''m''] s' = apart [] s"
    by (rule new_unique_acquires [OF parseBitcode_yields]) simp_all
  show "new_unique ''m'' Some (parseBitcode V L b n c) s = (Inl e, s') \<Longrightarrow> caught e \<Longrightarrow> apart [] s' = apart [] s"
    by (rule new_unique_fails [OF parseBitcode_yields])
  show "\<exists>s'. delete_unique L ''m'' s = (Inr (), s') \<and> apart [] s' = apart [''m''] s"
    by (rule delete_unique_apart) simp
qed

interpretation engine_scope: scoped_object "new_unique ''engine'' fst (new_engine L m) :: ('w, 'l, llvm_object option \<times> string) native"
    "\<lambda>_. delete_unique L ''engine''" "apart [''m'']" "\<lambda>_. apart [''engine'', ''m'']" for L :: "'l llvm" and m
proof
  fix s s' :: "('w, 'l) native_state" and x e
  show "new_unique ''engine'' fst (new_engine L m) s = (Inr x, s') \<Longrightarrow> apart [''engine'', ''m''] s' = apart [''m''] s"
    by (rule new_unique_acquires [OF new_engine_yields]) simp_all
  show "new_unique ''engine'' fst (new_engine L m) s = (Inl e, s') \<Longrightarrow> caught e \<Longrightarrow> apart [''m''] s' = apart [''m''] s"
    by (rule new_unique_fails [OF new_engine_yields])
  show "\<exists>s'. delete_unique L ''engine'' s = (Inr (), s') \<and> apart [''m''] s' = apart [''engine'', ''m''] s"
    using delete_unique_apart [of "''engine''" "[''m'']"] by simp
qed

section \<open>Every native function is balanced\<close>

lemma balanced_try_catch:
  assumes "balanced H body" "\<And>e. balanced H (handler e)"
  shows "balanced H (try_catch body handler)"
proof (rule balancedI)
  fix s r s' assume run: "try_catch body handler s = (r, s')" and res: "resumes r"
  obtain q t where q: "body s = (q, t)" by fastforce
  show "H s' = H s"
  proof (cases "\<exists>e. q = Inl (ThrownString e)")
    case True
    then obtain e where e: "q = Inl (ThrownString e)" by blast
    then have "handler e t = (r, s')" using run q by (simp add: try_catch_def)
    then have "H s' = H t" using balancedD [OF assms(2)] res by blast
    then show ?thesis using balancedD [OF assms(1) q] e by simp
  next
    case False
    then have "r = q \<and> s' = t" using run q res
      by (cases q) (auto simp: try_catch_def split: cpp_stop.splits)
    then show ?thesis using balancedD [OF assms(1) q] res by simp
  qed
qed

lemma balanced_move_engine: "balanced (apart [''engine'', ''m'']) (move_unique ''engine'')"
  by (rule balancedI) (rule move_unique_apart, simp)

named_theorems balanced_steps "scopes and steps that leave what is held"

lemmas [balanced_steps] = balanced_bindc balanced_if balanced_raise balanced_ret balanced_try_catch
  context_scope.scope_balanced array_scope.scope_balanced string_scope.scope_balanced
  module_scope.scoped_balanced engine_scope.scoped_balanced balanced_move_engine

lemmas [balanced_steps] = quiet_steps [THEN quiet_balanced]

lemma balanced_cases [balanced_steps]:
  "balanced H m \<Longrightarrow> (\<And>x. balanced H (f x)) \<Longrightarrow> balanced H (case z of None \<Rightarrow> m | Some x \<Rightarrow> f x)"
  "(\<And>x y. balanced H (g x y)) \<Longrightarrow> balanced H (case w of (x, y) \<Rightarrow> g x y)"
  by (simp_all split: option.split prod.split)

lemma balanced_whenc [balanced_steps]: "balanced H m \<Longrightarrow> balanced H (whenc b m)"
  by (cases b) (auto simp: balanced_ret)

lemma balanced_natives:
  "balanced (apart []) (native_toLLVMAssemblyCode B V L self bitcode o1 o2)"
  "balanced (apart []) (native_toMachineAssemblyCode B V L self arch bitcode o1 o2)"
  "balanced (apart []) (compileToFunc B V L self bitcode name st)"
  unfolding native_toLLVMAssemblyCode_def toLLVMAssemblyCode_def toLLVMAssemblyCodeFromModule_def
    native_toMachineAssemblyCode_def toMachineAssemblyCode_def compileToFunc_def
  by (intro balanced_steps)+

end
