(* ===== verification/Test_Rt_Effects.thy ===== *)
theory Test_Rt_Effects
  imports Test_Rt_Scopes
begin

text \<open>
  What the functions of \<open>test-rt.cc\<close> do to single parts of the state, and how they can stop.
  A relation between the states before and after that is reflexive and transitive holds of a
  function if it holds of its primitive steps. The contract is in parts, so that a relation
  need not be kept by the report of an error or by the creation of a target machine.
\<close>

section \<open>Effects\<close>

definition effects :: "('s \<Rightarrow> 's \<Rightarrow> bool) \<Rightarrow> ('s, 'e, 'a) comp \<Rightarrow> bool" where
  "effects R m \<longleftrightarrow> (\<forall>s r s'. m s = (r, s') \<longrightarrow> R s s')"

lemma effectsI: "(\<And>s r s'. m s = (r, s') \<Longrightarrow> R s s') \<Longrightarrow> effects R m"
  by (simp add: effects_def)

lemma effectsD: "effects R m \<Longrightarrow> m s = (r, s') \<Longrightarrow> R s s'"
  by (simp add: effects_def)

lemma effects_cases:
  "effects R m \<Longrightarrow> effects R n \<Longrightarrow> effects R (if b then m else n)"
  "effects R m \<Longrightarrow> (\<And>x. effects R (f x)) \<Longrightarrow> effects R (case z of None \<Rightarrow> m | Some x \<Rightarrow> f x)"
  "(\<And>x y. effects R (g x y)) \<Longrightarrow> effects R (case w of (x, y) \<Rightarrow> g x y)"
  by (simp_all split: option.split prod.split)

text \<open>The places of the functions by which \<open>throwException\<close> reports an error, \<open>NewStringUTF\<close> apart.\<close>

definition report_places :: "nat set" where
  "report_places = {6, 33, 62}"

lemma report_places_simps [simp]:
  "167 \<notin> report_places" "171 \<notin> report_places" "169 \<notin> report_places" "170 \<notin> report_places"
  "222 \<notin> report_places" "223 \<notin> report_places"
  by (simp_all add: report_places_def)

locale core_effect =
  fixes R :: "('w, 'l) native_state \<Rightarrow> ('w, 'l) native_state \<Rightarrow> bool"
  assumes same: "R s s"
    and chain: "R s t \<Longrightarrow> R t u \<Longrightarrow> R s u"
    and jni_step: "jni_impl (V :: 'w jvm_interface) k vs (jvm s) = (r, w) \<Longrightarrow> k \<notin> report_places \<Longrightarrow>
      R s (log_event (JniCall k vs r) (s\<lparr>jvm := w\<rparr>))"
    and lib_step: "R s (s\<lparr>lib := l\<rparr>)"
    and unique_step: "R s (s\<lparr>unique := q\<rparr>)"
    and object_step: "R s (log_event (Destroyed obj) s)" "R s (log_event (Moved obj) s)"
      "R s (log_event (Created obj) s)"
begin

lemma simple: "effects R (ret x)" "effects R (raise e)" "effects R (gets f)"
  by (auto simp: effects_def ret_apply raise_apply gets_apply same)

lemma bindc: "effects R m \<Longrightarrow> (\<And>x. effects R (f x)) \<Longrightarrow> effects R (bindc m f)"
  unfolding effects_def bindc_def by (simp split: prod.splits sum.splits) (metis chain)

lemma whenc: "effects R m \<Longrightarrow> effects R (whenc b m)"
  by (cases b) (simp_all add: simple)

lemma scope:
  assumes "effects R ctor" "\<And>obj. effects R (dtor obj)" "\<And>obj. effects R (body obj)"
  shows "effects R (scoped ctor dtor body)"
  unfolding scoped_def
proof (rule bindc [OF assms(1)], rule effectsI)
  fix obj s r s'
  assume run: "(case body obj s of
      (Inr x, s') \<Rightarrow> Prelude.bindc (dtor obj) (\<lambda>_. ret x) s'
    | (Inl e, s') \<Rightarrow> if caught e then Prelude.bindc (dtor obj) (\<lambda>_. raise e) s' else (Inl e, s')) = (r, s')"
  obtain q t where q: "body obj s = (q, t)" by fastforce
  have "R t s'"
    using run q effectsD [OF bindc [OF assms(2) simple(1)]] effectsD [OF bindc [OF assms(2) simple(2)]] same
    by (cases q) (auto split: if_splits)
  then show "R s s'" using effectsD [OF assms(3) q] chain by blast
qed

lemma catch: "effects R body \<Longrightarrow> (\<And>e. effects R (handler e)) \<Longrightarrow> effects R (try_catch body handler)"
  by (simp add: effects_def try_catch_def split: prod.splits sum.splits cpp_stop.splits) (metis chain)

lemma logged: "logged V k vs s = (r, s') \<Longrightarrow> k \<notin> report_places \<Longrightarrow> R s s'"
  by (auto simp: logged_def split: prod.splits intro: jni_step)

lemma calls:
  "effects R (jni V ''NewStringUTF'' [a] [])" "effects R (jni V ''GetArrayLength'' [a] [])"
  "effects R (jni V ''GetStringUTFChars'' [a, b] [])" "effects R (jni V ''ReleaseStringUTFChars'' [a, b] [])"
  "effects R (jni V ''GetPrimitiveArrayCritical'' [a, b] [])" "effects R (jni V ''ReleasePrimitiveArrayCritical'' [a, b, c] [])"
  by (auto simp: effects_def run_jni split: prod.splits intro: logged)

lemma library: "effects R (lib_call f)" "effects R (set_unique n x)"
  by (auto simp: effects_def lib_call_def set_unique_def modify_apply split: prod.splits intro: lib_step unique_step)

lemma events:
  "effects R (record_event (Destroyed obj))" "effects R (record_event (Moved obj))"
  "effects R (record_event (Created obj))"
  by (auto simp: effects_def record_event_def modify_apply intro: object_step)

lemmas basic = simple bindc whenc scope catch calls library events effects_cases

lemma to_size: "effects R (to_size_t v)"
  by (cases v) (simp_all add: to_size_t_def simple)

lemma helpers:
  "effects R (new_JniPrimitiveArrayPtr V ar)" "effects R (delete_JniPrimitiveArrayPtr V arp)"
  "effects R (new_JniString V jstr)" "effects R (delete_JniString V obj)"
  "effects R (array_size V arp)"
  unfolding new_JniPrimitiveArrayPtr_def delete_JniPrimitiveArrayPtr_def new_JniString_def delete_JniString_def
    std_string_def array_size_def
  by (intro basic to_size; simp add: simple basic split: jval.split)+

lemma objects:
  "effects R (new_LLVMContext L)" "effects R (delete_LLVMContext L c)" "effects R (delete_unique L n)" "effects R (move_unique n)"
  "effects R m \<Longrightarrow> effects R (new_unique n p m)" "effects R (new_engine L x)" "effects R (build_entry_point L x st f)"
  "effects R (parseBitcode V L b len c)"
  unfolding new_LLVMContext_def delete_LLVMContext_def delete_object_def delete_unique_def move_unique_def
    new_unique_def new_engine_def build_entry_point_def parseBitcode_def read_bytes_def
  by (intro basic; simp add: simple basic split: jval.split)+

lemma compile_state: "(\<And>s h. R s (s\<lparr>heap := h\<rparr>)) \<Longrightarrow> effects R (new_CompileState L e f)"
  unfolding new_CompileState_def by (intro basic) (auto simp: effects_def modify_apply)

lemma assembly_text: "effects R (toLLVMAssemblyCode V L b n)"
  unfolding toLLVMAssemblyCode_def toLLVMAssemblyCodeFromModule_def by (intro basic objects)

lemma unreachable: "effects R (test_rt_unreachable_internal e f l)"
  unfolding test_rt_unreachable_internal_def by (rule simple)

lemmas steps = basic helpers objects assembly_text unreachable

end

text \<open>The report of an error calls \<open>FindClass\<close>, \<open>GetMethodID\<close> and \<open>CallVoidMethod\<close>.\<close>

locale report_effect = core_effect R
  for R :: "('w, 'l) native_state \<Rightarrow> ('w, 'l) native_state \<Rightarrow> bool" +
  assumes report_step: "jni_impl (V :: 'w jvm_interface) k vs (jvm s) = (r, w) \<Longrightarrow> k \<in> report_places \<Longrightarrow>
    R s (log_event (JniCall k vs r) (s\<lparr>jvm := w\<rparr>))"
begin

lemma report: "effects R (throwException B V self e)"
proof -
  have "logged V k vs s = (r, s') \<Longrightarrow> R s s'" for V :: "'w jvm_interface" and k vs s r s'
    by (cases "k \<in> report_places") (auto simp: logged_def split: prod.splits intro: report_step jni_step)
  then have "effects R (jni V ''FindClass'' [a] [])" "effects R (jni V ''GetMethodID'' [a, b, c] [])"
    "effects R (jni V ''CallVoidMethod'' [a, b] vs)" for V :: "'w jvm_interface" and a b c vs
    by (auto simp: effects_def run_jni split: prod.splits)
  then show ?thesis unfolding throwException_def assertc_def by (intro basic)
qed

end

locale machine_effect = core_effect R
  for R :: "('w, 'l) native_state \<Rightarrow> ('w, 'l) native_state \<Rightarrow> bool" +
  assumes machine_step: "R s (log_event (CreatedMachine k) s)"
begin

lemma lookup: "effects R (lookupTargetMachine L arch)"
proof -
  have "effects R (record_event (CreatedMachine k))" for k
    by (auto simp: effects_def record_event_def modify_apply intro: machine_step)
  then show ?thesis unfolding lookupTargetMachine_def by (intro basic)
qed

lemma assembly_code: "effects R (toMachineAssemblyCode V L arch b n)"
  unfolding toMachineAssemblyCode_def by (intro steps lookup)

end

locale effect = report_effect R + machine_effect R
  for R :: "('w, 'l) native_state \<Rightarrow> ('w, 'l) native_state \<Rightarrow> bool"

section \<open>How a function stops\<close>

text \<open>Every stop of the function satisfies \<open>E\<close>.\<close>

definition stops :: "(cpp_stop \<Rightarrow> bool) \<Rightarrow> ('w, 'l, 'a) native \<Rightarrow> bool" where
  "stops E m \<longleftrightarrow> (\<forall>s e s'. m s = (Inl e, s') \<longrightarrow> E e)"

lemma stopsI: "(\<And>s e s'. m s = (Inl e, s') \<Longrightarrow> E e) \<Longrightarrow> stops E m"
  by (simp add: stops_def)

lemma stopsD: "stops E m \<Longrightarrow> m s = (Inl e, s') \<Longrightarrow> E e"
  by (auto simp: stops_def)

fun thrown :: "cpp_stop \<Rightarrow> bool" where
  "thrown (ThrownString m) = True" | "thrown (ThrownChars m) = True" | "thrown _ = False"

lemma caught_thrown: "caught e \<Longrightarrow> thrown e"
  by (cases e) simp_all

named_theorems stops_steps "how the steps stop"

lemma stops_simple [stops_steps]: "stops E (ret x)" "E e \<Longrightarrow> stops E (raise e)" "stops E (gets f)"
  "stops E (modify u)" "stops E (lib_call g)" "stops E (set_unique n y)" "stops E (record_event v)"
  by (auto simp: stops_def ret_apply raise_apply gets_apply modify_apply lib_call_def set_unique_def record_event_def
      split: prod.splits)

lemma stops_bindc [stops_steps]: "stops E m \<Longrightarrow> (\<And>x. stops E (f x)) \<Longrightarrow> stops E (bindc m f)"
  by (auto simp: stops_def bindc_def split: prod.splits sum.splits)

lemma stops_cases [stops_steps]:
  "(b \<Longrightarrow> stops E m) \<Longrightarrow> (\<not> b \<Longrightarrow> stops E n) \<Longrightarrow> stops E (if b then m else n)"
  "stops E m \<Longrightarrow> (\<And>x. stops E (f x)) \<Longrightarrow> stops E (case z of None \<Rightarrow> m | Some x \<Rightarrow> f x)"
  "(\<And>x y. stops E (g x y)) \<Longrightarrow> stops E (case w of (x, y) \<Rightarrow> g x y)"
  "stops E u \<Longrightarrow> stops E (whenc b u)"
  by (auto simp: whenc_def stops_def ret_apply split: option.split prod.split)

lemma stops_scoped [stops_steps]:
  assumes "stops E ctor" "\<And>obj. stops E (dtor obj)" "\<And>obj. stops E (body obj)"
  shows "stops E (scoped ctor dtor body)"
  unfolding scoped_def
proof (rule stops_bindc [OF assms(1)], rule stopsI)
  fix obj s e s'
  assume run: "(case body obj s of
      (Inr x, s') \<Rightarrow> bindc (dtor obj) (\<lambda>_. ret x) s'
    | (Inl e, s') \<Rightarrow> if caught e then bindc (dtor obj) (\<lambda>_. raise e) s' else (Inl e, s')) = (Inl e, s')"
  obtain q t where q: "body obj s = (q, t)" by fastforce
  show "E e"
  proof (cases q)
    case (Inl d)
    then have "E d" using stopsD [OF assms(3)] q by blast
    then show ?thesis
      using run q Inl stopsD [OF stops_bindc [OF assms(2) stops_simple(2)]] by (auto split: if_splits)
  next
    case (Inr x)
    then show ?thesis using run q stopsD [OF stops_bindc [OF assms(2) stops_simple(1)]] by auto
  qed
qed

lemma stops_calls [stops_steps]:
  "stops E (jni V ''FindClass'' [a] [])" "stops E (jni V ''GetMethodID'' [a, b, c] [])"
  "stops E (jni V ''CallVoidMethod'' [a, b] vs)" "stops E (jni V ''NewStringUTF'' [a] [])"
  "stops E (jni V ''GetArrayLength'' [a] [])" "stops E (jni V ''GetStringUTFChars'' [a, b] [])"
  "stops E (jni V ''ReleaseStringUTFChars'' [a, b] [])" "stops E (jni V ''GetPrimitiveArrayCritical'' [a, b] [])"
  "stops E (jni V ''ReleasePrimitiveArrayCritical'' [a, b, c] [])"
  by (auto simp: stops_def run_jni split: prod.splits)

lemma stops_try_catch:
  assumes "stops E' body" "\<And>e. stops E (handler e)" and "\<And>e. E' e \<Longrightarrow> \<not> caught e \<Longrightarrow> E e"
  shows "stops E (try_catch body handler)"
proof (rule stopsI)
  fix s e s' assume "try_catch body handler s = (Inl e, s')"
  then show "E e"
    using stopsD [OF assms(1), of s] stopsD [OF assms(2)] assms(3) [of e]
    by (auto simp: try_catch_def split: prod.splits sum.splits cpp_stop.splits)
qed

text \<open>A handler that is never reached does not matter.\<close>

lemma try_catch_dead:
  assumes "stops (\<lambda>e. \<not> caught e) body"
  shows "try_catch body handler = try_catch body handler'"
proof
  fix s show "try_catch body handler s = try_catch body handler' s"
    using stopsD [OF assms, of s] by (auto simp: try_catch_def split: prod.splits sum.splits cpp_stop.splits)
qed

section \<open>What is reported\<close>

text \<open>Whether a function of the table was called, and the calls of \<open>throwException\<close> for one message.\<close>

definition calls_place :: "nat \<Rightarrow> event list \<Rightarrow> bool" where
  "calls_place k es \<longleftrightarrow> list_ex (\<lambda>e. case e of JniCall j vs r \<Rightarrow> j = k | _ \<Rightarrow> False) es"

definition find_class :: "jval \<Rightarrow> event" where
  "find_class c = JniCall 6 [This, Val (CStr ''io/github/maropu/TestRuntimeNative'')] c"

definition get_method :: "jval \<Rightarrow> jval \<Rightarrow> event" where
  "get_method c m = JniCall 33 [This, Val c, Val (CStr ''throwException''), Val (CStr ''(Ljava/lang/String;)V'')] m"

text \<open>
  The three ways it takes: without the class or without the method it fails the assertion that
  the build may have; otherwise it makes all four calls.
\<close>

definition report_events :: "build \<Rightarrow> jval \<Rightarrow> string \<Rightarrow> event list \<Rightarrow> cpp_stop + 'a \<Rightarrow> bool" where
  "report_events B self e es r \<longleftrightarrow>
     (\<exists>c. is_null c \<and> \<not> ndebug B \<and> es = [find_class c] \<and> r = Inl (AssertionFailed ''c != 0'')) \<or>
     (\<exists>c m. \<not> is_null c \<and> is_null m \<and> \<not> ndebug B \<and> es = [find_class c, get_method c m] \<and>
        r = Inl (AssertionFailed ''mth_throwex != 0'')) \<or>
     (\<exists>c m msg v x. (ndebug B \<or> \<not> is_null c \<and> \<not> is_null m) \<and> r = Inr x \<and>
        es = [find_class c, get_method c m, JniCall 167 [This, Val (c_str e)] msg,
              JniCall 62 [This, Val self, Val m, VaArgs [msg]] v])"

lemma logged_events: "logged V k vs s = (r, s') \<Longrightarrow> events s' = events s @ [JniCall k vs r]"
  by (cases "jni_impl V k vs (jvm s)") (auto simp: logged_def log_event_def)

lemma throwException_events:
  assumes "throwException B V self e s = (r, s')"
  shows "\<exists>es. events s' = events s @ es \<and> report_events B self e es r \<and>
    hd es = find_class (fst (jni_impl V 6 [This, Val (CStr ''io/github/maropu/TestRuntimeNative'')] (jvm s)))"
proof -
  obtain c s1 where 1: "logged V 6 [This, Val (CStr ''io/github/maropu/TestRuntimeNative'')] s = (c, s1)" by fastforce
  obtain m s2 where 2: "logged V 33 [This, Val c, Val (CStr ''throwException''), Val (CStr ''(Ljava/lang/String;)V'')] s1 = (m, s2)"
    by fastforce
  obtain msg s3 where 3: "logged V 167 [This, Val (c_str e)] s2 = (msg, s3)" by fastforce
  obtain v s4 where 4: "logged V 62 [This, Val self, Val m, VaArgs [msg]] s3 = (v, s4)" by fastforce
  have "c = fst (jni_impl V 6 [This, Val (CStr ''io/github/maropu/TestRuntimeNative'')] (jvm s))"
    using 1 by (auto simp: logged_def split: prod.splits)
  note ev = this [symmetric] logged_events [OF 1] logged_events [OF 2] logged_events [OF 3] logged_events [OF 4]
  consider "is_null c" "\<not> ndebug B" | "\<not> is_null c" "is_null m" "\<not> ndebug B" | "ndebug B \<or> \<not> is_null c \<and> \<not> is_null m" by blast
  then show ?thesis
  proof cases
    case 1
    then have "r = Inl (AssertionFailed ''c != 0'') \<and> s' = s1"
      using assms \<open>logged V 6 _ s = _\<close> by (simp add: throwException_def run_jni assertc_def whenc_def)
    then show ?thesis using ev 1 by (auto simp: report_events_def find_class_def)
  next
    case 2
    then have "r = Inl (AssertionFailed ''mth_throwex != 0'') \<and> s' = s2"
      using assms \<open>logged V 6 _ s = _\<close> \<open>logged V 33 _ s1 = _\<close> by (simp add: throwException_def run_jni assertc_def whenc_def)
    then show ?thesis using ev 2 by (auto simp: report_events_def find_class_def get_method_def)
  next
    case 3
    then have "r = Inr () \<and> s' = s4"
      using assms \<open>logged V 6 _ s = _\<close> \<open>logged V 33 _ s1 = _\<close> \<open>logged V 167 _ s2 = _\<close> \<open>logged V 62 _ s3 = _\<close>
      by (auto simp: throwException_def run_jni assertc_def whenc_def)
    then show ?thesis using ev 3 by (auto simp: report_events_def find_class_def get_method_def)
  qed
qed

end
