(* ===== verification/Test_Rt_Safety.thy ===== *)
theory Test_Rt_Safety
  imports Test_Rt_Effects "HOL-Library.Multiset"
begin

text \<open>
  Properties of the native library: what is released, which rules of the interface of the
  virtual machine and of LLVM are kept, and how errors are reported.
\<close>

section \<open>The effects\<close>

text \<open>
  The record of events only grows and the heap is kept by everything but \<open>new\<close> and \<open>delete\<close>. Nothing
  but \<open>lookupTargetMachine\<close> changes the machines that are held, and nothing but \<open>throwException\<close>
  calls the functions that report an error.
\<close>

definition silent :: "('w, 'l) native_state \<Rightarrow> ('w, 'l) native_state \<Rightarrow> bool" where
  "silent s s' \<longleftrightarrow> (\<exists>es. events s' = events s @ es \<and> (\<forall>k\<in>report_places. \<not> calls_place k es))"

lemma calls_place_append [simp]: "calls_place k (es @ fs) \<longleftrightarrow> calls_place k es \<or> calls_place k fs"
  by (simp add: calls_place_def)

lemma calls_place_simps [simp]:
  "\<not> calls_place k []" "calls_place k (JniCall j vs r # es) \<longleftrightarrow> j = k \<or> calls_place k es"
  "calls_place k (Created obj # es) \<longleftrightarrow> calls_place k es" "calls_place k (Destroyed obj # es) \<longleftrightarrow> calls_place k es"
  "calls_place k (Moved obj # es) \<longleftrightarrow> calls_place k es" "calls_place k (CreatedMachine n # es) \<longleftrightarrow> calls_place k es"
  by (simp_all add: calls_place_def)

interpretation appends: effect "\<lambda>s s'. \<exists>es. events s' = events s @ es"
  by standard (auto simp: log_event_def)

interpretation keeps_heap: effect "\<lambda>s s'. heap s' = heap s"
  by standard (auto simp: log_event_def)

interpretation keeps_machines: report_effect "\<lambda>s s'. machines s' = machines s"
  by standard auto

interpretation silently: machine_effect silent
proof
  fix s t u :: "('w, 'l) native_state"
  show "silent s t \<Longrightarrow> silent t u \<Longrightarrow> silent s u"
    unfolding silent_def by (elim exE conjE, rule exI, rule conjI [OF _ ballI]) (erule ssubst, simp, simp)
qed (auto simp: silent_def log_event_def)

lemma appends_heap_step: "effects (\<lambda>s s'. \<exists>es. events s' = events s @ es) (new_CompileState L e f)"
  by (rule appends.compile_state) simp

section \<open>What is released\<close>

lemma stops_throwException: "stops (\<lambda>e. \<not> thrown e) (throwException B V self e)"
  unfolding throwException_def assertc_def by (intro stops_steps; simp)

lemma stops_native: "(\<And>e. stops (\<lambda>e. \<not> caught e) (handler e)) \<Longrightarrow> stops (\<lambda>e. \<not> caught e) (try_catch body handler)"
  by (rule stops_try_catch [where E' = "\<lambda>_. True"]) (simp_all add: stops_def)

lemma stops_mono: "stops E m \<Longrightarrow> (\<And>e. E e \<Longrightarrow> E' e) \<Longrightarrow> stops E' m"
  by (simp add: stops_def)

lemma stops_report: "stops (\<lambda>e. \<not> caught e) (throwException B V self e)"
  by (rule stops_mono [OF stops_throwException]) (use caught_thrown in blast)

lemma stops_natives:
  "stops (\<lambda>e. \<not> caught e) (native_toLLVMAssemblyCode B V L self bitcode o1 o2)"
  "stops (\<lambda>e. \<not> caught e) (native_toMachineAssemblyCode B V L self arch bitcode o1 o2)"
  "stops (\<lambda>e. \<not> caught e) (compileToFunc B V L self bitcode name st)"
  unfolding native_toLLVMAssemblyCode_def native_toMachineAssemblyCode_def compileToFunc_def
  by (intro stops_native stops_bindc stops_report stops_calls stops_simple)+

lemma stops_constructors:
  "stops (\<lambda>e. \<not> caught e) (new_LLVMContext L)" "stops (\<lambda>e. \<not> caught e) (new_JniString V jstr)"
  "stops (\<lambda>e. \<not> caught e) (new_JniPrimitiveArrayPtr V ar)" "stops (\<lambda>e. \<not> caught e) (array_size V arr)"
  "stops (\<lambda>e. \<not> caught e) (new_unique ''m'' Some (parseBitcode V L b n c))"
  unfolding new_LLVMContext_def new_JniString_def new_JniPrimitiveArrayPtr_def std_string_def array_size_def to_size_t_def
    new_unique_def parseBitcode_def read_bytes_def
  by (auto intro!: stops_steps split: jval.split)

lemma stops_destructors:
  "stops (\<lambda>e. \<not> caught e) (delete_LLVMContext L c)" "stops (\<lambda>e. \<not> caught e) (delete_JniString V str)"
  "stops (\<lambda>e. \<not> caught e) (delete_JniPrimitiveArrayPtr V arr)" "stops (\<lambda>e. \<not> caught e) (delete_unique L n)"
  unfolding delete_LLVMContext_def delete_object_def delete_JniString_def delete_JniPrimitiveArrayPtr_def delete_unique_def
  by (intro stops_steps)+

text \<open>What the bodies do outside \<open>throwException\<close>.\<close>

lemma machines_kept:
  "effects (\<lambda>s s'. machines s' = machines s) (native_toLLVMAssemblyCode B V L self bitcode o1 o2)"
  "effects (\<lambda>s s'. machines s' = machines s) (compileToFunc B V L self bitcode name st)"
  unfolding native_toLLVMAssemblyCode_def compileToFunc_def
  by (intro keeps_machines.steps keeps_machines.report keeps_machines.compile_state; simp)+

text \<open>
  \<open>creates_machine m\<close>: if \<open>m\<close> returns it has created one target machine, and if it throws an exception that
  is caught it has created none.
\<close>

definition creates_machine :: "('w, 'l, 'a) native \<Rightarrow> bool" where
  "creates_machine m \<longleftrightarrow> (\<forall>s r s'. m s = (r, s') \<longrightarrow>
     (case r of Inr x \<Rightarrow> \<exists>k. machines s' = TargetMachine k # machines s | Inl e \<Rightarrow> caught e \<longrightarrow> machines s' = machines s))"

lemma creates_machineD:
  "creates_machine m \<Longrightarrow> m s = (Inr x, s') \<Longrightarrow> \<exists>k. machines s' = TargetMachine k # machines s"
  "creates_machine m \<Longrightarrow> m s = (Inl e, s') \<Longrightarrow> caught e \<Longrightarrow> machines s' = machines s"
  by (fastforce simp: creates_machine_def)+

lemma creates_machineI:
  "(\<And>s x s'. m s = (Inr x, s') \<Longrightarrow> \<exists>k. machines s' = TargetMachine k # machines s) \<Longrightarrow>
   (\<And>s e s'. m s = (Inl e, s') \<Longrightarrow> caught e \<Longrightarrow> machines s' = machines s) \<Longrightarrow> creates_machine m"
  by (simp add: creates_machine_def split: sum.split)

lemma creates_machine_lookup: "creates_machine (lookupTargetMachine L arch)"
  by (auto simp: creates_machine_def lookupTargetMachine_def run_native split: prod.splits sum.splits)

lemma creates_machine_before:
  assumes "creates_machine m" "\<And>x. effects (\<lambda>s s'. machines s' = machines s) (f x)" "\<And>x. stops (\<lambda>e. \<not> caught e) (f x)"
  shows "creates_machine (bindc m f)"
proof (rule creates_machineI)
  fix s y s' assume "bindc m f s = (Inr y, s')"
  then obtain x t where t: "m s = (Inr x, t)" "f x t = (Inr y, s')" by (auto simp: bindc_eq_Inr_iff)
  then show "\<exists>k. machines s' = TargetMachine k # machines s"
    using creates_machineD(1) [OF assms(1) t(1)] effectsD [OF assms(2) t(2)] by simp
next
  fix s e s' assume "bindc m f s = (Inl e, s')" and e: "caught e"
  then have "m s = (Inl e, s')"
    using stopsD [OF assms(3)] by (fastforce simp: bindc_def split: prod.splits sum.splits)
  then show "machines s' = machines s" using creates_machineD(2) [OF assms(1)] e by blast
qed

lemma creates_machine_after:
  assumes "effects (\<lambda>s s'. machines s' = machines s) m" "\<And>x. creates_machine (f x)"
  shows "creates_machine (bindc m f)"
proof (rule creates_machineI)
  fix s y s' assume "bindc m f s = (Inr y, s')"
  then obtain x t where t: "m s = (Inr x, t)" "f x t = (Inr y, s')" by (auto simp: bindc_eq_Inr_iff)
  then show "\<exists>k. machines s' = TargetMachine k # machines s"
    using creates_machineD(1) [OF assms(2) t(2)] effectsD [OF assms(1) t(1)] by simp
next
  fix s e s' assume run: "bindc m f s = (Inl e, s')" and e: "caught e"
  obtain q t where q: "m s = (q, t)" by fastforce
  then have "machines t = machines s" using effectsD [OF assms(1)] by blast
  then show "machines s' = machines s"
    using run q e creates_machineD(2) [OF assms(2)] by (cases q) (auto simp: bindc_def)
qed

lemma creates_machine_scoped:
  assumes "effects (\<lambda>s s'. machines s' = machines s) ctor" "\<And>obj. effects (\<lambda>s s'. machines s' = machines s) (dtor obj)"
    and "\<And>obj. stops (\<lambda>e. \<not> caught e) (dtor obj)" "\<And>obj. creates_machine (body obj)"
  shows "creates_machine (scoped ctor dtor body)"
  unfolding scoped_def
proof (rule creates_machine_after [OF assms(1)], rule creates_machineI)
  fix obj s y s'
  assume "(case body obj s of
      (Inr x, s') \<Rightarrow> bindc (dtor obj) (\<lambda>_. ret x) s'
    | (Inl e, s') \<Rightarrow> if caught e then bindc (dtor obj) (\<lambda>_. raise e) s' else (Inl e, s')) = (Inr y, s')"
  then obtain x t where "body obj s = (Inr x, t)" "dtor obj t = (Inr (), s')"
    by (auto simp: bindc_eq_Inr_iff ret_apply raise_apply split: prod.splits sum.splits if_splits)
  then show "\<exists>k. machines s' = TargetMachine k # machines s"
    using creates_machineD(1) [OF assms(4)] effectsD [OF assms(2)] by metis
next
  fix obj s e s'
  assume run: "(case body obj s of
      (Inr x, s') \<Rightarrow> bindc (dtor obj) (\<lambda>_. ret x) s'
    | (Inl e, s') \<Rightarrow> if caught e then bindc (dtor obj) (\<lambda>_. raise e) s' else (Inl e, s')) = (Inl e, s')" and e: "caught e"
  obtain q t where q: "body obj s = (q, t)" by fastforce
  have dtor: "effects (\<lambda>s s'. machines s' = machines s) (bindc (dtor obj) (\<lambda>_. raise d))" for d
    by (intro keeps_machines.bindc assms(2) keeps_machines.simple)
  show "machines s' = machines s"
  proof (cases q)
    case (Inr x)
    have "stops (\<lambda>e. \<not> caught e) (bindc (dtor obj) (\<lambda>_. ret x))" by (intro stops_bindc assms(3) stops_simple)
    from stopsD [OF this] show ?thesis using run q e Inr by auto
  next
    case (Inl d)
    then have "caught d" using run q e by (auto split: if_splits)
    then have "machines t = machines s" using creates_machineD(2) [OF assms(4)] q Inl by blast
    moreover have "machines s' = machines t" using run q Inl \<open>caught d\<close> effectsD [OF dtor] by simp blast
    ultimately show ?thesis by simp
  qed
qed

lemma creates_machine_assembly: "creates_machine (toMachineAssemblyCode V L arch b n)"
  unfolding toMachineAssemblyCode_def
  by (intro creates_machine_scoped creates_machine_before creates_machine_lookup stops_destructors keeps_machines.steps
      stops_steps stops_constructors stops_scoped) auto

text \<open>
  What a native function leaves when it comes back to Java: what it held before, or, for one that
  creates a target machine, that machine in addition unless it reported an error.
\<close>

definition releases_all :: "('w, 'l) native_state \<Rightarrow> (cpp_stop + 'a) \<times> ('w, 'l) native_state \<Rightarrow> bool" where
  "releases_all s res = (case res of (Inr x, s') \<Rightarrow> mset (held s') = mset (held s) | (Inl e, s') \<Rightarrow> \<not> caught e)"

definition leaks_machine :: "('w, 'l) native_state \<Rightarrow> (cpp_stop + 'a) \<times> ('w, 'l) native_state \<Rightarrow> bool" where
  "leaks_machine s res = (case res of
     (Inr x, s') \<Rightarrow> \<exists>es. events s' = events s @ es \<and>
       (if calls_place 6 es then mset (held s') = mset (held s)
        else \<exists>k. mset (held s') = add_mset (TargetMachine k) (mset (held s)))
   | (Inl e, s') \<Rightarrow> \<not> caught e)"

lemma held_partition: "mset (held s) = mset (machines s) + mset (owned s)"
proof -
  have "mset xs = mset (filter is_machine xs) + mset (filter (\<lambda>h. \<not> is_machine h) xs)" for xs by (induction xs) auto
  then show ?thesis by (simp add: machines_def owned_def)
qed

lemma releases_allI:
  assumes "balanced (apart []) m" "effects (\<lambda>s s'. machines s' = machines s) m" "stops (\<lambda>e. \<not> caught e) m"
  shows "releases_all s (m s)"
proof (cases "m s")
  case (Pair r s')
  show ?thesis
  proof (cases r)
    case (Inl e)
    then show ?thesis using Pair stopsD [OF assms(3)] by (simp add: releases_all_def)
  next
    case (Inr x)
    then have "owned s' = owned s" "machines s' = machines s"
      using Pair balancedD [OF assms(1) Pair] effectsD [OF assms(2) Pair] by simp_all
    then show ?thesis using Pair Inr by (simp add: releases_all_def held_partition)
  qed
qed

lemma silent_report: "silent s t \<Longrightarrow> events s' = events t @ es \<Longrightarrow> \<exists>fs. events s' = events s @ fs \<and> calls_place 6 fs = calls_place 6 es"
  by (auto simp: silent_def report_places_def)

lemma leaks_machineI:
  assumes body: "creates_machine body" "effects silent body" "balanced (apart []) (try_catch body handler)"
    and handler: "\<And>e s x s'. handler e s = (Inr x, s') \<Longrightarrow> \<exists>es. events s' = events s @ es \<and> calls_place 6 es"
      "\<And>e. effects (\<lambda>s s'. machines s' = machines s) (handler e)" "\<And>e. stops (\<lambda>e. \<not> caught e) (handler e)"
  shows "leaks_machine s (try_catch body handler s)"
proof (cases "try_catch body handler s")
  case (Pair r s')
  show ?thesis
  proof (cases r)
    case (Inl e)
    then show ?thesis using Pair stopsD [OF stops_native [OF handler(3)]] by (simp add: leaks_machine_def)
  next
    case (Inr x)
    have owned: "owned s' = owned s" using balancedD [OF body(3) Pair] Inr by simp
    obtain q t where q: "body s = (q, t)" by fastforce
    then have quiet: "silent s t" using effectsD [OF body(2)] by blast
    show ?thesis
    proof (cases q)
      case Inr': (Inr y)
      then have "s' = t" using Pair Inr q by (simp add: try_catch_def)
      moreover obtain k where "machines t = TargetMachine k # machines s"
        using creates_machineD(1) [OF body(1)] q Inr' by blast
      ultimately have "mset (held s') = add_mset (TargetMachine k) (mset (held s))" "events s' = events t @ []"
        using owned by (simp_all add: held_partition)
      then show ?thesis using silent_report [OF quiet] Pair Inr by (fastforce simp: leaks_machine_def)
    next
      case (Inl e)
      then obtain m where m: "e = ThrownString m" "handler m t = (Inr x, s')"
        using Pair Inr q by (auto simp: try_catch_def split: cpp_stop.splits)
      then have "machines s' = machines s"
        using effectsD [OF handler(2)] creates_machineD(2) [OF body(1), of s e t] q Inl by simp
      then have "mset (held s') = mset (held s)" using owned by (simp add: held_partition)
      moreover obtain es where "events s' = events t @ es" "calls_place 6 es" using handler(1) [OF m(2)] by blast
      ultimately show ?thesis using silent_report [OF quiet] Pair Inr by (fastforce simp: leaks_machine_def)
    qed
  qed
qed

lemma report_events_calls: "report_events B self e es r \<Longrightarrow> calls_place 6 es"
  by (auto simp: report_events_def find_class_def get_method_def)

lemma reported_calls:
  assumes "bindc (throwException B V self e) (\<lambda>_. jni V ''NewStringUTF'' [a] []) s = (Inr x, s')"
  shows "\<exists>es. events s' = events s @ es \<and> calls_place 6 es"
proof -
  obtain t where t: "throwException B V self e s = (Inr (), t)" "jni V ''NewStringUTF'' [a] [] t = (Inr x, s')"
    using assms by (auto simp: bindc_eq_Inr_iff)
  obtain es where es: "events t = events s @ es" "calls_place 6 es"
    using throwException_events [OF t(1)] report_events_calls by blast
  obtain fs where "events s' = events t @ fs" using effectsD [OF appends.calls(1) t(2)] by blast
  then show ?thesis using es by (intro exI [of _ "es @ fs"]) simp
qed

lemma machine_natives:
  "creates_machine (scoped (new_JniString V arch) (delete_JniString V) (\<lambda>archStr.
     scoped (new_JniPrimitiveArrayPtr V bitcode) (delete_JniPrimitiveArrayPtr V) (\<lambda>bitcodeArray.
       bindc (array_size V bitcodeArray) (\<lambda>n.
       bindc (toMachineAssemblyCode V L (string_str archStr) (array_get bitcodeArray) n) (\<lambda>machineAsm.
       jni V ''NewStringUTF'' [c_str machineAsm] [])))))"
  by (intro creates_machine_scoped creates_machine_after [OF keeps_machines.helpers(5)] creates_machine_before
      creates_machine_assembly stops_destructors stops_calls keeps_machines.steps)

lemma machine_leaked: "leaks_machine s (native_toMachineAssemblyCode B V L self arch bitcode o1 o2 s)"
  unfolding native_toMachineAssemblyCode_def
  apply (rule leaks_machineI)
  subgoal by (rule machine_natives)
  subgoal by (intro silently.steps silently.assembly_code)
  subgoal by (rule balanced_natives(2) [unfolded native_toMachineAssemblyCode_def])
  subgoal by (rule reported_calls)
  subgoal by (intro keeps_machines.steps keeps_machines.report)
  subgoal by (intro stops_bindc stops_report stops_calls)
  done

text \<open>C3: When one of the three functions that work on bitcode returns to Java, by success or after
  a report of an error, it holds exactly what it held before: every primitive array, string,
  context, module and engine it acquired is released or was handed over. The exception is
  \<open>toMachineAssemblyCode\<close>: each call that returns without having reported an error leaves one more
  target machine behind. No exception of type \<open>std::string\<close> leaves them.\<close>

theorem natives_release_all:
  "releases_all s (native_toLLVMAssemblyCode B V L self bitcode o1 o2 s) \<and>
   releases_all s (compileToFunc B V L self bitcode name st s) \<and>
   leaks_machine s (native_toMachineAssemblyCode B V L self arch bitcode o1 o2 s)"
  by (intro conjI releases_allI balanced_natives machines_kept stops_natives machine_leaked)

section \<open>Critical regions\<close>

definition violates :: "('w, 'l) native_state \<Rightarrow> ('w, 'l) native_state \<Rightarrow> bool" where
  "violates s s' \<longleftrightarrow> (\<exists>es. events s' = events s @ es \<and> \<not> critical_rule es (held s))"

lemma critical_rule_append:
  "critical_rule (es @ fs) hs \<longleftrightarrow> critical_rule es hs \<and> critical_rule fs (fold held_step es hs)"
  by (induction es arbitrary: hs) auto

lemma violates_after: "violates s t \<Longrightarrow> events u = events t @ es \<Longrightarrow> violates s u"
  by (auto simp: violates_def critical_rule_append)

lemma violates_before: "events t = events s @ es \<Longrightarrow> violates t u \<Longrightarrow> violates s u"
  by (auto simp: violates_def critical_rule_append held_def)

definition trips :: "('w, 'l, 'a) native \<Rightarrow> bool" where
  "trips m \<longleftrightarrow> (\<forall>s r s'. m s = (r, s') \<longrightarrow> resumes r \<longrightarrow> violates s s')"

lemma tripsI: "(\<And>s r s'. m s = (r, s') \<Longrightarrow> resumes r \<Longrightarrow> violates s s') \<Longrightarrow> trips m"
  by (simp add: trips_def)

lemma tripsD: "trips m \<Longrightarrow> m s = (r, s') \<Longrightarrow> resumes r \<Longrightarrow> violates s s'"
  by (auto simp: trips_def)

lemma trips_bindc:
  assumes "effects (\<lambda>s s'. \<exists>es. events s' = events s @ es) m" "\<And>x. trips (f x)" "stops (\<lambda>e. \<not> caught e) m"
  shows "trips (bindc m f)"
proof (rule tripsI)
  fix s r s' assume run: "bindc m f s = (r, s')" and res: "resumes r"
  obtain q t where q: "m s = (q, t)" by fastforce
  obtain x where x: "q = Inr x" "f x t = (r, s')"
    using run q res stopsD [OF assms(3)] by (cases q) (auto simp: bindc_def)
  then show "violates s s'"
    using effectsD [OF assms(1) q] tripsD [OF assms(2) x(2) res] violates_before by blast
qed

lemma trips_bindc_left:
  assumes "trips m" "\<And>x. effects (\<lambda>s s'. \<exists>es. events s' = events s @ es) (f x)"
  shows "trips (bindc m f)"
proof (rule tripsI)
  fix s r s' assume run: "bindc m f s = (r, s')" and res: "resumes r"
  obtain q t where q: "m s = (q, t)" by fastforce
  have "violates s t \<and> (\<exists>es. events s' = events t @ es)"
    using run q res tripsD [OF assms(1) q] effectsD [OF assms(2)] by (cases q) (auto simp: bindc_def)
  then show "violates s s'" using violates_after by blast
qed

lemma trips_scoped:
  assumes "effects (\<lambda>s s'. \<exists>es. events s' = events s @ es) ctor" "stops (\<lambda>e. \<not> caught e) ctor" "\<And>obj. trips (body obj)"
    and "\<And>obj. effects (\<lambda>s s'. \<exists>es. events s' = events s @ es) (dtor obj)"
  shows "trips (scoped ctor dtor body)"
  unfolding scoped_def
proof (rule trips_bindc [OF assms(1) _ assms(2)], rule tripsI)
  fix obj s r s'
  assume run: "(case body obj s of
      (Inr x, s') \<Rightarrow> bindc (dtor obj) (\<lambda>_. ret x) s'
    | (Inl e, s') \<Rightarrow> if caught e then bindc (dtor obj) (\<lambda>_. raise e) s' else (Inl e, s')) = (r, s')"
    and res: "resumes r"
  obtain q t where q: "body obj s = (q, t)" by fastforce
  have "violates s t \<and> (\<exists>es. events s' = events t @ es)"
    using run q res tripsD [OF assms(3) q]
      effectsD [OF appends.bindc [OF assms(4) appends.simple(1)]] effectsD [OF appends.bindc [OF assms(4) appends.simple(2)]]
    by (cases q) (auto split: if_splits)
  then show "violates s s'" using violates_after by blast
qed

lemma trips_try_catch:
  assumes "trips body" "\<And>e. effects (\<lambda>s s'. \<exists>es. events s' = events s @ es) (handler e)"
  shows "trips (try_catch body handler)"
proof (rule tripsI)
  fix s r s' assume run: "try_catch body handler s = (r, s')" and res: "resumes r"
  obtain q t where q: "body s = (q, t)" by fastforce
  have "violates s t \<and> (\<exists>es. events s' = events t @ es)"
    using run q res tripsD [OF assms(1) q] effectsD [OF assms(2)]
    by (cases q) (auto simp: try_catch_def split: cpp_stop.splits)
  then show "violates s s'" using violates_after by blast
qed

text \<open>The length of the array is asked for inside its critical region.\<close>

lemma array_scope_trips:
  assumes "\<And>arr n. effects (\<lambda>s s'. \<exists>es. events s' = events s @ es) (f arr n)"
  shows "trips (scoped (new_JniPrimitiveArrayPtr V ar) (delete_JniPrimitiveArrayPtr V)
    (\<lambda>arr. bindc (array_size V arr) (f arr)))"
proof (rule tripsI)
  fix s r s'
  assume run: "scoped (new_JniPrimitiveArrayPtr V ar) (delete_JniPrimitiveArrayPtr V)
      (\<lambda>arr. bindc (array_size V arr) (f arr)) s = (r, s')" and "resumes r"
  obtain p s1 where p: "logged V 222 [This, Val ar, Val (CPtr 0)] s = (p, s1)" by fastforce
  obtain v s2 where v: "logged V 171 [This, Val ar] s1 = (v, s2)" by fastforce
  obtain q t where q: "bindc (to_size_t v) (f \<lparr>ap_array = ar, ap_ptr = p\<rparr>) s2 = (q, t)" by fastforce
  have ctor: "new_JniPrimitiveArrayPtr V ar s = (Inr \<lparr>ap_array = ar, ap_ptr = p\<rparr>, s1)"
    using p by (simp add: new_JniPrimitiveArrayPtr_def run_jni)
  have "bindc (array_size V \<lparr>ap_array = ar, ap_ptr = p\<rparr>) (f \<lparr>ap_array = ar, ap_ptr = p\<rparr>) s1 = (q, t)"
    using v q by (simp add: array_size_def bindc_assoc run_jni)
  then have "\<exists>es. events s' = events t @ es"
    using run ctor effectsD [OF appends.bindc [OF appends.helpers(2) appends.simple(1)]]
      effectsD [OF appends.bindc [OF appends.helpers(2) appends.simple(2)]]
    by (cases q) (auto simp: scoped_def bindc_Inr split: if_splits)
  moreover have "\<exists>es. events t = events s2 @ es"
    using effectsD [OF appends.bindc [OF appends.to_size assms] q] by simp
  moreover have "violates s s2"
    using p v by (auto simp: violates_def logged_def log_event_def allowed_in_critical_def split: prod.splits)
  ultimately show "violates s s'" using violates_after by blast
qed

lemma trips_natives:
  "trips (native_toLLVMAssemblyCode B V L self bitcode o1 o2)"
  "trips (native_toMachineAssemblyCode B V L self arch bitcode o1 o2)"
  "trips (compileToFunc B V L self bitcode name st)"
  unfolding native_toLLVMAssemblyCode_def native_toMachineAssemblyCode_def compileToFunc_def test_rt_unreachable_internal_def
  by (intro trips_try_catch array_scope_trips trips_scoped stops_constructors appends.steps appends.report
      appends.assembly_code appends_heap_step)+

definition exit_violates :: "('w, 'l) native_state \<Rightarrow> (cpp_stop + 'a) \<times> ('w, 'l) native_state \<Rightarrow> bool" where
  "exit_violates s res = (case res of (Inr x, s') \<Rightarrow> violates s s' | _ \<Rightarrow> True)"

lemma exit_violatesI: "trips m \<Longrightarrow> exit_violates s (m s)"
  by (cases "m s"; cases "fst (m s)") (auto simp: exit_violates_def dest: tripsD)

text \<open>C10: Every call of the three functions that comes back to Java has broken the rule for
  critical regions: the length of the bitcode array is asked for, and more functions of the
  virtual machine are called, while the array is held by \<open>GetPrimitiveArrayCritical\<close>.\<close>

theorem critical_region_violated:
  "exit_violates s (native_toLLVMAssemblyCode B V L self bitcode o1 o2 s) \<and>
   exit_violates s (native_toMachineAssemblyCode B V L self arch bitcode o1 o2 s) \<and>
   exit_violates s (compileToFunc B V L self bitcode name st s)"
  by (intro conjI exit_violatesI trips_natives)

end
