(* ===== verification/Test_Rt_Compile.thy ===== *)
theory Test_Rt_Compile
  imports Test_Rt_Safety
begin

text \<open>
  What a successful \<open>compileToFunc\<close> leaves behind, and the life of a compiled function.
\<close>

section \<open>Computations that returned\<close>

lemma scoped_eq_Inr_iff:
  "scoped ctor dtor body s = (Inr x, s') \<longleftrightarrow>
    (\<exists>obj s1 s2. ctor s = (Inr obj, s1) \<and> body obj s1 = (Inr x, s2) \<and> dtor obj s2 = (Inr (), s'))"
  by (auto simp: scoped_def bindc_def ret_apply raise_apply split: prod.splits sum.splits if_splits)

lemma try_catch_body:
  "try_catch body handler s = (Inr x, s') \<Longrightarrow> (\<And>e t. handler e t \<noteq> (Inr x, s')) \<Longrightarrow> body s = (Inr x, s')"
  by (auto simp: try_catch_def split: prod.splits sum.splits cpp_stop.splits)

lemma whenc_eq_Inr_iff: "whenc b m s = (Inr x, s') \<longleftrightarrow> (if b then m s = (Inr x, s') else s' = s)"
  by (simp add: whenc_def ret_apply eq_commute)

lemma lib_call_eq_Inr_iff:
  "lib_call f s = (Inr x, s') \<longleftrightarrow> (\<exists>l. f (lib s) = (x, l) \<and> s' = s\<lparr>lib := l\<rparr>)"
  by (auto simp: lib_call_def split: prod.splits)

lemma ret_eq_Inr_iff: "ret x s = (Inr y, s') \<longleftrightarrow> y = x \<and> s' = s"
  by (auto simp: ret_apply)

lemma not_Inr: "raise e s \<noteq> (Inr x, s')" "test_rt_unreachable_internal m f l s \<noteq> (Inr x, s')"
  by (simp_all add: raise_apply test_rt_unreachable_internal_def)

lemmas returned = scoped_eq_Inr_iff bindc_eq_Inr_iff whenc_eq_Inr_iff lib_call_eq_Inr_iff ret_eq_Inr_iff not_Inr

lemma option_eq_Inr_iff:
  "(case z of None \<Rightarrow> raise e | Some x \<Rightarrow> f x) s = (Inr y, s') \<longleftrightarrow> (\<exists>x. z = Some x \<and> f x s = (Inr y, s'))"
  by (cases z) (simp_all add: raise_apply)

text \<open>The run of a compilation that succeeded.\<close>

lemma compile_returned:
  fixes s s' :: "('w, 'l) native_state"
  assumes "compileToFunc B V L self bitcode name st s = (Inr p, s')" "p \<noteq> 0"
  obtains c arr n m nm f l e err addr l' s1 s2 s3 s4 s5 s6 s7 s8 s9 s10 s11 s12 s13 where
    "new_LLVMContext L s = (Inr c, s1)"
    "new_JniPrimitiveArrayPtr V bitcode s1 = (Inr arr, s2)"
    "array_size V arr s2 = (Inr n, s3)"
    "new_unique ''m'' Some (parseBitcode V L (array_get arr) n c) s3 = (Inr m, s4)"
    "new_JniString V name s4 = (Inr nm, s5)"
    "get_function L m (string_str nm) (lib s5) = (f, l)" "f \<noteq> 0"
    "build_entry_point L m (st \<noteq> 0) f (s5\<lparr>lib := l\<rparr>) = (Inr (), s6)"
    "new_unique ''engine'' fst (new_engine L m) s6 = (Inr (Some e, err), s7)"
    "function_address L e entryPointFuncName (lib s7) = (addr, l')" "addr \<noteq> 0"
    "move_unique ''engine'' (s7\<lparr>lib := l'\<rparr>) = (Inr (), s8)"
    "new_CompileState L e addr s8 = (Inr p, s9)"
    "delete_unique L ''engine'' s9 = (Inr (), s10)"
    "delete_JniString V nm s10 = (Inr (), s11)"
    "delete_unique L ''m'' s11 = (Inr (), s12)"
    "delete_JniPrimitiveArrayPtr V arr s12 = (Inr (), s13)"
    "delete_LLVMContext L c s13 = (Inr (), s')"
proof -
  have "bindc (throwException B V self e) (\<lambda>_. ret 0) t \<noteq> (Inr p, s')" for e t
    using assms(2) by (auto simp: bindc_eq_Inr_iff ret_apply)
  note body = try_catch_body [OF assms(1) [unfolded compileToFunc_def] this]
  show ?thesis using body by (fastforce simp: returned option_eq_Inr_iff split: if_splits intro: that)
qed

section \<open>What it leaves\<close>

lemma module_returned:
  assumes "new_unique n Some (parseBitcode V L b len c) s = (Inr m, s')"
  obtains k where "m = Module k c"
  using assms by (auto simp: new_unique_def parseBitcode_def read_bytes_def returned raise_apply
      split: option.splits jval.splits)

lemma engine_returned:
  assumes "new_unique n fst (new_engine L m) s = (Inr (Some e, err), s')"
  obtains k where "e = Engine k m"
  using assms by (auto simp: new_unique_def new_engine_def returned split: if_splits)

lemma string_returned:
  assumes "new_JniString V jstr s = (Inr obj, s')"
  obtains a w where "string_str obj = c_string_at V a w" "JniCall 169 [This, Val jstr, Val (CPtr 0)] (CPtr a) \<in> set (events s')"
  using assms that
  by (auto simp: new_JniString_def std_string_def string_str_def run_jni logged_def log_event_def
      split: prod.splits jval.splits if_splits)

lemma entry_point_returned:
  "build_entry_point L m st f s = (Inr (), s') \<Longrightarrow> \<exists>l. build_ir L m (entry_point_ops st f) (lib s) = (True, l)"
  by (auto simp: build_entry_point_def returned raise_apply split: if_splits)

lemma state_returned:
  "new_CompileState L e f s = (Inr p, s') \<Longrightarrow> heap s' = (heap s)(p \<mapsto> \<lparr>cs_engine = e, cs_f = f\<rparr>)"
  by (auto simp: new_CompileState_def returned modify_apply)

lemma compile_result:
  fixes s s' :: "('w, 'l) native_state"
  assumes "compileToFunc B V L self bitcode name st s = (Inr p, s')" "p \<noteq> 0"
  obtains k mo c f addr nm a w l1 l2 l3 l4 l5 l6 es where
    "heap s' = (heap s)(p \<mapsto> \<lparr>cs_engine = Engine k (Module mo c), cs_f = addr\<rparr>)" "addr \<noteq> 0"
    "nm = c_string_at V a w" "JniCall 169 [This, Val name, Val (CPtr 0)] (CPtr a) \<in> set (events s')"
    "get_function L (Module mo c) nm l1 = (f, l2)" "f \<noteq> 0"
    "build_ir L (Module mo c) (entry_point_ops (st \<noteq> 0) f) l3 = (True, l4)"
    "function_address L (Engine k (Module mo c)) entryPointFuncName l5 = (addr, l6)"
    "events s' = es @ [Destroyed (Context c)]"
proof (rule compile_returned [OF assms])
  fix c arr n m nm f l e err addr l' s1 s2 s3 s4 s5 s6 s7 s8 s9 s10 s11 s12 s13
  assume 1: "new_LLVMContext L s = (Inr c, s1)" and 2: "new_JniPrimitiveArrayPtr V bitcode s1 = (Inr arr, s2)"
    and 3: "array_size V arr s2 = (Inr n, s3)"
    and 4: "new_unique ''m'' Some (parseBitcode V L (array_get arr) n c) s3 = (Inr m, s4)"
    and 5: "new_JniString V name s4 = (Inr nm, s5)"
    and f: "get_function L m (string_str nm) (lib s5) = (f, l)" "f \<noteq> 0"
    and 6: "build_entry_point L m (st \<noteq> 0) f (s5\<lparr>lib := l\<rparr>) = (Inr (), s6)"
    and 7: "new_unique ''engine'' fst (new_engine L m) s6 = (Inr (Some e, err), s7)"
    and addr: "function_address L e entryPointFuncName (lib s7) = (addr, l')" "addr \<noteq> 0"
    and 8: "move_unique ''engine'' (s7\<lparr>lib := l'\<rparr>) = (Inr (), s8)"
    and 9: "new_CompileState L e addr s8 = (Inr p, s9)"
    and 10: "delete_unique L ''engine'' s9 = (Inr (), s10)" and 11: "delete_JniString V nm s10 = (Inr (), s11)"
    and 12: "delete_unique L ''m'' s11 = (Inr (), s12)" and 13: "delete_JniPrimitiveArrayPtr V arr s12 = (Inr (), s13)"
    and 14: "delete_LLVMContext L c s13 = (Inr (), s')"
  obtain mo where m: "m = Module mo c" using module_returned 4 by blast
  obtain k where e: "e = Engine k m" using engine_returned 7 by blast
  obtain a w where nm: "string_str nm = c_string_at V a w" and call: "JniCall 169 [This, Val name, Val (CPtr 0)] (CPtr a) \<in> set (events s5)"
    using string_returned 5 by blast
  obtain l4 where ir: "build_ir L m (entry_point_ops (st \<noteq> 0) f) l = (True, l4)"
    using entry_point_returned [OF 6] by auto
  have "heap s8 = heap s"
    using effectsD [OF keeps_heap.objects(1) 1] effectsD [OF keeps_heap.helpers(1) 2] effectsD [OF keeps_heap.helpers(5) 3]
      effectsD [OF keeps_heap.objects(5) [OF keeps_heap.objects(8)] 4] effectsD [OF keeps_heap.helpers(3) 5]
      effectsD [OF keeps_heap.objects(7) 6] effectsD [OF keeps_heap.objects(5) [OF keeps_heap.objects(6)] 7]
      effectsD [OF keeps_heap.objects(4) 8]
    by simp
  moreover have "heap s' = heap s9"
    using effectsD [OF keeps_heap.objects(3) 10] effectsD [OF keeps_heap.helpers(4) 11] effectsD [OF keeps_heap.objects(3) 12]
      effectsD [OF keeps_heap.helpers(2) 13] effectsD [OF keeps_heap.objects(2) 14]
    by simp
  ultimately have heap: "heap s' = (heap s)(p \<mapsto> \<lparr>cs_engine = Engine k (Module mo c), cs_f = addr\<rparr>)"
    using state_returned [OF 9] e m by simp
  have "\<exists>es. events s13 = events s5 @ es"
    using effectsD [OF appends.objects(7) 6] effectsD [OF appends.objects(5) [OF appends.objects(6)] 7]
      effectsD [OF appends.objects(4) 8] effectsD [OF appends_heap_step 9] effectsD [OF appends.objects(3) 10]
      effectsD [OF appends.helpers(4) 11] effectsD [OF appends.objects(3) 12] effectsD [OF appends.helpers(2) 13]
    by auto
  moreover have "events s' = events s13 @ [Destroyed (Context c)]"
    using 14 by (auto simp: delete_LLVMContext_def delete_object_run log_event_def)
  ultimately obtain es where es: "events s' = (events s5 @ es) @ [Destroyed (Context c)]" by auto
  then have "JniCall 169 [This, Val name, Val (CPtr 0)] (CPtr a) \<in> set (events s')" using call by simp
  from that [OF heap addr(2) nm this f(1) [unfolded m] f(2) ir [unfolded m] addr(1) [unfolded e m] es]
  show thesis .
qed

section \<open>A small virtual machine and library for the witnesses\<close>

text \<open>
  The virtual machine knows one class, if \<open>cls\<close> is not zero, and one string; the library has one
  module with one function, which it reads from every bitcode unless \<open>parses\<close> is false.
\<close>

definition sample_vm :: "nat \<Rightarrow> unit jvm_interface" where
  "sample_vm cls = \<lparr>
     jni_impl = (\<lambda>k vs w. (if k = 6 then JRef cls else if k = 33 then JMethod 9 else if k = 171 then JNum 3
       else if k = 222 then CPtr 64 else if k = 169 then CPtr 32 else JRef 5, w)),
     c_string_at = (\<lambda>a w. ''add''),
     bytes_at = (\<lambda>a n w. replicate n 0)\<rparr>"

definition sample_llvm :: "bool \<Rightarrow> unit llvm" where
  "sample_llvm parses = \<lparr>
     initialize_target = (\<lambda>n l. l), construct_context = (\<lambda>l. (1, l)), destroy = (\<lambda>obj l. l),
     get_mem_buffer = (\<lambda>bs l. (Some 1, l)), parse_bitcode_file = (\<lambda>b c l. (if parses then Some 2 else None, l)),
     print_module = (\<lambda>m l. (''module'', l)), get_function = (\<lambda>m n l. (if n = ''add'' then 7 else 0, l)),
     build_ir = (\<lambda>m is l. (True, l)), create_engine = (\<lambda>m l. ((3, []), l)),
     function_address = (\<lambda>e n l. (if n = entryPointFuncName then 0x4000 else 0, l)),
     lookup_target = (\<lambda>a l. ((if a = ''x86-64'' then 1 else 0, a, ''no such target''), l)),
     create_machine = (\<lambda>t a l. (4, l)), emit_passes = (\<lambda>k l. (False, l)),
     emit_module = (\<lambda>k m l. (''asm'', l)), malloc = (\<lambda>l. (0x500, l)),
     jit_code = (\<lambda>a l. if a = 0x4000 then Some (\<lambda>_ x y. x + y) else None)\<rparr>"

definition sample_build :: build where
  "sample_build = \<lparr>ndebug = False, source_file = ''test-rt.cc'', addr_testIntAdd = 0x1000, addr_testIntMultiply = 0x2000\<rparr>"

definition sample_state :: "(unit, unit) native_state" where
  "sample_state = \<lparr>jvm = (), lib = (), heap = (\<lambda>_. None), unique = (\<lambda>_. None), events = []\<rparr>"

lemmas samples = sample_vm_def sample_llvm_def sample_build_def sample_state_def

lemma sample_compile:
  "fst (compileToFunc sample_build (sample_vm 0) (sample_llvm True) (JRef 1) (JRef 2) (JRef 3) 1 sample_state) = Inr 0x500"
  by (simp add: compileToFunc_def scoped_def try_catch_def samples new_LLVMContext_def run_native delete_object_run
      new_JniPrimitiveArrayPtr_def run_jni logged_def array_size_def to_size_t_def new_unique_def parseBitcode_def
      read_bytes_def array_get_def set_unique_def log_event_def new_JniString_def std_string_def string_str_def
      build_entry_point_def new_engine_def move_unique_def new_CompileState_def delete_unique_def delete_JniString_def
      delete_JniPrimitiveArrayPtr_def delete_LLVMContext_def)

section \<open>Properties\<close>

text \<open>C5: A compilation that returns a state has looked the function up under the characters of its
  Java name, built the entry point that calls it for the kind of method asked for, and stored
  with the engine the address of that entry point, which \<open>getFuncAddrFromCompileState\<close> returns;
  the other states are as before.\<close>

theorem compile_success:
  assumes "compileToFunc B V L self bitcode name st s = (Inr p, s')" "p \<noteq> 0"
  shows "\<exists>k m f addr a w l1 l2 l3 l4 l5 l6.
    heap s' = (heap s)(p \<mapsto> \<lparr>cs_engine = Engine k m, cs_f = addr\<rparr>) \<and> addr \<noteq> 0 \<and>
    getFuncAddrFromCompileState p s' = (Inr addr, s') \<and>
    JniCall 169 [This, Val name, Val (CPtr 0)] (CPtr a) \<in> set (events s') \<and>
    get_function L m (c_string_at V a w) l1 = (f, l2) \<and> f \<noteq> 0 \<and>
    build_ir L m (entry_point_ops (st \<noteq> 0) f) l3 = (True, l4) \<and>
    function_address L (Engine k m) entryPointFuncName l5 = (addr, l6)"
proof (rule compile_result [OF assms])
  fix k mo c f addr nm a w l1 l2 l3 l4 l5 l6 es
  assume heap: "heap s' = (heap s)(p \<mapsto> \<lparr>cs_engine = Engine k (Module mo c), cs_f = addr\<rparr>)"
    and rest: "addr \<noteq> 0" "nm = c_string_at V a w" "JniCall 169 [This, Val name, Val (CPtr 0)] (CPtr a) \<in> set (events s')"
      "get_function L (Module mo c) nm l1 = (f, l2)" "f \<noteq> 0"
      "build_ir L (Module mo c) (entry_point_ops (st \<noteq> 0) f) l3 = (True, l4)"
      "function_address L (Engine k (Module mo c)) entryPointFuncName l5 = (addr, l6)"
  have "getFuncAddrFromCompileState p s' = (Inr addr, s')"
    using heap by (simp add: getFuncAddrFromCompileState_def deref_CompileState_def run_native)
  then show ?thesis using heap rest by blast
qed

lemma compile_success_witness:
  "\<exists>s'. compileToFunc sample_build (sample_vm 0) (sample_llvm True) (JRef 1) (JRef 2) (JRef 3) 1 sample_state = (Inr 0x500, s') \<and>
    getFuncAddrFromCompileState 0x500 s' = (Inr 0x4000, s')"
proof -
  obtain s' where s': "compileToFunc sample_build (sample_vm 0) (sample_llvm True) (JRef 1) (JRef 2) (JRef 3) 1 sample_state = (Inr 0x500, s')"
    using sample_compile by (metis prod.collapse)
  then show ?thesis using compile_success [OF s'] by (auto simp: sample_llvm_def split: if_splits)
qed

text \<open>C9: The context a function was compiled in is a local variable: when \<open>compileToFunc\<close> returns
  a state, the last thing it did was to destroy the context of the module that the stored
  engine owns. Releasing the state then deletes the engine, and with it the module, after its
  context; a second release of the state is undefined.\<close>

theorem context_dies_first:
  assumes "compileToFunc B V L self bitcode name st s = (Inr p, s')" "p \<noteq> 0"
  shows "\<exists>k mo c es s''.
    map_option cs_engine (heap s' p) = Some (Engine k (Module mo c)) \<and>
    events s' = es @ [Destroyed (Context c)] \<and>
    releaseCompileState L p s' = (Inr (), s'') \<and>
    events s'' = es @ [Destroyed (Context c), Destroyed (Engine k (Module mo c))] \<and>
    heap s'' = (heap s')(p := None) \<and>
    releaseCompileState L p s'' = (Inl (Undefined ''CompileState''), s'')"
proof (rule compile_result [OF assms])
  fix k mo c f addr nm a w l1 l2 l3 l4 l5 l6 es
  assume "heap s' = (heap s)(p \<mapsto> \<lparr>cs_engine = Engine k (Module mo c), cs_f = addr\<rparr>)"
    and "events s' = es @ [Destroyed (Context c)]"
  then show ?thesis using assms(2)
    by (simp add: releaseCompileState_def deref_CompileState_def run_native delete_object_run log_event_def)
qed

lemma context_dies_first_witness:
  "\<exists>s' s''. compileToFunc sample_build (sample_vm 0) (sample_llvm True) (JRef 1) (JRef 2) (JRef 3) 1 sample_state = (Inr 0x500, s') \<and>
    releaseCompileState (sample_llvm True) 0x500 s' = (Inr (), s'') \<and> heap s'' 0x500 = None"
proof -
  obtain s' where s': "compileToFunc sample_build (sample_vm 0) (sample_llvm True) (JRef 1) (JRef 2) (JRef 3) 1 sample_state = (Inr 0x500, s')"
    using sample_compile by (metis prod.collapse)
  then show ?thesis using context_dies_first [OF s'] by auto
qed

end
