(* ===== verification/Test_Rt_Runs.thy ===== *)
theory Test_Rt_Runs
  imports Test_Rt_Compile
begin

text \<open>
  What one call of a native function reads: the bytes of the array, the characters of a string
  and the module that LLVM makes of the bytes, in the states of the virtual machine and of LLVM
  in which this call asks for them. A theorem about an error says by these what is wrong with the
  input, and leaves open how the virtual machine and LLVM answer anything else.
\<close>

section \<open>The inputs of a run\<close>

text \<open>
  \<open>GetPrimitiveArrayCritical\<close>, then \<open>GetArrayLength\<close>: the bytes that are exposed then, and the state
  after both calls. \<open>None\<close> if there is no array to be read.
\<close>

definition array_read :: "'w jvm_interface \<Rightarrow> jval \<Rightarrow> 'w \<Rightarrow> (byte list \<times> 'w) option" where
  "array_read V ar w = (case jni_impl V 222 [This, Val ar, Val (CPtr 0)] w of
     (CPtr a, w1) \<Rightarrow>
       (if a = 0 then None
        else case jni_impl V 171 [This, Val ar] w1 of
          (JNum n, w2) \<Rightarrow> if 0 \<le> n \<and> n < 2 ^ 31 then Some (bytes_at V a (nat n) w2, w2) else None
        | _ \<Rightarrow> None)
   | _ \<Rightarrow> None)"

definition string_read :: "'w jvm_interface \<Rightarrow> jval \<Rightarrow> 'w \<Rightarrow> (string \<times> 'w) option" where
  "string_read V str w = (case jni_impl V 169 [This, Val str, Val (CPtr 0)] w of
     (CPtr a, w1) \<Rightarrow> if a = 0 then None else Some (c_string_at V a w1, w1)
   | _ \<Rightarrow> None)"

text \<open>\<open>getMemBuffer\<close>, then \<open>parseBitcodeFile\<close>: the module, or \<open>None\<close> if one of them fails.\<close>

definition parse_module :: "'l llvm \<Rightarrow> byte list \<Rightarrow> nat \<Rightarrow> 'l \<Rightarrow> (llvm_object \<times> 'l) option" where
  "parse_module L bs c l = (case get_mem_buffer L bs l of
     (None, _) \<Rightarrow> None
   | (Some b, l1) \<Rightarrow> (case parse_bitcode_file L b c l1 of (None, _) \<Rightarrow> None | (Some m, l2) \<Rightarrow> Some (Module m c, l2)))"

definition load_module :: "'l llvm \<Rightarrow> byte list \<Rightarrow> 'l \<Rightarrow> (llvm_object \<times> 'l) option" where
  "load_module L bs l = (case construct_context L l of (c, l1) \<Rightarrow> parse_module L bs c l1)"

text \<open>The bytes are no bitcode: LLVM can put them into a buffer, but parses them in no context.\<close>

definition not_bitcode :: "'l llvm \<Rightarrow> byte list \<Rightarrow> bool" where
  "not_bitcode L bs \<longleftrightarrow> (\<forall>c l. case get_mem_buffer L bs l of
     (None, _) \<Rightarrow> False | (Some b, l1) \<Rightarrow> fst (parse_bitcode_file L b c l1) = None)"

text \<open>The architecture has a machine that can print assembly code.\<close>

definition machine_ready :: "'l llvm \<Rightarrow> string \<Rightarrow> 'l \<Rightarrow> bool" where
  "machine_ready L arch l = (case lookup_target L arch l of
     ((t, triple, err), l1) \<Rightarrow> t \<noteq> 0 \<and> (case create_machine L t triple l1 of
       (k, l2) \<Rightarrow> k \<noteq> 0 \<and> \<not> fst (emit_passes L k l2)))"

section \<open>Runs of the constructors\<close>

lemma array_run:
  assumes "array_read V ar (jvm s) = Some (bs, w)"
  obtains p n s1 s2 where "new_JniPrimitiveArrayPtr V ar s = (Inr \<lparr>ap_array = ar, ap_ptr = CPtr p\<rparr>, s1)" "p \<noteq> 0"
    "array_size V \<lparr>ap_array = ar, ap_ptr = CPtr p\<rparr> s1 = (Inr n, s2)" "bytes_at V p n (jvm s2) = bs" "jvm s2 = w"
    "lib s1 = lib s" "lib s2 = lib s" "unique s1 = unique s" "unique s2 = unique s"
    "held s1 = Critical ar (CPtr p) # held s" "held s2 = held s1"
proof -
  obtain r w1 where r: "jni_impl V 222 [This, Val ar, Val (CPtr 0)] (jvm s) = (r, w1)" by fastforce
  then obtain p where p: "r = CPtr p" "p \<noteq> 0" using assms by (auto simp: array_read_def split: jval.splits if_splits)
  obtain v w2 where v: "jni_impl V 171 [This, Val ar] w1 = (v, w2)" by fastforce
  then obtain n where n: "v = JNum n" "0 \<le> n" "n < 2 ^ 31" "bytes_at V p (nat n) w2 = bs" "w2 = w"
    using assms r p by (auto simp: array_read_def split: jval.splits if_splits)
  have "unat (word_of_int n :: word64) = nat n"
    using n(2,3) by (simp add: unat_eq_nat_uint uint_word_of_int take_bit_int_eq_self)
  note size = this
  define s1 where "s1 = log_event (JniCall 222 [This, Val ar, Val (CPtr 0)] (CPtr p)) (s\<lparr>jvm := w1\<rparr>)"
  define s2 where "s2 = log_event (JniCall 171 [This, Val ar] (JNum n)) (s1\<lparr>jvm := w\<rparr>)"
  have s1: "jvm s1 = w1" "lib s1 = lib s" "unique s1 = unique s" by (simp_all add: s1_def log_event_def)
  have "new_JniPrimitiveArrayPtr V ar s = (Inr \<lparr>ap_array = ar, ap_ptr = CPtr p\<rparr>, s1)"
    using r p by (simp add: new_JniPrimitiveArrayPtr_def run_jni logged_def s1_def)
  moreover have "array_size V \<lparr>ap_array = ar, ap_ptr = CPtr p\<rparr> s1 = (Inr (nat n), s2)"
    using v n size by (simp add: array_size_def to_size_t_def run_jni logged_def s1 s2_def)
  moreover have "jvm s2 = w" "lib s2 = lib s" "unique s2 = unique s" using s1 by (simp_all add: s2_def log_event_def)
  moreover have "held s1 = Critical ar (CPtr p) # held s" "held s2 = held s1" by (simp_all add: s1_def s2_def)
  ultimately show thesis using that [of p s1 "nat n" s2] p(2) n(4,5) s1 by simp
qed

lemma string_run:
  assumes "string_read V str (jvm s) = Some (cs, w)"
  obtains obj s1 where "new_JniString V str s = (Inr obj, s1)" "string_str obj = cs" "jvm s1 = w"
    "lib s1 = lib s" "unique s1 = unique s"
proof -
  obtain r w1 where r: "jni_impl V 169 [This, Val str, Val (CPtr 0)] (jvm s) = (r, w1)" by fastforce
  then obtain p where p: "r = CPtr p" "p \<noteq> 0" "c_string_at V p w1 = cs" "w1 = w"
    using assms by (auto simp: string_read_def split: jval.splits if_splits)
  then show thesis
    using that r by (simp add: new_JniString_def std_string_def string_str_def run_jni logged_def)
      (simp add: log_event_def)
qed

lemma context_run:
  assumes "construct_context L (lib s) = (c, l)"
  obtains s1 where "new_LLVMContext L s = (Inr c, s1)" "jvm s1 = jvm s" "lib s1 = l" "unique s1 = unique s"
    "held s1 = Object (Context c) # held s"
  using assms that by (simp add: new_LLVMContext_def run_native) (simp add: log_event_def held_def)

lemma module_run:
  assumes "bytes_at V p n (jvm s) = bs" "p \<noteq> 0" "parse_module L bs c (lib s) = Some (m, l)"
  obtains s1 where "new_unique ''m'' Some (parseBitcode V L (CPtr p) n c) s = (Inr m, s1)" "jvm s1 = jvm s" "lib s1 = l"
    "unique s1 = (unique s)(''m'' \<mapsto> m)"
  using assms that
  by (simp add: new_unique_def parseBitcode_def read_bytes_def set_unique_def parse_module_def run_native
      split: prod.splits option.splits) (auto simp: log_event_def)

lemma module_fails:
  assumes "bytes_at V p n (jvm s) = bs" "p \<noteq> 0" "not_bitcode L bs"
  obtains t where "new_unique ''m'' Some (parseBitcode V L (CPtr p) n c) s =
      (Inl (ThrownChars ''Can't parse the given bitcode to build a LLVM module.''), t)" "held t = held s"
proof -
  obtain b l where b: "get_mem_buffer L bs (lib s) = (Some b, l)" "fst (parse_bitcode_file L b c l) = None"
    using assms(3) by (auto simp: not_bitcode_def split: prod.splits option.splits) (metis fst_conv option.exhaust prod.exhaust_sel)
  then obtain l' where "parse_bitcode_file L b c l = (None, l')" by (metis prod.collapse)
  then show thesis
    using that b assms(1,2) by (simp add: new_unique_def parseBitcode_def read_bytes_def run_native)
qed

lemma move_unique_run:
  "move_unique n s = (Inr x, t) \<Longrightarrow> lib t = lib s \<and> unique t = (unique s)(n := None)"
  by (auto simp: move_unique_def set_unique_def run_native log_event_def split: option.splits)

lemma engine_run:
  assumes "create_engine L m (lib s) = ((e, err), l)"
  obtains s' where "new_unique ''engine'' fst (new_engine L m) s = (Inr (if e = 0 then None else Some (Engine e m), err), s')"
    "lib s' = l"
proof -
  obtain u where u: "move_unique ''m'' s = (Inr (), u)" using move_unique_returns by blast
  then have "create_engine L m (lib u) = ((e, err), l)" using move_unique_run assms by metis
  then show thesis
    using that u
    by (cases "e = 0") (simp_all add: new_unique_def new_engine_def set_unique_def run_native log_event_def)
qed

text \<open>The beginning of \<open>compileToFunc\<close>, up to the characters of the function's name.\<close>

lemma compile_run:
  assumes "array_read V bitcode (jvm s) = Some (bs, w)" "load_module L bs (lib s) = Some (m, l)"
    and "string_read V name w = Some (str, w')"
  obtains c arr n nm s1 s2 s3 s4 s5 where "new_LLVMContext L s = (Inr c, s1)"
    "new_JniPrimitiveArrayPtr V bitcode s1 = (Inr arr, s2)" "array_size V arr s2 = (Inr n, s3)"
    "new_unique ''m'' Some (parseBitcode V L (array_get arr) n c) s3 = (Inr m, s4)"
    "new_JniString V name s4 = (Inr nm, s5)" "string_str nm = str" "lib s5 = l" "unique s5 ''m'' = Some m"
proof -
  obtain c l1 where cl: "construct_context L (lib s) = (c, l1)" by fastforce
  then obtain s1 where c: "new_LLVMContext L s = (Inr c, s1)" "jvm s1 = jvm s" "lib s1 = l1" using context_run by metis
  have "array_read V bitcode (jvm s1) = Some (bs, w)" using assms(1) c(2) by simp
  then obtain p n s2 s3 where a: "new_JniPrimitiveArrayPtr V bitcode s1 = (Inr \<lparr>ap_array = bitcode, ap_ptr = CPtr p\<rparr>, s2)"
    "array_size V \<lparr>ap_array = bitcode, ap_ptr = CPtr p\<rparr> s2 = (Inr n, s3)" "p \<noteq> 0" "bytes_at V p n (jvm s3) = bs"
    "lib s3 = lib s1" "jvm s3 = w"
    using array_run by metis
  have "parse_module L bs c (lib s3) = Some (m, l)" using assms(2) cl a(5) c(3) by (simp add: load_module_def)
  then obtain s4 where m: "new_unique ''m'' Some (parseBitcode V L (CPtr p) n c) s3 = (Inr m, s4)" "jvm s4 = w" "lib s4 = l"
    "unique s4 ''m'' = Some m"
    using module_run [OF a(4,3)] a(6) by (metis fun_upd_same)
  have parsed: "new_unique ''m'' Some (parseBitcode V L (array_get \<lparr>ap_array = bitcode, ap_ptr = CPtr p\<rparr>) n c) s3 = (Inr m, s4)"
    using m(1) by (simp add: array_get_def)
  have "string_read V name (jvm s4) = Some (str, w')" using assms(3) m(2) by simp
  then obtain nm s5 where "new_JniString V name s4 = (Inr nm, s5)" "string_str nm = str" "lib s5 = l" "unique s5 = unique s4"
    using string_run m(3) by metis
  then show thesis using that [OF c(1) a(1,2) parsed] m(4) by simp
qed

section \<open>Exceptions that leave a scope\<close>

text \<open>The computation throws \<open>e\<close> in this state.\<close>

definition throws_at :: "cpp_stop \<Rightarrow> ('w, 'l, 'a) native \<Rightarrow> ('w, 'l) native_state \<Rightarrow> bool" where
  "throws_at e m s \<longleftrightarrow> (\<exists>t. m s = (Inl e, t))"

lemma throws_at_raise: "throws_at e (raise e) s"
  by (simp add: throws_at_def raise_apply)

lemma throws_at_bindc: "m s = (Inr x, t) \<Longrightarrow> throws_at e (f x) t \<Longrightarrow> throws_at e (bindc m f) s"
  by (auto simp: throws_at_def bindc_Inr)

lemma throws_at_bindc_left: "throws_at e m s \<Longrightarrow> throws_at e (bindc m f) s"
  by (auto simp: throws_at_def bindc_Inl)

lemma throws_at_scoped:
  assumes "ctor s = (Inr obj, s1)" "throws_at e (body obj) s1" "\<And>t. \<exists>u. dtor obj t = (Inr (), u)" "caught e"
  shows "throws_at e (scoped ctor dtor body) s"
proof -
  obtain t where t: "body obj s1 = (Inl e, t)" using assms(2) by (auto simp: throws_at_def)
  obtain u where "dtor obj t = (Inr (), u)" using assms(3) by blast
  then show ?thesis using assms(1,4) t by (simp add: throws_at_def scoped_def bindc_Inr raise_apply)
qed

text \<open>An exception that is not caught leaves the scope as it is.\<close>

lemma scoped_escapes:
  "ctor s = (Inr obj, s1) \<Longrightarrow> body obj s1 = (Inl e, t) \<Longrightarrow> \<not> caught e \<Longrightarrow> scoped ctor dtor body s = (Inl e, t)"
  by (simp add: scoped_def bindc_Inr)

lemma destructors_return:
  "\<exists>s'. delete_JniPrimitiveArrayPtr V arr s = (Inr (), s')" "\<exists>s'. delete_JniString V str s = (Inr (), s')"
  "\<exists>s'. delete_LLVMContext L c s = (Inr (), s')" "\<exists>s'. delete_unique L n s = (Inr (), s')"
  using array_scope.releases string_scope.releases context_scope.releases delete_unique_apart [of n "[]" L s] by (blast | simp)+

text \<open>
  A body that throws a string has released what it acquired and reported nothing before the
  handler runs.
\<close>

lemma caught_after_release:
  assumes "throws_at (ThrownString e) body s" "balanced (apart []) body"
    and "effects (\<lambda>s s'. machines s' = machines s) body \<or> creates_machine body" "effects silent body"
  shows "\<exists>t. mset (held t) = mset (held s) \<and> silent s t \<and> try_catch body handler s = handler e t"
proof -
  obtain t where t: "body s = (Inl (ThrownString e), t)" using assms(1) by (auto simp: throws_at_def)
  have "owned t = owned s" using balancedD [OF assms(2) t] by simp
  moreover have "machines t = machines s"
    using assms(3)
  proof
    assume "effects (\<lambda>s s'. machines s' = machines s) body"
    then show ?thesis using t by (rule effectsD)
  next
    assume "creates_machine body"
    then show ?thesis using t by (rule creates_machineD(2)) simp
  qed
  ultimately have "mset (held t) = mset (held s)" by (simp add: held_partition)
  then show ?thesis using t effectsD [OF assms(4) t] by (auto simp: try_catch_def)
qed

text \<open>What leaves a native function as a character pointer was never reported.\<close>

lemma escape_silent:
  assumes "effects silent body" "\<And>e. stops (\<lambda>e. \<not> thrown e) (handler e)"
    and "try_catch body handler s = (Inl (ThrownChars m), t)"
  shows "silent s t"
proof -
  obtain q u where q: "body s = (q, u)" by fastforce
  have "q = Inl (ThrownChars m) \<and> u = t"
    using assms(3) q stopsD [OF assms(2)]
    by (fastforce simp: try_catch_def split: sum.splits cpp_stop.splits)
  then show ?thesis using effectsD [OF assms(1) q] by simp
qed

lemma silent_escapes:
  "native_toLLVMAssemblyCode B V L self bitcode o1 o2 s = (Inl (ThrownChars m), t) \<Longrightarrow> silent s t"
  "native_toMachineAssemblyCode B V L self arch bitcode o1 o2 s = (Inl (ThrownChars m), t) \<Longrightarrow> silent s t"
  "compileToFunc B V L self bitcode name st s = (Inl (ThrownChars m), t) \<Longrightarrow> silent s t"
  unfolding native_toLLVMAssemblyCode_def native_toMachineAssemblyCode_def compileToFunc_def
  subgoal by (erule escape_silent [rotated 2]) (intro silently.steps, intro stops_bindc stops_throwException stops_calls)
  subgoal by (erule escape_silent [rotated 2])
      (intro silently.steps silently.assembly_code, intro stops_bindc stops_throwException stops_calls)
  subgoal by (erule escape_silent [rotated 2])
      (intro silently.steps silently.compile_state, simp add: silent_def, intro stops_bindc stops_throwException stops_simple)
  done

end
