(* ===== verification/Compiled_Method.thy ===== *)
theory Compiled_Method
  imports Native_Call Test_Rt_Runs
begin

text \<open>
  From bitcode to a Java method: \<open>compileToFunc\<close> has LLVM compile an entry point, and \<open>injectFuncAddr\<close>
  makes its address the code of a method. LLVM is an argument; what its documentation says of
  the functions that the code calls is stated as a condition on it.
\<close>

section \<open>What LLVM documents\<close>

text \<open>
  The functions of a module in a state of the library, by name, with their types and what they
  compute from the registers of their arguments, and the code that the processor finds at an
  address in such a state.
\<close>

type_synonym meaning = "word64 list \<Rightarrow> word32"
type_synonym 'l module_view = "'l \<Rightarrow> llvm_object \<Rightarrow> string \<Rightarrow> (fn_type \<times> meaning) option"

text \<open>\<open>Module::getFunction\<close> looks a function up, and returns null if there is none of that name.\<close>

definition lookup_documented :: "'l llvm \<Rightarrow> 'l module_view \<Rightarrow> bool" where
  "lookup_documented L funs \<longleftrightarrow>
     (\<forall>l m n. \<exists>f. get_function L m n l = (f, l) \<and> (f = 0 \<longleftrightarrow> funs l m n = None))"

text \<open>
  \<open>getOrInsertFunction\<close> with a new name inserts a function of the type; with one block of a \<open>call\<close> of
  the function \<open>f\<close>, well typed, and a \<open>ret\<close> of its result, it computes what \<open>f\<close> computes from the
  arguments that are passed on. This is said of the case that LLVM accepts the calls.
\<close>

definition build_documented :: "'l llvm \<Rightarrow> 'l module_view \<Rightarrow> bool" where
  "build_documented L funs \<longleftrightarrow>
     (\<forall>l m callee f ty0 g n ty names block xs l'.
        get_function L m callee l = (f, l) \<and> funs l m callee = Some (ty0, g) \<and>
        funs l m n = None \<and> call_typed ty0 ty xs \<and>
        build_ir L m (forwarding n ty names block f xs) l = (True, l') \<longrightarrow>
        funs l' m n = Some (ty, \<lambda>args. g (map ((!) args) xs)))"

text \<open>An execution engine owns the module and leaves its functions what they are.\<close>

definition engine_documented :: "'l llvm \<Rightarrow> 'l module_view \<Rightarrow> bool" where
  "engine_documented L funs \<longleftrightarrow>
     (\<forall>l m e err l' n. create_engine L m l = ((e, err), l') \<and> e \<noteq> 0 \<longrightarrow> funs l' m n = funs l m n)"

text \<open>
  \<open>getFunctionAddress\<close> returns 0 or the address of code that computes the function under the C
  calling convention of the platform. It is stated for functions with at most four parameters,
  pointers or integers, and an \<open>int\<close> result.
\<close>

fun in_register :: "ir_type \<Rightarrow> bool" where
  "in_register (IntTy n) = (n \<le> 64)" | "in_register (PointerTy t a) = True" | "in_register VoidTy = False"

definition address_documented :: "'l llvm \<Rightarrow> 'l module_view \<Rightarrow> ('l \<Rightarrow> callees) \<Rightarrow> bool" where
  "address_documented L funs jit \<longleftrightarrow>
     (\<forall>l m e n addr l' ty g.
        function_address L (Engine e m) n l = (addr, l') \<and> addr \<noteq> 0 \<and> funs l m n = Some (ty, g) \<and>
        length (ft_params ty) \<le> 4 \<and> list_all in_register (ft_params ty) \<and> ft_result ty = IntTy 32 \<longrightarrow>
        c_call_ok 4 (jit l') addr (\<lambda>a b c d. g (take (length (ft_params ty)) [a, b, c, d])))"

text \<open>
  What the code relies on without a word in the documentation: compiled code stays where it is
  when memory is allocated and when the context is destroyed under the engine.
\<close>

definition code_stays :: "'l llvm \<Rightarrow> ('l \<Rightarrow> callees) \<Rightarrow> bool" where
  "code_stays L jit \<longleftrightarrow> (\<forall>l c. jit (snd (malloc L l)) = jit l \<and> jit (destroy L (Context c) l) = jit l)"

definition llvm_documented :: "'l llvm \<Rightarrow> 'l module_view \<Rightarrow> ('l \<Rightarrow> callees) \<Rightarrow> bool" where
  "llvm_documented L funs jit \<longleftrightarrow> lookup_documented L funs \<and> build_documented L funs \<and>
     engine_documented L funs \<and> address_documented L funs jit \<and> code_stays L jit"

section \<open>The compiled entry point\<close>

lemma delete_unique_run:
  "delete_unique L n s = (Inr x, t) \<Longrightarrow> unique s n = None \<Longrightarrow> lib t = lib s \<and> unique t = unique s"
  by (auto simp: delete_unique_def set_unique_def run_native)

lemma logged_lib: "logged V k vs s = (r, t) \<Longrightarrow> lib t = lib s \<and> unique t = unique s"
  by (auto simp: logged_def log_event_def split: prod.splits)

lemma release_run:
  "delete_JniString V obj s = (Inr x, t) \<Longrightarrow> lib t = lib s \<and> unique t = unique s"
  "delete_JniPrimitiveArrayPtr V arr s = (Inr x, t) \<Longrightarrow> lib t = lib s \<and> unique t = unique s"
  by (auto simp: delete_JniString_def delete_JniPrimitiveArrayPtr_def run_jni dest: logged_lib split: prod.splits)

lemma new_engine_run:
  assumes "new_unique ''engine'' fst (new_engine L m) s = (Inr (Some e, err), t)"
  obtains k where "create_engine L m (lib s) = ((k, err), lib t)" "k \<noteq> 0" "e = Engine k m"
    "unique t = (unique s)(''m'' := None, ''engine'' := Some e)"
proof -
  obtain u where u: "move_unique ''m'' s = (Inr (), u)" using move_unique_returns by blast
  obtain k err' l where k: "create_engine L m (lib u) = ((k, err'), l)" by (metis prod.exhaust)
  have "k \<noteq> 0" "e = Engine k m" "err' = err" "lib t = l" "unique t = (unique u)(''engine'' := Some e)"
    using assms u k by (auto simp: new_unique_def new_engine_def set_unique_def run_native log_event_def split: if_splits)
  then show thesis using that [of k] k move_unique_run [OF u] by simp
qed

lemma new_CompileState_run:
  "new_CompileState L e f s = (Inr p, t) \<Longrightarrow>
    lib t = snd (malloc L (lib s)) \<and> unique t = unique s \<and> heap t p = Some \<lparr>cs_engine = e, cs_f = f\<rparr>"
  by (auto simp: new_CompileState_def run_native split: prod.splits)

lemma build_entry_point_run:
  "build_entry_point L m b f s = (Inr x, t) \<Longrightarrow> build_ir L m (entry_point_ops b f) (lib s) = (True, lib t) \<and> unique t = unique s"
  by (auto simp: build_entry_point_def returned raise_apply split: if_splits)

lemma entry_address:
  assumes docs: "llvm_documented L funs jit"
    and addr: "function_address L (Engine k m) entryPointFuncName l = (addr, l')" "addr \<noteq> 0"
    and entry: "funs l m entryPointFuncName = Some (epf_signature b, \<lambda>args. g (map ((!) args) [first_int b, first_int b + 1]))"
  shows "c_call_ok 4 (jit l') addr (\<lambda>w x y z. if b then g [x, y] else g [y, z])"
proof -
  have "length (ft_params (epf_signature b)) \<le> 4" "list_all in_register (ft_params (epf_signature b))"
    "ft_result (epf_signature b) = IntTy 32"
    by (cases b; simp add: epf_signature_def)+
  moreover have "address_documented L funs jit" using docs by (simp add: llvm_documented_def)
  ultimately have "c_call_ok 4 (jit l') addr (\<lambda>w x y z. g (map ((!) (take (length (ft_params (epf_signature b))) [w, x, y, z]))
      [first_int b, first_int b + 1]))"
    using addr entry unfolding address_documented_def by blast
  moreover have "map ((!) (take (length (ft_params (epf_signature b))) [w, x, y, z])) [first_int b, first_int b + 1] =
      (if b then [x, y] else [y, z])" for w x y z :: word64
    by (cases b) (simp_all add: epf_signature_def numeral_2_eq_2 numeral_3_eq_3)
  ultimately show ?thesis by (simp add: if_distrib [of g])
qed

text \<open>
  The address that a successful compilation stores is that of code for the entry point: it passes
  the last two arguments of its signature to the function that was asked for.
\<close>

lemma compiled_entry_point:
  fixes s s' :: "('w, 'l) native_state"
  assumes docs: "llvm_documented L funs jit"
    and compile: "compileToFunc B V L self bitcode name flag s = (Inr p, s')" "p \<noteq> 0"
    and input: "array_read V bitcode (jvm s) = Some (bs, w)" "load_module L bs (lib s) = Some (m, l)"
      "string_read V name w = Some (str, w')"
    and found: "funs l m str = Some (int_binary, g)" "funs l m entryPointFuncName = None"
  shows "\<exists>addr s''. getFuncAddrFromCompileState p s' = (Inr addr, s'') \<and>
    c_call_ok 4 (jit (lib s')) addr (\<lambda>a b c d. if flag \<noteq> 0 then g [b, c] else g [c, d])"
proof (rule compile_returned [OF compile])
  fix c arr n m0 nm f l0 e err addr l' s1 s2 s3 s4 s5 s6 s7 s8 s9 s10 s11 s12 s13
  assume 1: "new_LLVMContext L s = (Inr c, s1)" and 2: "new_JniPrimitiveArrayPtr V bitcode s1 = (Inr arr, s2)"
    and 3: "array_size V arr s2 = (Inr n, s3)"
    and 4: "new_unique ''m'' Some (parseBitcode V L (array_get arr) n c) s3 = (Inr m0, s4)"
    and 5: "new_JniString V name s4 = (Inr nm, s5)"
    and f: "get_function L m0 (string_str nm) (lib s5) = (f, l0)" "f \<noteq> 0"
    and 6: "build_entry_point L m0 (flag \<noteq> 0) f (s5\<lparr>lib := l0\<rparr>) = (Inr (), s6)"
    and 7: "new_unique ''engine'' fst (new_engine L m0) s6 = (Inr (Some e, err), s7)"
    and addr: "function_address L e entryPointFuncName (lib s7) = (addr, l')" "addr \<noteq> 0"
    and 8: "move_unique ''engine'' (s7\<lparr>lib := l'\<rparr>) = (Inr (), s8)"
    and 9: "new_CompileState L e addr s8 = (Inr p, s9)"
    and 10: "delete_unique L ''engine'' s9 = (Inr (), s10)" and 11: "delete_JniString V nm s10 = (Inr (), s11)"
    and 12: "delete_unique L ''m'' s11 = (Inr (), s12)" and 13: "delete_JniPrimitiveArrayPtr V arr s12 = (Inr (), s13)"
    and 14: "delete_LLVMContext L c s13 = (Inr (), s')"
  obtain c' arr' n' nm' t1 t2 t3 t4 t5 where t: "new_LLVMContext L s = (Inr c', t1)"
    "new_JniPrimitiveArrayPtr V bitcode t1 = (Inr arr', t2)" "array_size V arr' t2 = (Inr n', t3)"
    "new_unique ''m'' Some (parseBitcode V L (array_get arr') n' c') t3 = (Inr m, t4)"
    "new_JniString V name t4 = (Inr nm', t5)" "string_str nm' = str" "lib t5 = l"
    using compile_run [OF input] by metis
  have "c' = c" "t1 = s1" using t(1) 1 by simp_all
  moreover from this have "arr' = arr" "t2 = s2" using t(2) 2 by simp_all
  moreover from this have "n' = n" "t3 = s3" using t(3) 3 by simp_all
  moreover from calculation have s4: "m0 = m" "t4 = s4" using t(4) 4 by simp_all
  moreover from this have s5: "string_str nm = str" "lib s5 = l" using t(5-7) 5 by simp_all
  ultimately obtain f' where "get_function L m0 (string_str nm) (lib s5) = (f', lib s5)"
    using docs unfolding llvm_documented_def lookup_documented_def by blast
  then have "l0 = l" using f(1) s5(2) by simp
  note f = f [unfolded s4(1) s5 this]
  have "build_ir L m (entry_point_ops (flag \<noteq> 0) f) l = (True, lib s6)"
    using build_entry_point_run [OF 6] s4(1) \<open>l0 = l\<close> by simp
  then have entry: "funs (lib s6) m entryPointFuncName = Some (epf_signature (flag \<noteq> 0),
      \<lambda>args. g (map ((!) args) [first_int (flag \<noteq> 0), first_int (flag \<noteq> 0) + 1]))"
    using docs f found entry_point_typed unfolding llvm_documented_def build_documented_def entry_point_forwarding by blast
  obtain k where k: "create_engine L m (lib s6) = ((k, err), lib s7)" "k \<noteq> 0" "e = Engine k m"
    "unique s7 = (unique s6)(''m'' := None, ''engine'' := Some e)"
    using new_engine_run 7 s4(1) by metis
  have "funs (lib s7) m entryPointFuncName = funs (lib s6) m entryPointFuncName"
    using docs k(1,2) unfolding llvm_documented_def engine_documented_def by blast
  note entry = this [unfolded entry]
  note call = entry_address [OF docs addr(1) [unfolded k(3)] addr(2) entry]
  have "unique s8 ''engine'' = None" "unique s8 ''m'' = None" "lib s8 = l'"
    using move_unique_run [OF 8] k(4) by simp_all
  moreover note new_CompileState_run [OF 9]
  ultimately have s9: "unique s9 ''engine'' = None" "unique s9 ''m'' = None" "lib s9 = snd (malloc L l')"
    "heap s9 p = Some \<lparr>cs_engine = e, cs_f = addr\<rparr>" by simp_all
  have "lib s13 = lib s9"
    using delete_unique_run [OF 10 s9(1)] release_run(1) [OF 11] delete_unique_run [OF 12] release_run(2) [OF 13] s9(2) by simp
  then have "lib s' = destroy L (Context c) (snd (malloc L l'))"
    using 14 s9(3) by (auto simp: delete_LLVMContext_def delete_object_run log_event_def)
  then have "jit (lib s') = jit l'" using docs by (simp add: llvm_documented_def code_stays_def)
  moreover have "heap s' p = heap s9 p"
    using effectsD [OF keeps_heap.objects(3) 10] effectsD [OF keeps_heap.helpers(4) 11] effectsD [OF keeps_heap.objects(3) 12]
      effectsD [OF keeps_heap.helpers(2) 13] effectsD [OF keeps_heap.objects(2) 14] by simp
  then have "getFuncAddrFromCompileState p s' = (Inr addr, s')"
    using s9(4) by (simp add: getFuncAddrFromCompileState_def deref_CompileState_def run_native)
  ultimately show ?thesis using call by auto
qed

end
