(* ===== verification/Jni_Mac.thy ===== *)
theory Jni_Mac
  imports Jni_Env
begin

text \<open>
  \<open>include/Mac/jni.h\<close>: the same two tables and the same inline members as the header for
  Linux, with four additions that the preprocessor makes on PowerPC targets. The tables are
  translated on their own, for every target, and compared with those of \<open>Jni_Interface\<close> and
  \<open>Jni_Env\<close>: what is compiled on one platform calls the same places on the other.
\<close>

section \<open>Targets\<close>

text \<open>The two macros that the header tests, \<open>__ppc__\<close> and \<open>TARGET_RT_MAC_CFM\<close>.\<close>

record mac_target =
  ppc :: bool
  cfm :: bool

section \<open>The native interface\<close>

definition mac_native_interface_1 :: "mac_target \<Rightarrow> slot list" where
  "mac_native_interface_1 t =
     [Reserved ''reserved0'' 1, Reserved ''reserved1'' 1, Reserved ''reserved2'' 1,
      Reserved ''reserved3'' 1] @
     (if \<not> cfm t \<and> ppc t then [Reserved ''cfm_vectors'' 225] else []) @
     [Fn ''GetVersion'' jint [Ptr JNIEnv],
      Fn ''DefineClass'' jclass [Ptr JNIEnv, Ptr (Const char_t), jobject, Ptr (Const jbyte), jsize],
      Fn ''FindClass'' jclass [Ptr JNIEnv, Ptr (Const char_t)],
      Fn ''FromReflectedMethod'' jmethodID [Ptr JNIEnv, jobject],
      Fn ''FromReflectedField'' jfieldID [Ptr JNIEnv, jobject],
      Fn ''ToReflectedMethod'' jobject [Ptr JNIEnv, jclass, jmethodID, jboolean],
      Fn ''GetSuperclass'' jclass [Ptr JNIEnv, jclass],
      Fn ''IsAssignableFrom'' jboolean [Ptr JNIEnv, jclass, jclass],
      Fn ''ToReflectedField'' jobject [Ptr JNIEnv, jclass, jfieldID, jboolean],
      Fn ''Throw'' jint [Ptr JNIEnv, jthrowable],
      Fn ''ThrowNew'' jint [Ptr JNIEnv, jclass, Ptr (Const char_t)],
      Fn ''ExceptionOccurred'' jthrowable [Ptr JNIEnv],
      Fn ''ExceptionDescribe'' void_t [Ptr JNIEnv], Fn ''ExceptionClear'' void_t [Ptr JNIEnv],
      Fn ''FatalError'' void_t [Ptr JNIEnv, Ptr (Const char_t)],
      Fn ''PushLocalFrame'' jint [Ptr JNIEnv, jint],
      Fn ''PopLocalFrame'' jobject [Ptr JNIEnv, jobject],
      Fn ''NewGlobalRef'' jobject [Ptr JNIEnv, jobject],
      Fn ''DeleteGlobalRef'' void_t [Ptr JNIEnv, jobject],
      Fn ''DeleteLocalRef'' void_t [Ptr JNIEnv, jobject],
      Fn ''IsSameObject'' jboolean [Ptr JNIEnv, jobject, jobject],
      Fn ''NewLocalRef'' jobject [Ptr JNIEnv, jobject],
      Fn ''EnsureLocalCapacity'' jint [Ptr JNIEnv, jint],
      Fn ''AllocObject'' jobject [Ptr JNIEnv, jclass],
      Variadic ''NewObject'' jobject [Ptr JNIEnv, jclass, jmethodID],
      Fn ''NewObjectV'' jobject [Ptr JNIEnv, jclass, jmethodID, va_list],
      Fn ''NewObjectA'' jobject [Ptr JNIEnv, jclass, jmethodID, Ptr (Const jvalue)],
      Fn ''GetObjectClass'' jclass [Ptr JNIEnv, jobject],
      Fn ''IsInstanceOf'' jboolean [Ptr JNIEnv, jobject, jclass],
      Fn ''GetMethodID'' jmethodID [Ptr JNIEnv, jclass, Ptr (Const char_t), Ptr (Const char_t)],
      Variadic ''CallObjectMethod'' jobject [Ptr JNIEnv, jobject, jmethodID],
      Fn ''CallObjectMethodV'' jobject [Ptr JNIEnv, jobject, jmethodID, va_list],
      Fn ''CallObjectMethodA'' jobject [Ptr JNIEnv, jobject, jmethodID, Ptr (Const jvalue)],
      Variadic ''CallBooleanMethod'' jboolean [Ptr JNIEnv, jobject, jmethodID],
      Fn ''CallBooleanMethodV'' jboolean [Ptr JNIEnv, jobject, jmethodID, va_list],
      Fn ''CallBooleanMethodA'' jboolean [Ptr JNIEnv, jobject, jmethodID, Ptr (Const jvalue)],
      Variadic ''CallByteMethod'' jbyte [Ptr JNIEnv, jobject, jmethodID],
      Fn ''CallByteMethodV'' jbyte [Ptr JNIEnv, jobject, jmethodID, va_list],
      Fn ''CallByteMethodA'' jbyte [Ptr JNIEnv, jobject, jmethodID, Ptr (Const jvalue)],
      Variadic ''CallCharMethod'' jchar [Ptr JNIEnv, jobject, jmethodID],
      Fn ''CallCharMethodV'' jchar [Ptr JNIEnv, jobject, jmethodID, va_list],
      Fn ''CallCharMethodA'' jchar [Ptr JNIEnv, jobject, jmethodID, Ptr (Const jvalue)],
      Variadic ''CallShortMethod'' jshort [Ptr JNIEnv, jobject, jmethodID],
      Fn ''CallShortMethodV'' jshort [Ptr JNIEnv, jobject, jmethodID, va_list],
      Fn ''CallShortMethodA'' jshort [Ptr JNIEnv, jobject, jmethodID, Ptr (Const jvalue)],
      Variadic ''CallIntMethod'' jint [Ptr JNIEnv, jobject, jmethodID],
      Fn ''CallIntMethodV'' jint [Ptr JNIEnv, jobject, jmethodID, va_list],
      Fn ''CallIntMethodA'' jint [Ptr JNIEnv, jobject, jmethodID, Ptr (Const jvalue)],
      Variadic ''CallLongMethod'' jlong [Ptr JNIEnv, jobject, jmethodID],
      Fn ''CallLongMethodV'' jlong [Ptr JNIEnv, jobject, jmethodID, va_list],
      Fn ''CallLongMethodA'' jlong [Ptr JNIEnv, jobject, jmethodID, Ptr (Const jvalue)],
      Variadic ''CallFloatMethod'' jfloat [Ptr JNIEnv, jobject, jmethodID],
      Fn ''CallFloatMethodV'' jfloat [Ptr JNIEnv, jobject, jmethodID, va_list],
      Fn ''CallFloatMethodA'' jfloat [Ptr JNIEnv, jobject, jmethodID, Ptr (Const jvalue)],
      Variadic ''CallDoubleMethod'' jdouble [Ptr JNIEnv, jobject, jmethodID]]"

definition mac_native_interface_2 :: "slot list" where
  "mac_native_interface_2 =
     [Fn ''CallDoubleMethodV'' jdouble [Ptr JNIEnv, jobject, jmethodID, va_list],
      Fn ''CallDoubleMethodA'' jdouble [Ptr JNIEnv, jobject, jmethodID, Ptr (Const jvalue)],
      Variadic ''CallVoidMethod'' void_t [Ptr JNIEnv, jobject, jmethodID],
      Fn ''CallVoidMethodV'' void_t [Ptr JNIEnv, jobject, jmethodID, va_list],
      Fn ''CallVoidMethodA'' void_t [Ptr JNIEnv, jobject, jmethodID, Ptr (Const jvalue)],
      Variadic ''CallNonvirtualObjectMethod'' jobject [Ptr JNIEnv, jobject, jclass, jmethodID],
      Fn ''CallNonvirtualObjectMethodV'' jobject [Ptr JNIEnv, jobject, jclass, jmethodID, va_list],
      Fn ''CallNonvirtualObjectMethodA'' jobject [Ptr JNIEnv, jobject, jclass, jmethodID, Ptr (Const jvalue)],
      Variadic ''CallNonvirtualBooleanMethod'' jboolean [Ptr JNIEnv, jobject, jclass, jmethodID],
      Fn ''CallNonvirtualBooleanMethodV'' jboolean [Ptr JNIEnv, jobject, jclass, jmethodID, va_list],
      Fn ''CallNonvirtualBooleanMethodA'' jboolean [Ptr JNIEnv, jobject, jclass, jmethodID, Ptr (Const jvalue)],
      Variadic ''CallNonvirtualByteMethod'' jbyte [Ptr JNIEnv, jobject, jclass, jmethodID],
      Fn ''CallNonvirtualByteMethodV'' jbyte [Ptr JNIEnv, jobject, jclass, jmethodID, va_list],
      Fn ''CallNonvirtualByteMethodA'' jbyte [Ptr JNIEnv, jobject, jclass, jmethodID, Ptr (Const jvalue)],
      Variadic ''CallNonvirtualCharMethod'' jchar [Ptr JNIEnv, jobject, jclass, jmethodID],
      Fn ''CallNonvirtualCharMethodV'' jchar [Ptr JNIEnv, jobject, jclass, jmethodID, va_list],
      Fn ''CallNonvirtualCharMethodA'' jchar [Ptr JNIEnv, jobject, jclass, jmethodID, Ptr (Const jvalue)],
      Variadic ''CallNonvirtualShortMethod'' jshort [Ptr JNIEnv, jobject, jclass, jmethodID],
      Fn ''CallNonvirtualShortMethodV'' jshort [Ptr JNIEnv, jobject, jclass, jmethodID, va_list],
      Fn ''CallNonvirtualShortMethodA'' jshort [Ptr JNIEnv, jobject, jclass, jmethodID, Ptr (Const jvalue)],
      Variadic ''CallNonvirtualIntMethod'' jint [Ptr JNIEnv, jobject, jclass, jmethodID],
      Fn ''CallNonvirtualIntMethodV'' jint [Ptr JNIEnv, jobject, jclass, jmethodID, va_list],
      Fn ''CallNonvirtualIntMethodA'' jint [Ptr JNIEnv, jobject, jclass, jmethodID, Ptr (Const jvalue)],
      Variadic ''CallNonvirtualLongMethod'' jlong [Ptr JNIEnv, jobject, jclass, jmethodID],
      Fn ''CallNonvirtualLongMethodV'' jlong [Ptr JNIEnv, jobject, jclass, jmethodID, va_list],
      Fn ''CallNonvirtualLongMethodA'' jlong [Ptr JNIEnv, jobject, jclass, jmethodID, Ptr (Const jvalue)],
      Variadic ''CallNonvirtualFloatMethod'' jfloat [Ptr JNIEnv, jobject, jclass, jmethodID],
      Fn ''CallNonvirtualFloatMethodV'' jfloat [Ptr JNIEnv, jobject, jclass, jmethodID, va_list],
      Fn ''CallNonvirtualFloatMethodA'' jfloat [Ptr JNIEnv, jobject, jclass, jmethodID, Ptr (Const jvalue)],
      Variadic ''CallNonvirtualDoubleMethod'' jdouble [Ptr JNIEnv, jobject, jclass, jmethodID],
      Fn ''CallNonvirtualDoubleMethodV'' jdouble [Ptr JNIEnv, jobject, jclass, jmethodID, va_list],
      Fn ''CallNonvirtualDoubleMethodA'' jdouble [Ptr JNIEnv, jobject, jclass, jmethodID, Ptr (Const jvalue)],
      Variadic ''CallNonvirtualVoidMethod'' void_t [Ptr JNIEnv, jobject, jclass, jmethodID],
      Fn ''CallNonvirtualVoidMethodV'' void_t [Ptr JNIEnv, jobject, jclass, jmethodID, va_list],
      Fn ''CallNonvirtualVoidMethodA'' void_t [Ptr JNIEnv, jobject, jclass, jmethodID, Ptr (Const jvalue)],
      Fn ''GetFieldID'' jfieldID [Ptr JNIEnv, jclass, Ptr (Const char_t), Ptr (Const char_t)],
      Fn ''GetObjectField'' jobject [Ptr JNIEnv, jobject, jfieldID],
      Fn ''GetBooleanField'' jboolean [Ptr JNIEnv, jobject, jfieldID],
      Fn ''GetByteField'' jbyte [Ptr JNIEnv, jobject, jfieldID],
      Fn ''GetCharField'' jchar [Ptr JNIEnv, jobject, jfieldID],
      Fn ''GetShortField'' jshort [Ptr JNIEnv, jobject, jfieldID],
      Fn ''GetIntField'' jint [Ptr JNIEnv, jobject, jfieldID],
      Fn ''GetLongField'' jlong [Ptr JNIEnv, jobject, jfieldID],
      Fn ''GetFloatField'' jfloat [Ptr JNIEnv, jobject, jfieldID],
      Fn ''GetDoubleField'' jdouble [Ptr JNIEnv, jobject, jfieldID],
      Fn ''SetObjectField'' void_t [Ptr JNIEnv, jobject, jfieldID, jobject],
      Fn ''SetBooleanField'' void_t [Ptr JNIEnv, jobject, jfieldID, jboolean],
      Fn ''SetByteField'' void_t [Ptr JNIEnv, jobject, jfieldID, jbyte],
      Fn ''SetCharField'' void_t [Ptr JNIEnv, jobject, jfieldID, jchar],
      Fn ''SetShortField'' void_t [Ptr JNIEnv, jobject, jfieldID, jshort],
      Fn ''SetIntField'' void_t [Ptr JNIEnv, jobject, jfieldID, jint],
      Fn ''SetLongField'' void_t [Ptr JNIEnv, jobject, jfieldID, jlong],
      Fn ''SetFloatField'' void_t [Ptr JNIEnv, jobject, jfieldID, jfloat]]"

definition mac_native_interface_3 :: "slot list" where
  "mac_native_interface_3 =
     [Fn ''SetDoubleField'' void_t [Ptr JNIEnv, jobject, jfieldID, jdouble],
      Fn ''GetStaticMethodID'' jmethodID [Ptr JNIEnv, jclass, Ptr (Const char_t), Ptr (Const char_t)],
      Variadic ''CallStaticObjectMethod'' jobject [Ptr JNIEnv, jclass, jmethodID],
      Fn ''CallStaticObjectMethodV'' jobject [Ptr JNIEnv, jclass, jmethodID, va_list],
      Fn ''CallStaticObjectMethodA'' jobject [Ptr JNIEnv, jclass, jmethodID, Ptr (Const jvalue)],
      Variadic ''CallStaticBooleanMethod'' jboolean [Ptr JNIEnv, jclass, jmethodID],
      Fn ''CallStaticBooleanMethodV'' jboolean [Ptr JNIEnv, jclass, jmethodID, va_list],
      Fn ''CallStaticBooleanMethodA'' jboolean [Ptr JNIEnv, jclass, jmethodID, Ptr (Const jvalue)],
      Variadic ''CallStaticByteMethod'' jbyte [Ptr JNIEnv, jclass, jmethodID],
      Fn ''CallStaticByteMethodV'' jbyte [Ptr JNIEnv, jclass, jmethodID, va_list],
      Fn ''CallStaticByteMethodA'' jbyte [Ptr JNIEnv, jclass, jmethodID, Ptr (Const jvalue)],
      Variadic ''CallStaticCharMethod'' jchar [Ptr JNIEnv, jclass, jmethodID],
      Fn ''CallStaticCharMethodV'' jchar [Ptr JNIEnv, jclass, jmethodID, va_list],
      Fn ''CallStaticCharMethodA'' jchar [Ptr JNIEnv, jclass, jmethodID, Ptr (Const jvalue)],
      Variadic ''CallStaticShortMethod'' jshort [Ptr JNIEnv, jclass, jmethodID],
      Fn ''CallStaticShortMethodV'' jshort [Ptr JNIEnv, jclass, jmethodID, va_list],
      Fn ''CallStaticShortMethodA'' jshort [Ptr JNIEnv, jclass, jmethodID, Ptr (Const jvalue)],
      Variadic ''CallStaticIntMethod'' jint [Ptr JNIEnv, jclass, jmethodID],
      Fn ''CallStaticIntMethodV'' jint [Ptr JNIEnv, jclass, jmethodID, va_list],
      Fn ''CallStaticIntMethodA'' jint [Ptr JNIEnv, jclass, jmethodID, Ptr (Const jvalue)],
      Variadic ''CallStaticLongMethod'' jlong [Ptr JNIEnv, jclass, jmethodID],
      Fn ''CallStaticLongMethodV'' jlong [Ptr JNIEnv, jclass, jmethodID, va_list],
      Fn ''CallStaticLongMethodA'' jlong [Ptr JNIEnv, jclass, jmethodID, Ptr (Const jvalue)],
      Variadic ''CallStaticFloatMethod'' jfloat [Ptr JNIEnv, jclass, jmethodID],
      Fn ''CallStaticFloatMethodV'' jfloat [Ptr JNIEnv, jclass, jmethodID, va_list],
      Fn ''CallStaticFloatMethodA'' jfloat [Ptr JNIEnv, jclass, jmethodID, Ptr (Const jvalue)],
      Variadic ''CallStaticDoubleMethod'' jdouble [Ptr JNIEnv, jclass, jmethodID],
      Fn ''CallStaticDoubleMethodV'' jdouble [Ptr JNIEnv, jclass, jmethodID, va_list],
      Fn ''CallStaticDoubleMethodA'' jdouble [Ptr JNIEnv, jclass, jmethodID, Ptr (Const jvalue)],
      Variadic ''CallStaticVoidMethod'' void_t [Ptr JNIEnv, jclass, jmethodID],
      Fn ''CallStaticVoidMethodV'' void_t [Ptr JNIEnv, jclass, jmethodID, va_list],
      Fn ''CallStaticVoidMethodA'' void_t [Ptr JNIEnv, jclass, jmethodID, Ptr (Const jvalue)],
      Fn ''GetStaticFieldID'' jfieldID [Ptr JNIEnv, jclass, Ptr (Const char_t), Ptr (Const char_t)],
      Fn ''GetStaticObjectField'' jobject [Ptr JNIEnv, jclass, jfieldID],
      Fn ''GetStaticBooleanField'' jboolean [Ptr JNIEnv, jclass, jfieldID],
      Fn ''GetStaticByteField'' jbyte [Ptr JNIEnv, jclass, jfieldID],
      Fn ''GetStaticCharField'' jchar [Ptr JNIEnv, jclass, jfieldID],
      Fn ''GetStaticShortField'' jshort [Ptr JNIEnv, jclass, jfieldID],
      Fn ''GetStaticIntField'' jint [Ptr JNIEnv, jclass, jfieldID],
      Fn ''GetStaticLongField'' jlong [Ptr JNIEnv, jclass, jfieldID],
      Fn ''GetStaticFloatField'' jfloat [Ptr JNIEnv, jclass, jfieldID],
      Fn ''GetStaticDoubleField'' jdouble [Ptr JNIEnv, jclass, jfieldID],
      Fn ''SetStaticObjectField'' void_t [Ptr JNIEnv, jclass, jfieldID, jobject],
      Fn ''SetStaticBooleanField'' void_t [Ptr JNIEnv, jclass, jfieldID, jboolean],
      Fn ''SetStaticByteField'' void_t [Ptr JNIEnv, jclass, jfieldID, jbyte],
      Fn ''SetStaticCharField'' void_t [Ptr JNIEnv, jclass, jfieldID, jchar],
      Fn ''SetStaticShortField'' void_t [Ptr JNIEnv, jclass, jfieldID, jshort],
      Fn ''SetStaticIntField'' void_t [Ptr JNIEnv, jclass, jfieldID, jint],
      Fn ''SetStaticLongField'' void_t [Ptr JNIEnv, jclass, jfieldID, jlong],
      Fn ''SetStaticFloatField'' void_t [Ptr JNIEnv, jclass, jfieldID, jfloat],
      Fn ''SetStaticDoubleField'' void_t [Ptr JNIEnv, jclass, jfieldID, jdouble],
      Fn ''NewString'' jstring [Ptr JNIEnv, Ptr (Const jchar), jsize],
      Fn ''GetStringLength'' jsize [Ptr JNIEnv, jstring],
      Fn ''GetStringChars'' (Ptr (Const jchar)) [Ptr JNIEnv, jstring, Ptr jboolean],
      Fn ''ReleaseStringChars'' void_t [Ptr JNIEnv, jstring, Ptr (Const jchar)],
      Fn ''NewStringUTF'' jstring [Ptr JNIEnv, Ptr (Const char_t)],
      Fn ''GetStringUTFLength'' jsize [Ptr JNIEnv, jstring],
      Fn ''GetStringUTFChars'' (Ptr (Const char_t)) [Ptr JNIEnv, jstring, Ptr jboolean],
      Fn ''ReleaseStringUTFChars'' void_t [Ptr JNIEnv, jstring, Ptr (Const char_t)],
      Fn ''GetArrayLength'' jsize [Ptr JNIEnv, jarray],
      Fn ''NewObjectArray'' jobjectArray [Ptr JNIEnv, jsize, jclass, jobject]]"

definition mac_native_interface_4 :: "mac_target \<Rightarrow> slot list" where
  "mac_native_interface_4 t =
     [Fn ''GetObjectArrayElement'' jobject [Ptr JNIEnv, jobjectArray, jsize],
      Fn ''SetObjectArrayElement'' void_t [Ptr JNIEnv, jobjectArray, jsize, jobject],
      Fn ''NewBooleanArray'' jbooleanArray [Ptr JNIEnv, jsize],
      Fn ''NewByteArray'' jbyteArray [Ptr JNIEnv, jsize],
      Fn ''NewCharArray'' jcharArray [Ptr JNIEnv, jsize],
      Fn ''NewShortArray'' jshortArray [Ptr JNIEnv, jsize],
      Fn ''NewIntArray'' jintArray [Ptr JNIEnv, jsize],
      Fn ''NewLongArray'' jlongArray [Ptr JNIEnv, jsize],
      Fn ''NewFloatArray'' jfloatArray [Ptr JNIEnv, jsize],
      Fn ''NewDoubleArray'' jdoubleArray [Ptr JNIEnv, jsize],
      Fn ''GetBooleanArrayElements'' (Ptr jboolean) [Ptr JNIEnv, jbooleanArray, Ptr jboolean],
      Fn ''GetByteArrayElements'' (Ptr jbyte) [Ptr JNIEnv, jbyteArray, Ptr jboolean],
      Fn ''GetCharArrayElements'' (Ptr jchar) [Ptr JNIEnv, jcharArray, Ptr jboolean],
      Fn ''GetShortArrayElements'' (Ptr jshort) [Ptr JNIEnv, jshortArray, Ptr jboolean],
      Fn ''GetIntArrayElements'' (Ptr jint) [Ptr JNIEnv, jintArray, Ptr jboolean],
      Fn ''GetLongArrayElements'' (Ptr jlong) [Ptr JNIEnv, jlongArray, Ptr jboolean],
      Fn ''GetFloatArrayElements'' (Ptr jfloat) [Ptr JNIEnv, jfloatArray, Ptr jboolean],
      Fn ''GetDoubleArrayElements'' (Ptr jdouble) [Ptr JNIEnv, jdoubleArray, Ptr jboolean],
      Fn ''ReleaseBooleanArrayElements'' void_t [Ptr JNIEnv, jbooleanArray, Ptr jboolean, jint],
      Fn ''ReleaseByteArrayElements'' void_t [Ptr JNIEnv, jbyteArray, Ptr jbyte, jint],
      Fn ''ReleaseCharArrayElements'' void_t [Ptr JNIEnv, jcharArray, Ptr jchar, jint],
      Fn ''ReleaseShortArrayElements'' void_t [Ptr JNIEnv, jshortArray, Ptr jshort, jint],
      Fn ''ReleaseIntArrayElements'' void_t [Ptr JNIEnv, jintArray, Ptr jint, jint],
      Fn ''ReleaseLongArrayElements'' void_t [Ptr JNIEnv, jlongArray, Ptr jlong, jint],
      Fn ''ReleaseFloatArrayElements'' void_t [Ptr JNIEnv, jfloatArray, Ptr jfloat, jint],
      Fn ''ReleaseDoubleArrayElements'' void_t [Ptr JNIEnv, jdoubleArray, Ptr jdouble, jint],
      Fn ''GetBooleanArrayRegion'' void_t [Ptr JNIEnv, jbooleanArray, jsize, jsize, Ptr jboolean],
      Fn ''GetByteArrayRegion'' void_t [Ptr JNIEnv, jbyteArray, jsize, jsize, Ptr jbyte],
      Fn ''GetCharArrayRegion'' void_t [Ptr JNIEnv, jcharArray, jsize, jsize, Ptr jchar],
      Fn ''GetShortArrayRegion'' void_t [Ptr JNIEnv, jshortArray, jsize, jsize, Ptr jshort],
      Fn ''GetIntArrayRegion'' void_t [Ptr JNIEnv, jintArray, jsize, jsize, Ptr jint],
      Fn ''GetLongArrayRegion'' void_t [Ptr JNIEnv, jlongArray, jsize, jsize, Ptr jlong],
      Fn ''GetFloatArrayRegion'' void_t [Ptr JNIEnv, jfloatArray, jsize, jsize, Ptr jfloat],
      Fn ''GetDoubleArrayRegion'' void_t [Ptr JNIEnv, jdoubleArray, jsize, jsize, Ptr jdouble],
      Fn ''SetBooleanArrayRegion'' void_t [Ptr JNIEnv, jbooleanArray, jsize, jsize, Ptr (Const jboolean)],
      Fn ''SetByteArrayRegion'' void_t [Ptr JNIEnv, jbyteArray, jsize, jsize, Ptr (Const jbyte)],
      Fn ''SetCharArrayRegion'' void_t [Ptr JNIEnv, jcharArray, jsize, jsize, Ptr (Const jchar)],
      Fn ''SetShortArrayRegion'' void_t [Ptr JNIEnv, jshortArray, jsize, jsize, Ptr (Const jshort)],
      Fn ''SetIntArrayRegion'' void_t [Ptr JNIEnv, jintArray, jsize, jsize, Ptr (Const jint)],
      Fn ''SetLongArrayRegion'' void_t [Ptr JNIEnv, jlongArray, jsize, jsize, Ptr (Const jlong)],
      Fn ''SetFloatArrayRegion'' void_t [Ptr JNIEnv, jfloatArray, jsize, jsize, Ptr (Const jfloat)],
      Fn ''SetDoubleArrayRegion'' void_t [Ptr JNIEnv, jdoubleArray, jsize, jsize, Ptr (Const jdouble)],
      Fn ''RegisterNatives'' jint [Ptr JNIEnv, jclass, Ptr (Const JNINativeMethod), jint],
      Fn ''UnregisterNatives'' jint [Ptr JNIEnv, jclass],
      Fn ''MonitorEnter'' jint [Ptr JNIEnv, jobject],
      Fn ''MonitorExit'' jint [Ptr JNIEnv, jobject],
      Fn ''GetJavaVM'' jint [Ptr JNIEnv, Ptr (Ptr JavaVM)],
      Fn ''GetStringRegion'' void_t [Ptr JNIEnv, jstring, jsize, jsize, Ptr jchar],
      Fn ''GetStringUTFRegion'' void_t [Ptr JNIEnv, jstring, jsize, jsize, Ptr char_t],
      Fn ''GetPrimitiveArrayCritical'' (Ptr void_t) [Ptr JNIEnv, jarray, Ptr jboolean],
      Fn ''ReleasePrimitiveArrayCritical'' void_t [Ptr JNIEnv, jarray, Ptr void_t, jint],
      Fn ''GetStringCritical'' (Ptr (Const jchar)) [Ptr JNIEnv, jstring, Ptr jboolean],
      Fn ''ReleaseStringCritical'' void_t [Ptr JNIEnv, jstring, Ptr (Const jchar)],
      Fn ''NewWeakGlobalRef'' jweak [Ptr JNIEnv, jobject],
      Fn ''DeleteWeakGlobalRef'' void_t [Ptr JNIEnv, jweak],
      Fn ''ExceptionCheck'' jboolean [Ptr JNIEnv],
      Fn ''NewDirectByteBuffer'' jobject [Ptr JNIEnv, Ptr void_t, jlong],
      Fn ''GetDirectBufferAddress'' (Ptr void_t) [Ptr JNIEnv, jobject],
      Fn ''GetDirectBufferCapacity'' jlong [Ptr JNIEnv, jobject],
      Fn ''GetObjectRefType'' jobjectRefType [Ptr JNIEnv, jobject]] @
     (if cfm t \<and> ppc t then [Reserved ''real_functions'' 228] else [])"

definition mac_JNINativeInterface :: "mac_target \<Rightarrow> slot list" where
  "mac_JNINativeInterface t = mac_native_interface_1 t @ mac_native_interface_2 @
     mac_native_interface_3 @ mac_native_interface_4 t"

section \<open>The invocation interface\<close>

definition mac_JNIInvokeInterface :: "mac_target \<Rightarrow> slot list" where
  "mac_JNIInvokeInterface t =
     [Reserved ''reserved0'' 1, Reserved ''reserved1'' 1, Reserved ''reserved2'' 1] @
     (if \<not> cfm t \<and> ppc t then [Reserved ''cfm_vectors'' 4] else []) @
     [Fn ''DestroyJavaVM'' jint [Ptr JavaVM],
      Fn ''AttachCurrentThread'' jint [Ptr JavaVM, Ptr (Ptr void_t), Ptr void_t],
      Fn ''DetachCurrentThread'' jint [Ptr JavaVM],
      Fn ''GetEnv'' jint [Ptr JavaVM, Ptr (Ptr void_t), jint],
      Fn ''AttachCurrentThreadAsDaemon'' jint [Ptr JavaVM, Ptr (Ptr void_t), Ptr void_t]] @
     (if cfm t \<and> ppc t then [Reserved ''real_functions'' 5] else [])"

section \<open>The members of the environment\<close>

definition mac_env_members_1 :: "cmember list" where
  "mac_env_members_1 = [
     Member ''GetVersion'' jint [] False [ReturnCall ''GetVersion'' [''this'']],
     Member ''DefineClass'' jclass [(Ptr (Const char_t), ''name''), (jobject, ''loader''),
       (Ptr (Const jbyte), ''buf''), (jsize, ''len'')]
       False [ReturnCall ''DefineClass'' [''this'', ''name'', ''loader'', ''buf'', ''len'']],
     Member ''FindClass'' jclass [(Ptr (Const char_t), ''name'')]
       False [ReturnCall ''FindClass'' [''this'', ''name'']],
     Member ''FromReflectedMethod'' jmethodID [(jobject, ''method'')]
       False [ReturnCall ''FromReflectedMethod'' [''this'', ''method'']],
     Member ''FromReflectedField'' jfieldID [(jobject, ''field'')]
       False [ReturnCall ''FromReflectedField'' [''this'', ''field'']],
     Member ''ToReflectedMethod'' jobject [(jclass, ''cls''), (jmethodID, ''methodID''),
       (jboolean, ''isStatic'')] False [ReturnCall ''ToReflectedMethod'' [''this'', ''cls'',
       ''methodID'', ''isStatic'']],
     Member ''GetSuperclass'' jclass [(jclass, ''sub'')]
       False [ReturnCall ''GetSuperclass'' [''this'', ''sub'']],
     Member ''IsAssignableFrom'' jboolean [(jclass, ''sub''), (jclass, ''sup'')]
       False [ReturnCall ''IsAssignableFrom'' [''this'', ''sub'', ''sup'']],
     Member ''ToReflectedField'' jobject [(jclass, ''cls''), (jfieldID, ''fieldID''), (jboolean,
       ''isStatic'')] False [ReturnCall ''ToReflectedField'' [''this'', ''cls'', ''fieldID'',
       ''isStatic'']],
     Member ''Throw'' jint [(jthrowable, ''obj'')] False [ReturnCall ''Throw'' [''this'',
       ''obj'']],
     Member ''ThrowNew'' jint [(jclass, ''clazz''), (Ptr (Const char_t), ''msg'')]
       False [ReturnCall ''ThrowNew'' [''this'', ''clazz'', ''msg'']],
     Member ''ExceptionOccurred'' jthrowable []
       False [ReturnCall ''ExceptionOccurred'' [''this'']],
     Member ''ExceptionDescribe'' void_t [] False [Call ''ExceptionDescribe'' [''this'']],
     Member ''ExceptionClear'' void_t [] False [Call ''ExceptionClear'' [''this'']],
     Member ''FatalError'' void_t [(Ptr (Const char_t), ''msg'')]
       False [Call ''FatalError'' [''this'', ''msg'']],
     Member ''PushLocalFrame'' jint [(jint, ''capacity'')]
       False [ReturnCall ''PushLocalFrame'' [''this'', ''capacity'']],
     Member ''PopLocalFrame'' jobject [(jobject, ''result'')]
       False [ReturnCall ''PopLocalFrame'' [''this'', ''result'']],
     Member ''NewGlobalRef'' jobject [(jobject, ''lobj'')]
       False [ReturnCall ''NewGlobalRef'' [''this'', ''lobj'']],
     Member ''DeleteGlobalRef'' void_t [(jobject, ''gref'')]
       False [Call ''DeleteGlobalRef'' [''this'', ''gref'']],
     Member ''DeleteLocalRef'' void_t [(jobject, ''obj'')]
       False [Call ''DeleteLocalRef'' [''this'', ''obj'']],
     Member ''IsSameObject'' jboolean [(jobject, ''obj1''), (jobject, ''obj2'')]
       False [ReturnCall ''IsSameObject'' [''this'', ''obj1'', ''obj2'']],
     Member ''NewLocalRef'' jobject [(jobject, ''ref'')]
       False [ReturnCall ''NewLocalRef'' [''this'', ''ref'']],
     Member ''EnsureLocalCapacity'' jint [(jint, ''capacity'')]
       False [ReturnCall ''EnsureLocalCapacity'' [''this'', ''capacity'']],
     Member ''AllocObject'' jobject [(jclass, ''clazz'')]
       False [ReturnCall ''AllocObject'' [''this'', ''clazz'']],
     Member ''NewObject'' jobject [(jclass, ''clazz''), (jmethodID, ''methodID'')]
       True [VaDecl ''args'', VarDecl jobject ''result'', VaStart ''args'' ''methodID'',
       AssignCall ''result'' ''NewObjectV'' [''this'', ''clazz'', ''methodID'', ''args''],
       VaEnd ''args'', Return ''result''],
     Member ''NewObjectV'' jobject [(jclass, ''clazz''), (jmethodID, ''methodID''), (va_list,
       ''args'')] False [ReturnCall ''NewObjectV'' [''this'', ''clazz'', ''methodID'', ''args'']],
     Member ''NewObjectA'' jobject [(jclass, ''clazz''), (jmethodID, ''methodID''),
       (Ptr (Const jvalue), ''args'')] False [ReturnCall ''NewObjectA'' [''this'', ''clazz'',
       ''methodID'', ''args'']],
     Member ''GetObjectClass'' jclass [(jobject, ''obj'')]
       False [ReturnCall ''GetObjectClass'' [''this'', ''obj'']],
     Member ''IsInstanceOf'' jboolean [(jobject, ''obj''), (jclass, ''clazz'')]
       False [ReturnCall ''IsInstanceOf'' [''this'', ''obj'', ''clazz'']],
     Member ''GetMethodID'' jmethodID [(jclass, ''clazz''), (Ptr (Const char_t), ''name''),
       (Ptr (Const char_t), ''sig'')] False [ReturnCall ''GetMethodID'' [''this'', ''clazz'',
       ''name'', ''sig'']],
     Member ''CallObjectMethod'' jobject [(jobject, ''obj''), (jmethodID, ''methodID'')]
       True [VaDecl ''args'', VarDecl jobject ''result'', VaStart ''args'' ''methodID'',
       AssignCall ''result'' ''CallObjectMethodV'' [''this'', ''obj'', ''methodID'', ''args''],
       VaEnd ''args'', Return ''result''],
     Member ''CallObjectMethodV'' jobject [(jobject, ''obj''), (jmethodID, ''methodID''),
       (va_list, ''args'')] False [ReturnCall ''CallObjectMethodV'' [''this'', ''obj'',
       ''methodID'', ''args'']],
     Member ''CallObjectMethodA'' jobject [(jobject, ''obj''), (jmethodID, ''methodID''),
       (Ptr (Const jvalue), ''args'')] False [ReturnCall ''CallObjectMethodA'' [''this'', ''obj'',
       ''methodID'', ''args'']],
     Member ''CallBooleanMethod'' jboolean [(jobject, ''obj''), (jmethodID, ''methodID'')]
       True [VaDecl ''args'', VarDecl jboolean ''result'', VaStart ''args'' ''methodID'',
       AssignCall ''result'' ''CallBooleanMethodV'' [''this'', ''obj'', ''methodID'', ''args''],
       VaEnd ''args'', Return ''result'']]"

definition mac_env_members_2 :: "cmember list" where
  "mac_env_members_2 = [
     Member ''CallBooleanMethodV'' jboolean [(jobject, ''obj''), (jmethodID, ''methodID''),
       (va_list, ''args'')] False [ReturnCall ''CallBooleanMethodV'' [''this'', ''obj'',
       ''methodID'', ''args'']],
     Member ''CallBooleanMethodA'' jboolean [(jobject, ''obj''), (jmethodID, ''methodID''),
       (Ptr (Const jvalue), ''args'')] False [ReturnCall ''CallBooleanMethodA'' [''this'',
       ''obj'', ''methodID'', ''args'']],
     Member ''CallByteMethod'' jbyte [(jobject, ''obj''), (jmethodID, ''methodID'')]
       True [VaDecl ''args'', VarDecl jbyte ''result'', VaStart ''args'' ''methodID'',
       AssignCall ''result'' ''CallByteMethodV'' [''this'', ''obj'', ''methodID'', ''args''],
       VaEnd ''args'', Return ''result''],
     Member ''CallByteMethodV'' jbyte [(jobject, ''obj''), (jmethodID, ''methodID''), (va_list,
       ''args'')] False [ReturnCall ''CallByteMethodV'' [''this'', ''obj'', ''methodID'',
       ''args'']],
     Member ''CallByteMethodA'' jbyte [(jobject, ''obj''), (jmethodID, ''methodID''),
       (Ptr (Const jvalue), ''args'')] False [ReturnCall ''CallByteMethodA'' [''this'', ''obj'',
       ''methodID'', ''args'']],
     Member ''CallCharMethod'' jchar [(jobject, ''obj''), (jmethodID, ''methodID'')]
       True [VaDecl ''args'', VarDecl jchar ''result'', VaStart ''args'' ''methodID'',
       AssignCall ''result'' ''CallCharMethodV'' [''this'', ''obj'', ''methodID'', ''args''],
       VaEnd ''args'', Return ''result''],
     Member ''CallCharMethodV'' jchar [(jobject, ''obj''), (jmethodID, ''methodID''), (va_list,
       ''args'')] False [ReturnCall ''CallCharMethodV'' [''this'', ''obj'', ''methodID'',
       ''args'']],
     Member ''CallCharMethodA'' jchar [(jobject, ''obj''), (jmethodID, ''methodID''),
       (Ptr (Const jvalue), ''args'')] False [ReturnCall ''CallCharMethodA'' [''this'', ''obj'',
       ''methodID'', ''args'']],
     Member ''CallShortMethod'' jshort [(jobject, ''obj''), (jmethodID, ''methodID'')]
       True [VaDecl ''args'', VarDecl jshort ''result'', VaStart ''args'' ''methodID'',
       AssignCall ''result'' ''CallShortMethodV'' [''this'', ''obj'', ''methodID'', ''args''],
       VaEnd ''args'', Return ''result''],
     Member ''CallShortMethodV'' jshort [(jobject, ''obj''), (jmethodID, ''methodID''), (va_list,
       ''args'')] False [ReturnCall ''CallShortMethodV'' [''this'', ''obj'', ''methodID'',
       ''args'']],
     Member ''CallShortMethodA'' jshort [(jobject, ''obj''), (jmethodID, ''methodID''),
       (Ptr (Const jvalue), ''args'')] False [ReturnCall ''CallShortMethodA'' [''this'', ''obj'',
       ''methodID'', ''args'']],
     Member ''CallIntMethod'' jint [(jobject, ''obj''), (jmethodID, ''methodID'')]
       True [VaDecl ''args'', VarDecl jint ''result'', VaStart ''args'' ''methodID'',
       AssignCall ''result'' ''CallIntMethodV'' [''this'', ''obj'', ''methodID'', ''args''],
       VaEnd ''args'', Return ''result''],
     Member ''CallIntMethodV'' jint [(jobject, ''obj''), (jmethodID, ''methodID''), (va_list,
       ''args'')] False [ReturnCall ''CallIntMethodV'' [''this'', ''obj'', ''methodID'',
       ''args'']],
     Member ''CallIntMethodA'' jint [(jobject, ''obj''), (jmethodID, ''methodID''),
       (Ptr (Const jvalue), ''args'')] False [ReturnCall ''CallIntMethodA'' [''this'', ''obj'',
       ''methodID'', ''args'']],
     Member ''CallLongMethod'' jlong [(jobject, ''obj''), (jmethodID, ''methodID'')]
       True [VaDecl ''args'', VarDecl jlong ''result'', VaStart ''args'' ''methodID'',
       AssignCall ''result'' ''CallLongMethodV'' [''this'', ''obj'', ''methodID'', ''args''],
       VaEnd ''args'', Return ''result''],
     Member ''CallLongMethodV'' jlong [(jobject, ''obj''), (jmethodID, ''methodID''), (va_list,
       ''args'')] False [ReturnCall ''CallLongMethodV'' [''this'', ''obj'', ''methodID'',
       ''args'']],
     Member ''CallLongMethodA'' jlong [(jobject, ''obj''), (jmethodID, ''methodID''),
       (Ptr (Const jvalue), ''args'')] False [ReturnCall ''CallLongMethodA'' [''this'', ''obj'',
       ''methodID'', ''args'']],
     Member ''CallFloatMethod'' jfloat [(jobject, ''obj''), (jmethodID, ''methodID'')]
       True [VaDecl ''args'', VarDecl jfloat ''result'', VaStart ''args'' ''methodID'',
       AssignCall ''result'' ''CallFloatMethodV'' [''this'', ''obj'', ''methodID'', ''args''],
       VaEnd ''args'', Return ''result''],
     Member ''CallFloatMethodV'' jfloat [(jobject, ''obj''), (jmethodID, ''methodID''), (va_list,
       ''args'')] False [ReturnCall ''CallFloatMethodV'' [''this'', ''obj'', ''methodID'',
       ''args'']],
     Member ''CallFloatMethodA'' jfloat [(jobject, ''obj''), (jmethodID, ''methodID''),
       (Ptr (Const jvalue), ''args'')] False [ReturnCall ''CallFloatMethodA'' [''this'', ''obj'',
       ''methodID'', ''args'']],
     Member ''CallDoubleMethod'' jdouble [(jobject, ''obj''), (jmethodID, ''methodID'')]
       True [VaDecl ''args'', VarDecl jdouble ''result'', VaStart ''args'' ''methodID'',
       AssignCall ''result'' ''CallDoubleMethodV'' [''this'', ''obj'', ''methodID'', ''args''],
       VaEnd ''args'', Return ''result''],
     Member ''CallDoubleMethodV'' jdouble [(jobject, ''obj''), (jmethodID, ''methodID''),
       (va_list, ''args'')] False [ReturnCall ''CallDoubleMethodV'' [''this'', ''obj'',
       ''methodID'', ''args'']],
     Member ''CallDoubleMethodA'' jdouble [(jobject, ''obj''), (jmethodID, ''methodID''),
       (Ptr (Const jvalue), ''args'')] False [ReturnCall ''CallDoubleMethodA'' [''this'', ''obj'',
       ''methodID'', ''args'']],
     Member ''CallVoidMethod'' void_t [(jobject, ''obj''), (jmethodID, ''methodID'')]
       True [VaDecl ''args'', VaStart ''args'' ''methodID'', Call ''CallVoidMethodV'' [''this'',
       ''obj'', ''methodID'', ''args''], VaEnd ''args''],
     Member ''CallVoidMethodV'' void_t [(jobject, ''obj''), (jmethodID, ''methodID''), (va_list,
       ''args'')] False [Call ''CallVoidMethodV'' [''this'', ''obj'', ''methodID'', ''args'']]]"

definition mac_env_members_3 :: "cmember list" where
  "mac_env_members_3 = [
     Member ''CallVoidMethodA'' void_t [(jobject, ''obj''), (jmethodID, ''methodID''),
       (Ptr (Const jvalue), ''args'')] False [Call ''CallVoidMethodA'' [''this'', ''obj'',
       ''methodID'', ''args'']],
     Member ''CallNonvirtualObjectMethod'' jobject [(jobject, ''obj''), (jclass, ''clazz''),
       (jmethodID, ''methodID'')] True [VaDecl ''args'', VarDecl jobject ''result'',
       VaStart ''args'' ''methodID'',
       AssignCall ''result'' ''CallNonvirtualObjectMethodV'' [''this'', ''obj'', ''clazz'',
       ''methodID'', ''args''], VaEnd ''args'', Return ''result''],
     Member ''CallNonvirtualObjectMethodV'' jobject [(jobject, ''obj''), (jclass, ''clazz''),
       (jmethodID, ''methodID''), (va_list, ''args'')]
       False [ReturnCall ''CallNonvirtualObjectMethodV'' [''this'', ''obj'', ''clazz'',
       ''methodID'', ''args'']],
     Member ''CallNonvirtualObjectMethodA'' jobject [(jobject, ''obj''), (jclass, ''clazz''),
       (jmethodID, ''methodID''), (Ptr (Const jvalue), ''args'')]
       False [ReturnCall ''CallNonvirtualObjectMethodA'' [''this'', ''obj'', ''clazz'',
       ''methodID'', ''args'']],
     Member ''CallNonvirtualBooleanMethod'' jboolean [(jobject, ''obj''), (jclass, ''clazz''),
       (jmethodID, ''methodID'')] True [VaDecl ''args'', VarDecl jboolean ''result'',
       VaStart ''args'' ''methodID'',
       AssignCall ''result'' ''CallNonvirtualBooleanMethodV'' [''this'', ''obj'', ''clazz'',
       ''methodID'', ''args''], VaEnd ''args'', Return ''result''],
     Member ''CallNonvirtualBooleanMethodV'' jboolean [(jobject, ''obj''), (jclass, ''clazz''),
       (jmethodID, ''methodID''), (va_list, ''args'')]
       False [ReturnCall ''CallNonvirtualBooleanMethodV'' [''this'', ''obj'', ''clazz'',
       ''methodID'', ''args'']],
     Member ''CallNonvirtualBooleanMethodA'' jboolean [(jobject, ''obj''), (jclass, ''clazz''),
       (jmethodID, ''methodID''), (Ptr (Const jvalue), ''args'')]
       False [ReturnCall ''CallNonvirtualBooleanMethodA'' [''this'', ''obj'', ''clazz'',
       ''methodID'', ''args'']],
     Member ''CallNonvirtualByteMethod'' jbyte [(jobject, ''obj''), (jclass, ''clazz''),
       (jmethodID, ''methodID'')] True [VaDecl ''args'', VarDecl jbyte ''result'',
       VaStart ''args'' ''methodID'',
       AssignCall ''result'' ''CallNonvirtualByteMethodV'' [''this'', ''obj'', ''clazz'',
       ''methodID'', ''args''], VaEnd ''args'', Return ''result''],
     Member ''CallNonvirtualByteMethodV'' jbyte [(jobject, ''obj''), (jclass, ''clazz''),
       (jmethodID, ''methodID''), (va_list, ''args'')]
       False [ReturnCall ''CallNonvirtualByteMethodV'' [''this'', ''obj'', ''clazz'',
       ''methodID'', ''args'']],
     Member ''CallNonvirtualByteMethodA'' jbyte [(jobject, ''obj''), (jclass, ''clazz''),
       (jmethodID, ''methodID''), (Ptr (Const jvalue), ''args'')]
       False [ReturnCall ''CallNonvirtualByteMethodA'' [''this'', ''obj'', ''clazz'',
       ''methodID'', ''args'']],
     Member ''CallNonvirtualCharMethod'' jchar [(jobject, ''obj''), (jclass, ''clazz''),
       (jmethodID, ''methodID'')] True [VaDecl ''args'', VarDecl jchar ''result'',
       VaStart ''args'' ''methodID'',
       AssignCall ''result'' ''CallNonvirtualCharMethodV'' [''this'', ''obj'', ''clazz'',
       ''methodID'', ''args''], VaEnd ''args'', Return ''result''],
     Member ''CallNonvirtualCharMethodV'' jchar [(jobject, ''obj''), (jclass, ''clazz''),
       (jmethodID, ''methodID''), (va_list, ''args'')]
       False [ReturnCall ''CallNonvirtualCharMethodV'' [''this'', ''obj'', ''clazz'',
       ''methodID'', ''args'']],
     Member ''CallNonvirtualCharMethodA'' jchar [(jobject, ''obj''), (jclass, ''clazz''),
       (jmethodID, ''methodID''), (Ptr (Const jvalue), ''args'')]
       False [ReturnCall ''CallNonvirtualCharMethodA'' [''this'', ''obj'', ''clazz'',
       ''methodID'', ''args'']],
     Member ''CallNonvirtualShortMethod'' jshort [(jobject, ''obj''), (jclass, ''clazz''),
       (jmethodID, ''methodID'')] True [VaDecl ''args'', VarDecl jshort ''result'',
       VaStart ''args'' ''methodID'',
       AssignCall ''result'' ''CallNonvirtualShortMethodV'' [''this'', ''obj'', ''clazz'',
       ''methodID'', ''args''], VaEnd ''args'', Return ''result''],
     Member ''CallNonvirtualShortMethodV'' jshort [(jobject, ''obj''), (jclass, ''clazz''),
       (jmethodID, ''methodID''), (va_list, ''args'')]
       False [ReturnCall ''CallNonvirtualShortMethodV'' [''this'', ''obj'', ''clazz'',
       ''methodID'', ''args'']],
     Member ''CallNonvirtualShortMethodA'' jshort [(jobject, ''obj''), (jclass, ''clazz''),
       (jmethodID, ''methodID''), (Ptr (Const jvalue), ''args'')]
       False [ReturnCall ''CallNonvirtualShortMethodA'' [''this'', ''obj'', ''clazz'',
       ''methodID'', ''args'']],
     Member ''CallNonvirtualIntMethod'' jint [(jobject, ''obj''), (jclass, ''clazz''), (jmethodID,
       ''methodID'')] True [VaDecl ''args'', VarDecl jint ''result'',
       VaStart ''args'' ''methodID'',
       AssignCall ''result'' ''CallNonvirtualIntMethodV'' [''this'', ''obj'', ''clazz'',
       ''methodID'', ''args''], VaEnd ''args'', Return ''result''],
     Member ''CallNonvirtualIntMethodV'' jint [(jobject, ''obj''), (jclass, ''clazz''),
       (jmethodID, ''methodID''), (va_list, ''args'')]
       False [ReturnCall ''CallNonvirtualIntMethodV'' [''this'', ''obj'', ''clazz'', ''methodID'',
       ''args'']],
     Member ''CallNonvirtualIntMethodA'' jint [(jobject, ''obj''), (jclass, ''clazz''),
       (jmethodID, ''methodID''), (Ptr (Const jvalue), ''args'')]
       False [ReturnCall ''CallNonvirtualIntMethodA'' [''this'', ''obj'', ''clazz'', ''methodID'',
       ''args'']]]"

definition mac_env_members_4 :: "cmember list" where
  "mac_env_members_4 = [
     Member ''CallNonvirtualLongMethod'' jlong [(jobject, ''obj''), (jclass, ''clazz''),
       (jmethodID, ''methodID'')] True [VaDecl ''args'', VarDecl jlong ''result'',
       VaStart ''args'' ''methodID'',
       AssignCall ''result'' ''CallNonvirtualLongMethodV'' [''this'', ''obj'', ''clazz'',
       ''methodID'', ''args''], VaEnd ''args'', Return ''result''],
     Member ''CallNonvirtualLongMethodV'' jlong [(jobject, ''obj''), (jclass, ''clazz''),
       (jmethodID, ''methodID''), (va_list, ''args'')]
       False [ReturnCall ''CallNonvirtualLongMethodV'' [''this'', ''obj'', ''clazz'',
       ''methodID'', ''args'']],
     Member ''CallNonvirtualLongMethodA'' jlong [(jobject, ''obj''), (jclass, ''clazz''),
       (jmethodID, ''methodID''), (Ptr (Const jvalue), ''args'')]
       False [ReturnCall ''CallNonvirtualLongMethodA'' [''this'', ''obj'', ''clazz'',
       ''methodID'', ''args'']],
     Member ''CallNonvirtualFloatMethod'' jfloat [(jobject, ''obj''), (jclass, ''clazz''),
       (jmethodID, ''methodID'')] True [VaDecl ''args'', VarDecl jfloat ''result'',
       VaStart ''args'' ''methodID'',
       AssignCall ''result'' ''CallNonvirtualFloatMethodV'' [''this'', ''obj'', ''clazz'',
       ''methodID'', ''args''], VaEnd ''args'', Return ''result''],
     Member ''CallNonvirtualFloatMethodV'' jfloat [(jobject, ''obj''), (jclass, ''clazz''),
       (jmethodID, ''methodID''), (va_list, ''args'')]
       False [ReturnCall ''CallNonvirtualFloatMethodV'' [''this'', ''obj'', ''clazz'',
       ''methodID'', ''args'']],
     Member ''CallNonvirtualFloatMethodA'' jfloat [(jobject, ''obj''), (jclass, ''clazz''),
       (jmethodID, ''methodID''), (Ptr (Const jvalue), ''args'')]
       False [ReturnCall ''CallNonvirtualFloatMethodA'' [''this'', ''obj'', ''clazz'',
       ''methodID'', ''args'']],
     Member ''CallNonvirtualDoubleMethod'' jdouble [(jobject, ''obj''), (jclass, ''clazz''),
       (jmethodID, ''methodID'')] True [VaDecl ''args'', VarDecl jdouble ''result'',
       VaStart ''args'' ''methodID'',
       AssignCall ''result'' ''CallNonvirtualDoubleMethodV'' [''this'', ''obj'', ''clazz'',
       ''methodID'', ''args''], VaEnd ''args'', Return ''result''],
     Member ''CallNonvirtualDoubleMethodV'' jdouble [(jobject, ''obj''), (jclass, ''clazz''),
       (jmethodID, ''methodID''), (va_list, ''args'')]
       False [ReturnCall ''CallNonvirtualDoubleMethodV'' [''this'', ''obj'', ''clazz'',
       ''methodID'', ''args'']],
     Member ''CallNonvirtualDoubleMethodA'' jdouble [(jobject, ''obj''), (jclass, ''clazz''),
       (jmethodID, ''methodID''), (Ptr (Const jvalue), ''args'')]
       False [ReturnCall ''CallNonvirtualDoubleMethodA'' [''this'', ''obj'', ''clazz'',
       ''methodID'', ''args'']],
     Member ''CallNonvirtualVoidMethod'' void_t [(jobject, ''obj''), (jclass, ''clazz''),
       (jmethodID, ''methodID'')] True [VaDecl ''args'', VaStart ''args'' ''methodID'',
       Call ''CallNonvirtualVoidMethodV'' [''this'', ''obj'', ''clazz'', ''methodID'', ''args''],
       VaEnd ''args''],
     Member ''CallNonvirtualVoidMethodV'' void_t [(jobject, ''obj''), (jclass, ''clazz''),
       (jmethodID, ''methodID''), (va_list, ''args'')]
       False [Call ''CallNonvirtualVoidMethodV'' [''this'', ''obj'', ''clazz'', ''methodID'',
       ''args'']],
     Member ''CallNonvirtualVoidMethodA'' void_t [(jobject, ''obj''), (jclass, ''clazz''),
       (jmethodID, ''methodID''), (Ptr (Const jvalue), ''args'')]
       False [Call ''CallNonvirtualVoidMethodA'' [''this'', ''obj'', ''clazz'', ''methodID'',
       ''args'']],
     Member ''GetFieldID'' jfieldID [(jclass, ''clazz''), (Ptr (Const char_t), ''name''),
       (Ptr (Const char_t), ''sig'')] False [ReturnCall ''GetFieldID'' [''this'', ''clazz'',
       ''name'', ''sig'']],
     Member ''GetObjectField'' jobject [(jobject, ''obj''), (jfieldID, ''fieldID'')]
       False [ReturnCall ''GetObjectField'' [''this'', ''obj'', ''fieldID'']],
     Member ''GetBooleanField'' jboolean [(jobject, ''obj''), (jfieldID, ''fieldID'')]
       False [ReturnCall ''GetBooleanField'' [''this'', ''obj'', ''fieldID'']],
     Member ''GetByteField'' jbyte [(jobject, ''obj''), (jfieldID, ''fieldID'')]
       False [ReturnCall ''GetByteField'' [''this'', ''obj'', ''fieldID'']],
     Member ''GetCharField'' jchar [(jobject, ''obj''), (jfieldID, ''fieldID'')]
       False [ReturnCall ''GetCharField'' [''this'', ''obj'', ''fieldID'']],
     Member ''GetShortField'' jshort [(jobject, ''obj''), (jfieldID, ''fieldID'')]
       False [ReturnCall ''GetShortField'' [''this'', ''obj'', ''fieldID'']],
     Member ''GetIntField'' jint [(jobject, ''obj''), (jfieldID, ''fieldID'')]
       False [ReturnCall ''GetIntField'' [''this'', ''obj'', ''fieldID'']],
     Member ''GetLongField'' jlong [(jobject, ''obj''), (jfieldID, ''fieldID'')]
       False [ReturnCall ''GetLongField'' [''this'', ''obj'', ''fieldID'']],
     Member ''GetFloatField'' jfloat [(jobject, ''obj''), (jfieldID, ''fieldID'')]
       False [ReturnCall ''GetFloatField'' [''this'', ''obj'', ''fieldID'']],
     Member ''GetDoubleField'' jdouble [(jobject, ''obj''), (jfieldID, ''fieldID'')]
       False [ReturnCall ''GetDoubleField'' [''this'', ''obj'', ''fieldID'']],
     Member ''SetObjectField'' void_t [(jobject, ''obj''), (jfieldID, ''fieldID''), (jobject,
       ''val'')] False [Call ''SetObjectField'' [''this'', ''obj'', ''fieldID'', ''val'']],
     Member ''SetBooleanField'' void_t [(jobject, ''obj''), (jfieldID, ''fieldID''), (jboolean,
       ''val'')] False [Call ''SetBooleanField'' [''this'', ''obj'', ''fieldID'', ''val'']],
     Member ''SetByteField'' void_t [(jobject, ''obj''), (jfieldID, ''fieldID''), (jbyte,
       ''val'')] False [Call ''SetByteField'' [''this'', ''obj'', ''fieldID'', ''val'']],
     Member ''SetCharField'' void_t [(jobject, ''obj''), (jfieldID, ''fieldID''), (jchar,
       ''val'')] False [Call ''SetCharField'' [''this'', ''obj'', ''fieldID'', ''val'']],
     Member ''SetShortField'' void_t [(jobject, ''obj''), (jfieldID, ''fieldID''), (jshort,
       ''val'')] False [Call ''SetShortField'' [''this'', ''obj'', ''fieldID'', ''val'']]]"

definition mac_env_members_5 :: "cmember list" where
  "mac_env_members_5 = [
     Member ''SetIntField'' void_t [(jobject, ''obj''), (jfieldID, ''fieldID''), (jint, ''val'')]
       False [Call ''SetIntField'' [''this'', ''obj'', ''fieldID'', ''val'']],
     Member ''SetLongField'' void_t [(jobject, ''obj''), (jfieldID, ''fieldID''), (jlong,
       ''val'')] False [Call ''SetLongField'' [''this'', ''obj'', ''fieldID'', ''val'']],
     Member ''SetFloatField'' void_t [(jobject, ''obj''), (jfieldID, ''fieldID''), (jfloat,
       ''val'')] False [Call ''SetFloatField'' [''this'', ''obj'', ''fieldID'', ''val'']],
     Member ''SetDoubleField'' void_t [(jobject, ''obj''), (jfieldID, ''fieldID''), (jdouble,
       ''val'')] False [Call ''SetDoubleField'' [''this'', ''obj'', ''fieldID'', ''val'']],
     Member ''GetStaticMethodID'' jmethodID [(jclass, ''clazz''), (Ptr (Const char_t), ''name''),
       (Ptr (Const char_t), ''sig'')] False [ReturnCall ''GetStaticMethodID'' [''this'',
       ''clazz'', ''name'', ''sig'']],
     Member ''CallStaticObjectMethod'' jobject [(jclass, ''clazz''), (jmethodID, ''methodID'')]
       True [VaDecl ''args'', VarDecl jobject ''result'', VaStart ''args'' ''methodID'',
       AssignCall ''result'' ''CallStaticObjectMethodV'' [''this'', ''clazz'', ''methodID'',
       ''args''], VaEnd ''args'', Return ''result''],
     Member ''CallStaticObjectMethodV'' jobject [(jclass, ''clazz''), (jmethodID, ''methodID''),
       (va_list, ''args'')] False [ReturnCall ''CallStaticObjectMethodV'' [''this'', ''clazz'',
       ''methodID'', ''args'']],
     Member ''CallStaticObjectMethodA'' jobject [(jclass, ''clazz''), (jmethodID, ''methodID''),
       (Ptr (Const jvalue), ''args'')] False [ReturnCall ''CallStaticObjectMethodA'' [''this'',
       ''clazz'', ''methodID'', ''args'']],
     Member ''CallStaticBooleanMethod'' jboolean [(jclass, ''clazz''), (jmethodID, ''methodID'')]
       True [VaDecl ''args'', VarDecl jboolean ''result'', VaStart ''args'' ''methodID'',
       AssignCall ''result'' ''CallStaticBooleanMethodV'' [''this'', ''clazz'', ''methodID'',
       ''args''], VaEnd ''args'', Return ''result''],
     Member ''CallStaticBooleanMethodV'' jboolean [(jclass, ''clazz''), (jmethodID, ''methodID''),
       (va_list, ''args'')] False [ReturnCall ''CallStaticBooleanMethodV'' [''this'', ''clazz'',
       ''methodID'', ''args'']],
     Member ''CallStaticBooleanMethodA'' jboolean [(jclass, ''clazz''), (jmethodID, ''methodID''),
       (Ptr (Const jvalue), ''args'')] False [ReturnCall ''CallStaticBooleanMethodA'' [''this'',
       ''clazz'', ''methodID'', ''args'']],
     Member ''CallStaticByteMethod'' jbyte [(jclass, ''clazz''), (jmethodID, ''methodID'')]
       True [VaDecl ''args'', VarDecl jbyte ''result'', VaStart ''args'' ''methodID'',
       AssignCall ''result'' ''CallStaticByteMethodV'' [''this'', ''clazz'', ''methodID'',
       ''args''], VaEnd ''args'', Return ''result''],
     Member ''CallStaticByteMethodV'' jbyte [(jclass, ''clazz''), (jmethodID, ''methodID''),
       (va_list, ''args'')] False [ReturnCall ''CallStaticByteMethodV'' [''this'', ''clazz'',
       ''methodID'', ''args'']],
     Member ''CallStaticByteMethodA'' jbyte [(jclass, ''clazz''), (jmethodID, ''methodID''),
       (Ptr (Const jvalue), ''args'')] False [ReturnCall ''CallStaticByteMethodA'' [''this'',
       ''clazz'', ''methodID'', ''args'']],
     Member ''CallStaticCharMethod'' jchar [(jclass, ''clazz''), (jmethodID, ''methodID'')]
       True [VaDecl ''args'', VarDecl jchar ''result'', VaStart ''args'' ''methodID'',
       AssignCall ''result'' ''CallStaticCharMethodV'' [''this'', ''clazz'', ''methodID'',
       ''args''], VaEnd ''args'', Return ''result''],
     Member ''CallStaticCharMethodV'' jchar [(jclass, ''clazz''), (jmethodID, ''methodID''),
       (va_list, ''args'')] False [ReturnCall ''CallStaticCharMethodV'' [''this'', ''clazz'',
       ''methodID'', ''args'']],
     Member ''CallStaticCharMethodA'' jchar [(jclass, ''clazz''), (jmethodID, ''methodID''),
       (Ptr (Const jvalue), ''args'')] False [ReturnCall ''CallStaticCharMethodA'' [''this'',
       ''clazz'', ''methodID'', ''args'']],
     Member ''CallStaticShortMethod'' jshort [(jclass, ''clazz''), (jmethodID, ''methodID'')]
       True [VaDecl ''args'', VarDecl jshort ''result'', VaStart ''args'' ''methodID'',
       AssignCall ''result'' ''CallStaticShortMethodV'' [''this'', ''clazz'', ''methodID'',
       ''args''], VaEnd ''args'', Return ''result''],
     Member ''CallStaticShortMethodV'' jshort [(jclass, ''clazz''), (jmethodID, ''methodID''),
       (va_list, ''args'')] False [ReturnCall ''CallStaticShortMethodV'' [''this'', ''clazz'',
       ''methodID'', ''args'']],
     Member ''CallStaticShortMethodA'' jshort [(jclass, ''clazz''), (jmethodID, ''methodID''),
       (Ptr (Const jvalue), ''args'')] False [ReturnCall ''CallStaticShortMethodA'' [''this'',
       ''clazz'', ''methodID'', ''args'']],
     Member ''CallStaticIntMethod'' jint [(jclass, ''clazz''), (jmethodID, ''methodID'')]
       True [VaDecl ''args'', VarDecl jint ''result'', VaStart ''args'' ''methodID'',
       AssignCall ''result'' ''CallStaticIntMethodV'' [''this'', ''clazz'', ''methodID'',
       ''args''], VaEnd ''args'', Return ''result''],
     Member ''CallStaticIntMethodV'' jint [(jclass, ''clazz''), (jmethodID, ''methodID''),
       (va_list, ''args'')] False [ReturnCall ''CallStaticIntMethodV'' [''this'', ''clazz'',
       ''methodID'', ''args'']],
     Member ''CallStaticIntMethodA'' jint [(jclass, ''clazz''), (jmethodID, ''methodID''),
       (Ptr (Const jvalue), ''args'')] False [ReturnCall ''CallStaticIntMethodA'' [''this'',
       ''clazz'', ''methodID'', ''args'']],
     Member ''CallStaticLongMethod'' jlong [(jclass, ''clazz''), (jmethodID, ''methodID'')]
       True [VaDecl ''args'', VarDecl jlong ''result'', VaStart ''args'' ''methodID'',
       AssignCall ''result'' ''CallStaticLongMethodV'' [''this'', ''clazz'', ''methodID'',
       ''args''], VaEnd ''args'', Return ''result'']]"

definition mac_env_members_6 :: "cmember list" where
  "mac_env_members_6 = [
     Member ''CallStaticLongMethodV'' jlong [(jclass, ''clazz''), (jmethodID, ''methodID''),
       (va_list, ''args'')] False [ReturnCall ''CallStaticLongMethodV'' [''this'', ''clazz'',
       ''methodID'', ''args'']],
     Member ''CallStaticLongMethodA'' jlong [(jclass, ''clazz''), (jmethodID, ''methodID''),
       (Ptr (Const jvalue), ''args'')] False [ReturnCall ''CallStaticLongMethodA'' [''this'',
       ''clazz'', ''methodID'', ''args'']],
     Member ''CallStaticFloatMethod'' jfloat [(jclass, ''clazz''), (jmethodID, ''methodID'')]
       True [VaDecl ''args'', VarDecl jfloat ''result'', VaStart ''args'' ''methodID'',
       AssignCall ''result'' ''CallStaticFloatMethodV'' [''this'', ''clazz'', ''methodID'',
       ''args''], VaEnd ''args'', Return ''result''],
     Member ''CallStaticFloatMethodV'' jfloat [(jclass, ''clazz''), (jmethodID, ''methodID''),
       (va_list, ''args'')] False [ReturnCall ''CallStaticFloatMethodV'' [''this'', ''clazz'',
       ''methodID'', ''args'']],
     Member ''CallStaticFloatMethodA'' jfloat [(jclass, ''clazz''), (jmethodID, ''methodID''),
       (Ptr (Const jvalue), ''args'')] False [ReturnCall ''CallStaticFloatMethodA'' [''this'',
       ''clazz'', ''methodID'', ''args'']],
     Member ''CallStaticDoubleMethod'' jdouble [(jclass, ''clazz''), (jmethodID, ''methodID'')]
       True [VaDecl ''args'', VarDecl jdouble ''result'', VaStart ''args'' ''methodID'',
       AssignCall ''result'' ''CallStaticDoubleMethodV'' [''this'', ''clazz'', ''methodID'',
       ''args''], VaEnd ''args'', Return ''result''],
     Member ''CallStaticDoubleMethodV'' jdouble [(jclass, ''clazz''), (jmethodID, ''methodID''),
       (va_list, ''args'')] False [ReturnCall ''CallStaticDoubleMethodV'' [''this'', ''clazz'',
       ''methodID'', ''args'']],
     Member ''CallStaticDoubleMethodA'' jdouble [(jclass, ''clazz''), (jmethodID, ''methodID''),
       (Ptr (Const jvalue), ''args'')] False [ReturnCall ''CallStaticDoubleMethodA'' [''this'',
       ''clazz'', ''methodID'', ''args'']],
     Member ''CallStaticVoidMethod'' void_t [(jclass, ''cls''), (jmethodID, ''methodID'')]
       True [VaDecl ''args'', VaStart ''args'' ''methodID'',
       Call ''CallStaticVoidMethodV'' [''this'', ''cls'', ''methodID'', ''args''],
       VaEnd ''args''],
     Member ''CallStaticVoidMethodV'' void_t [(jclass, ''cls''), (jmethodID, ''methodID''),
       (va_list, ''args'')] False [Call ''CallStaticVoidMethodV'' [''this'', ''cls'',
       ''methodID'', ''args'']],
     Member ''CallStaticVoidMethodA'' void_t [(jclass, ''cls''), (jmethodID, ''methodID''),
       (Ptr (Const jvalue), ''args'')] False [Call ''CallStaticVoidMethodA'' [''this'', ''cls'',
       ''methodID'', ''args'']],
     Member ''GetStaticFieldID'' jfieldID [(jclass, ''clazz''), (Ptr (Const char_t), ''name''),
       (Ptr (Const char_t), ''sig'')] False [ReturnCall ''GetStaticFieldID'' [''this'', ''clazz'',
       ''name'', ''sig'']],
     Member ''GetStaticObjectField'' jobject [(jclass, ''clazz''), (jfieldID, ''fieldID'')]
       False [ReturnCall ''GetStaticObjectField'' [''this'', ''clazz'', ''fieldID'']],
     Member ''GetStaticBooleanField'' jboolean [(jclass, ''clazz''), (jfieldID, ''fieldID'')]
       False [ReturnCall ''GetStaticBooleanField'' [''this'', ''clazz'', ''fieldID'']],
     Member ''GetStaticByteField'' jbyte [(jclass, ''clazz''), (jfieldID, ''fieldID'')]
       False [ReturnCall ''GetStaticByteField'' [''this'', ''clazz'', ''fieldID'']],
     Member ''GetStaticCharField'' jchar [(jclass, ''clazz''), (jfieldID, ''fieldID'')]
       False [ReturnCall ''GetStaticCharField'' [''this'', ''clazz'', ''fieldID'']],
     Member ''GetStaticShortField'' jshort [(jclass, ''clazz''), (jfieldID, ''fieldID'')]
       False [ReturnCall ''GetStaticShortField'' [''this'', ''clazz'', ''fieldID'']],
     Member ''GetStaticIntField'' jint [(jclass, ''clazz''), (jfieldID, ''fieldID'')]
       False [ReturnCall ''GetStaticIntField'' [''this'', ''clazz'', ''fieldID'']],
     Member ''GetStaticLongField'' jlong [(jclass, ''clazz''), (jfieldID, ''fieldID'')]
       False [ReturnCall ''GetStaticLongField'' [''this'', ''clazz'', ''fieldID'']],
     Member ''GetStaticFloatField'' jfloat [(jclass, ''clazz''), (jfieldID, ''fieldID'')]
       False [ReturnCall ''GetStaticFloatField'' [''this'', ''clazz'', ''fieldID'']],
     Member ''GetStaticDoubleField'' jdouble [(jclass, ''clazz''), (jfieldID, ''fieldID'')]
       False [ReturnCall ''GetStaticDoubleField'' [''this'', ''clazz'', ''fieldID'']],
     Member ''SetStaticObjectField'' void_t [(jclass, ''clazz''), (jfieldID, ''fieldID''),
       (jobject, ''value'')] False [Call ''SetStaticObjectField'' [''this'', ''clazz'',
       ''fieldID'', ''value'']],
     Member ''SetStaticBooleanField'' void_t [(jclass, ''clazz''), (jfieldID, ''fieldID''),
       (jboolean, ''value'')] False [Call ''SetStaticBooleanField'' [''this'', ''clazz'',
       ''fieldID'', ''value'']],
     Member ''SetStaticByteField'' void_t [(jclass, ''clazz''), (jfieldID, ''fieldID''), (jbyte,
       ''value'')] False [Call ''SetStaticByteField'' [''this'', ''clazz'', ''fieldID'',
       ''value'']],
     Member ''SetStaticCharField'' void_t [(jclass, ''clazz''), (jfieldID, ''fieldID''), (jchar,
       ''value'')] False [Call ''SetStaticCharField'' [''this'', ''clazz'', ''fieldID'',
       ''value'']],
     Member ''SetStaticShortField'' void_t [(jclass, ''clazz''), (jfieldID, ''fieldID''), (jshort,
       ''value'')] False [Call ''SetStaticShortField'' [''this'', ''clazz'', ''fieldID'',
       ''value'']],
     Member ''SetStaticIntField'' void_t [(jclass, ''clazz''), (jfieldID, ''fieldID''), (jint,
       ''value'')] False [Call ''SetStaticIntField'' [''this'', ''clazz'', ''fieldID'',
       ''value'']],
     Member ''SetStaticLongField'' void_t [(jclass, ''clazz''), (jfieldID, ''fieldID''), (jlong,
       ''value'')] False [Call ''SetStaticLongField'' [''this'', ''clazz'', ''fieldID'',
       ''value'']],
     Member ''SetStaticFloatField'' void_t [(jclass, ''clazz''), (jfieldID, ''fieldID''), (jfloat,
       ''value'')] False [Call ''SetStaticFloatField'' [''this'', ''clazz'', ''fieldID'',
       ''value'']],
     Member ''SetStaticDoubleField'' void_t [(jclass, ''clazz''), (jfieldID, ''fieldID''),
       (jdouble, ''value'')] False [Call ''SetStaticDoubleField'' [''this'', ''clazz'',
       ''fieldID'', ''value'']],
     Member ''NewString'' jstring [(Ptr (Const jchar), ''unicode''), (jsize, ''len'')]
       False [ReturnCall ''NewString'' [''this'', ''unicode'', ''len'']],
     Member ''GetStringLength'' jsize [(jstring, ''str'')]
       False [ReturnCall ''GetStringLength'' [''this'', ''str'']],
     Member ''GetStringChars'' (Ptr (Const jchar)) [(jstring, ''str''), (Ptr jboolean,
       ''isCopy'')] False [ReturnCall ''GetStringChars'' [''this'', ''str'', ''isCopy'']]]"

definition mac_env_members_7 :: "cmember list" where
  "mac_env_members_7 = [
     Member ''ReleaseStringChars'' void_t [(jstring, ''str''), (Ptr (Const jchar), ''chars'')]
       False [Call ''ReleaseStringChars'' [''this'', ''str'', ''chars'']],
     Member ''NewStringUTF'' jstring [(Ptr (Const char_t), ''utf'')]
       False [ReturnCall ''NewStringUTF'' [''this'', ''utf'']],
     Member ''GetStringUTFLength'' jsize [(jstring, ''str'')]
       False [ReturnCall ''GetStringUTFLength'' [''this'', ''str'']],
     Member ''GetStringUTFChars'' (Ptr (Const char_t)) [(jstring, ''str''), (Ptr jboolean,
       ''isCopy'')] False [ReturnCall ''GetStringUTFChars'' [''this'', ''str'', ''isCopy'']],
     Member ''ReleaseStringUTFChars'' void_t [(jstring, ''str''), (Ptr (Const char_t), ''chars'')]
       False [Call ''ReleaseStringUTFChars'' [''this'', ''str'', ''chars'']],
     Member ''GetArrayLength'' jsize [(jarray, ''array'')]
       False [ReturnCall ''GetArrayLength'' [''this'', ''array'']],
     Member ''NewObjectArray'' jobjectArray [(jsize, ''len''), (jclass, ''clazz''), (jobject,
       ''init'')] False [ReturnCall ''NewObjectArray'' [''this'', ''len'', ''clazz'', ''init'']],
     Member ''GetObjectArrayElement'' jobject [(jobjectArray, ''array''), (jsize, ''index'')]
       False [ReturnCall ''GetObjectArrayElement'' [''this'', ''array'', ''index'']],
     Member ''SetObjectArrayElement'' void_t [(jobjectArray, ''array''), (jsize, ''index''),
       (jobject, ''val'')] False [Call ''SetObjectArrayElement'' [''this'', ''array'', ''index'',
       ''val'']],
     Member ''NewBooleanArray'' jbooleanArray [(jsize, ''len'')]
       False [ReturnCall ''NewBooleanArray'' [''this'', ''len'']],
     Member ''NewByteArray'' jbyteArray [(jsize, ''len'')]
       False [ReturnCall ''NewByteArray'' [''this'', ''len'']],
     Member ''NewCharArray'' jcharArray [(jsize, ''len'')]
       False [ReturnCall ''NewCharArray'' [''this'', ''len'']],
     Member ''NewShortArray'' jshortArray [(jsize, ''len'')]
       False [ReturnCall ''NewShortArray'' [''this'', ''len'']],
     Member ''NewIntArray'' jintArray [(jsize, ''len'')]
       False [ReturnCall ''NewIntArray'' [''this'', ''len'']],
     Member ''NewLongArray'' jlongArray [(jsize, ''len'')]
       False [ReturnCall ''NewLongArray'' [''this'', ''len'']],
     Member ''NewFloatArray'' jfloatArray [(jsize, ''len'')]
       False [ReturnCall ''NewFloatArray'' [''this'', ''len'']],
     Member ''NewDoubleArray'' jdoubleArray [(jsize, ''len'')]
       False [ReturnCall ''NewDoubleArray'' [''this'', ''len'']],
     Member ''GetBooleanArrayElements'' (Ptr jboolean) [(jbooleanArray, ''array''), (Ptr jboolean,
       ''isCopy'')] False [ReturnCall ''GetBooleanArrayElements'' [''this'', ''array'',
       ''isCopy'']],
     Member ''GetByteArrayElements'' (Ptr jbyte) [(jbyteArray, ''array''), (Ptr jboolean,
       ''isCopy'')] False [ReturnCall ''GetByteArrayElements'' [''this'', ''array'', ''isCopy'']],
     Member ''GetCharArrayElements'' (Ptr jchar) [(jcharArray, ''array''), (Ptr jboolean,
       ''isCopy'')] False [ReturnCall ''GetCharArrayElements'' [''this'', ''array'', ''isCopy'']],
     Member ''GetShortArrayElements'' (Ptr jshort) [(jshortArray, ''array''), (Ptr jboolean,
       ''isCopy'')] False [ReturnCall ''GetShortArrayElements'' [''this'', ''array'',
       ''isCopy'']],
     Member ''GetIntArrayElements'' (Ptr jint) [(jintArray, ''array''), (Ptr jboolean,
       ''isCopy'')] False [ReturnCall ''GetIntArrayElements'' [''this'', ''array'', ''isCopy'']],
     Member ''GetLongArrayElements'' (Ptr jlong) [(jlongArray, ''array''), (Ptr jboolean,
       ''isCopy'')] False [ReturnCall ''GetLongArrayElements'' [''this'', ''array'', ''isCopy'']],
     Member ''GetFloatArrayElements'' (Ptr jfloat) [(jfloatArray, ''array''), (Ptr jboolean,
       ''isCopy'')] False [ReturnCall ''GetFloatArrayElements'' [''this'', ''array'',
       ''isCopy'']],
     Member ''GetDoubleArrayElements'' (Ptr jdouble) [(jdoubleArray, ''array''), (Ptr jboolean,
       ''isCopy'')] False [ReturnCall ''GetDoubleArrayElements'' [''this'', ''array'',
       ''isCopy'']],
     Member ''ReleaseBooleanArrayElements'' void_t [(jbooleanArray, ''array''), (Ptr jboolean,
       ''elems''), (jint, ''mode'')] False [Call ''ReleaseBooleanArrayElements'' [''this'',
       ''array'', ''elems'', ''mode'']],
     Member ''ReleaseByteArrayElements'' void_t [(jbyteArray, ''array''), (Ptr jbyte, ''elems''),
       (jint, ''mode'')] False [Call ''ReleaseByteArrayElements'' [''this'', ''array'', ''elems'',
       ''mode'']],
     Member ''ReleaseCharArrayElements'' void_t [(jcharArray, ''array''), (Ptr jchar, ''elems''),
       (jint, ''mode'')] False [Call ''ReleaseCharArrayElements'' [''this'', ''array'', ''elems'',
       ''mode'']],
     Member ''ReleaseShortArrayElements'' void_t [(jshortArray, ''array''), (Ptr jshort,
       ''elems''), (jint, ''mode'')] False [Call ''ReleaseShortArrayElements'' [''this'',
       ''array'', ''elems'', ''mode'']],
     Member ''ReleaseIntArrayElements'' void_t [(jintArray, ''array''), (Ptr jint, ''elems''),
       (jint, ''mode'')] False [Call ''ReleaseIntArrayElements'' [''this'', ''array'', ''elems'',
       ''mode'']],
     Member ''ReleaseLongArrayElements'' void_t [(jlongArray, ''array''), (Ptr jlong, ''elems''),
       (jint, ''mode'')] False [Call ''ReleaseLongArrayElements'' [''this'', ''array'', ''elems'',
       ''mode'']],
     Member ''ReleaseFloatArrayElements'' void_t [(jfloatArray, ''array''), (Ptr jfloat,
       ''elems''), (jint, ''mode'')] False [Call ''ReleaseFloatArrayElements'' [''this'',
       ''array'', ''elems'', ''mode'']],
     Member ''ReleaseDoubleArrayElements'' void_t [(jdoubleArray, ''array''), (Ptr jdouble,
       ''elems''), (jint, ''mode'')] False [Call ''ReleaseDoubleArrayElements'' [''this'',
       ''array'', ''elems'', ''mode'']],
     Member ''GetBooleanArrayRegion'' void_t [(jbooleanArray, ''array''), (jsize, ''start''),
       (jsize, ''len''), (Ptr jboolean, ''buf'')] False [Call ''GetBooleanArrayRegion'' [''this'',
       ''array'', ''start'', ''len'', ''buf'']],
     Member ''GetByteArrayRegion'' void_t [(jbyteArray, ''array''), (jsize, ''start''), (jsize,
       ''len''), (Ptr jbyte, ''buf'')] False [Call ''GetByteArrayRegion'' [''this'', ''array'',
       ''start'', ''len'', ''buf'']],
     Member ''GetCharArrayRegion'' void_t [(jcharArray, ''array''), (jsize, ''start''), (jsize,
       ''len''), (Ptr jchar, ''buf'')] False [Call ''GetCharArrayRegion'' [''this'', ''array'',
       ''start'', ''len'', ''buf'']],
     Member ''GetShortArrayRegion'' void_t [(jshortArray, ''array''), (jsize, ''start''), (jsize,
       ''len''), (Ptr jshort, ''buf'')] False [Call ''GetShortArrayRegion'' [''this'', ''array'',
       ''start'', ''len'', ''buf'']]]"

definition mac_env_members_8 :: "cmember list" where
  "mac_env_members_8 = [
     Member ''GetIntArrayRegion'' void_t [(jintArray, ''array''), (jsize, ''start''), (jsize,
       ''len''), (Ptr jint, ''buf'')] False [Call ''GetIntArrayRegion'' [''this'', ''array'',
       ''start'', ''len'', ''buf'']],
     Member ''GetLongArrayRegion'' void_t [(jlongArray, ''array''), (jsize, ''start''), (jsize,
       ''len''), (Ptr jlong, ''buf'')] False [Call ''GetLongArrayRegion'' [''this'', ''array'',
       ''start'', ''len'', ''buf'']],
     Member ''GetFloatArrayRegion'' void_t [(jfloatArray, ''array''), (jsize, ''start''), (jsize,
       ''len''), (Ptr jfloat, ''buf'')] False [Call ''GetFloatArrayRegion'' [''this'', ''array'',
       ''start'', ''len'', ''buf'']],
     Member ''GetDoubleArrayRegion'' void_t [(jdoubleArray, ''array''), (jsize, ''start''),
       (jsize, ''len''), (Ptr jdouble, ''buf'')] False [Call ''GetDoubleArrayRegion'' [''this'',
       ''array'', ''start'', ''len'', ''buf'']],
     Member ''SetBooleanArrayRegion'' void_t [(jbooleanArray, ''array''), (jsize, ''start''),
       (jsize, ''len''), (Ptr (Const jboolean), ''buf'')]
       False [Call ''SetBooleanArrayRegion'' [''this'', ''array'', ''start'', ''len'', ''buf'']],
     Member ''SetByteArrayRegion'' void_t [(jbyteArray, ''array''), (jsize, ''start''), (jsize,
       ''len''), (Ptr (Const jbyte), ''buf'')] False [Call ''SetByteArrayRegion'' [''this'',
       ''array'', ''start'', ''len'', ''buf'']],
     Member ''SetCharArrayRegion'' void_t [(jcharArray, ''array''), (jsize, ''start''), (jsize,
       ''len''), (Ptr (Const jchar), ''buf'')] False [Call ''SetCharArrayRegion'' [''this'',
       ''array'', ''start'', ''len'', ''buf'']],
     Member ''SetShortArrayRegion'' void_t [(jshortArray, ''array''), (jsize, ''start''), (jsize,
       ''len''), (Ptr (Const jshort), ''buf'')] False [Call ''SetShortArrayRegion'' [''this'',
       ''array'', ''start'', ''len'', ''buf'']],
     Member ''SetIntArrayRegion'' void_t [(jintArray, ''array''), (jsize, ''start''), (jsize,
       ''len''), (Ptr (Const jint), ''buf'')] False [Call ''SetIntArrayRegion'' [''this'',
       ''array'', ''start'', ''len'', ''buf'']],
     Member ''SetLongArrayRegion'' void_t [(jlongArray, ''array''), (jsize, ''start''), (jsize,
       ''len''), (Ptr (Const jlong), ''buf'')] False [Call ''SetLongArrayRegion'' [''this'',
       ''array'', ''start'', ''len'', ''buf'']],
     Member ''SetFloatArrayRegion'' void_t [(jfloatArray, ''array''), (jsize, ''start''), (jsize,
       ''len''), (Ptr (Const jfloat), ''buf'')] False [Call ''SetFloatArrayRegion'' [''this'',
       ''array'', ''start'', ''len'', ''buf'']],
     Member ''SetDoubleArrayRegion'' void_t [(jdoubleArray, ''array''), (jsize, ''start''),
       (jsize, ''len''), (Ptr (Const jdouble), ''buf'')]
       False [Call ''SetDoubleArrayRegion'' [''this'', ''array'', ''start'', ''len'', ''buf'']],
     Member ''RegisterNatives'' jint [(jclass, ''clazz''), (Ptr (Const JNINativeMethod),
       ''methods''), (jint, ''nMethods'')] False [ReturnCall ''RegisterNatives'' [''this'',
       ''clazz'', ''methods'', ''nMethods'']],
     Member ''UnregisterNatives'' jint [(jclass, ''clazz'')]
       False [ReturnCall ''UnregisterNatives'' [''this'', ''clazz'']],
     Member ''MonitorEnter'' jint [(jobject, ''obj'')]
       False [ReturnCall ''MonitorEnter'' [''this'', ''obj'']],
     Member ''MonitorExit'' jint [(jobject, ''obj'')] False [ReturnCall ''MonitorExit'' [''this'',
       ''obj'']],
     Member ''GetJavaVM'' jint [(Ptr (Ptr JavaVM), ''vm'')]
       False [ReturnCall ''GetJavaVM'' [''this'', ''vm'']],
     Member ''GetStringRegion'' void_t [(jstring, ''str''), (jsize, ''start''), (jsize, ''len''),
       (Ptr jchar, ''buf'')] False [Call ''GetStringRegion'' [''this'', ''str'', ''start'',
       ''len'', ''buf'']],
     Member ''GetStringUTFRegion'' void_t [(jstring, ''str''), (jsize, ''start''), (jsize,
       ''len''), (Ptr char_t, ''buf'')] False [Call ''GetStringUTFRegion'' [''this'', ''str'',
       ''start'', ''len'', ''buf'']],
     Member ''GetPrimitiveArrayCritical'' (Ptr void_t) [(jarray, ''array''), (Ptr jboolean,
       ''isCopy'')] False [ReturnCall ''GetPrimitiveArrayCritical'' [''this'', ''array'',
       ''isCopy'']],
     Member ''ReleasePrimitiveArrayCritical'' void_t [(jarray, ''array''), (Ptr void_t,
       ''carray''), (jint, ''mode'')] False [Call ''ReleasePrimitiveArrayCritical'' [''this'',
       ''array'', ''carray'', ''mode'']],
     Member ''GetStringCritical'' (Ptr (Const jchar)) [(jstring, ''string''), (Ptr jboolean,
       ''isCopy'')] False [ReturnCall ''GetStringCritical'' [''this'', ''string'', ''isCopy'']],
     Member ''ReleaseStringCritical'' void_t [(jstring, ''string''), (Ptr (Const jchar),
       ''cstring'')] False [Call ''ReleaseStringCritical'' [''this'', ''string'', ''cstring'']],
     Member ''NewWeakGlobalRef'' jweak [(jobject, ''obj'')]
       False [ReturnCall ''NewWeakGlobalRef'' [''this'', ''obj'']],
     Member ''DeleteWeakGlobalRef'' void_t [(jweak, ''ref'')]
       False [Call ''DeleteWeakGlobalRef'' [''this'', ''ref'']],
     Member ''ExceptionCheck'' jboolean [] False [ReturnCall ''ExceptionCheck'' [''this'']],
     Member ''NewDirectByteBuffer'' jobject [(Ptr void_t, ''address''), (jlong, ''capacity'')]
       False [ReturnCall ''NewDirectByteBuffer'' [''this'', ''address'', ''capacity'']],
     Member ''GetDirectBufferAddress'' (Ptr void_t) [(jobject, ''buf'')]
       False [ReturnCall ''GetDirectBufferAddress'' [''this'', ''buf'']],
     Member ''GetDirectBufferCapacity'' jlong [(jobject, ''buf'')]
       False [ReturnCall ''GetDirectBufferCapacity'' [''this'', ''buf'']],
     Member ''GetObjectRefType'' jobjectRefType [(jobject, ''obj'')]
       False [ReturnCall ''GetObjectRefType'' [''this'', ''obj'']]]"

definition mac_JNIEnv_members :: "cmember list" where
  "mac_JNIEnv_members = mac_env_members_1 @ mac_env_members_2 @ mac_env_members_3 @
     mac_env_members_4 @ mac_env_members_5 @ mac_env_members_6 @ mac_env_members_7 @
     mac_env_members_8"

section \<open>The members of the virtual machine handle\<close>

definition mac_JavaVM_members :: "cmember list" where
  "mac_JavaVM_members = [
     Member ''DestroyJavaVM'' jint [] False [ReturnCall ''DestroyJavaVM'' [''this'']],
     Member ''AttachCurrentThread'' jint [(Ptr (Ptr void_t), ''penv''), (Ptr void_t, ''args'')]
       False [ReturnCall ''AttachCurrentThread'' [''this'', ''penv'', ''args'']],
     Member ''DetachCurrentThread'' jint [] False [ReturnCall ''DetachCurrentThread'' [''this'']],
     Member ''GetEnv'' jint [(Ptr (Ptr void_t), ''penv''), (jint, ''version'')]
       False [ReturnCall ''GetEnv'' [''this'', ''penv'', ''version'']],
     Member ''AttachCurrentThreadAsDaemon'' jint [(Ptr (Ptr void_t), ''penv''), (Ptr void_t,
       ''args'')] False [ReturnCall ''AttachCurrentThreadAsDaemon'' [''this'', ''penv'',
       ''args'']]]"

section \<open>Comparison with the other header\<close>

lemma mac_env_members_eq: "mac_JNIEnv_members = JNIEnv_members"
proof -
  have "mac_env_members_1 = env_members_1" unfolding mac_env_members_1_def env_members_1_def by (rule refl)
  moreover have "mac_env_members_2 = env_members_2" unfolding mac_env_members_2_def env_members_2_def by (rule refl)
  moreover have "mac_env_members_3 = env_members_3" unfolding mac_env_members_3_def env_members_3_def by (rule refl)
  moreover have "mac_env_members_4 = env_members_4" unfolding mac_env_members_4_def env_members_4_def by (rule refl)
  moreover have "mac_env_members_5 = env_members_5" unfolding mac_env_members_5_def env_members_5_def by (rule refl)
  moreover have "mac_env_members_6 = env_members_6" unfolding mac_env_members_6_def env_members_6_def by (rule refl)
  moreover have "mac_env_members_7 = env_members_7" unfolding mac_env_members_7_def env_members_7_def by (rule refl)
  moreover have "mac_env_members_8 = env_members_8" unfolding mac_env_members_8_def env_members_8_def by (rule refl)
  ultimately show ?thesis by (simp only: mac_JNIEnv_members_def JNIEnv_members_def)
qed

lemma mac_vm_members_eq: "mac_JavaVM_members = JavaVM_members"
  unfolding mac_JavaVM_members_def JavaVM_members_def by (rule refl)

lemmas mac_native_interface_defs = mac_native_interface_1_def mac_native_interface_2_def
  mac_native_interface_3_def mac_native_interface_4_def

text \<open>The Mac table is the Linux table with the conditional arrays put in.\<close>

definition cfm_vectors :: "mac_target \<Rightarrow> nat \<Rightarrow> slot list" where
  "cfm_vectors t n = (if \<not> cfm t \<and> ppc t then [Reserved ''cfm_vectors'' n] else [])"

definition real_functions :: "mac_target \<Rightarrow> nat \<Rightarrow> slot list" where
  "real_functions t n = (if cfm t \<and> ppc t then [Reserved ''real_functions'' n] else [])"

lemma mac_native_split:
  "mac_JNINativeInterface t = take 4 JNINativeInterface @ cfm_vectors t 225 @
     drop 4 JNINativeInterface @ real_functions t 228"
  by (simp add: mac_JNINativeInterface_def mac_native_interface_defs cfm_vectors_def real_functions_def
      JNINativeInterface_def native_interface_defs)

lemma mac_invoke_split:
  "mac_JNIInvokeInterface t = take 3 JNIInvokeInterface @ cfm_vectors t 4 @
     drop 3 JNIInvokeInterface @ real_functions t 5"
  by (simp add: mac_JNIInvokeInterface_def cfm_vectors_def real_functions_def JNIInvokeInterface_def)

text \<open>Where the functions of such a table lie, in terms of the table without the arrays.\<close>

lemma table_words_append [simp]: "table_words (xs @ ys) = table_words xs + table_words ys"
  by (simp add: table_words_def)

lemma offset_of_append:
  "offset_of n (xs @ ys) = (case offset_of n xs of Some k \<Rightarrow> Some k
     | None \<Rightarrow> map_option (\<lambda>k. table_words xs + k) (offset_of n ys))"
proof (induction xs)
  case Nil
  then show ?case by (cases "offset_of n ys") (simp_all add: table_words_def)
next
  case (Cons s xs)
  then show ?case by (cases "offset_of n xs"; cases "offset_of n ys") (simp_all add: table_words_def)
qed

lemma offset_of_None: "n \<notin> slot_name ` set ss \<Longrightarrow> offset_of n ss = None"
  by (induction ss) auto

lemma offset_of_inserted:
  assumes "n \<notin> slot_name ` set (take r table)" "n \<notin> slot_name ` set xs" "n \<notin> slot_name ` set ys"
  shows "offset_of n (take r table @ xs @ drop r table @ ys) =
    map_option (\<lambda>k. k + table_words xs) (offset_of n table)"
proof -
  have "offset_of n table = map_option (\<lambda>k. table_words (take r table) + k) (offset_of n (drop r table))"
    using offset_of_append [of n "take r table" "drop r table"] offset_of_None [OF assms(1)] by simp
  then show ?thesis
    using assms by (simp add: offset_of_append offset_of_None option.map_comp comp_def ac_simps split: option.splits)
qed

lemma distinct_inserted:
  assumes "distinct (map slot_name table)" "distinct (map slot_name (xs @ ys))"
    and "slot_name ` set (xs @ ys) \<inter> slot_name ` set table = {}"
  shows "distinct (map slot_name (take r table @ xs @ drop r table @ ys))"
proof -
  have "distinct (map slot_name (take r table @ drop r table))" using assms(1) by simp
  moreover have "set table = set (take r table) \<union> set (drop r table)" by (metis append_take_drop_id set_append)
  ultimately show ?thesis using assms(2,3) by (auto simp del: append_take_drop_id)
qed

lemma fresh_names:
  "''cfm_vectors'' \<notin> slot_name ` set JNINativeInterface" "''real_functions'' \<notin> slot_name ` set JNINativeInterface"
  "''cfm_vectors'' \<notin> slot_name ` set JNIInvokeInterface" "''real_functions'' \<notin> slot_name ` set JNIInvokeInterface"
proof -
  have "list_all (\<lambda>s. ''cfm_vectors'' \<noteq> slot_name s) JNINativeInterface"
    by (simp add: JNINativeInterface_def native_interface_defs)
  then show "''cfm_vectors'' \<notin> slot_name ` set JNINativeInterface" by (auto simp: list_all_iff)
  have "list_all (\<lambda>s. ''real_functions'' \<noteq> slot_name s) JNINativeInterface"
    by (simp add: JNINativeInterface_def native_interface_defs)
  then show "''real_functions'' \<notin> slot_name ` set JNINativeInterface" by (auto simp: list_all_iff)
qed (simp_all add: JNIInvokeInterface_def)

lemma conditional_distinct: "distinct (map slot_name (cfm_vectors t n @ real_functions t m))"
  by (simp add: cfm_vectors_def real_functions_def)

lemma conditional_fresh:
  "''cfm_vectors'' \<notin> N \<Longrightarrow> ''real_functions'' \<notin> N \<Longrightarrow>
     slot_name ` set (cfm_vectors t n @ real_functions t m) \<inter> N = {}"
  by (auto simp: cfm_vectors_def real_functions_def)

lemma inserted_words:
  assumes "s \<in> set (take r table @ cfm_vectors t n @ drop r table @ real_functions t m)"
    and "\<And>s. s \<in> set table \<Longrightarrow> 0 < slot_words s" and "n \<noteq> 0" "m \<noteq> 0"
  shows "0 < slot_words s"
proof -
  have "s \<in> set table \<or> s \<in> set (cfm_vectors t n) \<or> s \<in> set (real_functions t m)"
    using assms(1) by (auto dest: in_set_takeD in_set_dropD)
  then show ?thesis using assms(2-) by (auto simp: cfm_vectors_def real_functions_def split: if_splits)
qed

interpretation mac_native_table: function_table "mac_JNINativeInterface t" for t
proof
  show "distinct (map slot_name (mac_JNINativeInterface t))"
    unfolding mac_native_split
    by (rule distinct_inserted [OF native_table.names_distinct conditional_distinct conditional_fresh [OF fresh_names(1,2)]])
  show "s \<in> set (mac_JNINativeInterface t) \<Longrightarrow> 0 < slot_words s" for s
    unfolding mac_native_split by (erule inserted_words [OF _ native_table.words_positive]) simp_all
qed

interpretation mac_invoke_table: function_table "mac_JNIInvokeInterface t" for t
proof
  show "distinct (map slot_name (mac_JNIInvokeInterface t))"
    unfolding mac_invoke_split
    by (rule distinct_inserted [OF invoke_table.names_distinct conditional_distinct conditional_fresh [OF fresh_names(3,4)]])
  show "s \<in> set (mac_JNIInvokeInterface t) \<Longrightarrow> 0 < slot_words s" for s
    unfolding mac_invoke_split by (erule inserted_words [OF _ invoke_table.words_positive]) simp_all
qed

lemma forms_follow_append:
  "forms_follow es xs \<Longrightarrow> forms_follow [] ys \<Longrightarrow> forms_follow es (xs @ ys)"
  by (induction es xs rule: forms_follow.induct) auto

lemma mac_native_forms: "forms_follow [] (mac_JNINativeInterface t)"
proof -
  have split: "JNINativeInterface = take 4 JNINativeInterface @ drop 4 JNINativeInterface" by simp
  have "take 4 JNINativeInterface = [Reserved ''reserved0'' 1, Reserved ''reserved1'' 1, Reserved ''reserved2'' 1,
      Reserved ''reserved3'' 1]"
    by (simp add: JNINativeInterface_def native_interface_1_def)
  then have "forms_follow [] (drop 4 JNINativeInterface)" "forms_follow [] (take 4 JNINativeInterface)"
    using native_forms_follow by (subst (asm) split, simp_all)
  then show ?thesis unfolding mac_native_split
    by (intro forms_follow_append) (simp_all add: cfm_vectors_def real_functions_def)
qed

lemma mac_invoke_forms: "forms_follow [] (mac_JNIInvokeInterface t)"
  by (simp add: mac_invoke_split cfm_vectors_def real_functions_def JNIInvokeInterface_def)

interpretation mac_env: member_table "mac_JNINativeInterface t" mac_JNIEnv_members JNIEnv
    "4 + length (cfm_vectors t 225)" for t
proof
  show "list_all well_formed mac_JNIEnv_members" by (simp only: mac_env_members_eq env_members_well_formed)
  have "length JNIEnv_members = length (drop 4 JNINativeInterface)"
    using arg_cong [OF env_members_slots, of length] by simp
  then show "take (length mac_JNIEnv_members) (drop (4 + length (cfm_vectors t 225)) (mac_JNINativeInterface t)) =
      map (member_slot JNIEnv) mac_JNIEnv_members"
    by (simp add: mac_native_split length_native_interface env_members_slots mac_env_members_eq)
qed (rule mac_native_forms)

interpretation mac_vm: member_table "mac_JNIInvokeInterface t" mac_JavaVM_members JavaVM
    "3 + length (cfm_vectors t 4)" for t
proof
  show "list_all well_formed mac_JavaVM_members"
    using vm.members_well_formed by (simp only: mac_vm_members_eq)
  have "drop (3 + length (cfm_vectors t 4)) (mac_JNIInvokeInterface t) = drop 3 JNIInvokeInterface @ real_functions t 5"
    by (simp add: mac_invoke_split JNIInvokeInterface_def cfm_vectors_def)
  then show "take (length mac_JavaVM_members) (drop (3 + length (cfm_vectors t 4)) (mac_JNIInvokeInterface t)) =
      map (member_slot JavaVM) mac_JavaVM_members"
    by (simp add: JNIInvokeInterface_def mac_JavaVM_members_def member_slot_def)
qed (rule mac_invoke_forms)

section \<open>Properties\<close>

text \<open>C23: the two headers describe one interface: on every target but PowerPC both tables are
  the same, entry by entry, and the inline members are the same on all targets.\<close>

theorem mac_same_interface:
  assumes "\<not> ppc t"
  shows "mac_JNINativeInterface t = JNINativeInterface \<and> mac_JNIInvokeInterface t = JNIInvokeInterface \<and>
    mac_JNIEnv_members = JNIEnv_members \<and> mac_JavaVM_members = JavaVM_members"
  using assms
  by (simp add: mac_native_split mac_invoke_split cfm_vectors_def real_functions_def mac_env_members_eq mac_vm_members_eq)

lemma mac_same_interface_witness:
  "mac_JNINativeInterface \<lparr>ppc = False, cfm = True\<rparr> = JNINativeInterface \<and>
   mac_JNIInvokeInterface \<lparr>ppc = False, cfm = True\<rparr> = JNIInvokeInterface"
  using mac_same_interface [of "\<lparr>ppc = False, cfm = True\<rparr>"] by simp

text \<open>C24: on PowerPC without the code fragment manager every function of the native interface
  lies 225 pointers further on than the Linux header says, and with it all lie in the same
  place and the table is 228 pointers longer; the invocation interface moves by 4 and grows
  by 5.\<close>

theorem mac_offsets:
  assumes "n \<in> member_name ` set JNIEnv_members" "m \<in> member_name ` set JavaVM_members"
  shows "offset_of n (mac_JNINativeInterface t) =
      map_option (\<lambda>k. k + (if ppc t \<and> \<not> cfm t then 225 else 0)) (offset_of n JNINativeInterface) \<and>
    offset_of m (mac_JNIInvokeInterface t) =
      map_option (\<lambda>k. k + (if ppc t \<and> \<not> cfm t then 4 else 0)) (offset_of m JNIInvokeInterface) \<and>
    table_words (mac_JNINativeInterface t) = 233 + (if ppc t then if cfm t then 228 else 225 else 0) \<and>
    table_words (mac_JNIInvokeInterface t) = 8 + (if ppc t then if cfm t then 5 else 4 else 0)"
proof -
  have slot_names: "slot_name (member_slot self x) = member_name x" for self x by (simp add: member_slot_def)
  have n: "n \<in> slot_name ` set (drop 4 JNINativeInterface)"
    using assms(1) by (metis (no_types, lifting) env_members_slots image_iff list.set_map slot_names)
  have "distinct (map slot_name (take 4 JNINativeInterface @ drop 4 JNINativeInterface))"
    using native_table.names_distinct by simp
  then have n_take: "n \<notin> slot_name ` set (take 4 JNINativeInterface)" using n by (auto simp del: append_take_drop_id)
  have "n \<in> slot_name ` set JNINativeInterface" using n by (auto dest: in_set_dropD)
  then have n_new: "n \<noteq> ''cfm_vectors''" "n \<noteq> ''real_functions''" using fresh_names(1,2) by (metis, metis)
  have m: "m \<in> {''DestroyJavaVM'', ''AttachCurrentThread'', ''DetachCurrentThread'', ''GetEnv'', ''AttachCurrentThreadAsDaemon''}"
    using assms(2) by (auto simp: JavaVM_members_def)
  have words: "table_words JNINativeInterface = 233" "table_words JNIInvokeInterface = 8"
    by (simp_all add: table_words_def JNINativeInterface_def native_interface_defs JNIInvokeInterface_def)
  have split: "table_words (take r ss) + table_words (drop r ss) = table_words ss" for r ss
    by (metis append_take_drop_id table_words_append)
  have cw: "table_words (cfm_vectors t k) = (if ppc t \<and> \<not> cfm t then k else 0)"
    "table_words (real_functions t k) = (if ppc t \<and> cfm t then k else 0)" for k
    by (auto simp: cfm_vectors_def real_functions_def table_words_def)
  have "offset_of n (mac_JNINativeInterface t) =
      map_option (\<lambda>k. k + table_words (cfm_vectors t 225)) (offset_of n JNINativeInterface)"
    unfolding mac_native_split using n_take n_new
    by (intro offset_of_inserted) (auto simp: cfm_vectors_def real_functions_def)
  moreover have "offset_of m (mac_JNIInvokeInterface t) =
      map_option (\<lambda>k. k + table_words (cfm_vectors t 4)) (offset_of m JNIInvokeInterface)"
    unfolding mac_invoke_split using m
    by (intro offset_of_inserted) (auto simp: cfm_vectors_def real_functions_def JNIInvokeInterface_def)
  ultimately show ?thesis
    using words split [of 4 JNINativeInterface] split [of 3 JNIInvokeInterface]
    by (simp add: cw mac_native_split mac_invoke_split)
qed

lemma mac_offsets_witness:
  "offset_of ''GetEnv'' (mac_JNIInvokeInterface \<lparr>ppc = True, cfm = False\<rparr>) = Some 10"
proof -
  have "''GetVersion'' \<in> member_name ` set JNIEnv_members" by (simp add: JNIEnv_members_def env_members_1_def)
  moreover have "''GetEnv'' \<in> member_name ` set JavaVM_members" by (simp add: JavaVM_members_def)
  moreover have "offset_of ''GetEnv'' JNIInvokeInterface = Some 6" by (simp add: JNIInvokeInterface_def)
  ultimately show ?thesis using mac_offsets [of "''GetVersion''" "''GetEnv''" "\<lparr>ppc = True, cfm = False\<rparr>"] by simp
qed

text \<open>C25: on every Mac target the inline members forward to the function of their name, at
  whatever place that target's table has it.\<close>

theorem mac_env_member_forwards:
  assumes "m \<in> set mac_JNIEnv_members" "length args = length (member_params m)"
  shows "\<exists>k. offset_of (target m) (mac_JNINativeInterface t) = Some k \<and>
    slot_at k (mac_JNINativeInterface t) = Some (Fn (target m) (member_ret m) (call_types JNIEnv m)) \<and>
    call_member (mac_JNINativeInterface t) impl m args vargs w =
      (let (v, w') = impl k (This # map Val args @ (if member_open m then [VaArgs vargs] else [])) w
       in Inr (if member_ret m = void_t then None else Some v, w'))"
  by (rule mac_env.member_forwards [OF assms])

lemma mac_env_member_forwards_witness:
  "\<exists>k. offset_of ''GetVersion'' (mac_JNINativeInterface \<lparr>ppc = True, cfm = False\<rparr>) = Some k \<and>
     call_member (mac_JNINativeInterface \<lparr>ppc = True, cfm = False\<rparr>) (\<lambda>k vs w. (k, length vs # w))
       (Member ''GetVersion'' jint [] False [ReturnCall ''GetVersion'' [''this'']]) [] [] [] = Inr (Some k, [1])"
proof -
  let ?m = "Member ''GetVersion'' jint [] False [ReturnCall ''GetVersion'' [''this'']]"
  have "?m \<in> set mac_JNIEnv_members" by (simp add: mac_JNIEnv_members_def mac_env_members_1_def)
  from mac_env_member_forwards [OF this, of "[]" "\<lparr>ppc = True, cfm = False\<rparr>" "\<lambda>k vs w. (k, length vs # w)" "[]" "[]"]
  show ?thesis by (auto simp: target_def)
qed

end
