(* ===== verification/Native_Methods.thy ===== *)
theory Native_Methods
  imports Jni_Interface
begin

text \<open>
  The native methods of \<open>nvlib/TestRuntimeNative.java\<close> and the declarations that
  \<open>io_github_maropu_nvlib_TestRuntimeNative.h\<close> has for them, with the rules of the Java Native Interface
  that connect the two: names, method descriptors and types.
\<close>

section \<open>Java types\<close>

datatype java_type =
    TVoid | TBoolean | TByte | TChar | TShort | TInt | TLong | TFloat | TDouble
  | TClass string
  | TArray java_type

record java_method =
  jm_name :: string
  jm_params :: "java_type list"
  jm_result :: java_type

text \<open>The descriptor of a type; a class name is written with slashes.\<close>

fun type_descriptor :: "java_type \<Rightarrow> string" where
  "type_descriptor TVoid = ''V''" | "type_descriptor TBoolean = ''Z''" | "type_descriptor TByte = ''B''"
| "type_descriptor TChar = ''C''" | "type_descriptor TShort = ''S''" | "type_descriptor TInt = ''I''"
| "type_descriptor TLong = ''J''" | "type_descriptor TFloat = ''F''" | "type_descriptor TDouble = ''D''"
| "type_descriptor (TClass c) = ''L'' @ c @ '';''"
| "type_descriptor (TArray t) = ''['' @ type_descriptor t"

definition descriptor :: "java_method \<Rightarrow> string" where
  "descriptor m = ''('' @ concat (map type_descriptor (jm_params m)) @ '')'' @ type_descriptor (jm_result m)"

text \<open>The type by which native code gets a value of a Java type.\<close>

fun native_type :: "java_type \<Rightarrow> ctype" where
  "native_type TVoid = void_t" | "native_type TBoolean = jboolean" | "native_type TByte = jbyte"
| "native_type TChar = jchar" | "native_type TShort = jshort" | "native_type TInt = jint"
| "native_type TLong = jlong" | "native_type TFloat = jfloat" | "native_type TDouble = jdouble"
| "native_type (TClass c) = (if c = ''java/lang/String'' then jstring
     else if c = ''java/lang/Class'' then jclass else if c = ''java/lang/Throwable'' then jthrowable else jobject)"
| "native_type (TArray t) = (case t of TBoolean \<Rightarrow> jbooleanArray | TByte \<Rightarrow> jbyteArray | TChar \<Rightarrow> jcharArray
     | TShort \<Rightarrow> jshortArray | TInt \<Rightarrow> jintArray | TLong \<Rightarrow> jlongArray | TFloat \<Rightarrow> jfloatArray
     | TDouble \<Rightarrow> jdoubleArray | _ \<Rightarrow> jobjectArray)"

text \<open>The name of the function for a method: the parts are escaped and joined with underscores.\<close>

definition escape :: "string \<Rightarrow> string" where
  "escape s = concat (map (\<lambda>c. if c = CHR ''/'' then ''_'' else if c = CHR ''_'' then ''_1'' else if c = CHR '';'' then ''_2''
     else if c = CHR ''['' then ''_3'' else [c]) s)"

definition native_name :: "string \<Rightarrow> java_method \<Rightarrow> string" where
  "native_name cls m = ''Java_'' @ escape cls @ ''_'' @ escape (jm_name m)"

section \<open>The class\<close>

definition native_class :: string where
  "native_class = ''io/github/maropu/nvlib/TestRuntimeNative''"

definition FUNCTION_ID_ADD :: int where "FUNCTION_ID_ADD = 1"
definition FUNCTION_ID_MULTIPLY :: int where "FUNCTION_ID_MULTIPLY = 2"

definition native_methods :: "java_method list" where
  "native_methods = [
     \<lparr>jm_name = ''initialize'', jm_params = [], jm_result = TVoid\<rparr>,
     \<lparr>jm_name = ''finalize'', jm_params = [], jm_result = TVoid\<rparr>,
     \<lparr>jm_name = ''getIntFuncAddr'', jm_params = [TInt], jm_result = TLong\<rparr>,
     \<lparr>jm_name = ''callIntFuncFromAddr'', jm_params = [TLong, TInt, TInt], jm_result = TInt\<rparr>,
     \<lparr>jm_name = ''compileToFunc'', jm_params = [TArray TByte, TClass ''java/lang/String'', TBoolean], jm_result = TLong\<rparr>,
     \<lparr>jm_name = ''getFuncAddrFromCompileState'', jm_params = [TLong], jm_result = TLong\<rparr>,
     \<lparr>jm_name = ''releaseCompileState'', jm_params = [TLong], jm_result = TVoid\<rparr>,
     \<lparr>jm_name = ''toLLVMAssemblyCode'', jm_params = [TArray TByte, TInt, TInt], jm_result = TClass ''java/lang/String''\<rparr>,
     \<lparr>jm_name = ''toMachineAssemblyCode'', jm_params = [TClass ''java/lang/String'', TArray TByte, TInt, TInt],
      jm_result = TClass ''java/lang/String''\<rparr>]"

text \<open>\<open>throwException\<close>, which the native code calls.\<close>

definition method_throwException :: java_method where
  "method_throwException = \<lparr>jm_name = ''throwException'', jm_params = [TClass ''java/lang/String''], jm_result = TVoid\<rparr>"

section \<open>The header\<close>

text \<open>Per declaration: the signature in its comment, its result, its name and its parameters.\<close>

definition header_constants :: "(string \<times> int) list" where
  "header_constants = [
     (''io_github_maropu_nvlib_TestRuntimeNative_FUNCTION_ID_ADD'', 1),
     (''io_github_maropu_nvlib_TestRuntimeNative_FUNCTION_ID_MULTIPLY'', 2)]"

definition header_declarations :: "(string \<times> ctype \<times> string \<times> ctype list) list" where
  "header_declarations = [
     (''()V'', void_t, ''Java_io_github_maropu_nvlib_TestRuntimeNative_initialize'', [Ptr JNIEnv, jobject]),
     (''()V'', void_t, ''Java_io_github_maropu_nvlib_TestRuntimeNative_finalize'', [Ptr JNIEnv, jobject]),
     (''(I)J'', jlong, ''Java_io_github_maropu_nvlib_TestRuntimeNative_getIntFuncAddr'', [Ptr JNIEnv, jobject, jint]),
     (''(JII)I'', jint, ''Java_io_github_maropu_nvlib_TestRuntimeNative_callIntFuncFromAddr'',
      [Ptr JNIEnv, jobject, jlong, jint, jint]),
     (''([BLjava/lang/String;Z)J'', jlong, ''Java_io_github_maropu_nvlib_TestRuntimeNative_compileToFunc'',
      [Ptr JNIEnv, jobject, jbyteArray, jstring, jboolean]),
     (''(J)J'', jlong, ''Java_io_github_maropu_nvlib_TestRuntimeNative_getFuncAddrFromCompileState'',
      [Ptr JNIEnv, jobject, jlong]),
     (''(J)V'', void_t, ''Java_io_github_maropu_nvlib_TestRuntimeNative_releaseCompileState'', [Ptr JNIEnv, jobject, jlong]),
     (''([BII)Ljava/lang/String;'', jstring, ''Java_io_github_maropu_nvlib_TestRuntimeNative_toLLVMAssemblyCode'',
      [Ptr JNIEnv, jobject, jbyteArray, jint, jint]),
     (''(Ljava/lang/String;[BII)Ljava/lang/String;'', jstring,
      ''Java_io_github_maropu_nvlib_TestRuntimeNative_toMachineAssemblyCode'',
      [Ptr JNIEnv, jobject, jstring, jbyteArray, jint, jint])]"

section \<open>The header and the class\<close>

lemma header_of_methods:
  "map (\<lambda>m. (descriptor m, native_type (jm_result m), native_name native_class m,
      Ptr JNIEnv # jobject # map native_type (jm_params m))) native_methods = header_declarations"
  by (simp add: native_methods_def header_declarations_def descriptor_def native_name_def escape_def native_class_def)

text \<open>C35: The header declares exactly the native methods of the class, in their order: each under
  the name that the virtual machine looks for, with the signature of the method in its comment
  and the types that belong to it in its prototype, after the environment and the object. The
  names are distinct, so that no overloaded name has to be resolved, and the constants have the
  names and values of the class.\<close>

theorem header_matches_class:
  "map (\<lambda>m. (descriptor m, native_type (jm_result m), native_name native_class m,
      Ptr JNIEnv # jobject # map native_type (jm_params m))) native_methods = header_declarations \<and>
   distinct (map (\<lambda>(d, r, n, ps). n) header_declarations) \<and>
   header_constants = [(escape native_class @ ''_FUNCTION_ID_ADD'', FUNCTION_ID_ADD),
     (escape native_class @ ''_FUNCTION_ID_MULTIPLY'', FUNCTION_ID_MULTIPLY)]"
proof (intro conjI header_of_methods)
  show "distinct (map (\<lambda>(d, r, n, ps). n) header_declarations)"
    by (simp add: header_declarations_def)
qed (simp add: header_constants_def escape_def native_class_def FUNCTION_ID_ADD_def FUNCTION_ID_MULTIPLY_def)

end
