(* ===== verification/Test_Rt_Errors.thy ===== *)
theory Test_Rt_Errors
  imports Test_Rt_Runs Native_Methods
begin

text \<open>
  The integer functions of the native library and its error paths: what a Java caller sees of
  each of them, and which of them it never sees.
\<close>

section \<open>Decimal numbers\<close>

definition digit_value :: "char \<Rightarrow> nat" where
  "digit_value c = of_char c - 48"

lemma digit_value_char: "n < 10 \<Longrightarrow> digit_value (char_of (48 + n)) = n"
  by (simp add: digit_value_def)

lemma digits_value: "foldl (\<lambda>a c. 10 * a + digit_value c) 0 (digits n) = n"
proof (induction n rule: digits.induct)
  case (1 n)
  then show ?case by (subst digits.simps) (simp add: digit_value_char)
qed




section \<open>The integer functions\<close>

lemma int_result_word:
  "int_result (sint a + sint b) s = (if sint (a + b) = sint a + sint b then Inr (a + b) else Inl (Undefined ''signed overflow''), s)"
  "int_result (sint a * sint b) s = (if sint (a * b) = sint a * sint b then Inr (a * b) else Inl (Undefined ''signed overflow''), s)"
  for a b :: word32
proof -
  have result: "int_result i s = (if sint (word_of_int i :: word32) = i then Inr (word_of_int i) else Inl (Undefined ''signed overflow''), s)"
    for i and s :: "('w, 'l) native_state"
    using wrap32_range [of i] wrap32_id [of i] wrap32_sint [of i]
    by (auto simp: int_result_def ret_apply raise_apply)
  show "int_result (sint a + sint b) s = (if sint (a + b) = sint a + sint b then Inr (a + b) else Inl (Undefined ''signed overflow''), s)"
    by (simp add: result wi_hom_add [symmetric])
  show "int_result (sint a * sint b) s = (if sint (a * b) = sint a * sint b then Inr (a * b) else Inl (Undefined ''signed overflow''), s)"
    by (simp add: result wi_hom_mult [symmetric])
qed

text \<open>C21: If the linker gives the two functions different addresses, calling the address for the
  identifier 1 or 2 returns the sum or the product, as Java computes it, as long as that does
  not overflow; an overflow is undefined, where Java wraps around.\<close>

theorem call_int_functions:
  assumes "addr_testIntAdd B \<noteq> addr_testIntMultiply B"
  shows "bindc (getIntFuncAddr B V self 1) (\<lambda>f. callIntFuncFromAddr B L f a b) s =
      (if sint (a + b) = sint a + sint b then Inr (a + b) else Inl (Undefined ''signed overflow''), s) \<and>
    bindc (getIntFuncAddr B V self 2) (\<lambda>f. callIntFuncFromAddr B L f a b) s =
      (if sint (a * b) = sint a * sint b then Inr (a * b) else Inl (Undefined ''signed overflow''), s)"
  using assms by (simp add: getIntFuncAddr_def callIntFuncFromAddr_def testIntAdd_def testIntMultiply_def int_result_word)

lemma call_int_functions_witness:
  "fst (bindc (getIntFuncAddr sample_build (sample_vm 0) (JRef 1) 1)
      (\<lambda>f. callIntFuncFromAddr sample_build (sample_llvm True) f 40 2) sample_state) = Inr 42 \<and>
   fst (bindc (getIntFuncAddr sample_build (sample_vm 0) (JRef 1) 2)
      (\<lambda>f. callIntFuncFromAddr sample_build (sample_llvm True) f 0x10000 0x10000) sample_state) = Inl (Undefined ''signed overflow'')"
  using call_int_functions [of sample_build "sample_vm 0" "JRef 1" "sample_llvm True" 40 2 sample_state]
    call_int_functions [of sample_build "sample_vm 0" "JRef 1" "sample_llvm True" "0x10000" "0x10000" sample_state]
  by (simp add: sample_build_def)

section \<open>Error paths\<close>



section \<open>Bitcode that does not parse\<close>

text \<open>How the functions that read bitcode end then, with what is held at that moment.\<close>

definition escapes :: "string \<Rightarrow> jval \<Rightarrow> ('w, 'l) native_state \<Rightarrow> (cpp_stop + 'a) \<times> ('w, 'l) native_state \<Rightarrow> bool" where
  "escapes msg ar s res \<longleftrightarrow> (\<exists>t p. res = (Inl (ThrownChars msg), t) \<and> Critical ar p \<in> set (held t) \<and> silent s t)"

abbreviation (input) parse_error :: string where
  "parse_error \<equiv> ''Can't parse the given bitcode to build a LLVM module.''"

lemma bad_text:
  assumes "array_read V bitcode (jvm s) = Some (bs, w)" "not_bitcode L bs"
  shows "escapes parse_error bitcode s (native_toLLVMAssemblyCode B V L self bitcode o1 o2 s)"
proof -
  obtain p n s1 s2 where a: "new_JniPrimitiveArrayPtr V bitcode s = (Inr \<lparr>ap_array = bitcode, ap_ptr = CPtr p\<rparr>, s1)"
    "array_size V \<lparr>ap_array = bitcode, ap_ptr = CPtr p\<rparr> s1 = (Inr n, s2)" "p \<noteq> 0"
    "held s2 = Critical bitcode (CPtr p) # held s" "bytes_at V p n (jvm s2) = bs"
    using array_run [OF assms(1)] by metis
  obtain c l where "construct_context L (lib s2) = (c, l)" by fastforce
  then obtain s3 where c: "new_LLVMContext L s2 = (Inr c, s3)" "jvm s3 = jvm s2" "held s3 = Object (Context c) # held s2"
    using context_run by metis
  have "bytes_at V p n (jvm s3) = bs" using a(5) c(2) by simp
  then obtain t where m: "new_unique ''m'' Some (parseBitcode V L (CPtr p) n c) s3 = (Inl (ThrownChars parse_error), t)"
    "held t = held s3" using module_fails [OF _ a(3) assms(2)] by metis
  have "toLLVMAssemblyCode V L (CPtr p) n s2 = (Inl (ThrownChars parse_error), t)"
    using c m by (simp add: toLLVMAssemblyCode_def scoped_def bindc_def)
  then have "native_toLLVMAssemblyCode B V L self bitcode o1 o2 s = (Inl (ThrownChars parse_error), t)"
    using a by (simp add: native_toLLVMAssemblyCode_def try_catch_def scoped_def bindc_def array_get_def)
  moreover from silent_escapes(1) [OF this] have "silent s t" .
  ultimately show ?thesis using a(4) c(3) m(2) by (auto simp: escapes_def)
qed

lemma bad_function:
  assumes "array_read V bitcode (jvm s) = Some (bs, w)" "not_bitcode L bs"
  shows "escapes parse_error bitcode s (compileToFunc B V L self bitcode name flag s)"
proof -
  obtain c l where "construct_context L (lib s) = (c, l)" by fastforce
  then obtain s1 where c: "new_LLVMContext L s = (Inr c, s1)" "jvm s1 = jvm s" using context_run by metis
  have "array_read V bitcode (jvm s1) = Some (bs, w)" using assms(1) c(2) by simp
  then obtain p n s2 s3 where a: "new_JniPrimitiveArrayPtr V bitcode s1 = (Inr \<lparr>ap_array = bitcode, ap_ptr = CPtr p\<rparr>, s2)"
    "array_size V \<lparr>ap_array = bitcode, ap_ptr = CPtr p\<rparr> s2 = (Inr n, s3)" "p \<noteq> 0"
    "held s3 = Critical bitcode (CPtr p) # held s1" "bytes_at V p n (jvm s3) = bs"
    using array_run by metis
  obtain t where m: "new_unique ''m'' Some (parseBitcode V L (CPtr p) n c) s3 = (Inl (ThrownChars parse_error), t)"
    "held t = held s3" using module_fails [OF a(5,3) assms(2)] by metis
  have "compileToFunc B V L self bitcode name flag s = (Inl (ThrownChars parse_error), t)"
    using a c m by (simp add: compileToFunc_def try_catch_def scoped_def bindc_def array_get_def)
  moreover from silent_escapes(3) [OF this] have "silent s t" .
  ultimately show ?thesis using a(4) m(2) by (auto simp: escapes_def)
qed

lemma bad_machine_text:
  assumes str: "string_read V arch (jvm s) = Some (str, w)" and arr: "array_read V bitcode w = Some (bs, w')"
    and ready: "machine_ready L str (snd (construct_context L (lib s)))" and bad: "not_bitcode L bs"
  shows "escapes parse_error bitcode s (native_toMachineAssemblyCode B V L self arch bitcode o1 o2 s)"
proof -
  obtain obj s1 where o: "new_JniString V arch s = (Inr obj, s1)" "string_str obj = str" "jvm s1 = w" "lib s1 = lib s"
    using string_run [OF str] by metis
  have "array_read V bitcode (jvm s1) = Some (bs, w')" using arr o(3) by simp
  then obtain p n s2 s3 where a: "new_JniPrimitiveArrayPtr V bitcode s1 = (Inr \<lparr>ap_array = bitcode, ap_ptr = CPtr p\<rparr>, s2)"
    "array_size V \<lparr>ap_array = bitcode, ap_ptr = CPtr p\<rparr> s2 = (Inr n, s3)" "p \<noteq> 0" "lib s3 = lib s1"
    "held s3 = Critical bitcode (CPtr p) # held s1" "bytes_at V p n (jvm s3) = bs"
    using array_run by metis
  obtain c l where l: "construct_context L (lib s3) = (c, l)" by fastforce
  then obtain s4 where c: "new_LLVMContext L s3 = (Inr c, s4)" "jvm s4 = jvm s3" "lib s4 = l" "held s4 = Object (Context c) # held s3"
    using context_run by metis
  have ready: "machine_ready L str (lib s4)" using ready l a(4) o(4) c(3) by simp
  obtain k triple err l1 where k: "lookup_target L str (lib s4) = ((k, triple, err), l1)" "k \<noteq> 0"
    using ready by (auto simp: machine_ready_def split: prod.splits)
  obtain j l2 where j: "create_machine L k triple l1 = (j, l2)" "j \<noteq> 0" "\<not> fst (emit_passes L j l2)"
    using ready k by (auto simp: machine_ready_def split: prod.splits)
  then obtain l3 where e: "emit_passes L j l2 = (False, l3)" by (cases "emit_passes L j l2") simp
  define s5 where "s5 = log_event (CreatedMachine j) (s4\<lparr>lib := l2\<rparr>)"
  have lookup: "lookupTargetMachine L str s4 = (Inr j, s5)"
    using k j by (simp add: lookupTargetMachine_def run_native s5_def)
  have s5: "jvm s5 = jvm s4" "lib s5 = l2" "held s5 = TargetMachine j # held s4"
    by (simp_all add: s5_def) (simp_all add: log_event_def)
  have "bytes_at V p n (jvm (s5\<lparr>lib := l3\<rparr>)) = bs" using a(6) c(2) s5(1) by simp
  then obtain t where m: "new_unique ''m'' Some (parseBitcode V L (CPtr p) n c) (s5\<lparr>lib := l3\<rparr>) =
      (Inl (ThrownChars parse_error), t)" "held t = held (s5\<lparr>lib := l3\<rparr>)"
    using module_fails [OF _ a(3) bad] by metis
  have "lib_call (emit_passes L j) s5 = (Inr False, s5\<lparr>lib := l3\<rparr>)" using e s5(2) by (simp add: lib_call_def)
  then have "toMachineAssemblyCode V L str (CPtr p) n s3 = (Inl (ThrownChars parse_error), t)"
    using c m lookup by (simp add: toMachineAssemblyCode_def scoped_def bindc_def)
  then have "native_toMachineAssemblyCode B V L self arch bitcode o1 o2 s = (Inl (ThrownChars parse_error), t)"
    using o a by (simp add: native_toMachineAssemblyCode_def try_catch_def scoped_def bindc_def array_get_def)
  moreover from silent_escapes(2) [OF this] have "silent s t" .
  ultimately show ?thesis using a(5) c(4) m(2) s5(3) by (auto simp: escapes_def)
qed

text \<open>C12: Bytes that LLVM does not parse cannot be reported: each of the three functions that read
  bitcode lets an exception of type \<open>const char *\<close> leave the library, with the array still held
  in its critical region, and has called none of the functions by which an error is reported to
  Java. (For \<open>toMachineAssemblyCode\<close> the architecture is one that LLVM has a machine for.)\<close>

theorem bad_bitcode_escapes:
  assumes "not_bitcode L bs"
    and "array_read V bitcode (jvm s) = Some (bs, w)"
    and "string_read V arch (jvm s) = Some (str, u)" "array_read V bitcode u = Some (bs, u')"
    and "machine_ready L str (snd (construct_context L (lib s)))"
  shows "escapes ''Can't parse the given bitcode to build a LLVM module.'' bitcode s
      (native_toLLVMAssemblyCode B V L self bitcode o1 o2 s) \<and>
    escapes ''Can't parse the given bitcode to build a LLVM module.'' bitcode s
      (compileToFunc B V L self bitcode name flag s) \<and>
    escapes ''Can't parse the given bitcode to build a LLVM module.'' bitcode s
      (native_toMachineAssemblyCode B V L self arch bitcode o1 o2 s)"
  using bad_text [OF assms(2,1)] bad_function [OF assms(2,1)] bad_machine_text [OF assms(3-5,1)] by blast

text \<open>A library that parses what starts with \<open>B\<close>, for the witnesses, and a string that the machine has.\<close>

definition picky_llvm :: "bool llvm" where
  "picky_llvm = \<lparr>
     initialize_target = (\<lambda>n l. l), construct_context = (\<lambda>l. (1, l)), destroy = (\<lambda>obj l. l),
     get_mem_buffer = (\<lambda>bs l. (Some 1, bs \<noteq> [] \<and> hd bs = 0x42)), parse_bitcode_file = (\<lambda>b c l. (if l then Some 2 else None, l)),
     print_module = (\<lambda>m l. (''module'', l)), get_function = (\<lambda>m n l. (if n = ''add'' then 7 else 0, l)),
     build_ir = (\<lambda>m is l. (True, l)), create_engine = (\<lambda>m l. ((3, []), l)),
     function_address = (\<lambda>e n l. (if n = entryPointFuncName then 0x4000 else 0, l)),
     lookup_target = (\<lambda>a l. ((if a = ''x86-64'' then 1 else 0, a, ''no such target''), l)),
     create_machine = (\<lambda>t a l. (4, l)), emit_passes = (\<lambda>k l. (False, l)),
     emit_module = (\<lambda>k m l. (''asm'', l)), malloc = (\<lambda>l. (0x500, l)), jit_code = (\<lambda>a l. None)\<rparr>"

text \<open>A virtual machine with one array, of the bytes \<open>bs\<close>, and one string.\<close>

definition array_vm :: "nat \<Rightarrow> byte list \<Rightarrow> string \<Rightarrow> unit jvm_interface" where
  "array_vm cls bs str = (sample_vm cls)\<lparr>c_string_at := \<lambda>a w. str, bytes_at := \<lambda>a n w. take n (bs @ replicate n 0)\<rparr>"

definition picky_state :: "(unit, bool) native_state" where
  "picky_state = \<lparr>jvm = (), lib = False, heap = (\<lambda>_. None), unique = (\<lambda>_. None), events = []\<rparr>"

lemmas picky = picky_llvm_def array_vm_def sample_vm_def picky_state_def array_read_def string_read_def

lemma bad_bitcode_escapes_witness:
  "\<exists>t p. compileToFunc sample_build (array_vm 0 [1, 2, 3] ''x86-64'') picky_llvm (JRef 1) (JRef 2) (JRef 3) 1 picky_state =
     (Inl (ThrownChars ''Can't parse the given bitcode to build a LLVM module.''), t) \<and> Critical (JRef 2) p \<in> set (held t)"
proof -
  let ?V = "array_vm 0 [1, 2, 3] ''x86-64''"
  have "not_bitcode picky_llvm [1, 2, 3]" "array_read ?V (JRef 2) (jvm picky_state) = Some ([1, 2, 3], ())"
    "string_read ?V (JRef 4) (jvm picky_state) = Some (''x86-64'', ())" "array_read ?V (JRef 2) () = Some ([1, 2, 3], ())"
    "machine_ready picky_llvm ''x86-64'' (snd (construct_context picky_llvm (lib picky_state)))"
    by (simp_all add: picky not_bitcode_def machine_ready_def)
  from bad_bitcode_escapes [OF this] show ?thesis unfolding escapes_def by blast
qed

text \<open>C22: The handler of \<open>toLLVMAssemblyCode\<close> is never reached: nothing in its body throws a
  \<open>std::string\<close>. The result does not depend on the object whose class would throw, on the build,
  or on the two levels, and the Java exception the method declares is never thrown.\<close>

theorem assembly_text_never_throws:
  "native_toLLVMAssemblyCode B V L self bitcode optLevel sizeLevel =
   native_toLLVMAssemblyCode B' V L self' bitcode optLevel' sizeLevel'"
proof -
  have parse: "stops (\<lambda>e. \<not> caught e) (parseBitcode V L b n c)" for b n c
  proof -
    have bytes: "stops (\<lambda>e. \<not> caught e) (read_bytes V p k)" for p k
      unfolding read_bytes_def by (cases p) (simp_all add: stops_simple)
    show ?thesis unfolding parseBitcode_def by (intro stops_steps bytes; simp)
  qed
  have delete: "stops (\<lambda>e. \<not> caught e) (delete_object L obj)" for obj
    unfolding delete_object_def by (intro stops_steps)
  have "stops (\<lambda>e. \<not> caught e) (toLLVMAssemblyCode V L b n)" for b n
    unfolding toLLVMAssemblyCode_def toLLVMAssemblyCodeFromModule_def delete_LLVMContext_def new_unique_def delete_unique_def
    by (intro stops_steps stops_constructors parse delete)
  then show ?thesis
    unfolding native_toLLVMAssemblyCode_def new_JniPrimitiveArrayPtr_def delete_JniPrimitiveArrayPtr_def
    by (intro try_catch_dead stops_steps stops_constructors)
qed

section \<open>Errors that are reported\<close>

text \<open>C15: When this call's bitcode parses but its module has no function of the name asked for,
  \<open>compileToFunc\<close> releases all it has acquired and then calls \<open>throwException\<close> with a message that
  names the place in the source and the function; if that returns, the result is 0. How
  \<open>throwException\<close> itself ends is the same as for an unknown function id.\<close>

theorem missing_function_reported:
  assumes "array_read V bitcode (jvm s) = Some (bs, w)" "load_module L bs (lib s) = Some (m, l)"
    and "string_read V name w = Some (str, w')" "fst (get_function L m str l) = 0"
  shows "\<exists>t. mset (held t) = mset (held s) \<and> silent s t \<and>
    compileToFunc B V L self bitcode name st s =
      bindc (throwException B V self
        (''!!UNREACHABLE!! (file='' @ source_file B @ '' line=134) Function not found: '' @ str)) (\<lambda>_. ret 0) t"
proof -
  let ?e = "''!!UNREACHABLE!! (file='' @ source_file B @ '' line=134) Function not found: '' @ str"
  have line: "decimal 134 = ''134''" by code_simp
  obtain c arr n nm s1 s2 s3 s4 s5 where run: "new_LLVMContext L s = (Inr c, s1)"
    "new_JniPrimitiveArrayPtr V bitcode s1 = (Inr arr, s2)" "array_size V arr s2 = (Inr n, s3)"
    "new_unique ''m'' Some (parseBitcode V L (array_get arr) n c) s3 = (Inr m, s4)"
    "new_JniString V name s4 = (Inr nm, s5)" "string_str nm = str" "lib s5 = l"
    using compile_run [OF assms(1-3)] by metis
  have f: "lib_call (get_function L m (string_str nm)) s5 = (Inr 0, s5\<lparr>lib := snd (get_function L m str l)\<rparr>)"
    using assms(4) run(6,7) by (cases "get_function L m str l") (simp add: lib_call_def)
  have throw: "throws_at (ThrownString ?e) (bindc (whenc (0 = (0 :: nat)) (test_rt_unreachable_internal
      (''Function not found: '' @ string_str nm) (source_file B) 134)) g) t" for g :: "unit \<Rightarrow> ('a, 'b, 'x) native" and t
    using throws_at_bindc_left [OF throws_at_raise] by (simp add: test_rt_unreachable_internal_def line run(6))
  show ?thesis unfolding compileToFunc_def
    apply (rule caught_after_release)
    subgoal by (rule throws_at_scoped, rule run(1), rule throws_at_scoped, rule run(2), rule throws_at_bindc, rule run(3),
        rule throws_at_scoped, rule run(4), rule throws_at_scoped, rule run(5), rule throws_at_bindc, rule f, rule throw)
      (simp_all add: destructors_return)
    subgoal by (intro balanced_steps)
    subgoal by (rule disjI1, intro keeps_machines.steps keeps_machines.compile_state, simp)
    subgoal by (intro silently.steps silently.compile_state, simp add: silent_def)
    done
qed

lemma missing_function_reported_witness:
  "\<exists>t. mset (held t) = mset (held picky_state) \<and>
    compileToFunc sample_build (array_vm 7 [0x42, 0x43, 3] ''sub'') picky_llvm (JRef 1) (JRef 2) (JRef 3) 1 picky_state =
      bindc (throwException sample_build (array_vm 7 [0x42, 0x43, 3] ''sub'') (JRef 1)
        ''!!UNREACHABLE!! (file=test-rt.cc line=134) Function not found: sub'') (\<lambda>_. ret 0) t"
proof -
  let ?V = "array_vm 7 [0x42, 0x43, 3] ''sub''"
  have "array_read ?V (JRef 2) (jvm picky_state) = Some ([0x42, 0x43, 3], ())"
    "load_module picky_llvm [0x42, 0x43, 3] (lib picky_state) = Some (Module 2 1, True)"
    "string_read ?V (JRef 3) () = Some (''sub'', ())" "fst (get_function picky_llvm (Module 2 1) ''sub'' True) = 0"
    by (simp_all add: picky load_module_def parse_module_def)
  from missing_function_reported [OF this, of sample_build "JRef 1" 1]
  show ?thesis by (auto simp: sample_build_def)
qed

text \<open>C16: When LLVM accepts the entry point but creates no execution engine for the module, or an engine
  that has no code at the entry point's name, \<open>compileToFunc\<close> releases all it has acquired, the
  engine included, and calls \<open>throwException\<close>: with the error of LLVM, or with a message that
  names the place in the source and the function that was asked for. If that returns, the
  result is 0.\<close>

theorem engine_errors_reported:
  assumes "array_read V bitcode (jvm s) = Some (bs, w)" "load_module L bs (lib s) = Some (m, l)"
    and "string_read V name w = Some (str, w')" "get_function L m str l = (f, l1)" "f \<noteq> 0"
    and "build_ir L m (entry_point_ops (st \<noteq> 0) f) l1 = (True, l2)" "create_engine L m l2 = ((e, err), l3)"
    and "e \<noteq> 0 \<longrightarrow> fst (function_address L (Engine e m) entryPointFuncName l3) = 0"
  shows "\<exists>t. mset (held t) = mset (held s) \<and> silent s t \<and>
    compileToFunc B V L self bitcode name st s =
      bindc (throwException B V self
        (if e = 0 then ''Can't create ExecutionEngine: '' @ err
         else ''!!UNREACHABLE!! (file='' @ source_file B @ '' line=201) Function not found: '' @ str)) (\<lambda>_. ret 0) t"
proof -
  let ?e = "if e = 0 then ''Can't create ExecutionEngine: '' @ err
         else ''!!UNREACHABLE!! (file='' @ source_file B @ '' line=201) Function not found: '' @ str"
  let ?x = "if e = 0 then None else Some (Engine e m)"
  have line: "decimal 201 = ''201''" by code_simp
  obtain c arr n nm s1 s2 s3 s4 s5 where run: "new_LLVMContext L s = (Inr c, s1)"
    "new_JniPrimitiveArrayPtr V bitcode s1 = (Inr arr, s2)" "array_size V arr s2 = (Inr n, s3)"
    "new_unique ''m'' Some (parseBitcode V L (array_get arr) n c) s3 = (Inr m, s4)"
    "new_JniString V name s4 = (Inr nm, s5)" "string_str nm = str" "lib s5 = l"
    using compile_run [OF assms(1-3)] by metis
  have f: "lib_call (get_function L m (string_str nm)) s5 = (Inr f, s5\<lparr>lib := l1\<rparr>)"
    using assms(4) run(6,7) by (simp add: lib_call_def)
  have found: "whenc (f = 0) g t = (Inr (), t)" for g :: "('a, 'b, unit) native" and t using assms(5) by (simp add: whenc_def ret_apply)
  have built: "build_entry_point L m (st \<noteq> 0) f (s5\<lparr>lib := l1\<rparr>) = (Inr (), s5\<lparr>lib := l2\<rparr>)"
    using assms(6) by (simp add: build_entry_point_def run_native)
  have "create_engine L m (lib (s5\<lparr>lib := l2\<rparr>)) = ((e, err), l3)" using assms(7) by simp
  then obtain s6 where s6: "new_unique ''engine'' fst (new_engine L m) (s5\<lparr>lib := l2\<rparr>) = (Inr (?x, err), s6)" "lib s6 = l3"
    using engine_run by metis
  have throw: "throws_at (ThrownString ?e) (case (?x, err) of (engine, errStr) \<Rightarrow>
        case engine of
          None \<Rightarrow> raise (ThrownString (''Can't create ExecutionEngine: '' @ errStr))
        | Some e \<Rightarrow>
            bindc (lib_call (function_address L e entryPointFuncName)) (\<lambda>funcAddr.
            bindc (whenc (funcAddr = 0)
              (test_rt_unreachable_internal (''Function not found: '' @ string_str nm) (source_file B) 201)) (\<lambda>_.
            bindc (move_unique ''engine'') (\<lambda>_.
            new_CompileState L e funcAddr)))) s6"
    using assms(8) s6(2) run(6)
    by (cases "e = 0"; cases "function_address L (Engine e m) entryPointFuncName l3")
      (simp_all add: throws_at_def raise_apply bindc_def lib_call_def test_rt_unreachable_internal_def line)
  show ?thesis unfolding compileToFunc_def
    apply (rule caught_after_release)
    subgoal by (rule throws_at_scoped, rule run(1), rule throws_at_scoped, rule run(2), rule throws_at_bindc, rule run(3),
        rule throws_at_scoped, rule run(4), rule throws_at_scoped, rule run(5), rule throws_at_bindc, rule f,
        rule throws_at_bindc, rule found, rule throws_at_bindc, rule built, rule throws_at_scoped, rule s6(1), rule throw)
      (simp_all add: destructors_return)
    subgoal by (intro balanced_steps)
    subgoal by (rule disjI1, intro keeps_machines.steps keeps_machines.compile_state, simp)
    subgoal by (intro silently.steps silently.compile_state, simp add: silent_def)
    done
qed

lemma engine_errors_reported_witness:
  "\<exists>t. mset (held t) = mset (held picky_state) \<and>
    compileToFunc sample_build (array_vm 7 [0x42, 0x43, 3] ''add'') (picky_llvm\<lparr>create_engine := \<lambda>m l. ((0, ''no JIT''), l)\<rparr>)
        (JRef 1) (JRef 2) (JRef 3) 1 picky_state =
      bindc (throwException sample_build (array_vm 7 [0x42, 0x43, 3] ''add'') (JRef 1)
        ''Can't create ExecutionEngine: no JIT'') (\<lambda>_. ret 0) t"
proof -
  let ?V = "array_vm 7 [0x42, 0x43, 3] ''add''" and ?L = "picky_llvm\<lparr>create_engine := \<lambda>m l. ((0, ''no JIT''), l)\<rparr>"
  have "array_read ?V (JRef 2) (jvm picky_state) = Some ([0x42, 0x43, 3], ())"
    "load_module ?L [0x42, 0x43, 3] (lib picky_state) = Some (Module 2 1, True)"
    "string_read ?V (JRef 3) () = Some (''add'', ())" "get_function ?L (Module 2 1) ''add'' True = (7, True)" "(7 :: nat) \<noteq> 0"
    "build_ir ?L (Module 2 1) (entry_point_ops ((1 :: byte) \<noteq> 0) 7) True = (True, True)"
    "create_engine ?L (Module 2 1) True = ((0, ''no JIT''), True)"
    "(0 :: nat) \<noteq> 0 \<longrightarrow> fst (function_address ?L (Engine 0 (Module 2 1)) entryPointFuncName True) = 0"
    by (simp_all add: picky load_module_def parse_module_def)
  from engine_errors_reported [OF this, of sample_build "JRef 1"] show ?thesis by auto
qed

section \<open>Calls with a pending exception\<close>

text \<open>
  \<open>FindClass\<close> and \<open>GetMethodID\<close> return null with an exception pending, and the method \<open>throwException\<close>
  throws in its only statement. Until the exception is cleared, native code may call only the
  functions that the specification of the interface lists.
\<close>

definition allowed_pending :: "nat list" where
  "allowed_pending = [15, 16, 17, 19, 20, 22, 23, 166, 170, 191, 192, 193, 194, 195, 196, 197, 198, 218, 223, 225, 227, 228]"

lemma allowed_pending_names:
  "map (\<lambda>k. slot_name (JNINativeInterface ! k)) allowed_pending =
    [''ExceptionOccurred'', ''ExceptionDescribe'', ''ExceptionClear'', ''PushLocalFrame'', ''PopLocalFrame'',
     ''DeleteGlobalRef'', ''DeleteLocalRef'', ''ReleaseStringChars'', ''ReleaseStringUTFChars'',
     ''ReleaseBooleanArrayElements'', ''ReleaseByteArrayElements'', ''ReleaseCharArrayElements'',
     ''ReleaseShortArrayElements'', ''ReleaseIntArrayElements'', ''ReleaseLongArrayElements'',
     ''ReleaseFloatArrayElements'', ''ReleaseDoubleArrayElements'', ''MonitorExit'',
     ''ReleasePrimitiveArrayCritical'', ''ReleaseStringCritical'', ''DeleteWeakGlobalRef'', ''ExceptionCheck'']"
  by (simp add: allowed_pending_def JNINativeInterface_def native_interface_defs nth_append)

fun pending_step :: "event \<Rightarrow> bool \<Rightarrow> bool" where
  "pending_step (JniCall k vs r) p =
     (if k \<in> {16, 17} then False
      else p \<or> (k \<in> {6, 33} \<and> is_null r) \<or>
        (k = 62 \<and> (case vs of [This, Val self, Val m, VaArgs as] \<Rightarrow> \<not> is_null m | _ \<Rightarrow> False)))"
| "pending_step e p = p"

fun pending_rule :: "event list \<Rightarrow> bool \<Rightarrow> bool" where
  "pending_rule [] p = True"
| "pending_rule (e # es) p =
     ((case e of JniCall k vs r \<Rightarrow> p \<longrightarrow> k \<in> set allowed_pending | _ \<Rightarrow> True) \<and> pending_rule es (pending_step e p))"

lemma pending_rule_append:
  "pending_rule (es @ fs) p \<longleftrightarrow> pending_rule es p \<and> pending_rule fs (fold pending_step es p)"
  by (induction es arbitrary: p) auto

text \<open>A report that returns breaks the rule as soon as another function is called after it.\<close>

lemma report_then_call:
  assumes "report_events B self e es (Inr x :: cpp_stop + 'a)"
  shows "\<not> pending_rule (es @ [JniCall 167 vs r]) p"
proof -
  obtain c m msg v where "es = [find_class c, get_method c m, JniCall 167 [This, Val (c_str e)] msg,
      JniCall 62 [This, Val self, Val m, VaArgs [msg]] v]"
    using assms by (auto simp: report_events_def)
  then show ?thesis
    by (cases "is_null c"; cases "is_null m"; cases p) (simp_all add: find_class_def get_method_def allowed_pending_def)
qed

text \<open>C19: For an architecture that LLVM does not know, \<open>toMachineAssemblyCode\<close> releases all it has
  acquired, calls \<open>throwException\<close> with the error of LLVM and then \<open>NewStringUTF\<close> for the text \<open>N/A\<close>
  that it returns. Whatever the virtual machine answers, a call that returns has called a
  function with an exception pending that must not be called then: \<open>NewStringUTF\<close>, for the message or
  for the text, or \<open>GetMethodID\<close>.\<close>

theorem unknown_target_reported:
  assumes "string_read V arch (jvm s) = Some (str, w)" "array_read V bitcode w = Some (bs, w')"
    and "lookup_target L str (snd (construct_context L (lib s))) = ((0, triple, err), l)"
  shows "(\<exists>t. mset (held t) = mset (held s) \<and> silent s t \<and>
      native_toMachineAssemblyCode B V L self arch bitcode o1 o2 s =
        bindc (throwException B V self (''Can't create Target: '' @ err)) (\<lambda>_. jni V ''NewStringUTF'' [CStr ''N/A''] []) t) \<and>
    (case native_toMachineAssemblyCode B V L self arch bitcode o1 o2 s of
       (Inl e, s') \<Rightarrow> \<exists>c. e = AssertionFailed c
     | (Inr x, s') \<Rightarrow> \<exists>es. events s' = events s @ es \<and> \<not> pending_rule es False)"
proof -
  let ?e = "''Can't create Target: '' @ err"
  let ?h = "\<lambda>e. bindc (throwException B V self e) (\<lambda>_. jni V ''NewStringUTF'' [CStr ''N/A''] [])"
  obtain obj s1 where o: "new_JniString V arch s = (Inr obj, s1)" "string_str obj = str" "jvm s1 = w" "lib s1 = lib s"
    using string_run [OF assms(1)] by metis
  have "array_read V bitcode (jvm s1) = Some (bs, w')" using assms(2) o(3) by simp
  then obtain p n s2 s3 where a: "new_JniPrimitiveArrayPtr V bitcode s1 = (Inr \<lparr>ap_array = bitcode, ap_ptr = CPtr p\<rparr>, s2)"
    "array_size V \<lparr>ap_array = bitcode, ap_ptr = CPtr p\<rparr> s2 = (Inr n, s3)" "lib s3 = lib s1"
    using array_run by metis
  obtain c l1 where cl: "construct_context L (lib s3) = (c, l1)" by fastforce
  then obtain s4 where c: "new_LLVMContext L s3 = (Inr c, s4)" "lib s4 = l1" using context_run by metis
  have "lookup_target L str (lib s4) = ((0, triple, err), l)" using assms(3) cl a(3) o(4) c(2) by simp
  then have "throws_at (ThrownString ?e) (lookupTargetMachine L str) s4"
    by (simp add: throws_at_def lookupTargetMachine_def run_native)
  then have "throws_at (ThrownString ?e) (toMachineAssemblyCode V L (string_str obj) (array_get q) n) s3" for q
    unfolding toMachineAssemblyCode_def
    by (intro throws_at_scoped [where ctor = "new_LLVMContext L", OF c(1)] throws_at_bindc_left)
      (simp_all add: destructors_return o(2))
  note code = this
  have "\<exists>t. mset (held t) = mset (held s) \<and> silent s t \<and> native_toMachineAssemblyCode B V L self arch bitcode o1 o2 s = ?h ?e t"
    unfolding native_toMachineAssemblyCode_def
    apply (rule caught_after_release)
    subgoal by (rule throws_at_scoped, rule o(1), rule throws_at_scoped, rule a(1), rule throws_at_bindc, rule a(2),
        rule throws_at_bindc_left, rule code) (simp_all add: destructors_return)
    subgoal by (unfold toMachineAssemblyCode_def, intro balanced_steps)
    subgoal by (rule disjI2, rule machine_natives)
    subgoal by (intro silently.steps silently.assembly_code)
    done
  then obtain t where t: "mset (held t) = mset (held s)" "silent s t"
    "native_toMachineAssemblyCode B V L self arch bitcode o1 o2 s = ?h ?e t" by blast
  obtain r u where u: "throwException B V self ?e t = (r, u)" by fastforce
  obtain es where es: "events u = events t @ es" "report_events B self ?e es r" using throwException_events [OF u] by blast
  have "case ?h ?e t of (Inl e, s') \<Rightarrow> \<exists>c. e = AssertionFailed c
     | (Inr x, s') \<Rightarrow> \<exists>es. events s' = events s @ es \<and> \<not> pending_rule es False"
  proof (cases r)
    case (Inl e)
    then show ?thesis using u es(2) by (auto simp: bindc_def report_events_def)
  next
    case (Inr x)
    obtain y s' where y: "logged V 167 [This, Val (CStr ''N/A'')] u = (y, s')" by fastforce
    obtain fs where "events t = events s @ fs" using t(2) by (auto simp: silent_def)
    then have "events s' = events s @ (fs @ es @ [JniCall 167 [This, Val (CStr ''N/A'')] y])"
      using es(1) logged_events [OF y] by simp
    moreover have "\<not> pending_rule (fs @ es @ [JniCall 167 [This, Val (CStr ''N/A'')] y]) False"
      using report_then_call [OF es(2) [unfolded Inr]] by (simp only: pending_rule_append) blast
    ultimately show ?thesis using u Inr y by (auto simp: bindc_def jni_functions)
  qed
  then show ?thesis using t by auto
qed

lemma unknown_target_reported_witness:
  "\<exists>x s' es. native_toMachineAssemblyCode sample_build (array_vm 7 [0x42] ''pdp'') picky_llvm (JRef 1) (JRef 2) (JRef 3) 0 0 picky_state =
     (Inr x, s') \<and> events s' = events picky_state @ es \<and> \<not> pending_rule es False"
proof -
  let ?V = "array_vm 7 [0x42] ''pdp''"
  have "string_read ?V (JRef 2) (jvm picky_state) = Some (''pdp'', ())" "array_read ?V (JRef 3) () = Some ([0x42, 0, 0], ())"
    "lookup_target picky_llvm ''pdp'' (snd (construct_context picky_llvm (lib picky_state))) = ((0, ''pdp'', ''no such target''), False)"
    by (simp_all add: picky numeral_3_eq_3)
  note run = unknown_target_reported [OF this, of sample_build "JRef 1" 0 0]
  have thrown: "\<exists>u. throwException sample_build ?V (JRef 1) e t = (Inr (), u)" for e and t :: "(unit, bool) native_state"
    by (simp add: throwException_def run_jni logged_def array_vm_def sample_vm_def assertc_def is_null_def)
  have report: "\<exists>x u. bindc (throwException sample_build ?V (JRef 1) e) (\<lambda>_. jni ?V ''NewStringUTF'' [CStr ''N/A''] []) t = (Inr x, u)"
    for e and t :: "(unit, bool) native_state"
  proof -
    obtain u where "throwException sample_build ?V (JRef 1) e t = (Inr (), u)" using thrown by blast
    then show ?thesis
      by (cases "logged ?V 167 [This, Val (CStr ''N/A'')] u") (simp add: bindc_Inr jni_functions)
  qed
  obtain t where "native_toMachineAssemblyCode sample_build ?V picky_llvm (JRef 1) (JRef 2) (JRef 3) 0 0 picky_state =
      bindc (throwException sample_build ?V (JRef 1) (''Can't create Target: '' @ ''no such target''))
        (\<lambda>_. jni ?V ''NewStringUTF'' [CStr ''N/A''] []) t"
    using conjunct1 [OF run] by blast
  then obtain x u where xu: "native_toMachineAssemblyCode sample_build ?V picky_llvm (JRef 1) (JRef 2) (JRef 3) 0 0 picky_state = (Inr x, u)"
    using report [of "''Can't create Target: '' @ ''no such target''" t] by force
  then show ?thesis using conjunct2 [OF run] by simp
qed

end
