(* ===== verification/Native_Loader.thy ===== *)
theory Native_Loader
  imports Prelude
begin

text \<open>
  The loading of the native library: \<open>nvlib/NativeLibLoaderImpl.java\<close> copies it out of the jar file
  and compares the copy, \<open>nvlib/TestRuntimeNativeLoader.java\<close> loads it once. The jar file, the file
  system and the properties of the platform are arguments.
\<close>

section \<open>The platform\<close>

text \<open>
  \<open>io_fails\<close> says which operation throws an \<open>IOException\<close>, \<open>partial\<close> what a copy that failed has
  written, \<open>available\<close> how many bytes a stream with this rest gives to one \<open>read\<close>, and \<open>link_error\<close>
  whether \<open>System.load\<close> refuses a library with these contents.
\<close>

record platform =
  OS :: string
  ARCH :: string
  mapLibraryName :: "string \<Rightarrow> string"
  uuid :: string
  resource :: "string \<Rightarrow> byte list option"
  ea :: bool
  io_fails :: "string \<Rightarrow> bool"
  partial :: "byte list \<Rightarrow> byte list"
  available :: "byte list \<Rightarrow> nat"
  link_error :: "byte list \<Rightarrow> bool"

text \<open>The files by path, the library that was loaded last, and whether the static \<open>testApi\<close> is set.\<close>

record loader_state =
  files :: "string \<Rightarrow> byte list option"
  loaded :: "string list"
  testApi :: bool

type_synonym 'a loader = "(loader_state, java_exn, 'a) comp"

section \<open>NativeLibLoaderImpl\<close>

definition getVersion :: string where
  "getVersion = ''0.1.0''"

definition checkIfPlatformSupported :: "platform \<Rightarrow> unit loader" where
  "checkIfPlatformSupported P =
     whenc (\<not> (OS P = ''Mac'' \<and> ARCH P = ''x86_64''))
       (raise (RuntimeException (''Unsupported platform: os.name='' @ OS P @ '' and os.arch='' @ ARCH P)))"

text \<open>\<open>read\<close> of a stream gives its next byte, or -1 at its end.\<close>

fun contentsEquals :: "byte list \<Rightarrow> byte list \<Rightarrow> bool" where
  "contentsEquals [] in2 = (case in2 of [] \<Rightarrow> True | ch2 # _ \<Rightarrow> False)"
| "contentsEquals (ch # in1) in2 = (case in2 of [] \<Rightarrow> False
     | ch2 # in2 \<Rightarrow> if ch \<noteq> ch2 then False else contentsEquals in1 in2)"

text \<open>The loop of \<open>reader.read(buffer)\<close> and \<open>writer.write(buffer, 0, bytesRead)\<close>: at least one byte and at most 8192.\<close>

function copy_loop :: "(byte list \<Rightarrow> nat) \<Rightarrow> byte list \<Rightarrow> byte list \<Rightarrow> byte list" where
  "copy_loop avail reader written =
     (if reader = [] then written
      else let bytesRead = max 1 (min 8192 (avail reader)) in
        copy_loop avail (drop bytesRead reader) (written @ take bytesRead reader))"
  by auto

termination by (relation "measure (\<lambda>(avail, reader, written). length reader)") auto

declare copy_loop.simps [simp del]

definition io :: "platform \<Rightarrow> string \<Rightarrow> unit loader" where
  "io P operation = whenc (io_fails P operation) (raise IOException)"

definition write_file :: "string \<Rightarrow> byte list \<Rightarrow> unit loader" where
  "write_file path bs = modify (\<lambda>s. s\<lparr>files := (files s)(path \<mapsto> bs)\<rparr>)"

text \<open>The body of the \<open>try\<close> in \<open>extractFileFromJar\<close>; a missing resource is a null reader.\<close>

definition extract_body :: "platform \<Rightarrow> string \<Rightarrow> string \<Rightarrow> string option loader" where
  "extract_body P filePathInJar extractedFile =
     bindc (io P ''new FileOutputStream'') (\<lambda>_.
     bindc (write_file extractedFile []) (\<lambda>_.
     case resource P filePathInJar of
       None \<Rightarrow> raise NullPointerException
     | Some bytes \<Rightarrow>
         bindc (whenc (io_fails P ''copy'') (write_file extractedFile (partial P bytes))) (\<lambda>_.
         bindc (io P ''copy'') (\<lambda>_.
         bindc (write_file extractedFile (copy_loop (available P) bytes [])) (\<lambda>_.
         bindc (io P ''new FileInputStream'') (\<lambda>_.
         bindc (io P ''compare'') (\<lambda>_.
         bindc (gets (\<lambda>s. files s extractedFile)) (\<lambda>copied.
         if contentsEquals bytes (case copied of None \<Rightarrow> [] | Some bs \<Rightarrow> bs) then ret (Some extractedFile)
         else raise (RuntimeException (''Can't extract the file: '' @ filePathInJar))))))))))"

text \<open>\<open>catch (IOException e)\<close> prints the exception and returns null.\<close>

definition extractFileFromJar :: "platform \<Rightarrow> string \<Rightarrow> string \<Rightarrow> string \<Rightarrow> string option loader" where
  "extractFileFromJar P srcDirInJar fileName outputName s =
     (case extract_body P (srcDirInJar @ ''/'' @ fileName) (''/tmp/'' @ outputName) s of
        (Inl e, s') \<Rightarrow> if e = IOException then (Inr None, s') else (Inl e, s')
      | r \<Rightarrow> r)"

definition loadNativeLibFromJar :: "platform \<Rightarrow> string \<Rightarrow> string loader" where
  "loadNativeLibFromJar P libraryName =
     bindc (checkIfPlatformSupported P) (\<lambda>_.
     let nativeLibName = mapLibraryName P libraryName;
         nativeLibPath = ''/lib/'' @ OS P @ ''/'' @ ARCH P;
         outputName = getVersion @ ''-'' @ uuid P @ ''-'' @ nativeLibName in
     bindc (whenc (ea P \<and> resource P (nativeLibPath @ ''/'' @ nativeLibName) = None) (raise AssertionError)) (\<lambda>_.
     bindc (extractFileFromJar P nativeLibPath nativeLibName outputName) (\<lambda>extractedFile.
     case extractedFile of
       None \<Rightarrow> raise NullPointerException
     | Some path \<Rightarrow> bindc (gets (\<lambda>s. files s path)) (\<lambda>f.
         bindc (whenc (ea P \<and> f = None) (raise AssertionError)) (\<lambda>_. ret path)))))"

section \<open>TestRuntimeNativeLoader\<close>

definition isLoaded :: "bool loader" where
  "isLoaded = gets testApi"

definition System_load :: "platform \<Rightarrow> string \<Rightarrow> unit loader" where
  "System_load P path = bindc (gets (\<lambda>s. files s path)) (\<lambda>f.
     case f of None \<Rightarrow> raise UnsatisfiedLinkError
     | Some bs \<Rightarrow> if link_error P bs then raise UnsatisfiedLinkError
         else modify (\<lambda>s. s\<lparr>loaded := path # loaded s\<rparr>))"

definition loadApi :: "platform \<Rightarrow> unit loader" where
  "loadApi P =
     bindc (gets testApi) (\<lambda>present.
     if present then ret ()
     else
       bindc (loadNativeLibFromJar P ''test-rt'') (\<lambda>nativeLib.
       bindc (gets (\<lambda>s. files s nativeLib)) (\<lambda>f.
       bindc (whenc (ea P \<and> f = None) (raise AssertionError)) (\<lambda>_.
       bindc (System_load P nativeLib) (\<lambda>_.
       modify (\<lambda>s. s\<lparr>testApi := True\<rparr>))))))"

section \<open>Properties\<close>

lemma contentsEquals_eq: "contentsEquals xs ys \<longleftrightarrow> xs = ys"
  by (induction xs ys rule: contentsEquals.induct) (auto split: list.split)

lemma copy_loop_eq: "copy_loop avail reader written = written @ reader"
proof (induction avail reader written rule: copy_loop.induct)
  case (1 avail reader written)
  then show ?case by (subst copy_loop.simps) (simp add: Let_def)
qed

lemma whenc_Inr: "whenc b m s = (Inr x, s') \<longleftrightarrow> (if b then m s = (Inr x, s') else s' = s)"
  by (simp add: whenc_def ret_apply eq_commute)

lemma option_raise_Inr:
  "(case z of None \<Rightarrow> raise e | Some x \<Rightarrow> f x) s = (Inr y, s') \<longleftrightarrow> (\<exists>x. z = Some x \<and> f x s = (Inr y, s'))"
  by (cases z) (simp_all add: raise_apply)

lemmas ran = bindc_eq_Inr_iff whenc_Inr option_raise_Inr raise_apply modify_apply gets_apply ret_apply

lemma extracted:
  assumes "extractFileFromJar P d n out s = (Inr (Some path), s')"
  shows "path = ''/tmp/'' @ out \<and> loaded s' = loaded s \<and> testApi s' = testApi s \<and>
    (\<exists>bs. resource P (d @ ''/'' @ n) = Some bs \<and> files s' = (files s)(path \<mapsto> bs))"
proof -
  have "extract_body P (d @ ''/'' @ n) (''/tmp/'' @ out) s = (Inr (Some path), s')"
    using assms by (auto simp: extractFileFromJar_def split: prod.splits sum.splits if_splits)
  then show ?thesis
    by (auto simp: extract_body_def io_def write_file_def ran contentsEquals_eq copy_loop_eq split: if_splits)
qed

text \<open>C18: The first call of \<open>loadApi\<close> that returns did so on Mac/x86_64, from the file under \<open>/tmp\<close> with the
  version, the identifier and the platform's name of the library, whose contents are exactly
  those of the resource in the jar file; no other file was touched, and from then on the
  library counts as loaded and further calls change nothing.\<close>

theorem loadApi_loads_resource:
  assumes "loadApi P s = (Inr (), s')" "\<not> testApi s"
  shows "OS P = ''Mac'' \<and> ARCH P = ''x86_64'' \<and>
    (\<exists>path bs. path = ''/tmp/0.1.0-'' @ uuid P @ ''-'' @ mapLibraryName P ''test-rt'' \<and>
       resource P (''/lib/Mac/x86_64/'' @ mapLibraryName P ''test-rt'') = Some bs \<and>
       files s' = (files s)(path \<mapsto> bs) \<and> loaded s' = path # loaded s) \<and>
    testApi s' \<and> loadApi P s' = (Inr (), s')"
proof -
  obtain path t where lib: "loadNativeLibFromJar P ''test-rt'' s = (Inr path, t)"
    and load: "System_load P path t = (Inr (), t\<lparr>loaded := path # loaded t\<rparr>)"
    and s': "s' = t\<lparr>loaded := path # loaded t, testApi := True\<rparr>"
    using assms by (auto simp: loadApi_def System_load_def ran split: if_splits)
  then have plat: "OS P = ''Mac''" "ARCH P = ''x86_64''"
    by (auto simp: loadNativeLibFromJar_def checkIfPlatformSupported_def ran split: if_splits)
  then have "extractFileFromJar P ''/lib/Mac/x86_64'' (mapLibraryName P ''test-rt'')
      (getVersion @ ''-'' @ uuid P @ ''-'' @ mapLibraryName P ''test-rt'') s = (Inr (Some path), t)"
    using lib by (auto simp: loadNativeLibFromJar_def checkIfPlatformSupported_def ran Let_def split: if_splits)
  from extracted [OF this] show ?thesis
    using plat s' by (auto simp: getVersion_def loadApi_def ran)
qed

definition sample_platform :: platform where
  "sample_platform = \<lparr>OS = ''Mac'', ARCH = ''x86_64'', mapLibraryName = (\<lambda>n. ''lib'' @ n @ ''.dylib''), uuid = ''u'',
     resource = (\<lambda>p. if p = ''/lib/Mac/x86_64/libtest-rt.dylib'' then Some [1, 2, 3] else None), ea = True,
     io_fails = (\<lambda>_. False), partial = (\<lambda>bs. []), available = (\<lambda>bs. 2), link_error = (\<lambda>bs. bs = [])\<rparr>"

lemma loadApi_loads_resource_witness:
  "\<exists>s'. loadApi sample_platform \<lparr>files = (\<lambda>_. None), loaded = [], testApi = False\<rparr> = (Inr (), s') \<and>
     files s' ''/tmp/0.1.0-u-libtest-rt.dylib'' = Some [1, 2, 3]"
proof -
  let ?s = "\<lparr>files = (\<lambda>_. None), loaded = [], testApi = False\<rparr> :: loader_state"
  have "fst (loadApi sample_platform ?s) = Inr ()"
    by (simp add: loadApi_def loadNativeLibFromJar_def extractFileFromJar_def extract_body_def checkIfPlatformSupported_def
        System_load_def io_def write_file_def sample_platform_def bindc_def gets_apply ret_apply modify_apply
        contentsEquals_eq copy_loop_eq getVersion_def Let_def)
  then obtain s' where s': "loadApi sample_platform ?s = (Inr (), s')" by (metis prod.collapse)
  from loadApi_loads_resource [OF this] show ?thesis using s' by (auto simp: sample_platform_def)
qed

lemma extract_keeps:
  assumes "extractFileFromJar P d n out s = (r, s')"
  shows "loaded s' = loaded s" "testApi s' = testApi s" "r \<noteq> Inl IOException"
proof -
  obtain q t where q: "extract_body P (d @ ''/'' @ n) (''/tmp/'' @ out) s = (q, t)" by fastforce
  have "loaded t = loaded s \<and> testApi t = testApi s"
    using q by (auto simp: extract_body_def io_def write_file_def bindc_def whenc_def raise_apply ret_apply modify_apply gets_apply
        split: if_splits option.splits)
  then show "loaded s' = loaded s" "testApi s' = testApi s" "r \<noteq> Inl IOException"
    using assms q by (auto simp: extractFileFromJar_def split: sum.splits if_splits)
qed

text \<open>C36: When \<open>loadApi\<close> throws, it was not loaded before and is not loaded after, no library was
  loaded, so that the next call starts again; and the exception is never the \<open>IOException\<close> that
  the extraction may have met, which is printed and lost.\<close>

theorem loadApi_error:
  assumes "loadApi P s = (Inl e, s')"
  shows "e \<noteq> IOException \<and> \<not> testApi s \<and> \<not> testApi s' \<and> loaded s' = loaded s"
proof -
  have "\<not> testApi s" using assms by (auto simp: loadApi_def bindc_def gets_apply ret_apply)
  moreover have lib: "r \<noteq> Inl IOException \<and> loaded t = loaded s \<and> testApi t = testApi s"
    if run: "loadNativeLibFromJar P n s = (r, t)" for r t n
  proof -
    obtain q u where q: "extractFileFromJar P (''/lib/'' @ OS P @ ''/'' @ ARCH P) (mapLibraryName P n)
        (getVersion @ ''-'' @ uuid P @ ''-'' @ mapLibraryName P n) s = (q, u)" by fastforce
    note kept = extract_keeps [OF q]
    show ?thesis
      using run kept q by (auto simp: loadNativeLibFromJar_def checkIfPlatformSupported_def Let_def bindc_def whenc_def
          raise_apply ret_apply gets_apply split: if_splits sum.splits option.splits)
  qed
  obtain r t where run: "loadNativeLibFromJar P ''test-rt'' s = (r, t)" by fastforce
  ultimately show ?thesis
    using assms lib [OF run] run
    by (auto simp: loadApi_def System_load_def bindc_def whenc_def raise_apply ret_apply gets_apply modify_apply
        split: if_splits sum.splits option.splits)
qed

lemma loadApi_error_witness:
  "fst (loadApi (sample_platform\<lparr>io_fails := \<lambda>op. op = ''copy''\<rparr>) \<lparr>files = (\<lambda>_. None), loaded = [], testApi = False\<rparr>) =
     Inl NullPointerException \<and>
   \<not> testApi (snd (loadApi (sample_platform\<lparr>io_fails := \<lambda>op. op = ''copy''\<rparr>) \<lparr>files = (\<lambda>_. None), loaded = [], testApi = False\<rparr>))"
proof -
  let ?P = "sample_platform\<lparr>io_fails := \<lambda>op. op = ''copy''\<rparr>"
  let ?s = "\<lparr>files = (\<lambda>_. None), loaded = [], testApi = False\<rparr> :: loader_state"
  have fst: "fst (loadApi ?P ?s) = Inl NullPointerException"
    by (simp add: loadApi_def loadNativeLibFromJar_def extractFileFromJar_def extract_body_def checkIfPlatformSupported_def
        System_load_def io_def write_file_def sample_platform_def bindc_def gets_apply ret_apply modify_apply raise_apply Let_def
        contentsEquals_eq copy_loop_eq getVersion_def)
  then obtain t where "loadApi ?P ?s = (Inl NullPointerException, t)" by (metis prod.collapse)
  from loadApi_error [OF this] this fst show ?thesis by simp
qed

end
