(* ===== verification/Jni_Structs.thy ===== *)
theory Jni_Structs
  imports Jni_Types
begin

text \<open>
  The structures that native code and the virtual machine pass by address, with the layout a C
  compiler gives them, and the functions that the invocation interface exports or expects.
\<close>

section \<open>Fields\<close>

text \<open>The fields in order, \<open>jboolean\<close> and the other scalars as \<open>jni.h\<close> defines them; a reference is a pointer.\<close>

definition JNINativeMethod_fields :: "(string \<times> ctype) list" where
  "JNINativeMethod_fields = [(''name'', Ptr char_t), (''signature'', Ptr char_t), (''fnPtr'', Ptr void_t)]"

definition JavaVMOption_fields :: "(string \<times> ctype) list" where
  "JavaVMOption_fields = [(''optionString'', Ptr char_t), (''extraInfo'', Ptr void_t)]"

definition JavaVMInitArgs_fields :: "(string \<times> ctype) list" where
  "JavaVMInitArgs_fields = [(''version'', jint), (''nOptions'', jint), (''options'', Ptr JavaVMOption), (''ignoreUnrecognized'', jboolean)]"

definition JavaVMAttachArgs_fields :: "(string \<times> ctype) list" where
  "JavaVMAttachArgs_fields = [(''version'', jint), (''name'', Ptr char_t), (''group'', jobject)]"

text \<open>The functions a virtual machine exports and those a native library may define.\<close>

definition invocation_functions :: "(string \<times> ctype \<times> ctype list) list" where
  "invocation_functions = [
     (''JNI_GetDefaultJavaVMInitArgs'', jint, [Ptr void_t]),
     (''JNI_CreateJavaVM'', jint, [Ptr (Ptr JavaVM), Ptr (Ptr void_t), Ptr void_t]),
     (''JNI_GetCreatedJavaVMs'', jint, [Ptr (Ptr JavaVM), jsize, Ptr jsize]),
     (''JNI_OnLoad'', jint, [Ptr JavaVM, Ptr void_t]),
     (''JNI_OnUnload'', void_t, [Ptr JavaVM, Ptr void_t])]"

section \<open>Layout\<close>

text \<open>Every scalar is aligned to its size, which is a power of two.\<close>

definition field_size :: "header \<Rightarrow> bool \<Rightarrow> ctype \<Rightarrow> nat" where
  "field_size h lp64 t = (case scalar_size h lp64 t of Some n \<Rightarrow> n | None \<Rightarrow> if lp64 then 8 else 4)"

definition align_up :: "nat \<Rightarrow> nat \<Rightarrow> nat" where
  "align_up n k = (n + k - 1) div k * k"

fun field_offsets :: "nat \<Rightarrow> nat list \<Rightarrow> nat list" where
  "field_offsets pos [] = []"
| "field_offsets pos (k # ks) = align_up pos k # field_offsets (align_up pos k + k) ks"

fun struct_end :: "nat \<Rightarrow> nat list \<Rightarrow> nat" where
  "struct_end pos [] = pos" | "struct_end pos (k # ks) = struct_end (align_up pos k + k) ks"

definition struct_size :: "nat list \<Rightarrow> nat" where
  "struct_size ks = align_up (struct_end 0 ks) (fold max ks 1)"

definition sizes :: "header \<Rightarrow> bool \<Rightarrow> (string \<times> ctype) list \<Rightarrow> nat list" where
  "sizes h lp64 fs = map (field_size h lp64 \<circ> snd) fs"

lemma align_up_ge: "0 < k \<Longrightarrow> n \<le> align_up n k"
proof -
  assume k: "0 < k"
  have "(n + k - 1) div k * k + (n + k - 1) mod k = n + k - 1" by simp
  moreover have "(n + k - 1) mod k \<le> k - 1" using k by (simp add: Suc_leI less_Suc_eq_le [symmetric])
  ultimately show ?thesis unfolding align_up_def using k by linarith
qed

lemma align_up_dvd: "k dvd align_up n k"
  by (simp add: align_up_def)

lemma struct_end_ge: "\<forall>k\<in>set ks. 0 < k \<Longrightarrow> pos \<le> struct_end pos ks"
proof (induction ks arbitrary: pos)
  case (Cons k ks)
  then have "pos \<le> align_up pos k" "align_up pos k + k \<le> struct_end (align_up pos k + k) ks"
    by (simp_all add: align_up_ge)
  then show ?case by simp
qed simp

text \<open>Fields are aligned, do not overlap, and lie before the end of the structure.\<close>

lemma field_offsets_sound:
  assumes "\<forall>k\<in>set ks. 0 < k" "i < length ks"
  shows "ks ! i dvd field_offsets pos ks ! i \<and> pos \<le> field_offsets pos ks ! i \<and>
    field_offsets pos ks ! i + ks ! i \<le> struct_end pos ks \<and>
    (\<forall>j. i < j \<and> j < length ks \<longrightarrow> field_offsets pos ks ! i + ks ! i \<le> field_offsets pos ks ! j)"
  using assms
proof (induction ks arbitrary: pos i)
  case (Cons k ks)
  have pos: "pos \<le> align_up pos k" using Cons.prems align_up_ge by simp
  show ?case
  proof (cases i)
    case 0
    have "align_up pos k + k \<le> field_offsets (align_up pos k + k) ks ! j" if "j < length ks" for j
      using Cons.IH [of j "align_up pos k + k"] Cons.prems that by simp
    then show ?thesis
      using 0 pos Cons.prems struct_end_ge [of ks "align_up pos k + k"] align_up_dvd
      by (auto simp: nth_Cons split: nat.split)
  next
    case (Suc n)
    then show ?thesis using Cons.IH [of n "align_up pos k + k"] Cons.prems pos
      by (auto simp: nth_Cons split: nat.splits)
  qed
qed simp

lemma struct_layouts:
  "field_offsets 0 (sizes h True JNINativeMethod_fields) = [0, 8, 16] \<and> struct_size (sizes h True JNINativeMethod_fields) = 24"
  "field_offsets 0 (sizes h True JavaVMOption_fields) = [0, 8] \<and> struct_size (sizes h True JavaVMOption_fields) = 16"
  "field_offsets 0 (sizes h True JavaVMInitArgs_fields) = [0, 4, 8, 16] \<and> struct_size (sizes h True JavaVMInitArgs_fields) = 24"
  "field_offsets 0 (sizes h True JavaVMAttachArgs_fields) = [0, 8, 16] \<and> struct_size (sizes h True JavaVMAttachArgs_fields) = 24"
  by (cases h; simp add: JNINativeMethod_fields_def JavaVMOption_fields_def JavaVMInitArgs_fields_def JavaVMAttachArgs_fields_def
      sizes_def field_size_def scalar_size_def jni_md_def jni_md_linux_def jni_md_mac_def prim_size_def struct_size_def align_up_def)+

end
