(* ===== verification/Spec2Isabelle.thy ===== *)
theory Spec2Isabelle
  imports Compiled_Method Jni_Mac Test_Rt_Errors Native_Methods Native_Loader Jni_Structs
begin

text \<open>
  A verification development for the repository \<open>jvmci-test\<close>: a Java library that assembles x86-64
  code by itself and installs it as the compiled code of a Java method (package \<open>jvmci\<close>), a C++
  library that compiles LLVM bitcode into functions that such code can call
  (\<open>lib/test-rt-native/test-rt.cc\<close>), and the two copies of the Java Native Interface headers
  (\<open>include/Linux\<close>, \<open>include/Mac\<close>) through which the two sides meet.

  \<^bold>\<open>How the parts interact.\<close> \<open>loadApi\<close> copies the native library out of the jar file and loads it. A
  Java driver calls \<open>compileToFunc\<close> with bitcode, a function name and whether the method is
  static; the native code parses the bitcode, inserts a function \<open>entry_point\<close> that drops the
  leading pointer arguments, compiles the module and returns a \<open>CompileState\<close> with the address of
  the entry point. The driver passes that address (or that of \<open>testIntAdd\<close>) to \<open>AsmInjector\<close>, which
  assembles a trampoline with \<open>AMD64Assembler\<close> into a \<open>CodeBuffer\<close> and installs it through JVMCI. A call
  of the Java method then runs the trampoline, the entry point and the function. The theorem
  \<open>compiled_method_runs\<close> below puts this chain together.

  \<^bold>\<open>Theories.\<close>

  \<^item> \<open>Prelude\<close>: machine integers with the wrap-around written out, exceptions as values, computations
    that pass a state and may stop (\<open>ret\<close>, \<open>raise\<close>, \<open>bindc\<close>), bytes of words; the contracts
    \<open>byte_sink\<close> (appending below a bound) and \<open>item_code\<close> (an encoder and its decoder).

  \<^item> \<open>Code_Buffer\<close>: \<open>jvmci/CodeBuffer.java\<close> over the part of \<open>java.nio.ByteBuffer\<close> it uses. Invariant after
    any calls, content after any sequence of emissions, space bound, the failure of \<open>align\<close> and of
    growth past \<open>2 ^ 29\<close> bytes.

  \<^item> \<open>Assembler_Base\<close>, \<open>Amd64_Assembler\<close>: \<open>AssemblerBase.java\<close> and \<open>AMD64Assembler.java\<close>, one definition per
    method over the record \<open>asm_state\<close> of the fields; the abstract methods are arguments of the
    contract \<open>stack_grower\<close>. Frame and stack-slot invariants.

  \<^item> \<open>X86_Spec\<close>: the instructions that the assembler means to emit: encoder, decoder, and a machine
    that fetches and executes them. It is a specification, not a model of the code.

  \<^item> \<open>Asm_Injector\<close>, \<open>Native_Call\<close>: \<open>AsmInjector.java\<close>; what each emitter encodes, what an injection
    installs and what running it does, what a second injection does.

  \<^item> \<open>Jni_Types\<close>, \<open>Jni_Structs\<close>, \<open>Jni_Interface\<close>: types, constants, structs and function tables of
    \<open>jni.h\<close> and \<open>jni_md.h\<close>. A table is the list of its members in the order of the struct; the contract
    \<open>function_table\<close> says where a member lies.

  \<^item> \<open>Jni_Members\<close>, \<open>Jni_Env\<close>: the inline C++ members of \<open>JNIEnv_\<close> and \<open>JavaVM_\<close>, each with its body as data,
    an interpreter for such bodies, and the proof that all of them forward correctly.

  \<^item> \<open>Jni_Mac\<close>: the Mac header for every value of the two macros it tests.

  \<^item> \<open>Jni_Call\<close>, \<open>Jni_Helpers\<close>: calls of the virtual machine from C++ through these members and this table,
    with a record of the calls; \<open>include/jni_types.h\<close>; C++ scopes. \<open>scoped_object\<close> is the contract of an
    object with a destructor, \<open>handle_scope\<close> that of one which holds one handle.

  \<^item> \<open>Entry_Point\<close>: the calls of the LLVM builder in \<open>compileToFunc\<close>, as data.

  \<^item> \<open>Test_Rt\<close>: \<open>test-rt.cc\<close>, function by function. \<open>Test_Rt_Scopes\<close> shows that scopes release what they
    own, \<open>Test_Rt_Effects\<close> has the contracts for relations between states that every step keeps
    (\<open>core_effect\<close>, \<open>report_effect\<close>, \<open>machine_effect\<close>, \<open>effect\<close>) and what \<open>throwException\<close> does,
    \<open>Test_Rt_Safety\<close> what the functions leave held and the rule for critical regions, \<open>Test_Rt_Compile\<close>
    the life of a compiled function, \<open>Test_Rt_Runs\<close> what one call reads, \<open>Test_Rt_Errors\<close> the error
    paths and the rule for pending exceptions.

  \<^item> \<open>Compiled_Method\<close>: what the documentation of LLVM says, as conditions on any library, and the
    address that \<open>compileToFunc\<close> stores under these conditions.

  \<^item> \<open>Native_Methods\<close>: the native methods of \<open>TestRuntimeNative.java\<close> and their generated header.

  \<^item> \<open>Native_Loader\<close>: \<open>NativeLibLoaderImpl.java\<close> and \<open>TestRuntimeNativeLoader.java\<close>.

  \<^bold>\<open>State and errors.\<close> Java fields and C++ objects are records; a Java \<open>int\<close> that is a size is an \<open>int\<close>
  with \<open>wrap32\<close> where it may overflow, code bytes and register contents are words. Java exceptions
  are values of \<open>java_exn\<close>. C++ code can stop by a \<open>std::string\<close> exception, by a \<open>const char *\<close> exception,
  by a failed assertion or by undefined behaviour (\<open>cpp_stop\<close>); only the first is caught in the
  sources, and only it unwinds scopes: for an exception that nobody catches the C++ runtime ends
  the program where it was thrown. The state of native code (\<open>native_state\<close>) has
  that of the virtual machine and of LLVM as components of any type, the allocated
  \<open>CompileState\<close> objects, the \<open>unique_ptr\<close> variables of the running function and the record of events.

  \<^bold>\<open>What is an argument.\<close> The virtual machine behind the function table (\<open>jvm_interface\<close>) and behind JVMCI
  (\<open>jvmci\<close>), LLVM (\<open>llvm\<close>), the linker and compiler switches (\<open>build\<close>), the jar file, the file system and
  the platform (\<open>platform\<close>), and the functions that machine code calls (\<open>callees\<close>). Hypotheses about them
  are stated where they are used: that the C functions follow the calling convention
  (\<open>c_call_ok\<close>), that LLVM does what its documentation says (\<open>llvm_documented\<close>), what the virtual machine
  and LLVM return in the call at hand (\<open>array_read\<close>, \<open>string_read\<close>, \<open>load_module\<close>), and, for every
  state, that the virtual machine does not have a certain class (\<open>class_missing\<close>) or that certain bytes
  are no bitcode (\<open>not_bitcode\<close>). Whether assertions are compiled in (\<open>ndebug\<close>) is never assumed.

  \<^bold>\<open>Bounds and fuel.\<close> Machine execution takes a number of steps; the trampoline has nine instructions
  and nine steps are enough for it, for any further steps the run stays at the return address.
  Decoding a sequence takes at most as many rounds as there are bytes. Content below \<open>2 ^ 29\<close> bytes is
  the range in which the growth of a code buffer does not overflow, and the theorems say what
  happens beyond. The loops of the code (copying a file, decimal digits) end and are total.

  \<^bold>\<open>Not modelled.\<close> The drivers \<open>CodegenTest\<close>, \<open>IntAddJVMCITest\<close>, \<open>JVMCIBaseClass\<close> and \<open>Utils\<close> chain the modelled
  operations by reflection and run-time compilation of Java text; the benchmark only times
  calls; build files, scripts, resources and the Scala tests are not code of the library.
  Of C++, a failing allocation (\<open>std::bad_alloc\<close>) is left out; of the loader, closing streams and
  permission bits. The comments and include guards of the headers have no meaning to model.
\<close>

section \<open>From bitcode to a Java method\<close>
















section \<open>Errors and the class they are thrown from\<close>

text \<open>
  How a call of the library ends when nothing is reported to Java: either there was nothing to
  report, or, with assertions, one of them failed, or, without, the null class that \<open>FindClass\<close> had
  returned was passed on to \<open>GetMethodID\<close>, which the interface does not allow.
\<close>

definition never_reports :: "build \<Rightarrow> ('w, 'l) native_state \<Rightarrow> (cpp_stop + 'a) \<times> ('w, 'l) native_state \<Rightarrow> bool" where
  "never_reports B s res \<longleftrightarrow> (case res of (r, s') \<Rightarrow> \<exists>es. events s' = events s @ es \<and>
     (if \<not> calls_place 6 es then \<not> calls_place 33 es \<and> \<not> calls_place 62 es
      else if ndebug B then \<exists>m vs. JniCall 33 (This # Val (JRef 0) # vs) m \<in> set es
      else r = Inl (AssertionFailed ''c != 0'') \<and> \<not> calls_place 33 es \<and> \<not> calls_place 62 es))"

definition class_missing :: "'w jvm_interface \<Rightarrow> bool" where
  "class_missing V \<longleftrightarrow> (\<forall>w. fst (jni_impl V 6 [This, Val (CStr ''io/github/maropu/TestRuntimeNative'')] w) = JRef 0)"

lemma missing_events:
  assumes "class_missing V" "throwException B V self e s = (r, s')"
  shows "\<exists>es. events s' = events s @ es \<and>
    (if ndebug B then calls_place 6 es \<and> (\<exists>m vs. JniCall 33 (This # Val (JRef 0) # vs) m \<in> set es)
     else r = Inl (AssertionFailed ''c != 0'') \<and> es = [find_class (JRef 0)])"
proof -
  obtain es where es: "events s' = events s @ es" "report_events B self e es r" "hd es = find_class (JRef 0)"
    using throwException_events [OF assms(2)] assms(1) by (auto simp: class_missing_def)
  have null: "find_class c = find_class (JRef 0) \<Longrightarrow> c = JRef 0" for c by (simp add: find_class_def)
  show ?thesis using es null
    by (intro exI [of _ es]) (auto simp: report_events_def is_null_def find_class_def get_method_def)
qed

lemma never_reports_try_catch:
  assumes "class_missing V" "effects silent body"
    and "\<And>x. effects (\<lambda>s s'. \<exists>es. events s' = events s @ es) (rest x)"
  shows "never_reports B s (try_catch body (\<lambda>e. bindc (throwException B V self e) rest) s)"
proof -
  obtain q t where q: "body s = (q, t)" by fastforce
  obtain fs where fs: "events t = events s @ fs" "\<not> calls_place 6 fs" "\<not> calls_place 33 fs" "\<not> calls_place 62 fs"
    using effectsD [OF assms(2) q] by (auto simp: silent_def report_places_def)
  show ?thesis
  proof (cases "\<exists>e. q = Inl (ThrownString e)")
    case False
    then have "try_catch body (\<lambda>e. bindc (throwException B V self e) rest) s = (q, t)"
      using q by (auto simp: try_catch_def split: sum.splits cpp_stop.splits)
    then show ?thesis using fs by (auto simp: never_reports_def)
  next
    case True
    then obtain e where e: "q = Inl (ThrownString e)" by blast
    obtain r u where u: "throwException B V self e t = (r, u)" by fastforce
    obtain es where es: "events u = events t @ es" and
      c: "if ndebug B then calls_place 6 es \<and> (\<exists>m vs. JniCall 33 (This # Val (JRef 0) # vs) m \<in> set es)
          else r = Inl (AssertionFailed ''c != 0'') \<and> es = [find_class (JRef 0)]"
      using missing_events [OF assms(1) u] by blast
    obtain r' s' where s': "bindc (throwException B V self e) rest t = (r', s')" by fastforce
    have "\<exists>gs. events s' = events u @ gs \<and> (case r of Inl d \<Rightarrow> r' = Inl d \<and> gs = [] | _ \<Rightarrow> True)"
    proof (cases r)
      case (Inr x)
      then have "rest x u = (r', s')" using s' u by (simp add: bindc_Inr)
      from effectsD [OF assms(3) this] show ?thesis using Inr by simp
    qed (use s' u in \<open>simp add: bindc_def\<close>)
    then obtain gs where gs: "events s' = events u @ gs" "case r of Inl d \<Rightarrow> r' = Inl d \<and> gs = [] | _ \<Rightarrow> True" by blast
    have "try_catch body (\<lambda>e. bindc (throwException B V self e) rest) s = (r', s')"
      using q e s' by (simp add: try_catch_def)
    moreover have "events s' = events s @ (fs @ es @ gs)" using fs es gs by simp
    ultimately show ?thesis using c gs(2) fs
      by (auto simp: never_reports_def find_class_def intro!: exI [of _ "fs @ es @ gs"] split: if_splits)
  qed
qed

text \<open>C11: In a virtual machine that has no class \<open>io/github/maropu/TestRuntimeNative\<close>, as the class of the
  native methods has another name, no function of the library ever reports an error to Java. A
  build with assertions stops at the failed assertion \<open>c != 0\<close>; a build without them passes the
  null class to \<open>GetMethodID\<close>. In particular an unknown function id always leads there.\<close>

theorem errors_cannot_be_reported:
  assumes "class_missing V" "funcId \<noteq> 1" "funcId \<noteq> 2"
  shows "native_class \<noteq> ''io/github/maropu/TestRuntimeNative'' \<and>
    never_reports B s (getIntFuncAddr B V self funcId s) \<and>
    (\<not> ndebug B \<longrightarrow> fst (getIntFuncAddr B V self funcId s) = Inl (AssertionFailed ''c != 0'')) \<and>
    never_reports B s (compileToFunc B V L self bitcode name flag s) \<and>
    never_reports B s (native_toMachineAssemblyCode B V L self arch bitcode o1 o2 s) \<and>
    never_reports B s (native_toLLVMAssemblyCode B V L self bitcode o1 o2 s)"
proof (intro conjI impI)
  let ?e = "''Unknown function id: '' @ decimal (sint funcId)"
  obtain r t where t: "throwException B V self ?e s = (r, t)" by fastforce
  have res: "getIntFuncAddr B V self funcId s = (case r of Inl e \<Rightarrow> Inl e | Inr _ \<Rightarrow> Inr 0, t)"
    using assms(2,3) t by (simp add: getIntFuncAddr_def bindc_def ret_apply split: sum.split)
  show "never_reports B s (getIntFuncAddr B V self funcId s)"
    using missing_events [OF assms(1) t] by (auto simp: never_reports_def res find_class_def)
  show "fst (getIntFuncAddr B V self funcId s) = Inl (AssertionFailed ''c != 0'')" if "\<not> ndebug B"
    using missing_events [OF assms(1) t] that by (auto simp: res)
  show "never_reports B s (compileToFunc B V L self bitcode name flag s)"
    unfolding compileToFunc_def
    by (intro never_reports_try_catch [OF assms(1)] silently.steps silently.compile_state appends.simple)
      (simp add: silent_def)
  show "never_reports B s (native_toMachineAssemblyCode B V L self arch bitcode o1 o2 s)"
    unfolding native_toMachineAssemblyCode_def
    by (intro never_reports_try_catch [OF assms(1)] silently.steps silently.assembly_code appends.calls)
  show "never_reports B s (native_toLLVMAssemblyCode B V L self bitcode o1 o2 s)"
    unfolding native_toLLVMAssemblyCode_def
    by (intro never_reports_try_catch [OF assms(1)] silently.steps appends.calls)
qed (simp add: native_class_def)

lemma errors_cannot_be_reported_witness:
  "fst (getIntFuncAddr sample_build (sample_vm 0) (JRef 1) 0 sample_state) = Inl (AssertionFailed ''c != 0'') \<and>
   never_reports (sample_build\<lparr>ndebug := True\<rparr>) sample_state
     (getIntFuncAddr (sample_build\<lparr>ndebug := True\<rparr>) (sample_vm 0) (JRef 1) 0 sample_state)"
proof -
  have missing: "class_missing (sample_vm 0)" by (simp add: class_missing_def sample_vm_def)
  show ?thesis
    using errors_cannot_be_reported [OF missing, of 0 sample_build sample_state "JRef 1"]
      errors_cannot_be_reported [OF missing, of 0 "sample_build\<lparr>ndebug := True\<rparr>" sample_state "JRef 1"]
    by (simp add: sample_build_def)
qed

end
